(* ===== verification/Prelude.thy ===== *)
theory Prelude
  imports Main "HOL-Library.Word"
begin

text \<open>
  The vocabulary the components share: the machine integers, the outcome of a Rust call, the
  state-and-error computations every trait method is modelled as, and the two judgements the
  proofs reason with.  \<open>gives m s a Q\<close> says that running \<open>m\<close> from \<open>s\<close> returns \<open>Ok a\<close> in a state
  that satisfies \<open>Q\<close>; \<open>fails m s E Q\<close> says that it returns an error satisfying \<open>E\<close> in a state
  that satisfies \<open>Q\<close>.  Both exclude a panic and a
  call that never returns.
\<close>

unbundle bit_operations_syntax

section \<open>Types\<close>

type_synonym byte = "8 word"
type_synonym u32 = "32 word"

text \<open>
  What a Rust call ends with: \<open>Ok\<close>, \<open>Err\<close>, a panic (\<open>unreachable!\<close>, \<open>panic!\<close>, an arithmetic
  overflow or an index out of range), or not at all.
\<close>

datatype ('a, 'e) outcome = Ok 'a | Err 'e | Panic | Diverge

text \<open>A method on \<open>&mut self\<close>: it returns an outcome and the new value of \<open>self\<close>, on every path.\<close>

type_synonym ('s, 'a, 'e) io = "'s \<Rightarrow> ('a, 'e) outcome \<times> 's"

named_theorems gives_intros \<open>introduction rules for the judgement gives\<close>
named_theorems wire \<open>lengths and shapes of encoded values\<close>

section \<open>State and error computations\<close>

definition io_ret :: "'a \<Rightarrow> ('s, 'a, 'e) io" where
  "io_ret a = (\<lambda>s. (Ok a, s))"

definition io_err :: "'e \<Rightarrow> ('s, 'a, 'e) io" where
  "io_err e = (\<lambda>s. (Err e, s))"

definition io_panic :: "('s, 'a, 'e) io" where
  "io_panic = (\<lambda>s. (Panic, s))"

text \<open>Sequencing with the \<open>?\<close> operator: an error or a panic ends the computation.\<close>

definition io_bind :: "('s, 'a, 'e) io \<Rightarrow> ('a \<Rightarrow> ('s, 'b, 'e) io) \<Rightarrow> ('s, 'b, 'e) io" where
  "io_bind m f = (\<lambda>s. case m s of
     (Ok a, s') \<Rightarrow> f a s'
   | (Err e, s') \<Rightarrow> (Err e, s')
   | (Panic, s') \<Rightarrow> (Panic, s')
   | (Diverge, s') \<Rightarrow> (Diverge, s'))"

definition io_map_err :: "('e \<Rightarrow> 'f) \<Rightarrow> ('s, 'a, 'e) io \<Rightarrow> ('s, 'a, 'f) io" where
  "io_map_err g m = (\<lambda>s. case m s of
     (Ok a, s') \<Rightarrow> (Ok a, s')
   | (Err e, s') \<Rightarrow> (Err (g e), s')
   | (Panic, s') \<Rightarrow> (Panic, s')
   | (Diverge, s') \<Rightarrow> (Diverge, s'))"

lemmas io_defs = io_ret_def io_err_def io_panic_def io_bind_def io_map_err_def

lemma io_bind_ret [simp]: "io_bind (io_ret a) f = f a"
  by (simp add: io_defs)

lemma io_bind_err [simp]: "io_bind (io_err e) f = io_err e"
  by (simp add: io_defs)

lemma io_bind_assoc:
  "io_bind (io_bind m f) g = io_bind m (\<lambda>a. io_bind (f a) g)"
  by (auto simp: io_bind_def fun_eq_iff split: prod.splits outcome.splits)

section \<open>The judgements\<close>

definition gives :: "('s, 'a, 'e) io \<Rightarrow> 's \<Rightarrow> 'a \<Rightarrow> ('s \<Rightarrow> bool) \<Rightarrow> bool" where
  "gives m s a Q \<longleftrightarrow> (\<exists>s'. m s = (Ok a, s') \<and> Q s')"

definition fails :: "('s, 'a, 'e) io \<Rightarrow> 's \<Rightarrow> ('e \<Rightarrow> bool) \<Rightarrow> ('s \<Rightarrow> bool) \<Rightarrow> bool" where
  "fails m s E Q \<longleftrightarrow> (\<exists>e s'. m s = (Err e, s') \<and> E e \<and> Q s')"

lemma givesI: "m s = (Ok a, s') \<Longrightarrow> Q s' \<Longrightarrow> gives m s a Q"
  by (auto simp: gives_def)

lemma givesE:
  assumes "gives m s a Q"
  obtains s' where "m s = (Ok a, s')" and "Q s'"
  using assms by (auto simp: gives_def)

lemma failsE:
  assumes "fails m s E Q"
  obtains e s' where "m s = (Err e, s')" and "E e" and "Q s'"
  using assms by (auto simp: fails_def)

lemma gives_mono: "gives m s a P \<Longrightarrow> (\<And>s'. P s' \<Longrightarrow> Q s') \<Longrightarrow> gives m s a Q"
  by (auto simp: gives_def)

lemma fails_mono:
  "fails m s E P \<Longrightarrow> (\<And>e. E e \<Longrightarrow> F e) \<Longrightarrow> (\<And>s'. P s' \<Longrightarrow> Q s') \<Longrightarrow> fails m s F Q"
  by (auto simp: fails_def)

lemma gives_ret [gives_intros]: "a = b \<Longrightarrow> Q s \<Longrightarrow> gives (io_ret a) s b Q"
  by (simp add: gives_def io_ret_def)

lemma gives_bind:
  "gives m s a P \<Longrightarrow> (\<And>s'. P s' \<Longrightarrow> gives (f a) s' b Q) \<Longrightarrow> gives (io_bind m f) s b Q"
  by (auto simp: gives_def io_bind_def)

lemma gives_map_err: "gives m s a Q \<Longrightarrow> gives (io_map_err g m) s a Q"
  by (auto simp: gives_def io_map_err_def)

lemma fails_err: "E e \<Longrightarrow> Q s \<Longrightarrow> fails (io_err e) s E Q"
  by (simp add: fails_def io_err_def)

lemma fails_bind_first: "fails m s E Q \<Longrightarrow> fails (io_bind m f) s E Q"
  by (auto simp: fails_def io_bind_def)

lemma fails_bind_second:
  "gives m s a P \<Longrightarrow> (\<And>s'. P s' \<Longrightarrow> fails (f a) s' E Q) \<Longrightarrow> fails (io_bind m f) s E Q"
  by (auto simp: fails_def gives_def io_bind_def)

lemma fails_map_err: "fails m s (\<lambda>e. E (g e)) Q \<Longrightarrow> fails (io_map_err g m) s E Q"
  by (auto simp: fails_def io_map_err_def)

lemma gives_det:
  "gives m s a P \<Longrightarrow> gives m s b Q \<Longrightarrow> a = b"
  by (auto simp: gives_def)

lemma gives_not_fails: "gives m s a P \<Longrightarrow> \<not> fails m s E Q"
  by (auto simp: gives_def fails_def)

section \<open>Lists\<close>

text \<open>The offsets of Rust's \<open>(lo..hi).step_by(st)\<close>.\<close>

definition step_by :: "nat \<Rightarrow> nat \<Rightarrow> nat \<Rightarrow> nat list" where
  "step_by lo hi st = map (\<lambda>i. lo + i * st) [0 ..< (hi - lo + st - 1) div st]"

lemma take_append_prefix [simp]: "take (length xs) (xs @ ys) = xs"
  by simp

lemma strict_prefix_append_split:
  assumes "bs @ cs = xs @ ys" and "length bs < length (xs @ ys)"
  shows "length bs < length xs \<or> (\<exists>bs'. bs = xs @ bs' \<and> bs' @ cs = ys \<and> length bs' < length ys)"
  using assms by (auto simp: append_eq_append_conv2 not_less)

end
