(* ===== verification/Errors.thy ===== *)
theory Errors
  imports Prelude
begin

text \<open>
  The two error enums of \<open>src/error.rs\<close>.  The constructors carry a prefix \<open>R\<close> or \<open>W\<close> where both
  enums use the same name.  \<open>From<E>\<close> is the constructor \<open>StreamError\<close>, which the code reaches
  through \<open>map_err\<close>: \<^term>\<open>io_map_err\<close> with the constructor.
\<close>

datatype 'e read_error =
    RStreamError 'e
  | ROverSized string nat nat \<comment> \<open>name, maximum, was\<close>
  | NegativeLength string
  | RUnknownPacket string int \<comment> \<open>state, id\<close>
  | BadEnum string int
  | StringDecode string
  | MalformedLegacyPing
  | RCustom string

datatype 'e write_error =
    WStreamError 'e
  | WOverSized string nat nat \<comment> \<open>name, maximum, was\<close>
  | MalformedVarInt
  | WUnknownPacket string int
  | WCustom string

definition read_error_from :: "'e \<Rightarrow> 'e read_error" where
  "read_error_from value = RStreamError value"

definition write_error_from :: "'e \<Rightarrow> 'e write_error" where
  "write_error_from value = WStreamError value"

text \<open>The error predicates the contracts use.\<close>

definition is_stream_error :: "'e read_error \<Rightarrow> bool" where
  "is_stream_error e = (case e of RStreamError _ \<Rightarrow> True | _ \<Rightarrow> False)"

lemma is_stream_error_simps [simp]: "is_stream_error (RStreamError e)"
  by (simp add: is_stream_error_def)

end
