(* ===== verification/Traits.thy ===== *)
theory Traits
  imports Errors
begin

text \<open>
  The traits of \<open>src/traits.rs\<close>.  A trait is a record of its methods over the type \<open>'r\<close> that
  implements it; a supertrait is the record it extends, and code generic in \<open>R: Reader\<close> takes the
  record as an argument.  The contracts of the traits, which their documentation states in prose,
  are the locales: \<open>lawful_reader\<close>, \<open>lawful_bounded\<close>, \<open>lawful_writer\<close> and, for a type with
  \<open>FromReader\<close>, \<open>ToWriter\<close> and \<open>Serializable\<close>, \<open>codec\<close>.  The asynchronous traits have the same
  methods; the bodies of this crate are written once for both by its macros.  \<open>Writer::write\<close> is
  \<open>write_data\<close> here (\<open>write\<close> is a word of Isar).
\<close>

section \<open>Readers and writers\<close>

record ('r, 'e) reader =
  read_exact :: "nat \<Rightarrow> ('r, byte list, 'e) io"
  try_read_byte :: "('r, byte option, 'e) io"
  discard :: "nat \<Rightarrow> ('r, unit, 'e) io"

record ('r, 'e) bounded_reader = "('r, 'e) reader" +
  remaining :: "'r \<Rightarrow> nat"

record ('w, 'e) writer =
  write_data :: "byte list \<Rightarrow> ('w, unit, 'e) io"
  flush :: "('w, unit, 'e) io"

section \<open>The contract of a reader\<close>

text \<open>
  \<open>V r bs\<close> says that the reader \<open>r\<close> is in working order and that exactly the bytes \<open>bs\<close> will come
  from its stream before it ends.
\<close>

locale lawful_reader =
  fixes R :: "('r, 'e, 'x) reader_scheme"
    and V :: "'r \<Rightarrow> byte list \<Rightarrow> bool"
  assumes read_exact_ok:
      "V r bs \<Longrightarrow> n \<le> length bs \<Longrightarrow>
         gives (read_exact R n) r (take n bs) (\<lambda>r'. V r' (drop n bs))"
    and read_exact_short:
      "V r bs \<Longrightarrow> length bs < n \<Longrightarrow> fails (read_exact R n) r (\<lambda>_. True) (\<lambda>_. True)"
    and discard_ok:
      "V r bs \<Longrightarrow> n \<le> length bs \<Longrightarrow> gives (discard R n) r () (\<lambda>r'. V r' (drop n bs))"
    and discard_short:
      "V r bs \<Longrightarrow> length bs < n \<Longrightarrow> fails (discard R n) r (\<lambda>_. True) (\<lambda>_. True)"
begin

lemma read_prefix:
  "V r (xs @ ys) \<Longrightarrow> n = length xs \<Longrightarrow> gives (read_exact R n) r xs (\<lambda>r'. V r' ys)"
  using read_exact_ok [of r "xs @ ys" "length xs"] by simp

lemma discard_prefix:
  "V r (xs @ ys) \<Longrightarrow> n = length xs \<Longrightarrow> gives (discard R n) r () (\<lambda>r'. V r' ys)"
  using discard_ok [of r "xs @ ys" "length xs"] by simp

end

text \<open>
  \<open>V b lim bs\<close>: the bounded reader \<open>b\<close> may still read \<open>lim\<close> bytes of a stream that holds \<open>bs\<close>.  A
  read past the bound or past the end of the stream fails, and leaves the reader in working order
  with some of the bytes consumed, which is what discarding the rest of a packet relies on.
\<close>

locale lawful_bounded =
  fixes R :: "('r, 'e, 'x) bounded_reader_scheme"
    and V :: "'r \<Rightarrow> nat \<Rightarrow> byte list \<Rightarrow> bool"
  assumes remaining_bound: "V b lim bs \<Longrightarrow> remaining R b = lim"
    and bounded_read_ok:
      "V b lim bs \<Longrightarrow> n \<le> lim \<Longrightarrow> n \<le> length bs \<Longrightarrow>
         gives (read_exact R n) b (take n bs) (\<lambda>b'. V b' (lim - n) (drop n bs))"
    and bounded_read_short:
      "V b lim bs \<Longrightarrow> lim < n \<or> length bs < n \<Longrightarrow>
         fails (read_exact R n) b (\<lambda>_. True)
           (\<lambda>b'. \<exists>k. k \<le> lim \<and> k \<le> length bs \<and> V b' (lim - k) (drop k bs))"
    and bounded_discard_ok:
      "V b lim bs \<Longrightarrow> n \<le> lim \<Longrightarrow> n \<le> length bs \<Longrightarrow>
         gives (discard R n) b () (\<lambda>b'. V b' (lim - n) (drop n bs))"
    and bounded_discard_short:
      "V b lim bs \<Longrightarrow> lim < n \<or> length bs < n \<Longrightarrow>
         fails (discard R n) b (\<lambda>_. True)
           (\<lambda>b'. \<exists>k. k \<le> lim \<and> k \<le> length bs \<and> V b' (lim - k) (drop k bs))"

text \<open>
  Inside its bound a bounded reader is a reader of the bytes in front of any fixed tail of the
  stream (or of all of them, with some of the bound to spare): what is proved of a lawful reader
  holds of it.
\<close>

definition frame_view :: "('b \<Rightarrow> nat \<Rightarrow> byte list \<Rightarrow> bool) \<Rightarrow> byte list \<Rightarrow> nat \<Rightarrow> 'b \<Rightarrow> byte list \<Rightarrow> bool" where
  "frame_view V tail slack b bs \<longleftrightarrow> V b (length bs + slack) (bs @ tail) \<and> (slack = 0 \<or> tail = [])"

lemma frame_view_enter:
  "V b lim bs \<Longrightarrow> frame_view V (drop lim bs) (lim - length bs) b (take lim bs)"
  by (cases "lim \<le> length bs") (auto simp: frame_view_def)

sublocale lawful_bounded \<subseteq> frame: lawful_reader R "frame_view V tail slack" for tail slack
proof unfold_locales
  fix b bs n
  assume v: "frame_view V tail slack b bs"
  then have b: "V b (length bs + slack) (bs @ tail)" by (simp add: frame_view_def)
  have short: "length bs + slack < n \<or> length (bs @ tail) < n" if "length bs < n"
    using that v by (auto simp: frame_view_def)
  show "gives (read_exact R n) b (take n bs) (\<lambda>r'. frame_view V tail slack r' (drop n bs))"
    if "n \<le> length bs"
    using bounded_read_ok [OF b, of n] that v by (auto simp: frame_view_def elim!: gives_mono)
  show "fails (read_exact R n) b (\<lambda>_. True) (\<lambda>_. True)" if "length bs < n"
    using bounded_read_short [OF b short [OF that]] by (auto elim: fails_mono)
  show "gives (discard R n) b () (\<lambda>r'. frame_view V tail slack r' (drop n bs))"
    if "n \<le> length bs"
    using bounded_discard_ok [OF b, of n] that v by (auto simp: frame_view_def elim!: gives_mono)
  show "fails (discard R n) b (\<lambda>_. True) (\<lambda>_. True)" if "length bs < n"
    using bounded_discard_short [OF b short [OF that]] by (auto elim: fails_mono)
qed

context lawful_bounded
begin

lemma frame_lawful: "lawful_reader R (frame_view V tail slack)"
  by (rule frame.lawful_reader_axioms)

end

text \<open>
  The contract of \<open>try_read_byte\<close>: \<open>ready r\<close> says that the next byte can be had without blocking.
\<close>

locale lawful_trying = lawful_reader R V
  for R :: "('r, 'e, 'x) reader_scheme" and V :: "'r \<Rightarrow> byte list \<Rightarrow> bool" +
  fixes ready :: "'r \<Rightarrow> bool"
  assumes try_ready:
      "V r (b # bs) \<Longrightarrow> ready r \<Longrightarrow> gives (try_read_byte R) r (Some b) (\<lambda>r'. V r' bs)"
    and try_blocked:
      "V r bs \<Longrightarrow> \<not> ready r \<Longrightarrow> gives (try_read_byte R) r None (\<lambda>r'. V r' bs)"
    and try_ended:
      "V r [] \<Longrightarrow> ready r \<Longrightarrow> fails (try_read_byte R) r (\<lambda>_. True) (\<lambda>_. True)"

section \<open>The contract of a writer\<close>

text \<open>
  \<open>V w bs\<close>: the writer \<open>w\<close> is in working order and has accepted the bytes \<open>bs\<close> so far.  A type is
  written without flushing, so it asks for a \<open>lawful_sink\<close> only.
\<close>

locale lawful_sink =
  fixes W :: "('w, 'e, 'x) writer_scheme"
    and V :: "'w \<Rightarrow> byte list \<Rightarrow> bool"
  assumes write_ok: "V w bs \<Longrightarrow> gives (write_data W cs) w () (\<lambda>w'. V w' (bs @ cs))"

locale lawful_writer = lawful_sink W V
  for W :: "('w, 'e, 'x) writer_scheme" and V :: "'w \<Rightarrow> byte list \<Rightarrow> bool" +
  assumes flush_ok: "V w bs \<Longrightarrow> gives (flush W) w () (\<lambda>w'. V w' bs)"

section \<open>The contract of a serialized type\<close>

text \<open>
  \<open>emits V m bs\<close>: the computation appends exactly \<open>bs\<close> to what the writer has accepted.
  \<open>decodes V m bs a\<close>: on a stream that starts with \<open>bs\<close> it returns \<open>a\<close> and stops behind them, and
  on a stream that ends inside \<open>bs\<close> it returns a stream error.  Both compose along \<open>io_bind\<close>.
\<close>

definition emits ::
  "('w \<Rightarrow> byte list \<Rightarrow> bool) \<Rightarrow> ('w, unit, 'e) io \<Rightarrow> byte list \<Rightarrow> bool" where
  "emits V m bs \<longleftrightarrow> (\<forall>w sent. V w sent \<longrightarrow> gives m w () (\<lambda>w'. V w' (sent @ bs)))"

definition decodes ::
  "('r \<Rightarrow> byte list \<Rightarrow> bool) \<Rightarrow> ('r, 'a, 'e read_error) io \<Rightarrow> byte list \<Rightarrow> 'a \<Rightarrow> bool" where
  "decodes V m bs a \<longleftrightarrow>
     (\<forall>r rest. V r (bs @ rest) \<longrightarrow> gives m r a (\<lambda>r'. V r' rest)) \<and>
     (\<forall>r ps cont. V r ps \<longrightarrow> ps @ cont = bs \<longrightarrow> length ps < length bs \<longrightarrow>
        fails m r is_stream_error (\<lambda>_. True))"

lemma emitsD: "emits V m bs \<Longrightarrow> V w sent \<Longrightarrow> gives m w () (\<lambda>w'. V w' (sent @ bs))"
  by (simp add: emits_def)

lemma decodesD: "decodes V m bs a \<Longrightarrow> V r (bs @ rest) \<Longrightarrow> gives m r a (\<lambda>r'. V r' rest)"
  by (simp add: decodes_def)

lemma decodes_short:
  "decodes V m bs a \<Longrightarrow> V r ps \<Longrightarrow> ps @ cont = bs \<Longrightarrow> length ps < length bs \<Longrightarrow>
     fails m r is_stream_error (\<lambda>_. True)"
  by (auto simp: decodes_def)

lemma emits_ret: "emits V (io_ret ()) []"
  by (simp add: emits_def gives_ret)

lemma emits_bind: "emits V m bs \<Longrightarrow> emits V (f ()) cs \<Longrightarrow> emits V (io_bind m f) (bs @ cs)"
  by (fastforce simp: emits_def intro: gives_bind)

lemma emits_write: "lawful_sink W V \<Longrightarrow> emits V (io_map_err g (write_data W bs)) bs"
  by (simp add: emits_def gives_map_err lawful_sink.write_ok)

lemma emits_flush: "lawful_writer W V \<Longrightarrow> emits V (io_map_err g (flush W)) []"
  by (simp add: emits_def gives_map_err lawful_writer.flush_ok)

lemma decodes_ret: "decodes V (io_ret a) [] a"
  by (simp add: decodes_def gives_ret)

lemma decodes_bind:
  assumes m: "decodes V m bs a" and f: "decodes V (f a) cs b"
  shows "decodes V (io_bind m f) (bs @ cs) b"
  unfolding decodes_def
proof (intro conjI allI impI)
  fix r rest
  assume "V r ((bs @ cs) @ rest)"
  then have "gives m r a (\<lambda>r'. V r' (cs @ rest))"
    using decodesD [OF m, of r "cs @ rest"] by simp
  then show "gives (io_bind m f) r b (\<lambda>r'. V r' rest)"
    by (rule gives_bind) (rule decodesD [OF f])
next
  fix r ps cont
  assume r: "V r ps" and eq: "ps @ cont = bs @ cs" and short: "length ps < length (bs @ cs)"
  consider "length ps < length bs" | ps' where "ps = bs @ ps'" "ps' @ cont = cs" "length ps' < length cs"
    using strict_prefix_append_split [OF eq short] by blast
  then show "fails (io_bind m f) r is_stream_error (\<lambda>_. True)"
  proof cases
    case 1
    then have "ps @ take (length bs - length ps) cont = bs"
      using eq by (metis append_eq_conv_conj less_imp_le_nat take_all_iff take_append)
    with r 1 show ?thesis
      by (intro fails_bind_first decodes_short [OF m])
  next
    case 2
    with r have "gives m r a (\<lambda>r'. V r' ps')"
      by (auto intro: decodesD [OF m])
    with 2 show ?thesis
      by (auto intro: fails_bind_second decodes_short [OF f])
  qed
qed

lemma decodes_bind_nil: "decodes V m bs a \<Longrightarrow> decodes V (f a) [] b \<Longrightarrow> decodes V (io_bind m f) bs b"
  using decodes_bind [of V m bs a f "[]" b] by simp

lemma decodes_bind_ret: "decodes V m bs a \<Longrightarrow> g a = b \<Longrightarrow> decodes V (io_bind m (\<lambda>x. io_ret (g x))) bs b"
  by (auto intro: decodes_bind_nil decodes_ret)

lemma decodes_read_exact:
  assumes "lawful_reader R V" and "n = length bs"
  shows "decodes V (io_map_err RStreamError (read_exact R n)) bs bs"
  using assms unfolding decodes_def
  by (intro conjI allI impI)
     (auto intro!: gives_map_err fails_map_err fails_mono [OF lawful_reader.read_exact_short]
       lawful_reader.read_prefix [OF assms(1)])

text \<open>
  A type that implements \<open>ToWriter\<close> and \<open>Serializable\<close> writes the bytes \<open>enc x\<close> to any lawful
  sink, and \<open>size\<close> is their number; one that implements \<open>FromReader\<close> decodes them from any
  lawful reader.  \<open>valid\<close> restricts the values (an array type fixes its length, for example).
\<close>

locale serializes =
  fixes to_w :: "('w, 'we, 'wx) writer_scheme \<Rightarrow> 'a \<Rightarrow> ('w, unit, 'we write_error) io"
    and size_of :: "'a \<Rightarrow> nat"
    and enc :: "'a \<Rightarrow> byte list"
    and valid :: "'a \<Rightarrow> bool"
  assumes size_enc: "valid x \<Longrightarrow> size_of x = length (enc x)"
    and writes_enc: "valid x \<Longrightarrow> lawful_sink W V \<Longrightarrow> emits V (to_w W x) (enc x)"

locale deserializes =
  fixes from_r :: "('r, 're, 'rx) reader_scheme \<Rightarrow> ('r, 'a, 're read_error) io"
    and enc :: "'a \<Rightarrow> byte list"
    and valid :: "'a \<Rightarrow> bool"
  assumes reads_enc: "valid x \<Longrightarrow> lawful_reader R V \<Longrightarrow> decodes V (from_r R) (enc x) x"

locale codec =
  serializes to_w size_of enc valid + deserializes from_r enc valid
  for to_w :: "('w, 'we, 'wx) writer_scheme \<Rightarrow> 'a \<Rightarrow> ('w, unit, 'we write_error) io"
    and from_r :: "('r, 're, 'rx) reader_scheme \<Rightarrow> ('r, 'a, 're read_error) io"
    and size_of :: "'a \<Rightarrow> nat"
    and enc :: "'a \<Rightarrow> byte list"
    and valid :: "'a \<Rightarrow> bool"
begin

text \<open>What was written is read back, and what follows it is left in the stream.\<close>

lemma roundtrip:
  fixes R :: "('r, 're, 'rx) reader_scheme" and W :: "('w, 'we, 'wx) writer_scheme"
  assumes "valid x" and "lawful_sink W VW" and "VW w sent"
    and "lawful_reader R VR" and "VR r (enc x @ rest)"
  shows "gives (to_w W x) w () (\<lambda>w'. VW w' (sent @ enc x)) \<and>
         gives (from_r R) r x (\<lambda>r'. VR r' rest) \<and> size_of x = length (enc x)"
  using assms by (auto intro: emitsD decodesD writes_enc reads_enc simp: size_enc)

text \<open>The encodings of two values are never one a proper prefix of the other.\<close>

lemma prefix_free:
  fixes R :: "('r, 're, 'rx) reader_scheme"
  assumes "valid x" and "valid y" and "lawful_reader R VR" and "VR r (enc y)"
    and "enc y = enc x @ cont"
  shows "x = y"
proof -
  have "gives (from_r R) r x (\<lambda>r'. VR r' cont)"
    using assms by (intro decodesD [OF reads_enc]) simp_all
  moreover have "gives (from_r R) r y (\<lambda>r'. VR r' [])"
    using assms by (intro decodesD [OF reads_enc]) simp_all
  ultimately show ?thesis by (rule gives_det)
qed

end

end
