(* ===== verification/Primitives.thy ===== *)
theory Primitives
  imports Traits
begin

text \<open>
  The fixed-width types of \<open>src/primatives/mod.rs\<close> (\<open>build_primative!\<close>), \<open>bool\<close> of \<open>bool.rs\<close> and
  \<open>str\<close> of \<open>str.rs\<close>.  A signed integer and a float are their bit patterns: \<open>from_be_bytes\<close> and
  \<open>to_be_bytes\<close> of \<open>i32\<close> or \<open>f32\<close> move the same bits as those of \<open>u32\<close>.
\<close>

section \<open>Big-endian bytes\<close>

definition to_be_bytes :: "nat \<Rightarrow> 'a::len word \<Rightarrow> byte list" where
  "to_be_bytes n x = map (\<lambda>i. ucast (drop_bit (8 * i) x)) (rev [0..<n])"

definition from_be_bytes :: "byte list \<Rightarrow> 'a::len word" where
  "from_be_bytes bs = fold (\<lambda>b acc. push_bit 8 acc OR ucast b) bs 0"

lemma length_to_be_bytes [simp, wire]: "length (to_be_bytes n x) = n"
  by (simp add: to_be_bytes_def)

lemma to_be_bytes_Suc: "to_be_bytes (Suc n) x = ucast (drop_bit (8 * n) x) # to_be_bytes n x"
  by (simp add: to_be_bytes_def)

lemma fold_be_bytes:
  fixes x acc :: "'a::len word"
  shows "fold (\<lambda>b acc. push_bit 8 acc OR ucast b) (to_be_bytes n x) acc
       = push_bit (8 * n) acc OR take_bit (8 * n) x"
proof (induction n arbitrary: acc)
  case 0
  then show ?case by (simp add: to_be_bytes_def)
next
  case (Suc n)
  show ?case
  proof (rule bit_word_eqI)
    fix k
    assume k: "k < LENGTH('a)"
    consider "k < 8 * n" | "8 * n \<le> k" "k < 8 * n + 8" | "8 * n + 8 \<le> k"
      by linarith
    then show "bit (fold (\<lambda>b acc. push_bit 8 acc OR ucast b) (to_be_bytes (Suc n) x) acc) k
      = bit (push_bit (8 * Suc n) acc OR take_bit (8 * Suc n) x) k"
      using k by cases (auto simp: to_be_bytes_Suc Suc bit_simps algebra_simps)
  qed
qed

lemma from_to_be_bytes:
  fixes x :: "'a::len word"
  assumes "LENGTH('a) \<le> 8 * n"
  shows "from_be_bytes (to_be_bytes n x) = x"
  using assms by (simp add: from_be_bytes_def fold_be_bytes take_bit_word_eq_self)

section \<open>The macro build_primative\<close>

definition read_prim :: "nat \<Rightarrow> ('r, 'e, 'x) reader_scheme \<Rightarrow> ('r, 'a::len word, 'e read_error) io" where
  "read_prim n R =
     io_bind (io_map_err RStreamError (read_exact R n)) (\<lambda>buf. io_ret (from_be_bytes buf))"

definition size_prim :: "nat \<Rightarrow> 'a::len word \<Rightarrow> nat" where
  "size_prim n this = n"

definition write_prim :: "nat \<Rightarrow> ('w, 'e, 'x) writer_scheme \<Rightarrow> 'a::len word \<Rightarrow> ('w, unit, 'e write_error) io" where
  "write_prim n W this = io_map_err WStreamError (write_data W (to_be_bytes n this))"

lemma codec_prim:
  assumes "LENGTH('a::len) = 8 * n"
  shows "codec (write_prim n) (read_prim n) (size_prim n :: 'a word \<Rightarrow> nat) (to_be_bytes n) (\<lambda>_. True)"
proof unfold_locales
  fix x :: "'a word"
  show "size_prim n x = length (to_be_bytes n x)"
    by (simp add: size_prim_def)
  show "emits V (write_prim n W x) (to_be_bytes n x)" if "lawful_sink W V"
    for W :: "('w, 'we, 'wx) writer_scheme" and V
    using that by (simp add: write_prim_def emits_write)
  show "decodes V (read_prim n R) (to_be_bytes n x) x" if "lawful_reader R V"
    for R :: "('r, 're, 'rx) reader_scheme" and V
    unfolding read_prim_def
    by (rule decodes_bind_ret [OF decodes_read_exact [OF that]]) (simp_all add: from_to_be_bytes assms)
qed

section \<open>The types the macro is applied to\<close>

text \<open>
  \<open>build_primative!(T, n)\<close> for the twelve types: the value is its bit pattern, a word of \<open>8 * n\<close>
  bits (\<open>sint\<close> reads the signed ones).
\<close>

definition read_u8 :: "('r, 'e, 'x) reader_scheme \<Rightarrow> ('r, 8 word, 'e read_error) io" where
  "read_u8 = read_prim 1"

definition write_u8 :: "('w, 'e, 'x) writer_scheme \<Rightarrow> 8 word \<Rightarrow> ('w, unit, 'e write_error) io" where
  "write_u8 = write_prim 1"

definition size_u8 :: "8 word \<Rightarrow> nat" where
  "size_u8 = size_prim 1"

definition read_i8 :: "('r, 'e, 'x) reader_scheme \<Rightarrow> ('r, 8 word, 'e read_error) io" where
  "read_i8 = read_prim 1"

definition write_i8 :: "('w, 'e, 'x) writer_scheme \<Rightarrow> 8 word \<Rightarrow> ('w, unit, 'e write_error) io" where
  "write_i8 = write_prim 1"

definition size_i8 :: "8 word \<Rightarrow> nat" where
  "size_i8 = size_prim 1"

definition read_u16 :: "('r, 'e, 'x) reader_scheme \<Rightarrow> ('r, 16 word, 'e read_error) io" where
  "read_u16 = read_prim 2"

definition write_u16 :: "('w, 'e, 'x) writer_scheme \<Rightarrow> 16 word \<Rightarrow> ('w, unit, 'e write_error) io" where
  "write_u16 = write_prim 2"

definition size_u16 :: "16 word \<Rightarrow> nat" where
  "size_u16 = size_prim 2"

definition read_i16 :: "('r, 'e, 'x) reader_scheme \<Rightarrow> ('r, 16 word, 'e read_error) io" where
  "read_i16 = read_prim 2"

definition write_i16 :: "('w, 'e, 'x) writer_scheme \<Rightarrow> 16 word \<Rightarrow> ('w, unit, 'e write_error) io" where
  "write_i16 = write_prim 2"

definition size_i16 :: "16 word \<Rightarrow> nat" where
  "size_i16 = size_prim 2"

definition read_u32 :: "('r, 'e, 'x) reader_scheme \<Rightarrow> ('r, 32 word, 'e read_error) io" where
  "read_u32 = read_prim 4"

definition write_u32 :: "('w, 'e, 'x) writer_scheme \<Rightarrow> 32 word \<Rightarrow> ('w, unit, 'e write_error) io" where
  "write_u32 = write_prim 4"

definition size_u32 :: "32 word \<Rightarrow> nat" where
  "size_u32 = size_prim 4"

definition read_i32 :: "('r, 'e, 'x) reader_scheme \<Rightarrow> ('r, 32 word, 'e read_error) io" where
  "read_i32 = read_prim 4"

definition write_i32 :: "('w, 'e, 'x) writer_scheme \<Rightarrow> 32 word \<Rightarrow> ('w, unit, 'e write_error) io" where
  "write_i32 = write_prim 4"

definition size_i32 :: "32 word \<Rightarrow> nat" where
  "size_i32 = size_prim 4"

definition read_u64 :: "('r, 'e, 'x) reader_scheme \<Rightarrow> ('r, 64 word, 'e read_error) io" where
  "read_u64 = read_prim 8"

definition write_u64 :: "('w, 'e, 'x) writer_scheme \<Rightarrow> 64 word \<Rightarrow> ('w, unit, 'e write_error) io" where
  "write_u64 = write_prim 8"

definition size_u64 :: "64 word \<Rightarrow> nat" where
  "size_u64 = size_prim 8"

definition read_i64 :: "('r, 'e, 'x) reader_scheme \<Rightarrow> ('r, 64 word, 'e read_error) io" where
  "read_i64 = read_prim 8"

definition write_i64 :: "('w, 'e, 'x) writer_scheme \<Rightarrow> 64 word \<Rightarrow> ('w, unit, 'e write_error) io" where
  "write_i64 = write_prim 8"

definition size_i64 :: "64 word \<Rightarrow> nat" where
  "size_i64 = size_prim 8"

definition read_u128 :: "('r, 'e, 'x) reader_scheme \<Rightarrow> ('r, 128 word, 'e read_error) io" where
  "read_u128 = read_prim 16"

definition write_u128 :: "('w, 'e, 'x) writer_scheme \<Rightarrow> 128 word \<Rightarrow> ('w, unit, 'e write_error) io" where
  "write_u128 = write_prim 16"

definition size_u128 :: "128 word \<Rightarrow> nat" where
  "size_u128 = size_prim 16"

definition read_i128 :: "('r, 'e, 'x) reader_scheme \<Rightarrow> ('r, 128 word, 'e read_error) io" where
  "read_i128 = read_prim 16"

definition write_i128 :: "('w, 'e, 'x) writer_scheme \<Rightarrow> 128 word \<Rightarrow> ('w, unit, 'e write_error) io" where
  "write_i128 = write_prim 16"

definition size_i128 :: "128 word \<Rightarrow> nat" where
  "size_i128 = size_prim 16"

definition read_f32 :: "('r, 'e, 'x) reader_scheme \<Rightarrow> ('r, 32 word, 'e read_error) io" where
  "read_f32 = read_prim 4"

definition write_f32 :: "('w, 'e, 'x) writer_scheme \<Rightarrow> 32 word \<Rightarrow> ('w, unit, 'e write_error) io" where
  "write_f32 = write_prim 4"

definition size_f32 :: "32 word \<Rightarrow> nat" where
  "size_f32 = size_prim 4"

definition read_f64 :: "('r, 'e, 'x) reader_scheme \<Rightarrow> ('r, 64 word, 'e read_error) io" where
  "read_f64 = read_prim 8"

definition write_f64 :: "('w, 'e, 'x) writer_scheme \<Rightarrow> 64 word \<Rightarrow> ('w, unit, 'e write_error) io" where
  "write_f64 = write_prim 8"

definition size_f64 :: "64 word \<Rightarrow> nat" where
  "size_f64 = size_prim 8"

interpretation u8: codec write_u8 read_u8 size_u8 "to_be_bytes 1" "\<lambda>_. True"
  unfolding write_u8_def read_u8_def size_u8_def by (rule codec_prim) simp

interpretation i8: codec write_i8 read_i8 size_i8 "to_be_bytes 1" "\<lambda>_. True"
  unfolding write_i8_def read_i8_def size_i8_def by (rule codec_prim) simp

interpretation u16: codec write_u16 read_u16 size_u16 "to_be_bytes 2" "\<lambda>_. True"
  unfolding write_u16_def read_u16_def size_u16_def by (rule codec_prim) simp

interpretation i16: codec write_i16 read_i16 size_i16 "to_be_bytes 2" "\<lambda>_. True"
  unfolding write_i16_def read_i16_def size_i16_def by (rule codec_prim) simp

interpretation u32: codec write_u32 read_u32 size_u32 "to_be_bytes 4" "\<lambda>_. True"
  unfolding write_u32_def read_u32_def size_u32_def by (rule codec_prim) simp

interpretation i32: codec write_i32 read_i32 size_i32 "to_be_bytes 4" "\<lambda>_. True"
  unfolding write_i32_def read_i32_def size_i32_def by (rule codec_prim) simp

interpretation u64: codec write_u64 read_u64 size_u64 "to_be_bytes 8" "\<lambda>_. True"
  unfolding write_u64_def read_u64_def size_u64_def by (rule codec_prim) simp

interpretation i64: codec write_i64 read_i64 size_i64 "to_be_bytes 8" "\<lambda>_. True"
  unfolding write_i64_def read_i64_def size_i64_def by (rule codec_prim) simp

interpretation u128: codec write_u128 read_u128 size_u128 "to_be_bytes 16" "\<lambda>_. True"
  unfolding write_u128_def read_u128_def size_u128_def by (rule codec_prim) simp

interpretation i128: codec write_i128 read_i128 size_i128 "to_be_bytes 16" "\<lambda>_. True"
  unfolding write_i128_def read_i128_def size_i128_def by (rule codec_prim) simp

interpretation f32: codec write_f32 read_f32 size_f32 "to_be_bytes 4" "\<lambda>_. True"
  unfolding write_f32_def read_f32_def size_f32_def by (rule codec_prim) simp

interpretation f64: codec write_f64 read_f64 size_f64 "to_be_bytes 8" "\<lambda>_. True"
  unfolding write_f64_def read_f64_def size_f64_def by (rule codec_prim) simp

lemma to_be_bytes_u8 [simp, wire]: "to_be_bytes 1 (b :: 8 word) = [b]" "to_be_bytes (Suc 0) (b :: 8 word) = [b]"
  by (simp_all add: to_be_bytes_def)

section \<open>bool\<close>

definition read_bool :: "('r, 'e, 'x) reader_scheme \<Rightarrow> ('r, bool, 'e read_error) io" where
  "read_bool R = io_bind (read_u8 R) (\<lambda>byte. io_ret (byte \<noteq> 0))"

definition size_bool :: "bool \<Rightarrow> nat" where
  "size_bool this = 1"

definition write_bool :: "('w, 'e, 'x) writer_scheme \<Rightarrow> bool \<Rightarrow> ('w, unit, 'e write_error) io" where
  "write_bool W this = (let byte = if this then 0x01 else 0x00 in write_u8 W byte)"

definition enc_bool :: "bool \<Rightarrow> byte list" where
  "enc_bool b = [if b then 1 else 0]"

interpretation bool: codec write_bool read_bool size_bool enc_bool "\<lambda>_. True"
proof unfold_locales
  fix x
  show "size_bool x = length (enc_bool x)"
    by (simp add: size_bool_def enc_bool_def)
  show "emits V (write_bool W x) (enc_bool x)" if "lawful_sink W V"
    for W :: "('w, 'we, 'wx) writer_scheme" and V
    using u8.writes_enc [OF _ that, of "if x then 1 else 0"] by (simp add: write_bool_def enc_bool_def)
  show "decodes V (read_bool R) (enc_bool x) x" if "lawful_reader R V"
    for R :: "('r, 're, 'rx) reader_scheme" and V
    unfolding read_bool_def
    by (rule decodes_bind_ret [where a = "if x then 1 else 0"])
       (use u8.reads_enc [OF TrueI that, of "if x then 1 else 0"] in \<open>simp_all add: enc_bool_def\<close>)
qed

section \<open>str\<close>

text \<open>A \<open>str\<close> is its UTF-8 bytes; it has no length prefix and no \<open>FromReader\<close>.\<close>

definition size_str :: "byte list \<Rightarrow> nat" where
  "size_str this = length this"

definition write_str :: "('w, 'e, 'x) writer_scheme \<Rightarrow> byte list \<Rightarrow> ('w, unit, 'e write_error) io" where
  "write_str W this = io_map_err WStreamError (write_data W this)"

interpretation str: serializes write_str size_str "\<lambda>bs. bs" "\<lambda>_. True"
  by unfold_locales (simp_all add: size_str_def write_str_def emits_write)

end
