(* ===== verification/Varint.thy ===== *)
theory Varint
  imports Primitives
begin

text \<open>
  \<open>VarInt\<close> of \<open>src/primatives/varint.rs\<close>: the little-endian base-128 encoding of an \<open>i32\<close> in one to
  five bytes.  The reference is \<open>leb_decode\<close> and \<open>varint_bytes\<close>, base-128 arithmetic on natural
  numbers without shifts or masks; the code's loops are proved equal to it, on every input.
\<close>

section \<open>The model\<close>

text \<open>An \<open>i32\<close> is its 32 bits; \<open>sint\<close> reads it.\<close>

datatype varint = VarInt u32

definition varint_ZERO :: varint where "varint_ZERO = VarInt 0"
definition varint_ONE :: varint where "varint_ONE = VarInt 1"

definition varint_from :: "int \<Rightarrow> varint" where
  "varint_from value = VarInt (word_of_int value)"

fun varint_into :: "varint \<Rightarrow> int" where
  "varint_into (VarInt x) = sint x"

definition SEGMENT_MASK :: u32 where "SEGMENT_MASK = 0x7f"
definition CONTINUE_MASK_U32 :: u32 where "CONTINUE_MASK_U32 = 0x80"
definition CONTINUE_MASK_U8 :: byte where "CONTINUE_MASK_U8 = 0x80"

primrec read_varint_loop ::
  "('r, 'e, 'x) reader_scheme \<Rightarrow> nat list \<Rightarrow> u32 \<Rightarrow> ('r, varint, 'e read_error) io" where
  "read_varint_loop R [] value = io_err (ROverSized ''varint'' 5 6)"
| "read_varint_loop R (offset # offsets) value =
     io_bind (read_u8 R) (\<lambda>byte.
       let curr = ucast byte;
           value = value OR push_bit offset (curr AND SEGMENT_MASK)
       in if curr AND CONTINUE_MASK_U32 = 0 then io_ret (VarInt value)
          else read_varint_loop R offsets value)"

definition read_varint :: "('r, 'e, 'x) reader_scheme \<Rightarrow> ('r, varint, 'e read_error) io" where
  "read_varint R = read_varint_loop R (step_by 0 32 7) 0"

text \<open>Rust's \<open>checked_ilog2\<close>: the position of the highest set bit, \<open>None\<close> at zero.\<close>

fun ilog2 :: "nat \<Rightarrow> nat" where
  "ilog2 n = (if n < 2 then 0 else Suc (ilog2 (n div 2)))"

declare ilog2.simps [simp del]

definition checked_ilog2 :: "u32 \<Rightarrow> nat option" where
  "checked_ilog2 x = (if x = 0 then None else Some (ilog2 (unat x)))"

fun size_varint :: "varint \<Rightarrow> nat" where
  "size_varint (VarInt absolute) =
     (let chunks_of_seven_bits = (case checked_ilog2 absolute of None \<Rightarrow> 0 | Some l \<Rightarrow> l) div 7 + 1
      in chunks_of_seven_bits)"

primrec write_varint_loop ::
  "('w, 'e, 'x) writer_scheme \<Rightarrow> u32 \<Rightarrow> nat list \<Rightarrow> byte list \<Rightarrow> ('w, unit, 'e write_error) io" where
  "write_varint_loop W this [] buf = io_err MalformedVarInt"
| "write_varint_loop W this (index # indices) buf =
     (let remaining = drop_bit (index * 7) this
      in if remaining AND NOT SEGMENT_MASK = 0
         then let buf = buf[index := ucast remaining]
              in io_map_err WStreamError (write_data W (take (index + 1) buf))
         else let masked = remaining AND SEGMENT_MASK
              in write_varint_loop W this indices
                   (buf[index := ucast masked OR CONTINUE_MASK_U8]))"

fun write_varint :: "('w, 'e, 'x) writer_scheme \<Rightarrow> varint \<Rightarrow> ('w, unit, 'e write_error) io" where
  "write_varint W (VarInt this) = write_varint_loop W this [0..<5] (replicate 5 0)"

section \<open>The reference\<close>

fun varint_bytes :: "nat \<Rightarrow> byte list" where
  "varint_bytes n =
     (if n < 128 then [of_nat n] else of_nat (n mod 128 + 128) # varint_bytes (n div 128))"

declare varint_bytes.simps [simp del]

datatype leb = Value nat "byte list" | Truncated | TooLong

text \<open>Decode at most \<open>k\<close> base-128 digits.\<close>

fun leb_decode :: "nat \<Rightarrow> byte list \<Rightarrow> leb" where
  "leb_decode 0 bs = TooLong"
| "leb_decode (Suc k) [] = Truncated"
| "leb_decode (Suc k) (b # bs) =
     (if unat b < 128 then Value (unat b) bs
      else case leb_decode k bs of
             Value n rest \<Rightarrow> Value (unat b - 128 + 128 * n) rest
           | e \<Rightarrow> e)"

fun enc_varint :: "varint \<Rightarrow> byte list" where
  "enc_varint (VarInt x) = varint_bytes (unat x)"

section \<open>The reference decodes what it encodes\<close>

lemma varint_bytes_small [simp]: "n < 128 \<Longrightarrow> varint_bytes n = [of_nat n]"
  by (simp add: varint_bytes.simps)

lemma varint_bytes_large:
  "128 \<le> n \<Longrightarrow> varint_bytes n = of_nat (n mod 128 + 128) # varint_bytes (n div 128)"
  by (subst varint_bytes.simps) simp

lemma varint_bytes_nonempty [simp]: "varint_bytes n \<noteq> []"
  by (subst varint_bytes.simps) simp

lemma unat_of_nat_byte [simp]: "n < 256 \<Longrightarrow> unat (of_nat n :: byte) = n"
  by (simp add: unat_of_nat)

lemma unat_continued_byte [simp]: "unat (word_of_nat (n mod 128) + 128 :: byte) = n mod 128 + 128"
proof -
  have "n mod 128 + 128 < 256" by (simp add: less_diff_conv)
  from unat_of_nat_byte [OF this] show ?thesis by simp
qed

lemma div_128_less: "(n :: nat) < 128 ^ Suc j \<Longrightarrow> 128 \<le> n \<Longrightarrow> n div 128 < 128 ^ j \<and> 0 < j"
  by (cases j) (auto simp: less_mult_imp_div_less mult.commute)

lemma leb_decode_varint_bytes:
  "n < 128 ^ k \<Longrightarrow> 0 < k \<Longrightarrow> leb_decode k (varint_bytes n @ rest) = Value n rest"
proof (induction n arbitrary: k rule: varint_bytes.induct)
  case (1 n)
  then obtain j where k: "k = Suc j" by (cases k) auto
  show ?case
  proof (cases "n < 128")
    case True
    then show ?thesis by (simp add: k)
  next
    case False
    with "1.prems" k have "n div 128 < 128 ^ j" and "0 < j"
      using div_128_less [of n j] by simp_all
    with "1.IH" False have "leb_decode j (varint_bytes (n div 128) @ rest) = Value (n div 128) rest"
      by simp
    with False show ?thesis
      by (simp add: k varint_bytes_large)
  qed
qed

lemma leb_decode_short:
  "n < 128 ^ k \<Longrightarrow> bs @ cont = varint_bytes n \<Longrightarrow> length bs < length (varint_bytes n) \<Longrightarrow>
     leb_decode k bs = Truncated \<or> k = 0"
proof (induction n arbitrary: k bs rule: varint_bytes.induct)
  case (1 n)
  show ?case
  proof (cases k; cases bs)
    fix j b bs'
    assume k: "k = Suc j" and bs: "bs = b # bs'"
    from "1.prems" bs have large: "\<not> n < 128"
      by (auto simp: varint_bytes.simps split: if_splits)
    with "1.prems" bs have b: "b = of_nat (n mod 128 + 128)" and bs': "bs' @ cont = varint_bytes (n div 128)"
      and len: "length bs' < length (varint_bytes (n div 128))"
      by (auto simp: varint_bytes_large)
    from large "1.prems" k have j: "n div 128 < 128 ^ j" "j \<noteq> 0"
      using div_128_less [of n j] by simp_all
    from "1.IH" [OF large j(1) bs' len] j(2) show ?thesis
      by (simp add: k bs b)
  qed (use "1.prems" in auto)
qed

lemma leb_decode_bound: "leb_decode k bs = Value n rest \<Longrightarrow> n < 128 ^ k"
proof (induction k bs arbitrary: n rest rule: leb_decode.induct)
  case (3 k b bs)
  show ?case
  proof (cases "unat b < 128")
    case True
    have "(128 :: nat) * 1 \<le> 128 * 128 ^ k" by (intro mult_left_mono) simp_all
    with True have "unat b < 128 * 128 ^ k" by linarith
    with True "3.prems" show ?thesis by auto
  next
    case False
    with "3.prems" obtain m where m: "leb_decode k bs = Value m rest" "n = unat b - 128 + 128 * m"
      by (auto split: leb.splits)
    from "3.IH" [OF False m(1)] have "m + 1 \<le> 128 ^ k" by simp
    then have "128 * (m + 1) \<le> 128 * 128 ^ k" by (rule mult_left_mono) simp
    moreover have "unat b < 256" using unsigned_less [of b, where 'a = nat] by simp
    ultimately show ?thesis by (simp add: m(2))
  qed
qed simp_all

lemma leb_decode_rest: "leb_decode k bs = Value n rest \<Longrightarrow> length rest < length bs"
  by (induction k bs arbitrary: n rest rule: leb_decode.induct)
     (auto split: if_splits leb.splits intro: less_SucI)

lemma leb_decode_fuel:
  "leb_decode k bs = Value n rest \<Longrightarrow> length bs - length rest \<le> j \<Longrightarrow> leb_decode j bs = Value n rest"
proof (induction k bs arbitrary: n rest j rule: leb_decode.induct)
  case (3 k b bs)
  show ?case
  proof (cases "unat b < 128")
    case True
    with "3.prems" show ?thesis by (cases j) auto
  next
    case False
    with "3.prems" obtain m where m: "leb_decode k bs = Value m rest" "n = unat b - 128 + 128 * m"
      by (auto split: leb.splits)
    have "length rest < length bs" by (rule leb_decode_rest [OF m(1)])
    with "3.prems" obtain i where i: "j = Suc i" "length bs - length rest \<le> i" by (cases j) auto
    from "3.IH" [OF False m(1) i(2)] False show ?thesis by (simp add: i m(2))
  qed
qed simp_all

text \<open>Only the first \<open>k\<close> bytes matter to \<open>k\<close> digits.\<close>

lemma leb_decode_take:
  "leb_decode k bs = Value n rest \<Longrightarrow> \<exists>rest'. leb_decode k (take k bs) = Value n rest' \<and> rest = rest' @ drop k bs"
  by (induction k bs arbitrary: n rest rule: leb_decode.induct)
     (fastforce split: if_splits leb.splits)+

lemma leb_decode_take_truncated:
  "(\<And>n rest. leb_decode k bs \<noteq> Value n rest) \<Longrightarrow> k < j \<Longrightarrow> leb_decode j (take k bs) = Truncated"
proof (induction k bs arbitrary: j rule: leb_decode.induct)
  case (1 bs)
  then show ?case by (cases j) auto
next
  case (2 k)
  then show ?case by (cases j) auto
next
  case (3 k b bs)
  then obtain i where i: "j = Suc i" "k < i" by (cases j) auto
  have large: "\<not> unat b < 128" using "3.prems"(1) [of "unat b" bs] by auto
  have "leb_decode k bs \<noteq> Value n rest" for n rest
    using "3.prems"(1) [of "unat b - 128 + 128 * n" rest] large by auto
  from "3.IH" [OF large this i(2)] large show ?case by (simp add: i)
qed

section \<open>Length\<close>

lemma ilog2_less: "m < 2 ^ k \<Longrightarrow> 0 < k \<Longrightarrow> ilog2 m < k"
proof (induction m arbitrary: k rule: ilog2.induct)
  case (1 m)
  then obtain j where k: "k = Suc j" by (cases k) auto
  show ?case
  proof (cases "m < 2")
    case True
    then show ?thesis by (simp add: ilog2.simps [of m] k)
  next
    case False
    with "1.prems" k have "m div 2 < 2 ^ j" and "0 < j"
      by (cases j; auto simp: less_mult_imp_div_less mult.commute)+
    with "1.IH" False have "ilog2 (m div 2) < j" by simp
    with False show ?thesis by (simp add: ilog2.simps [of m] k)
  qed
qed

lemma ilog2_halve: "2 \<le> m \<Longrightarrow> ilog2 m = Suc (ilog2 (m div 2))"
  by (subst ilog2.simps) simp

lemma ilog2_128: "128 \<le> m \<Longrightarrow> ilog2 m = 7 + ilog2 (m div 128)"
proof -
  assume "128 \<le> m"
  then have "2 \<le> m" "2 \<le> m div 2" "2 \<le> m div 4" "2 \<le> m div 8" "2 \<le> m div 16" "2 \<le> m div 32" "2 \<le> m div 64"
    by linarith+
  then show ?thesis
    using ilog2_halve [of m] ilog2_halve [of "m div 2"] ilog2_halve [of "m div 4"]
      ilog2_halve [of "m div 8"] ilog2_halve [of "m div 16"] ilog2_halve [of "m div 32"]
      ilog2_halve [of "m div 64"]
    by (simp add: div_mult2_eq [symmetric])
qed

lemma ilog2_div7: "ilog2 n div 7 + 1 = length (varint_bytes n)"
proof (induction n rule: varint_bytes.induct)
  case (1 n)
  then show ?case
    using ilog2_less [of n 7] ilog2_128 [of n]
    by (cases "n < 128") (simp_all add: varint_bytes_large)
qed

lemma size_varint_enc [wire]: "size_varint x = length (enc_varint x)"
proof (cases x)
  case (VarInt w)
  have "ilog2 0 = 0" by (simp add: ilog2.simps)
  then show ?thesis
    using ilog2_div7 [of "unat w"] by (simp add: VarInt checked_ilog2_def)
qed

lemma length_varint_bytes_le: "n < 128 ^ k \<Longrightarrow> 0 < k \<Longrightarrow> length (varint_bytes n) \<le> k"
proof (induction n arbitrary: k rule: varint_bytes.induct)
  case (1 n)
  then obtain j where "k = Suc j" by (cases k) auto
  with 1 show ?case
    using div_128_less [of n j] by (cases "n < 128") (simp_all add: varint_bytes_large)
qed

lemma unat_u32_bound: "unat (x :: u32) < 128 ^ 5"
  using unsigned_less [of x, where 'a = nat] by simp

lemma enc_varint_length: "1 \<le> length (enc_varint x) \<and> length (enc_varint x) \<le> 5"
proof (cases x)
  case (VarInt w)
  then show ?thesis
    using length_varint_bytes_le [OF unat_u32_bound, of w] by (simp add: Suc_le_eq)
qed

section \<open>The code's loops compute the reference\<close>

lemma step_by_0_32_7: "step_by 0 32 7 = map (\<lambda>i. 7 * i) [0..<5]"
  by (simp add: step_by_def upt_rec)

text \<open>The masks on a byte widened to 32 bits.\<close>

lemma ucast_byte: "(ucast (b :: byte) :: u32) = of_nat (unat b)"
  by (simp add: unsigned_of_nat)

lemma segment_mask_byte: "(ucast (b :: byte) :: u32) AND SEGMENT_MASK = of_nat (unat b mod 128)"
proof -
  have "SEGMENT_MASK = mask 7"
    by (simp add: SEGMENT_MASK_def mask_eq_exp_minus_1)
  then have "(ucast b :: u32) AND SEGMENT_MASK = take_bit 7 (of_nat (unat b))"
    by (simp only: ucast_byte take_bit_eq_mask)
  also have "\<dots> = of_nat (take_bit 7 (unat b))"
    by (rule of_nat_take_bit [symmetric])
  finally show ?thesis by (simp add: take_bit_eq_mod)
qed

lemma bit_byte_7: "bit (b :: byte) 7 \<longleftrightarrow> 128 \<le> unat b"
proof -
  have "bit b 7 \<longleftrightarrow> bit (unat b) 7"
    by (simp add: bit_unsigned_iff)
  also have "\<dots> \<longleftrightarrow> odd (unat b div 128)"
    by (simp add: bit_iff_odd)
  also have "\<dots> \<longleftrightarrow> 128 \<le> unat b"
  proof -
    have "unat b < 256" using unsigned_less [of b, where 'a = nat] by simp
    then have "unat b div 128 = 0 \<or> unat b div 128 = 1" by linarith
    then show ?thesis by auto
  qed
  finally show ?thesis .
qed

lemma continue_mask_byte: "(ucast (b :: byte) :: u32) AND CONTINUE_MASK_U32 = 0 \<longleftrightarrow> unat b < 128"
proof -
  have c: "CONTINUE_MASK_U32 = 2 ^ 7" by (simp add: CONTINUE_MASK_U32_def)
  have "(ucast b :: u32) AND CONTINUE_MASK_U32 = 0 \<longleftrightarrow> \<not> bit (ucast b :: u32) 7"
    unfolding c by (rule and_exp_eq_0_iff_not_bit)
  also have "\<dots> \<longleftrightarrow> \<not> bit b 7" by (simp add: bit_simps)
  finally show ?thesis by (simp add: bit_byte_7 not_le)
qed

lemma of_nat_leb_digit:
  assumes "a < 128"
  shows "(of_nat (a + 128 * n) :: 'a::len word) = of_nat a OR push_bit 7 (of_nat n)"
proof -
  have "a + push_bit 7 n = a OR push_bit 7 n"
  proof (rule disjunctive_add_eq_or)
    have "take_bit 7 a = a" using assms by (simp add: take_bit_nat_eq_self_iff)
    then have "\<not> bit a k" if "7 \<le> k" for k
      using that by (metis bit_take_bit_iff not_le)
    then show "a AND push_bit 7 n = 0"
      by (auto simp: bit_eq_iff bit_simps)
  qed
  then have "a + 128 * n = a OR push_bit 7 n"
    by (simp add: push_bit_eq_mult mult.commute)
  then show ?thesis
    by (simp only: of_nat_or_eq of_nat_push_bit)
qed

text \<open>
  The loop over the offsets is written twice in the crate, here and in \<open>handshake_version.rs\<close>, with
  different ends.  \<open>segments\<close> is the loop with its two ends as parameters; what it does on any bytes
  of the stream is proved once: the value accumulated so far stays, and the number the reference
  decodes is added above it.
\<close>

primrec segments ::
  "(u32 \<Rightarrow> ('r, 'a, 'e read_error) io) \<Rightarrow> (u32 \<Rightarrow> ('r, 'a, 'e read_error) io) \<Rightarrow>
   ('r, 'e, 'x) reader_scheme \<Rightarrow> nat list \<Rightarrow> u32 \<Rightarrow> ('r, 'a, 'e read_error) io" where
  "segments found over R [] v = over v"
| "segments found over R (offset # offsets) v =
     io_bind (read_u8 R) (\<lambda>byte.
       let v = v OR push_bit offset (ucast byte AND SEGMENT_MASK)
       in if ucast byte AND CONTINUE_MASK_U32 = 0 then found v
          else segments found over R offsets v)"

lemma read_varint_loop_segments:
  "read_varint_loop R offsets v =
   segments (\<lambda>v. io_ret (VarInt v)) (\<lambda>_. io_err (ROverSized ''varint'' 5 6)) R offsets v"
  by (induction offsets arbitrary: v) (simp_all add: Let_def del: push_bit_and cong: if_cong)

definition leb_ends ::
  "('r \<Rightarrow> byte list \<Rightarrow> bool) \<Rightarrow> nat \<Rightarrow> byte list \<Rightarrow> (nat \<Rightarrow> ('r, 'a, 'e read_error) io) \<Rightarrow>
   (u32 \<Rightarrow> ('r, 'a, 'e read_error) io) \<Rightarrow> ('r, 'a, 'e read_error) io \<Rightarrow> 'r \<Rightarrow> bool" where
  "leb_ends V k bs found over m r = (case leb_decode k bs of
     Value n rest \<Rightarrow> (\<exists>r'. V r' rest \<and> m r = found n r')
   | Truncated \<Rightarrow> fails m r is_stream_error (\<lambda>_. True)
   | TooLong \<Rightarrow> (\<exists>r' v. V r' (drop k bs) \<and> m r = over v r'))"

lemma segments_leb:
  assumes R: "lawful_reader R V"
  shows "V r bs \<Longrightarrow> offsets = map (\<lambda>i. 7 * i) [i..<m] \<Longrightarrow> i \<le> m \<Longrightarrow>
    leb_ends V (m - i) bs (\<lambda>n. found (v OR push_bit (7 * i) (of_nat n))) over (segments found over R offsets v) r"
proof (induction offsets arbitrary: i bs r v)
  case Nil
  then have "i = m" by (cases "i = m") auto
  with Nil show ?case by (auto simp: leb_ends_def)
next
  case (Cons off offsets)
  then have i: "i < m" by (cases "i = m") auto
  with Cons.prems have off: "off = 7 * i" and offsets: "offsets = map (\<lambda>i. 7 * i) [Suc i..<m]"
    by (simp_all add: upt_conv_Cons)
  obtain k where k: "m - i = Suc k" "m - Suc i = k" using i by (cases "m - i") auto
  show ?case
  proof (cases bs)
    case Nil
    then show ?thesis
      using decodes_short [OF u8.reads_enc [OF TrueI R, of 0], of r "[]"] Cons.prems(1)
      by (simp add: k leb_ends_def fails_bind_first)
  next
    case bs: (Cons b bs')
    let ?v = "v OR push_bit off (of_nat (unat b mod 128))"
    have "gives (read_u8 R) r b (\<lambda>r'. V r' bs')"
      using Cons.prems(1) bs by (intro decodesD [OF u8.reads_enc [OF TrueI R]]) simp
    then obtain r1 where r1: "read_u8 R r = (Ok b, r1)" "V r1 bs'"
      by (rule givesE)
    have run: "segments found over R (off # offsets) v r =
        (if unat b < 128 then found ?v r1 else segments found over R offsets ?v r1)"
      by (simp only: segments.simps io_bind_def r1(1) Let_def segment_mask_byte continue_mask_byte
          prod.case outcome.case if_distribR)
    show ?thesis
    proof (cases "unat b < 128")
      case True
      with r1 show ?thesis
        by (auto simp: bs k leb_ends_def run [unfolded off] off simp del: segments.simps)
    next
      case False
      have small: "unat b mod 128 = unat b - 128"
        using False unsigned_less [of b, where 'a = nat] by (simp add: mod_if)
      have digit: "?v OR push_bit (7 * Suc i) (of_nat n)
        = v OR push_bit (7 * i) (of_nat (unat b mod 128 + 128 * n))" for n
        unfolding of_nat_leb_digit [OF mod_less_divisor [OF zero_less_numeral]]
        by (simp add: off push_bit_or or.assoc add.commute)
      have "leb_ends V k bs' (\<lambda>n. found (v OR push_bit (7 * i) (of_nat (unat b - 128 + 128 * n))))
        over (segments found over R offsets ?v) r1"
        using Cons.IH [OF r1(2) offsets Suc_leI [OF i], of ?v] unfolding digit k unfolding small .
      then show ?thesis
        using False
        by (auto simp: bs k leb_ends_def run fails_def simp del: of_nat_add of_nat_diff segments.simps
            split: leb.splits)
    qed
  qed
qed

definition leb_outcome ::
  "('r \<Rightarrow> byte list \<Rightarrow> bool) \<Rightarrow> nat \<Rightarrow> byte list \<Rightarrow> (nat \<Rightarrow> 'a) \<Rightarrow> ('e read_error \<Rightarrow> bool) \<Rightarrow>
   ('r, 'a, 'e read_error) io \<Rightarrow> 'r \<Rightarrow> bool" where
  "leb_outcome V k bs f E m r = (case leb_decode k bs of
     Value n rest \<Rightarrow> gives m r (f n) (\<lambda>r'. V r' rest)
   | Truncated \<Rightarrow> fails m r is_stream_error (\<lambda>_. True)
   | TooLong \<Rightarrow> fails m r E (\<lambda>r'. V r' (drop k bs)))"

lemma read_varint_leb:
  assumes "lawful_reader R V" and "V r bs"
  shows "leb_outcome V 5 bs (\<lambda>n. VarInt (of_nat n)) (\<lambda>e. e = ROverSized ''varint'' 5 6) (read_varint R) r"
  using segments_leb [OF assms, where offsets = "step_by 0 32 7" and i = 0 and m = 5 and v = 0
      and found = "\<lambda>v. io_ret (VarInt v)" and over = "\<lambda>_. io_err (ROverSized ''varint'' 5 6)"]
  by (auto simp: read_varint_def read_varint_loop_segments step_by_0_32_7 leb_ends_def leb_outcome_def
      gives_def fails_def io_ret_def io_err_def split: leb.splits)

lemma not_segment_mask: "(x :: u32) AND NOT SEGMENT_MASK = 0 \<longleftrightarrow> unat x < 128"
proof -
  have m: "SEGMENT_MASK = mask 7"
    by (simp add: SEGMENT_MASK_def mask_eq_exp_minus_1)
  have "x AND NOT (mask 7) = 0 \<longleftrightarrow> take_bit 7 x = x"
    by (auto simp: bit_eq_iff bit_simps)
  also have "\<dots> \<longleftrightarrow> unat (take_bit 7 x) = unat x"
    by (rule word_unat_eq_iff)
  also have "\<dots> \<longleftrightarrow> unat x mod 128 = unat x"
    by (simp only: unsigned_take_bit_eq) (simp add: take_bit_eq_mod)
  also have "\<dots> \<longleftrightarrow> unat x < 128"
    by (metis mod_less mod_less_divisor zero_less_numeral)
  finally show ?thesis by (simp only: m)
qed

lemma continued_byte:
  "(ucast ((x :: u32) AND SEGMENT_MASK) :: byte) OR CONTINUE_MASK_U8 = of_nat (unat x mod 128 + 128)"
proof -
  have "(ucast (x AND SEGMENT_MASK) :: byte) = of_nat (unat x mod 128)"
  proof -
    have "x AND SEGMENT_MASK = take_bit 7 (of_nat (unat x))"
      by (simp add: SEGMENT_MASK_def take_bit_eq_mask mask_eq_exp_minus_1)
    also have "\<dots> = of_nat (take_bit 7 (unat x))"
      by (rule of_nat_take_bit [symmetric])
    finally have x: "x AND SEGMENT_MASK = of_nat (unat x mod 128)"
      by (simp add: take_bit_eq_mod)
    have "unat x mod 128 < 2 ^ 32"
      by (rule less_trans [OF mod_less_divisor]) simp_all
    then show ?thesis
      unfolding x by (simp add: unsigned_of_nat take_bit_nat_eq_self)
  qed
  then show ?thesis
    using of_nat_leb_digit [of "unat x mod 128" 1, where 'a = 8]
    by (simp add: CONTINUE_MASK_U8_def)
qed

lemma write_varint_loop_bytes:
  assumes "length buf = 5" and "i \<le> 4"
  shows "write_varint_loop W x [i..<5] buf =
    io_map_err WStreamError (write_data W (take i buf @ varint_bytes (unat (drop_bit (i * 7) x))))"
  using assms
proof (induction "4 - i" arbitrary: i buf)
  case 0
  then have i: "i = 4" by simp
  have "unat (drop_bit 28 x) < 128"
    using unsigned_less [of x, where 'a = nat]
    by (simp only: unat_drop_bit_eq) (simp add: drop_bit_eq_div less_mult_imp_div_less)
  then show ?case
    using "0.prems" by (simp add: i upt_rec Let_def not_segment_mask upd_conv_take_nth_drop)
next
  case (Suc d)
  then have upt: "[i..<5] = i # [Suc i..<5]"
    by (simp add: upt_conv_Cons)
  have next_: "unat (drop_bit (7 + i * 7) x) = unat (drop_bit (i * 7) x) div 128"
    by (simp only: unat_drop_bit_eq) (simp add: drop_bit_eq_div power_add div_mult2_eq [symmetric] mult.commute)
  show ?case
  proof (cases "unat (drop_bit (i * 7) x) < 128")
    case True
    then show ?thesis
      using Suc.prems by (simp add: upt not_segment_mask take_Suc_conv_app_nth)
  next
    case False
    then show ?thesis
      using Suc.hyps(1) [of "Suc i"] Suc.hyps(2) Suc.prems
      by (simp add: upt Let_def not_segment_mask continued_byte next_ varint_bytes_large [of "unat (drop_bit (i * 7) x)"]
          take_Suc_conv_app_nth del: of_nat_add)
  qed
qed

lemma write_varint_enc:
  "write_varint W v = io_map_err WStreamError (write_data W (enc_varint v))"
  by (cases v) (simp add: write_varint_loop_bytes [of "replicate 5 0" 0])

interpretation varint: codec write_varint read_varint size_varint enc_varint "\<lambda>_. True"
proof unfold_locales
  fix x
  show "size_varint x = length (enc_varint x)"
    by (rule size_varint_enc)
  show "emits V (write_varint W x) (enc_varint x)" if "lawful_sink W V"
    for W :: "('w, 'we, 'wx) writer_scheme" and V
    using that by (simp add: write_varint_enc emits_write)
  obtain v where v: "x = VarInt v" by (cases x)
  show "decodes V (read_varint R) (enc_varint x) x" if R: "lawful_reader R V"
    for R :: "('r, 're, 'rx) reader_scheme" and V
    unfolding decodes_def
  proof (intro conjI allI impI)
    fix r rest
    assume "V r (enc_varint x @ rest)"
    then show "gives (read_varint R) r x (\<lambda>r'. V r' rest)"
      using read_varint_leb [OF R] leb_decode_varint_bytes [OF unat_u32_bound, of v rest]
      by (fastforce simp: v leb_outcome_def)
  next
    fix r ps cont
    assume "V r ps" and "ps @ cont = enc_varint x" and "length ps < length (enc_varint x)"
    then show "fails (read_varint R) r is_stream_error (\<lambda>_. True)"
      using read_varint_leb [OF R, of r ps] leb_decode_short [OF unat_u32_bound, of ps cont v]
      by (simp add: v leb_outcome_def)
  qed
qed

lemma varint_into_from: "- (2 ^ 31) \<le> i \<Longrightarrow> i < 2 ^ 31 \<Longrightarrow> varint_into (varint_from i) = i"
  by (simp add: varint_from_def signed_of_int signed_take_bit_int_eq_self)

lemma varint_from_into [simp]: "varint_from (varint_into v) = v"
  by (cases v) (simp add: varint_from_def)

end
