(* ===== verification/Containers.thy ===== *)
theory Containers
  imports Varint
begin

text \<open>
  The generic wire types: \<open>Option<T>\<close> (\<open>option.rs\<close>), \<open>[T; N]\<close>, \<open>[T]\<close>, \<open>Bytes\<close> and \<open>BytesRef\<close>
  (\<open>array.rs\<close>), the tuples (\<open>tuple.rs\<close>) and \<open>Box\<close>, \<open>Rc\<close>, \<open>Arc\<close> (\<open>with_std.rs\<close>).  Each takes the
  operations of its parameter \<open>T\<close> as arguments, as the generic \<open>impl\<close> takes \<open>T: FromReader\<close>; the
  lifting lemmas say that the container of a codec is a codec.
\<close>

section \<open>Option\<close>

definition read_option ::
  "(('r, 'e, 'x) reader_scheme \<Rightarrow> ('r, 'a, 'e read_error) io) \<Rightarrow>
   ('r, 'e, 'x) reader_scheme \<Rightarrow> ('r, 'a option, 'e read_error) io" where
  "read_option read_T R = io_bind (read_bool R) (\<lambda>b.
     if b then io_bind (read_T R) (\<lambda>v. io_ret (Some v)) else io_ret None)"

fun size_option :: "('a \<Rightarrow> nat) \<Rightarrow> 'a option \<Rightarrow> nat" where
  "size_option size_T (Some val) = 1 + size_T val"
| "size_option size_T None = 1"

fun write_option ::
  "(('w, 'e, 'x) writer_scheme \<Rightarrow> 'a \<Rightarrow> ('w, unit, 'e write_error) io) \<Rightarrow>
   ('w, 'e, 'x) writer_scheme \<Rightarrow> 'a option \<Rightarrow> ('w, unit, 'e write_error) io" where
  "write_option write_T W (Some val) = io_bind (write_bool W True) (\<lambda>_. write_T W val)"
| "write_option write_T W None = write_bool W False"

fun enc_option :: "('a \<Rightarrow> byte list) \<Rightarrow> 'a option \<Rightarrow> byte list" where
  "enc_option enc_T (Some v) = enc_bool True @ enc_T v"
| "enc_option enc_T None = enc_bool False"

lemma serializes_option:
  fixes to_w :: "('w, 'we, 'wx) writer_scheme \<Rightarrow> 'a \<Rightarrow> ('w, unit, 'we write_error) io"
  assumes ser: "serializes to_w size_of enc valid"
  shows "serializes (write_option to_w) (size_option size_of) (enc_option enc) (pred_option valid)"
proof unfold_locales
  fix x
  assume x: "pred_option valid x"
  then show "size_option size_of x = length (enc_option enc x)"
    by (cases x) (simp_all add: enc_bool_def serializes.size_enc [OF ser])
  show "emits V (write_option to_w W x) (enc_option enc x)" if W: "lawful_sink W V"
    for W :: "('w, 'we, 'wx) writer_scheme" and V
    using x by (cases x)
      (auto intro: emits_bind bool.writes_enc [OF TrueI W] serializes.writes_enc [OF ser _ W])
qed

lemma deserializes_option:
  fixes from_r :: "('r, 're, 'rx) reader_scheme \<Rightarrow> ('r, 'a, 're read_error) io"
  assumes des: "deserializes from_r enc valid"
  shows "deserializes (read_option from_r) (enc_option enc) (pred_option valid)"
proof unfold_locales
  fix x and R :: "('r, 're, 'rx) reader_scheme" and V
  assume x: "pred_option valid x" and R: "lawful_reader R V"
  note tag = bool.reads_enc [OF TrueI R]
  show "decodes V (read_option from_r R) (enc_option enc x) x"
  proof (cases x)
    case None
    then show ?thesis
      unfolding read_option_def by simp (rule decodes_bind_nil [OF tag], simp add: decodes_ret)
  next
    case (Some v)
    with x have "decodes V (io_bind (from_r R) (\<lambda>v. io_ret (Some v))) (enc v) x"
      by (auto intro: decodes_bind_ret deserializes.reads_enc [OF des _ R])
    with Some show ?thesis
      unfolding read_option_def by simp (rule decodes_bind [OF tag], simp)
  qed
qed

lemma codec_option:
  "codec to_w from_r size_of enc valid \<Longrightarrow>
   codec (write_option to_w) (read_option from_r) (size_option size_of) (enc_option enc) (pred_option valid)"
  by (auto simp: codec_def intro: serializes_option deserializes_option)

section \<open>Arrays and slices\<close>

definition size_slice :: "('a \<Rightarrow> nat) \<Rightarrow> 'a list \<Rightarrow> nat" where
  "size_slice size_T this = fold (\<lambda>val acc. acc + size_T val) this 0"

primrec write_slice ::
  "(('w, 'e, 'x) writer_scheme \<Rightarrow> 'a \<Rightarrow> ('w, unit, 'e write_error) io) \<Rightarrow>
   ('w, 'e, 'x) writer_scheme \<Rightarrow> 'a list \<Rightarrow> ('w, unit, 'e write_error) io" where
  "write_slice write_T W [] = io_ret ()"
| "write_slice write_T W (item # items) = io_bind (write_T W item) (\<lambda>_. write_slice write_T W items)"

text \<open>\<open>[T; N]\<close>: the length \<open>N\<close> is an argument of the reader, and of the values' \<open>valid\<close>.\<close>

primrec read_array ::
  "nat \<Rightarrow> (('r, 'e, 'x) reader_scheme \<Rightarrow> ('r, 'a, 'e read_error) io) \<Rightarrow>
   ('r, 'e, 'x) reader_scheme \<Rightarrow> ('r, 'a list, 'e read_error) io" where
  "read_array 0 read_T R = io_ret []"
| "read_array (Suc n) read_T R =
     io_bind (read_T R) (\<lambda>t. io_bind (read_array n read_T R) (\<lambda>buf. io_ret (t # buf)))"

definition size_array :: "('a \<Rightarrow> nat) \<Rightarrow> 'a list \<Rightarrow> nat" where
  "size_array size_T this = size_slice size_T this"

definition write_array ::
  "(('w, 'e, 'x) writer_scheme \<Rightarrow> 'a \<Rightarrow> ('w, unit, 'e write_error) io) \<Rightarrow>
   ('w, 'e, 'x) writer_scheme \<Rightarrow> 'a list \<Rightarrow> ('w, unit, 'e write_error) io" where
  "write_array write_T W this = write_slice write_T W this"

definition enc_slice :: "('a \<Rightarrow> byte list) \<Rightarrow> 'a list \<Rightarrow> byte list" where
  "enc_slice enc_T xs = concat (map enc_T xs)"

lemma fold_add_length: "fold (\<lambda>val acc. acc + f val) xs (n :: nat) = n + sum_list (map f xs)"
  by (induction xs arbitrary: n) auto

lemma serializes_slice:
  fixes to_w :: "('w, 'we, 'wx) writer_scheme \<Rightarrow> 'a \<Rightarrow> ('w, unit, 'we write_error) io"
  assumes ser: "serializes to_w size_of enc valid"
  shows "serializes (write_slice to_w) (size_slice size_of) (enc_slice enc) (list_all valid)"
proof unfold_locales
  fix xs
  assume xs: "list_all valid xs"
  then show "size_slice size_of xs = length (enc_slice enc xs)"
    unfolding size_slice_def fold_add_length enc_slice_def
    by (induction xs) (simp_all add: serializes.size_enc [OF ser])
  show "emits V (write_slice to_w W xs) (enc_slice enc xs)" if W: "lawful_sink W V"
    for W :: "('w, 'we, 'wx) writer_scheme" and V
    using xs by (induction xs)
      (auto simp: enc_slice_def intro: emits_ret emits_bind serializes.writes_enc [OF ser _ W])
qed

lemma deserializes_array:
  fixes from_r :: "('r, 're, 'rx) reader_scheme \<Rightarrow> ('r, 'a, 're read_error) io"
  assumes des: "deserializes from_r enc valid"
  shows "deserializes (read_array n from_r) (enc_slice enc) (\<lambda>xs. length xs = n \<and> list_all valid xs)"
proof unfold_locales
  fix xs and R :: "('r, 're, 'rx) reader_scheme" and V
  assume xs: "length xs = n \<and> list_all valid xs" and R: "lawful_reader R V"
  then show "decodes V (read_array n from_r R) (enc_slice enc xs) xs"
  proof (induction xs arbitrary: n)
    case Nil
    then show ?case by (simp add: enc_slice_def decodes_ret)
  next
    case (Cons x xs)
    then show ?case
      by (auto simp: enc_slice_def intro!: decodes_bind deserializes.reads_enc [OF des _ R] decodes_bind_ret)
  qed
qed

lemma codec_array:
  assumes "codec to_w from_r size_of enc valid"
  shows "codec (write_array to_w) (read_array n from_r) (size_array size_of) (enc_slice enc)
    (\<lambda>xs. length xs = n \<and> list_all valid xs)"
proof -
  have "serializes (write_slice to_w) (size_slice size_of) (enc_slice enc) (list_all valid)"
    by (rule serializes_slice [OF codec.axioms(1) [OF assms]])
  then have "serializes (write_array to_w) (size_array size_of) (enc_slice enc)
      (\<lambda>xs. length xs = n \<and> list_all valid xs)"
    by (auto simp: serializes_def write_array_def size_array_def)
  then show ?thesis
    by (intro codec.intro deserializes_array codec.axioms(2) [OF assms])
qed

section \<open>Bytes and BytesRef\<close>

definition size_bytes_ref :: "byte list \<Rightarrow> nat" where
  "size_bytes_ref this = length this"

definition write_bytes_ref :: "('w, 'e, 'x) writer_scheme \<Rightarrow> byte list \<Rightarrow> ('w, unit, 'e write_error) io" where
  "write_bytes_ref W this = io_map_err WStreamError (write_data W this)"

definition size_bytes :: "byte list \<Rightarrow> nat" where
  "size_bytes this = size_bytes_ref this"

definition write_bytes :: "('w, 'e, 'x) writer_scheme \<Rightarrow> byte list \<Rightarrow> ('w, unit, 'e write_error) io" where
  "write_bytes W this = write_bytes_ref W this"

definition read_bytes :: "nat \<Rightarrow> ('r, 'e, 'x) reader_scheme \<Rightarrow> ('r, byte list, 'e read_error) io" where
  "read_bytes n R = io_bind (io_map_err RStreamError (read_exact R n)) (\<lambda>buf. io_ret buf)"

lemma codec_bytes:
  "codec write_bytes (read_bytes n) size_bytes (\<lambda>bs. bs) (\<lambda>bs. length bs = n)"
  by unfold_locales
    (auto simp: size_bytes_def size_bytes_ref_def write_bytes_def write_bytes_ref_def read_bytes_def
      intro: emits_write decodes_bind_ret decodes_read_exact)

section \<open>Tuples\<close>

text \<open>
  \<open>tuple_impls!\<close> reads and writes the components from left to right and adds up their sizes.  A
  HOL tuple is a pair of its first component and the tuple of the others, so the macro's instance
  for \<open>n + 1\<close> components is the pair of a component and the instance for \<open>n\<close>; \<open>One\<close> is the
  component itself.
\<close>

definition read_tuple ::
  "(('r, 'e, 'x) reader_scheme \<Rightarrow> ('r, 'a, 'e read_error) io) \<Rightarrow>
   (('r, 'e, 'x) reader_scheme \<Rightarrow> ('r, 'b, 'e read_error) io) \<Rightarrow>
   ('r, 'e, 'x) reader_scheme \<Rightarrow> ('r, 'a \<times> 'b, 'e read_error) io" where
  "read_tuple read_T1 read_Ts R =
     io_bind (read_T1 R) (\<lambda>t1. io_bind (read_Ts R) (\<lambda>ts. io_ret (t1, ts)))"

fun size_tuple :: "('a \<Rightarrow> nat) \<Rightarrow> ('b \<Rightarrow> nat) \<Rightarrow> 'a \<times> 'b \<Rightarrow> nat" where
  "size_tuple size_T1 size_Ts (t1, ts) = size_T1 t1 + size_Ts ts"

fun write_tuple ::
  "(('w, 'e, 'x) writer_scheme \<Rightarrow> 'a \<Rightarrow> ('w, unit, 'e write_error) io) \<Rightarrow>
   (('w, 'e, 'x) writer_scheme \<Rightarrow> 'b \<Rightarrow> ('w, unit, 'e write_error) io) \<Rightarrow>
   ('w, 'e, 'x) writer_scheme \<Rightarrow> 'a \<times> 'b \<Rightarrow> ('w, unit, 'e write_error) io" where
  "write_tuple write_T1 write_Ts W (t1, ts) = io_bind (write_T1 W t1) (\<lambda>_. write_Ts W ts)"

fun enc_tuple :: "('a \<Rightarrow> byte list) \<Rightarrow> ('b \<Rightarrow> byte list) \<Rightarrow> 'a \<times> 'b \<Rightarrow> byte list" where
  "enc_tuple enc1 encs (t1, ts) = enc1 t1 @ encs ts"

lemma serializes_tuple:
  fixes to1 :: "('w, 'we, 'wx) writer_scheme \<Rightarrow> 'a \<Rightarrow> ('w, unit, 'we write_error) io"
  assumes ser1: "serializes to1 size1 enc1 valid1" and sers: "serializes tos sizes encs valids"
  shows "serializes (write_tuple to1 tos) (size_tuple size1 sizes) (enc_tuple enc1 encs) (pred_prod valid1 valids)"
  by unfold_locales
    (auto simp: serializes.size_enc [OF ser1] serializes.size_enc [OF sers]
      intro!: emits_bind serializes.writes_enc [OF ser1] serializes.writes_enc [OF sers])

lemma deserializes_tuple:
  fixes from1 :: "('r, 're, 'rx) reader_scheme \<Rightarrow> ('r, 'a, 're read_error) io"
  assumes des1: "deserializes from1 enc1 valid1" and dess: "deserializes froms encs valids"
  shows "deserializes (read_tuple from1 froms) (enc_tuple enc1 encs) (pred_prod valid1 valids)"
  by unfold_locales
    (auto simp: read_tuple_def
      intro!: decodes_bind decodes_bind_ret deserializes.reads_enc [OF des1] deserializes.reads_enc [OF dess])

lemma codec_tuple:
  "codec to1 from1 size1 enc1 valid1 \<Longrightarrow> codec tos froms sizes encs valids \<Longrightarrow>
   codec (write_tuple to1 tos) (read_tuple from1 froms) (size_tuple size1 sizes) (enc_tuple enc1 encs)
     (pred_prod valid1 valids)"
  by (auto simp: codec_def intro: serializes_tuple deserializes_tuple)

section \<open>Box, Rc and Arc\<close>

text \<open>A boxed value is its content: only where it is stored differs.\<close>

definition read_boxed ::
  "(('r, 'e, 'x) reader_scheme \<Rightarrow> ('r, 'a, 'e read_error) io) \<Rightarrow>
   ('r, 'e, 'x) reader_scheme \<Rightarrow> ('r, 'a, 'e read_error) io" where
  "read_boxed read_T R = io_bind (read_T R) (\<lambda>val. io_ret val)"

lemma deserializes_boxed:
  fixes from_r :: "('r, 're, 'rx) reader_scheme \<Rightarrow> ('r, 'a, 're read_error) io"
  assumes des: "deserializes from_r enc valid"
  shows "deserializes (read_boxed from_r) enc valid"
  by unfold_locales (auto simp: read_boxed_def intro!: decodes_bind_ret deserializes.reads_enc [OF des])

section \<open>The containers on the library's own types\<close>

interpretation opt_varint: codec "write_option write_varint" "read_option read_varint"
    "size_option size_varint" "enc_option enc_varint" "pred_option (\<lambda>_. True)"
  by (rule codec_option) (rule varint.codec_axioms)

interpretation varints: codec "write_array write_varint" "read_array n read_varint"
    "size_array size_varint" "enc_slice enc_varint" "\<lambda>xs. length xs = n \<and> list_all (\<lambda>_. True) xs" for n
  by (rule codec_array) (rule varint.codec_axioms)

interpretation bytes: codec write_bytes "read_bytes n" size_bytes "\<lambda>bs. bs" "\<lambda>bs. length bs = n" for n
  by (rule codec_bytes)

text \<open>A nested type of a packet: an optional pair of a length and a flag, behind an identifier.\<close>

interpretation nested: codec
    "write_tuple write_varint (write_option (write_tuple write_u16 write_bool))"
    "read_tuple read_varint (read_option (read_tuple read_u16 read_bool))"
    "size_tuple size_varint (size_option (size_tuple size_u16 size_bool))"
    "enc_tuple enc_varint (enc_option (enc_tuple (to_be_bytes 2) enc_bool))"
    "pred_prod (\<lambda>_. True) (pred_option (pred_prod (\<lambda>_. True) (\<lambda>_. True)))"
  by (intro codec_tuple codec_option varint.codec_axioms u16.codec_axioms bool.codec_axioms)

end
