(* ===== verification/Protocol_State.thy ===== *)
theory Protocol_State
  imports Prelude
begin

text \<open>
  Protocol versions and their states: the macros of \<open>src/protocol/versions/mod.rs\<close> and the state
  transitions of \<open>ProtocolHandler\<close> in \<open>src/protocol/mod.rs\<close>.  The macros are applied to packet
  tables (the theories \<open>Versions_*\<close>); what they generate is a function of the tables.  A state of
  a generated module is a side and a phase; its packet enum is named by its variants.
\<close>

section \<open>Tables and versions\<close>

type_synonym packet_table = "(int \<times> string) list"

datatype side = Clientbound | Serverbound
datatype phase = HandshakePhase | StatusPhase | LoginPhase | ConfigPhase | PlayPhase
type_synonym state = "side \<times> phase"

record tables =
  clientbound :: packet_table
  serverbound :: packet_table

record protocol =
  VERSION :: "16 word"
  status_tables :: tables
  login_tables :: tables
  config_tables :: "tables option"
  play_tables :: tables

definition build_protocol :: "16 word \<Rightarrow> tables \<Rightarrow> tables \<Rightarrow> tables \<Rightarrow> tables \<Rightarrow> protocol" where
  "build_protocol v s l c p =
     \<lparr>VERSION = v, status_tables = s, login_tables = l, config_tables = Some c, play_tables = p\<rparr>"

definition build_protocol_pre_1_21_2 :: "16 word \<Rightarrow> tables \<Rightarrow> tables \<Rightarrow> tables \<Rightarrow> protocol" where
  "build_protocol_pre_1_21_2 v s l p =
     \<lparr>VERSION = v, status_tables = s, login_tables = l, config_tables = None, play_tables = p\<rparr>"

section \<open>The generated states\<close>

text \<open>The enum \<open>Handshake\<close> of \<open>src/protocol/mod.rs\<close>, and the packet enums.\<close>

datatype handshake = Standard | Legacy1_6 | Legacy1_5 | Legacy1_3

datatype designator = Handshake handshake | Packet string

text \<open>\<open>_build_protocol_state!\<close>: the \<open>match\<close> on the id and the \<open>match\<close> on the variant.\<close>

definition designator_of_id :: "packet_table \<Rightarrow> int \<Rightarrow> string option" where
  "designator_of_id table i = map_of table i"

definition id_of_designator :: "packet_table \<Rightarrow> string \<Rightarrow> int option" where
  "id_of_designator table packet = map_of (map prod.swap table) packet"

fun side_table :: "side \<Rightarrow> tables \<Rightarrow> packet_table" where
  "side_table Clientbound t = clientbound t"
| "side_table Serverbound t = serverbound t"

fun phase_tables :: "protocol \<Rightarrow> phase \<Rightarrow> tables option" where
  "phase_tables p HandshakePhase = None"
| "phase_tables p StatusPhase = Some (status_tables p)"
| "phase_tables p LoginPhase = Some (login_tables p)"
| "phase_tables p ConfigPhase = config_tables p"
| "phase_tables p PlayPhase = Some (play_tables p)"

fun state_table :: "protocol \<Rightarrow> state \<Rightarrow> packet_table option" where
  "state_table p (side, phase) = map_option (side_table side) (phase_tables p phase)"

fun has_state :: "protocol \<Rightarrow> state \<Rightarrow> bool" where
  "has_state p (side, phase) = (phase = ConfigPhase \<longrightarrow> config_tables p \<noteq> None)"

fun state_name :: "state \<Rightarrow> string" where
  "state_name (side, phase) =
     (case side of Clientbound \<Rightarrow> ''clientbound_'' | Serverbound \<Rightarrow> ''serverbound_'') @
     (case phase of HandshakePhase \<Rightarrow> ''handshake'' | StatusPhase \<Rightarrow> ''status'' | LoginPhase \<Rightarrow> ''login''
      | ConfigPhase \<Rightarrow> ''config'' | PlayPhase \<Rightarrow> ''play'')"

fun handshake_designator_from_id :: "side \<Rightarrow> int \<Rightarrow> handshake option" where
  "handshake_designator_from_id Clientbound _ = None"
| "handshake_designator_from_id Serverbound i = (if i = 0 then Some Standard else None)"

fun designator_from_id :: "protocol \<Rightarrow> state \<Rightarrow> int \<Rightarrow> designator option" where
  "designator_from_id p (side, HandshakePhase) i =
     map_option Handshake (handshake_designator_from_id side i)"
| "designator_from_id p (side, phase) i =
     (case state_table p (side, phase) of
        None \<Rightarrow> None
      | Some table \<Rightarrow> map_option Packet (designator_of_id table i))"

text \<open>
  \<open>_build_protocol_writer!\<close>: the writer of a state takes the packets of the other side; the
  handshake states have none.
\<close>

fun reciprocal :: "side \<Rightarrow> side" where
  "reciprocal Clientbound = Serverbound"
| "reciprocal Serverbound = Clientbound"

fun writer_packet_id :: "protocol \<Rightarrow> state \<Rightarrow> string \<Rightarrow> int option" where
  "writer_packet_id p (side, phase) packet =
     (case state_table p (reciprocal side, phase) of
        None \<Rightarrow> None
      | Some table \<Rightarrow> id_of_designator table packet)"

section \<open>Transitions\<close>

text \<open>
  The associated types \<open>StatusState\<close>, \<open>LoginState\<close> (\<open>HandshakeProtocolState\<close>) and \<open>NextState\<close>
  (\<open>HasNextProtocolState\<close>) of the generated modules: \<open>None\<close> where the trait is not implemented.
\<close>

fun StatusState :: "state \<Rightarrow> state option" where
  "StatusState (side, HandshakePhase) = Some (side, StatusPhase)"
| "StatusState _ = None"

fun LoginState :: "state \<Rightarrow> state option" where
  "LoginState (side, HandshakePhase) = Some (side, LoginPhase)"
| "LoginState _ = None"

fun NextState :: "protocol \<Rightarrow> state \<Rightarrow> state option" where
  "NextState p (side, LoginPhase) = Some (side, if config_tables p = None then PlayPhase else ConfigPhase)"
| "NextState p (side, ConfigPhase) = (if config_tables p = None then None else Some (side, PlayPhase))"
| "NextState p _ = None"

text \<open>\<open>ProtocolHandler\<close>: the stream provider, and the state it is typed with.\<close>

record 'p protocol_handler =
  provider :: 'p
  handler_state :: state

definition new_serverside :: "'p \<Rightarrow> 'p protocol_handler" where
  "new_serverside p = \<lparr>provider = p, handler_state = (Serverbound, HandshakePhase)\<rparr>"

definition new_clientside :: "'p \<Rightarrow> 'p protocol_handler" where
  "new_clientside p = \<lparr>provider = p, handler_state = (Clientbound, HandshakePhase)\<rparr>"

definition into_status_state :: "'p protocol_handler \<Rightarrow> 'p protocol_handler option" where
  "into_status_state h =
     map_option (\<lambda>s. \<lparr>provider = provider h, handler_state = s\<rparr>) (StatusState (handler_state h))"

definition into_login_state :: "'p protocol_handler \<Rightarrow> 'p protocol_handler option" where
  "into_login_state h =
     map_option (\<lambda>s. \<lparr>provider = provider h, handler_state = s\<rparr>) (LoginState (handler_state h))"

definition into_next_state :: "protocol \<Rightarrow> 'p protocol_handler \<Rightarrow> 'p protocol_handler option" where
  "into_next_state p h =
     map_option (\<lambda>s. \<lparr>provider = provider h, handler_state = s\<rparr>) (NextState p (handler_state h))"

inductive step :: "protocol \<Rightarrow> 'p protocol_handler \<Rightarrow> 'p protocol_handler \<Rightarrow> bool" for p where
  to_status: "into_status_state h = Some h' \<Longrightarrow> step p h h'"
| to_login: "into_login_state h = Some h' \<Longrightarrow> step p h h'"
| to_next: "into_next_state p h = Some h' \<Longrightarrow> step p h h'"

inductive reachable :: "protocol \<Rightarrow> 'p protocol_handler \<Rightarrow> 'p protocol_handler \<Rightarrow> bool" for p h where
  start: "reachable p h h"
| more_steps: "reachable p h h' \<Longrightarrow> step p h' h'' \<Longrightarrow> reachable p h h''"

inductive_cases stepE: "step p h h'"
inductive_simps step_simps: "step p h h'"

section \<open>The tables\<close>

definition table_ok :: "packet_table \<Rightarrow> bool" where
  "table_ok t \<longleftrightarrow> map fst t = map int [0..<length t] \<and> distinct (map snd t)"

definition tables_ok :: "tables \<Rightarrow> bool" where
  "tables_ok t \<longleftrightarrow> table_ok (clientbound t) \<and> table_ok (serverbound t)"

definition protocol_ok :: "protocol \<Rightarrow> bool" where
  "protocol_ok p \<longleftrightarrow> tables_ok (status_tables p) \<and> tables_ok (login_tables p) \<and>
     (case config_tables p of None \<Rightarrow> True | Some t \<Rightarrow> tables_ok t) \<and> tables_ok (play_tables p)"

lemma table_ok_distinct:
  assumes "table_ok t"
  shows "distinct (map fst t)" and "distinct (map fst (map prod.swap t))"
  using assms by (simp_all add: table_ok_def distinct_map inj_on_def comp_def)

lemma designator_of_id_iff:
  "table_ok t \<Longrightarrow> designator_of_id t i = Some n \<longleftrightarrow> (i, n) \<in> set t"
  by (simp add: designator_of_id_def table_ok_distinct)

lemma id_of_designator_iff:
  "table_ok t \<Longrightarrow> id_of_designator t n = Some i \<longleftrightarrow> (i, n) \<in> set t"
  by (simp only: id_of_designator_def map_of_eq_Some_iff [OF table_ok_distinct(2)]) auto

lemma designator_id_inverse:
  "table_ok t \<Longrightarrow> id_of_designator t n = Some i \<longleftrightarrow> designator_of_id t i = Some n"
  by (simp add: designator_of_id_iff id_of_designator_iff)

lemma designator_known:
  assumes "table_ok t"
  shows "designator_of_id t i \<noteq> None \<longleftrightarrow> 0 \<le> i \<and> i < int (length t)"
proof -
  have "fst ` set t = int ` {0..<length t}"
    using assms by (metis table_ok_def atLeastLessThan_upt list.set_map)
  then have "designator_of_id t i \<noteq> None \<longleftrightarrow> i \<in> int ` {0..<length t}"
    by (simp add: designator_of_id_def map_of_eq_None_iff)
  then show ?thesis
    by (auto simp: image_int_atLeastLessThan)
qed

lemma state_table_ok:
  "protocol_ok p \<Longrightarrow> state_table p s = Some t \<Longrightarrow> table_ok t"
  by (cases s; cases "fst s"; cases "snd s")
     (auto simp: protocol_ok_def tables_ok_def split: option.splits)

text \<open>
  What one peer's writer sends under an id is what the other peer's reader calls it: the packets a
  handler of one side writes are those the handler of the other side reads.
\<close>

lemma reciprocal_twice [simp]: "reciprocal (reciprocal side) = side"
  by (cases side) simp_all

lemma writer_reader_agree:
  assumes "protocol_ok p" and "phase \<noteq> HandshakePhase"
  shows "writer_packet_id p (side, phase) n = Some i \<longleftrightarrow>
    designator_from_id p (reciprocal side, phase) i = Some (Packet n)"
  using assms state_table_ok [OF assms(1), of "(reciprocal side, phase)"]
  by (cases phase) (auto simp: designator_id_inverse split: option.splits)

lemma handshake_writes_no_packet: "writer_packet_id p (side, HandshakePhase) n = None"
  by simp

section \<open>The state machine\<close>

fun phase_rank :: "phase \<Rightarrow> nat" where
  "phase_rank HandshakePhase = 0"
| "phase_rank StatusPhase = 1"
| "phase_rank LoginPhase = 1"
| "phase_rank ConfigPhase = 2"
| "phase_rank PlayPhase = 3"

lemma StatusState_SomeD:
  "StatusState s = Some s' \<Longrightarrow> snd s = HandshakePhase \<and> s' = (fst s, StatusPhase)"
  by (cases s rule: StatusState.cases) auto

lemma LoginState_SomeD:
  "LoginState s = Some s' \<Longrightarrow> snd s = HandshakePhase \<and> s' = (fst s, LoginPhase)"
  by (cases s rule: LoginState.cases) auto

lemma NextState_SomeD:
  "NextState p s = Some s' \<Longrightarrow>
     (snd s = LoginPhase \<and> s' = (fst s, if config_tables p = None then PlayPhase else ConfigPhase)) \<or>
     (snd s = ConfigPhase \<and> config_tables p \<noteq> None \<and> s' = (fst s, PlayPhase))"
  by (cases "(p, s)" rule: NextState.cases) (auto split: if_splits)

lemma step_cases_phase:
  assumes "step p h h'"
  shows "provider h' = provider h \<and> fst (handler_state h') = fst (handler_state h) \<and>
    (snd (handler_state h), snd (handler_state h')) \<in>
      {(HandshakePhase, StatusPhase), (HandshakePhase, LoginPhase)} \<union>
      (if config_tables p = None then {(LoginPhase, PlayPhase)}
       else {(LoginPhase, ConfigPhase), (ConfigPhase, PlayPhase)})"
  using assms
  by cases
     (auto simp: into_status_state_def into_login_state_def into_next_state_def
       dest!: StatusState_SomeD LoginState_SomeD NextState_SomeD)

lemma step_rank:
  "step p h h' \<Longrightarrow> phase_rank (snd (handler_state h)) < phase_rank (snd (handler_state h'))"
  using step_cases_phase [of p h h'] by (auto split: if_splits)

lemma reachable_invariant:
  assumes "reachable p h h'"
  shows "provider h' = provider h \<and> fst (handler_state h') = fst (handler_state h) \<and>
    (has_state p (handler_state h) \<longrightarrow> has_state p (handler_state h'))"
  using assms
proof induction
  case (more_steps h' h'')
  then show ?case
    using step_cases_phase [of p h' h'']
    by (cases "handler_state h''") (auto split: if_splits)
qed simp

text \<open>From a new handler, exactly the states of the version are reached, each with the provider.\<close>

lemma reachable_from_handshake:
  assumes h: "h = \<lparr>provider = x, handler_state = (side, HandshakePhase)\<rparr>"
  shows "reachable p h h' \<longleftrightarrow> (\<exists>phase. h' = \<lparr>provider = x, handler_state = (side, phase)\<rparr> \<and> has_state p (side, phase))"
proof
  assume "reachable p h h'"
  then show "\<exists>phase. h' = \<lparr>provider = x, handler_state = (side, phase)\<rparr> \<and> has_state p (side, phase)"
    using reachable_invariant [of p h h'] h by (cases h'; cases "handler_state h'") auto
next
  let ?at = "\<lambda>phase. \<lparr>provider = x, handler_state = (side, phase)\<rparr>"
  have status: "reachable p h (?at StatusPhase)"
    by (rule more_steps [OF start to_status]) (simp add: h into_status_state_def)
  have login: "reachable p h (?at LoginPhase)"
    by (rule more_steps [OF start to_login]) (simp add: h into_login_state_def)
  have config: "reachable p h (?at ConfigPhase)" if "config_tables p \<noteq> None"
    by (rule more_steps [OF login to_next]) (use that in \<open>simp add: into_next_state_def\<close>)
  have play: "reachable p h (?at PlayPhase)"
  proof (cases "config_tables p = None")
    case True
    then show ?thesis by (intro more_steps [OF login to_next]) (simp add: into_next_state_def)
  next
    case False
    then show ?thesis by (intro more_steps [OF config to_next]) (simp_all add: into_next_state_def)
  qed
  assume "\<exists>phase. h' = ?at phase \<and> has_state p (side, phase)"
  then obtain phase where "h' = ?at phase" "has_state p (side, phase)" by blast
  then show "reachable p h h'"
    using status login config play start [of p h] h by (cases phase) auto
qed

text \<open>Play is entered from Config where the version has it, from Login otherwise; nothing leaves it.\<close>

lemma enter_play:
  "step p h h' \<Longrightarrow> snd (handler_state h') = PlayPhase \<Longrightarrow>
     snd (handler_state h) = (if config_tables p = None then LoginPhase else ConfigPhase)"
  using step_cases_phase [of p h h'] by (auto split: if_splits)

lemma terminal_phases:
  "snd (handler_state h) \<in> {StatusPhase, PlayPhase} \<Longrightarrow> \<not> step p h h'"
  using step_cases_phase [of p h h'] by (auto split: if_splits)

end
