(* ===== verification/Std_IO.thy ===== *)
theory Std_IO
  imports Traits
begin

text \<open>
  \<open>src/with_std.rs\<close>: every \<open>std::io::Read\<close> that can be switched to non-blocking is a \<open>Reader\<close>, every
  \<open>std::io::Write\<close> a \<open>Writer\<close>.  The loops of the standard library the crate goes through
  (\<open>read_exact\<close>, \<open>write_all\<close>, \<open>copy\<close>) may run for ever on a stream that keeps interrupting them:
  they are partial functions, and \<open>Diverge\<close> is the outcome where they do not return.
\<close>

section \<open>The interface of std::io\<close>

datatype io_error = WouldBlock | Interrupted | UnexpectedEof | WriteZero | OtherError string

text \<open>\<open>read n\<close> is a call of \<open>read\<close> with a buffer of \<open>n\<close> bytes: the bytes it returns are those stored.\<close>

record 'r std_read =
  read_some :: "nat \<Rightarrow> ('r, byte list, io_error) io"
  set_blocking :: "bool \<Rightarrow> ('r, unit, io_error) io"

record 'r std_buf_read = "'r std_read" +
  fill_buf :: "('r, byte list, io_error) io"
  consume :: "nat \<Rightarrow> 'r \<Rightarrow> 'r"

record 'w std_write =
  write_some :: "byte list \<Rightarrow> ('w, nat, io_error) io"
  flush_std :: "('w, unit, io_error) io"

text \<open>A loop that returns nothing diverges.\<close>

definition io_total :: "('s \<Rightarrow> (('a, 'e) outcome \<times> 's) option) \<Rightarrow> ('s, 'a, 'e) io" where
  "io_total m = (\<lambda>s. case m s of None \<Rightarrow> (Diverge, s) | Some res \<Rightarrow> res)"

section \<open>The loops of std::io\<close>

partial_function (option) read_exact_loop ::
  "('r, 'x) std_read_scheme \<Rightarrow> nat \<Rightarrow> byte list \<Rightarrow> 'r \<Rightarrow> ((byte list, io_error) outcome \<times> 'r) option" where
  "read_exact_loop R n buf r =
     (if n = 0 then Some (Ok buf, r)
      else case read_some R n r of
        (Ok bs, r') \<Rightarrow>
          if bs = [] then Some (Err UnexpectedEof, r')
          else read_exact_loop R (n - length bs) (buf @ bs) r'
      | (Err e, r') \<Rightarrow>
          if e = Interrupted then read_exact_loop R n buf r' else Some (Err e, r')
      | (Panic, r') \<Rightarrow> Some (Panic, r')
      | (Diverge, r') \<Rightarrow> Some (Diverge, r'))"

definition std_read_exact :: "('r, 'x) std_read_scheme \<Rightarrow> nat \<Rightarrow> ('r, byte list, io_error) io" where
  "std_read_exact R n = io_total (read_exact_loop R n [])"

text \<open>\<open>io::copy\<close> into \<open>io::sink()\<close> reads through a buffer of 8 KiB until the end, and counts.\<close>

definition copy_buffer :: nat where "copy_buffer = 8192"

partial_function (option) copy_loop ::
  "('r, 'x) std_read_scheme \<Rightarrow> nat \<Rightarrow> 'r \<Rightarrow> ((nat, io_error) outcome \<times> 'r) option" where
  "copy_loop R count r =
     (case read_some R copy_buffer r of
        (Ok bs, r') \<Rightarrow>
          if bs = [] then Some (Ok count, r') else copy_loop R (count + length bs) r'
      | (Err e, r') \<Rightarrow>
          if e = Interrupted then copy_loop R count r' else Some (Err e, r')
      | (Panic, r') \<Rightarrow> Some (Panic, r')
      | (Diverge, r') \<Rightarrow> Some (Diverge, r'))"

definition copy_to_sink :: "('r, 'x) std_read_scheme \<Rightarrow> ('r, nat, io_error) io" where
  "copy_to_sink R = io_total (copy_loop R 0)"

partial_function (option) write_all_loop ::
  "('w, 'x) std_write_scheme \<Rightarrow> byte list \<Rightarrow> 'w \<Rightarrow> ((unit, io_error) outcome \<times> 'w) option" where
  "write_all_loop W buf w =
     (if buf = [] then Some (Ok (), w)
      else case write_some W buf w of
        (Ok k, w') \<Rightarrow>
          if k = 0 then Some (Err WriteZero, w') else write_all_loop W (drop k buf) w'
      | (Err e, w') \<Rightarrow>
          if e = Interrupted then write_all_loop W buf w' else Some (Err e, w')
      | (Panic, w') \<Rightarrow> Some (Panic, w')
      | (Diverge, w') \<Rightarrow> Some (Diverge, w'))"

definition write_all :: "('w, 'x) std_write_scheme \<Rightarrow> byte list \<Rightarrow> ('w, unit, io_error) io" where
  "write_all W buf = io_total (write_all_loop W buf)"

section \<open>Take\<close>

record 'r taken =
  inner :: 'r
  limit :: nat

text \<open>Running a computation on a part of the state: a borrow, until it ends.\<close>

definition io_within :: "('s \<Rightarrow> 't) \<Rightarrow> ('s \<Rightarrow> 't \<Rightarrow> 's) \<Rightarrow> ('t, 'a, 'e) io \<Rightarrow> ('s, 'a, 'e) io" where
  "io_within get put m = (\<lambda>s. case m (get s) of (res, t) \<Rightarrow> (res, put s t))"

definition on_inner :: "('r, 'a, 'e) io \<Rightarrow> ('r taken, 'a, 'e) io" where
  "on_inner = io_within inner (\<lambda>t r. t\<lparr>inner := r\<rparr>)"

definition take_read :: "('r, 'x) std_read_scheme \<Rightarrow> nat \<Rightarrow> ('r taken, byte list, io_error) io" where
  "take_read R n = (\<lambda>t.
     if limit t = 0 then (Ok [], t)
     else io_bind (on_inner (read_some R (min n (limit t))))
       (\<lambda>bs t. (Ok bs, t\<lparr>limit := limit t - length bs\<rparr>)) t)"

definition std_take :: "('r, 'x) std_read_scheme \<Rightarrow> 'r taken std_read" where
  "std_take R = \<lparr>read_some = take_read R, set_blocking = (\<lambda>blocking. on_inner (set_blocking R blocking))\<rparr>"

definition take_fill_buf :: "('r, 'x) std_buf_read_scheme \<Rightarrow> ('r taken, byte list, io_error) io" where
  "take_fill_buf R = (\<lambda>t.
     if limit t = 0 then (Ok [], t)
     else io_bind (on_inner (fill_buf R)) (\<lambda>buf. io_ret (take (limit t) buf)) t)"

definition take_consume :: "('r, 'x) std_buf_read_scheme \<Rightarrow> nat \<Rightarrow> 'r taken \<Rightarrow> 'r taken" where
  "take_consume R amt t =
     (let amt = min amt (limit t)
      in t\<lparr>limit := limit t - amt, inner := consume R amt (inner t)\<rparr>)"

definition std_buf_take :: "('r, 'x) std_buf_read_scheme \<Rightarrow> 'r taken std_buf_read" where
  "std_buf_take R = std_read.extend (std_take R)
     \<lparr>fill_buf = take_fill_buf R, consume = take_consume R\<rparr>"

section \<open>Reader and Writer\<close>

definition std_try_read_byte :: "('r, 'x) std_read_scheme \<Rightarrow> ('r, byte option, io_error) io" where
  "std_try_read_byte R =
     io_bind (set_blocking R False) (\<lambda>_ r.
       (case std_read_exact R 1 r of
          (Ok buf, r') \<Rightarrow> io_bind (set_blocking R True) (\<lambda>_. io_ret (Some (buf ! 0))) r'
        | (Err e, r') \<Rightarrow>
            io_bind (set_blocking R True)
              (\<lambda>_. if e = WouldBlock then io_ret None else io_err e) r'
        | (Panic, r') \<Rightarrow> (Panic, r')
        | (Diverge, r') \<Rightarrow> (Diverge, r')))"

definition std_discard :: "('r, 'x) std_read_scheme \<Rightarrow> nat \<Rightarrow> ('r, unit, io_error) io" where
  "std_discard R amount =
     (if amount \<noteq> 0
      then io_bind
        (io_within (\<lambda>r. \<lparr>inner = r, limit = amount\<rparr>) (\<lambda>_ t. inner t) (copy_to_sink (std_take R)))
        (\<lambda>amount_discarded. if amount_discarded \<noteq> amount then io_err UnexpectedEof else io_ret ())
      else io_ret ())"

definition std_reader :: "('r, 'x) std_read_scheme \<Rightarrow> ('r, io_error) reader" where
  "std_reader R =
     \<lparr>read_exact = std_read_exact R, try_read_byte = std_try_read_byte R, discard = std_discard R\<rparr>"

text \<open>\<open>BoundedReader\<close> for \<open>Take\<close> (\<open>src/defaults/sync.rs\<close>).\<close>

definition std_bounded_reader :: "('r, 'x) std_read_scheme \<Rightarrow> ('r taken, io_error) bounded_reader" where
  "std_bounded_reader R = reader.extend (std_reader (std_take R)) \<lparr>remaining = limit\<rparr>"

definition std_writer :: "('w, 'x) std_write_scheme \<Rightarrow> ('w, io_error) writer" where
  "std_writer W = \<lparr>write_data = write_all W, flush = flush_std W\<rparr>"

section \<open>The contract of Read\<close>

text \<open>
  \<open>V r bs\<close>: the bytes \<open>bs\<close> will come from \<open>r\<close> before its end.  A call returns some of the next
  bytes, at least one if the buffer and the stream allow it, or is interrupted; \<open>patience r\<close> bounds
  how often it is interrupted before it returns.
\<close>

definition read_answers ::
  "('r \<Rightarrow> byte list \<Rightarrow> bool) \<Rightarrow> ('r \<Rightarrow> nat) \<Rightarrow> nat \<Rightarrow> byte list \<Rightarrow> 'r \<Rightarrow>
   (byte list, io_error) outcome \<times> 'r \<Rightarrow> bool" where
  "read_answers V patience n bs r res \<longleftrightarrow>
     (\<exists>k r'. res = (Ok (take k bs), r') \<and> V r' (drop k bs) \<and> k \<le> n \<and> k \<le> length bs \<and>
        (0 < n \<and> bs \<noteq> [] \<longrightarrow> 0 < k)) \<or>
     (\<exists>r'. res = (Err Interrupted, r') \<and> V r' bs \<and> patience r' < patience r)"

lemma read_answers_cases:
  assumes "read_answers V patience n bs r res"
  obtains (some) k r' where "res = (Ok (take k bs), r')" "V r' (drop k bs)" "k \<le> n" "k \<le> length bs"
      "0 < n \<Longrightarrow> bs \<noteq> [] \<Longrightarrow> 0 < k"
  | (interrupted) r' where "res = (Err Interrupted, r')" "V r' bs" "patience r' < patience r"
  using assms unfolding read_answers_def by blast

locale lawful_read =
  fixes R :: "('r, 'x) std_read_scheme"
    and V :: "'r \<Rightarrow> byte list \<Rightarrow> bool"
    and patience :: "'r \<Rightarrow> nat"
  assumes read_some: "V r bs \<Longrightarrow> read_answers V patience n bs r (read_some R n r)"
begin

text \<open>\<open>read_exact\<close> returns: with the bytes, or at the end of the stream.\<close>

lemma read_exact_loop:
  "V r bs \<Longrightarrow> \<exists>r'. if n \<le> length bs
     then read_exact_loop R n buf r = Some (Ok (buf @ take n bs), r') \<and> V r' (drop n bs)
     else read_exact_loop R n buf r = Some (Err UnexpectedEof, r') \<and> V r' []"
proof (induction "(n, patience r)" arbitrary: n r bs buf rule: wf_induct [OF wf_lex_prod [OF wf_less_than wf_less_than]])
  case 1
  note IH = "1.hyps" [rule_format, OF _ refl]
  show ?case
  proof (cases "n = 0")
    case True
    then show ?thesis
      using "1.prems" by (auto simp: read_exact_loop.simps)
  next
    case False
    from read_some [OF "1.prems", of n] show ?thesis
    proof (cases rule: read_answers_cases)
      case (some k r')
      show ?thesis
      proof (cases "bs = []")
        case True
        then show ?thesis
          using some False by (simp add: read_exact_loop.simps [of R n])
      next
        case nonempty: False
        with some False have k: "0 < k" by simp
        with some have run: "read_exact_loop R n buf r = read_exact_loop R (n - k) (buf @ take k bs) r'"
          using nonempty False by (subst read_exact_loop.simps) simp
        have "((n - k, patience r'), (n, patience r)) \<in> less_than <*lex*> less_than"
          using k False by simp
        from IH [OF this some(2), of "buf @ take k bs"] obtain r'' where r'':
          "if n - k \<le> length (drop k bs)
           then read_exact_loop R (n - k) (buf @ take k bs) r' = Some (Ok ((buf @ take k bs) @ take (n - k) (drop k bs)), r'')
             \<and> V r'' (drop (n - k) (drop k bs))
           else read_exact_loop R (n - k) (buf @ take k bs) r' = Some (Err UnexpectedEof, r'') \<and> V r'' []" ..
        have "take k bs @ take (n - k) (drop k bs) = take n bs" "drop (n - k) (drop k bs) = drop n bs"
          using some(3) by (simp_all flip: take_add)
        with r'' some(3,4) show ?thesis
          unfolding run by (intro exI [of _ r'']) (auto split: if_splits)
      qed
    next
      case (interrupted r')
      then have "read_exact_loop R n buf r = read_exact_loop R n buf r'"
        using False by (subst read_exact_loop.simps) simp
      moreover have less: "((n, patience r'), (n, patience r)) \<in> less_than <*lex*> less_than"
        using interrupted by simp
      ultimately show ?thesis
        using IH [OF less interrupted(2), of buf] by (simp only:)
    qed
  qed
qed

lemma std_read_exact:
  "V r bs \<Longrightarrow> \<exists>r'. if n \<le> length bs
     then std_read_exact R n r = (Ok (take n bs), r') \<and> V r' (drop n bs)
     else std_read_exact R n r = (Err UnexpectedEof, r') \<and> V r' []"
  using read_exact_loop [of r bs n "[]"] by (auto simp: std_read_exact_def io_total_def)

lemma copy_loop:
  "V r bs \<Longrightarrow> \<exists>r'. copy_loop R count r = Some (Ok (count + length bs), r') \<and> V r' []"
proof (induction "(length bs, patience r)" arbitrary: r bs count
    rule: wf_induct [OF wf_lex_prod [OF wf_less_than wf_less_than]])
  case 1
  note IH = "1.hyps" [rule_format, OF _ refl]
  from read_some [OF "1.prems", of copy_buffer] show ?case
  proof (cases rule: read_answers_cases)
    case (some k r')
    show ?thesis
    proof (cases "bs = []")
      case True
      then show ?thesis
        using some by (simp add: copy_loop.simps [of R])
    next
      case False
      with some have k: "0 < k" by (simp add: copy_buffer_def)
      with some have run: "copy_loop R count r = copy_loop R (count + k) r'"
        using False by (subst copy_loop.simps) simp
      have "((length (drop k bs), patience r'), (length bs, patience r)) \<in> less_than <*lex*> less_than"
        using k False by simp
      from IH [OF this some(2), of "count + k"] show ?thesis
        using some(4) by (simp add: run)
    qed
  next
    case (interrupted r')
    then have "copy_loop R count r = copy_loop R count r'"
      by (subst copy_loop.simps) simp
    moreover have "((length bs, patience r'), (length bs, patience r)) \<in> less_than <*lex*> less_than"
      using interrupted by simp
    ultimately show ?thesis
      using IH [OF _ interrupted(2)] by simp
  qed
qed

end

text \<open>\<open>Take\<close> of a reader: \<open>bs\<close> is what it lets through, \<open>tail\<close> what stays behind it.\<close>

definition taken_view ::
  "('r \<Rightarrow> byte list \<Rightarrow> bool) \<Rightarrow> byte list \<Rightarrow> nat \<Rightarrow> 'r taken \<Rightarrow> byte list \<Rightarrow> bool" where
  "taken_view V tail slack t bs \<longleftrightarrow>
     V (inner t) (bs @ tail) \<and> limit t = length bs + slack \<and> (slack = 0 \<or> tail = [])"

definition bounded_view :: "('r \<Rightarrow> byte list \<Rightarrow> bool) \<Rightarrow> 'r taken \<Rightarrow> nat \<Rightarrow> byte list \<Rightarrow> bool" where
  "bounded_view V t lim bs \<longleftrightarrow> V (inner t) bs \<and> limit t = lim"

lemma take_read_within:
  assumes "limit t \<noteq> 0"
  shows "take_read R n t = (case read_some R (min n (limit t)) (inner t) of
      (Ok bs, r) \<Rightarrow> (Ok bs, t\<lparr>inner := r, limit := limit t - length bs\<rparr>)
    | (Err e, r) \<Rightarrow> (Err e, t\<lparr>inner := r\<rparr>)
    | (Panic, r) \<Rightarrow> (Panic, t\<lparr>inner := r\<rparr>)
    | (Diverge, r) \<Rightarrow> (Diverge, t\<lparr>inner := r\<rparr>))"
  using assms
  by (simp add: take_read_def on_inner_def io_within_def io_bind_def split: prod.splits outcome.splits)

lemma lawful_take:
  assumes "lawful_read R V patience"
  shows "lawful_read (std_take R) (taken_view V tail slack) (\<lambda>t. patience (inner t))"
proof (rule lawful_read.intro)
  fix t bs n
  assume t: "taken_view V tail slack t bs"
  show "read_answers (taken_view V tail slack) (\<lambda>t. patience (inner t)) n bs t (read_some (std_take R) n t)"
  proof (cases "limit t = 0")
    case True
    with t show ?thesis
      by (auto simp: read_answers_def taken_view_def std_take_def take_read_def)
  next
    case False
    have "V (inner t) (bs @ tail)" using t by (simp add: taken_view_def)
    from lawful_read.read_some [OF assms this, of "min n (limit t)"] show ?thesis
    proof (cases rule: read_answers_cases)
      case (some k r')
      have k: "k \<le> length bs"
        using some(3,4) t by (auto simp: taken_view_def)
      with some(1) False
      have "read_some (std_take R) n t = (Ok (take k bs), t\<lparr>inner := r', limit := limit t - k\<rparr>)"
        by (simp add: std_take_def take_read_within)
      moreover have "taken_view V tail slack (t\<lparr>inner := r', limit := limit t - k\<rparr>) (drop k bs)"
        using t some(2) k by (auto simp: taken_view_def)
      ultimately show ?thesis
        using some(3,5) k False unfolding read_answers_def by auto
    next
      case (interrupted r')
      with False have "read_some (std_take R) n t = (Err Interrupted, t\<lparr>inner := r'\<rparr>)"
        by (simp add: std_take_def take_read_within)
      with interrupted t show ?thesis
        unfolding read_answers_def by (auto simp: taken_view_def)
    qed
  qed
qed

lemma bounded_taken_view:
  "bounded_view V t lim bs \<Longrightarrow> taken_view V (drop lim bs) (lim - length bs) t (take lim bs)"
  by (auto simp: bounded_view_def taken_view_def)

lemma taken_bounded_view:
  assumes t: "taken_view V (drop lim bs) (lim - length bs) t (drop k (take lim bs))"
    and "k \<le> lim" and "k \<le> length bs"
  shows "bounded_view V t (lim - k) (drop k bs)"
proof -
  have "drop k (take lim bs) @ drop lim bs = drop k (take lim bs @ drop lim bs)"
    using assms(2,3) by (simp only: drop_append) simp
  then have "drop k (take lim bs) @ drop lim bs = drop k bs" by simp
  with assms show ?thesis by (auto simp: bounded_view_def taken_view_def)
qed

section \<open>A lawful Read is a lawful Reader\<close>

context lawful_read
begin

lemma copy_to_sink: "V r bs \<Longrightarrow> \<exists>r'. copy_to_sink R r = (Ok (length bs), r') \<and> V r' []"
  using copy_loop [of r bs 0] by (auto simp: copy_to_sink_def io_total_def)

lemma std_discard:
  assumes r: "V r bs"
  shows "\<exists>r'. if n \<le> length bs then std_discard R n r = (Ok (), r') \<and> V r' (drop n bs)
     else std_discard R n r = (Err UnexpectedEof, r') \<and> V r' []"
proof (cases "n = 0")
  case True
  then show ?thesis using r by (simp add: std_discard_def io_ret_def)
next
  case False
  let ?t = "\<lparr>inner = r, limit = n\<rparr>"
  have "taken_view V (drop n bs) (n - length bs) ?t (take n bs)"
    using r by (intro bounded_taken_view) (simp add: bounded_view_def)
  from lawful_read.copy_to_sink [OF lawful_take [OF lawful_read_axioms] this]
  obtain t' where t': "copy_to_sink (std_take R) ?t = (Ok (length (take n bs)), t')"
      "taken_view V (drop n bs) (n - length bs) t' []"
    by blast
  with False show ?thesis
    by (intro exI [of _ "inner t'"])
       (auto simp: std_discard_def io_bind_def io_within_def io_ret_def io_err_def taken_view_def)
qed

end

sublocale lawful_read \<subseteq> reader: lawful_reader "std_reader R" V
proof unfold_locales
  fix r bs n
  assume r: "V r bs"
  show "gives (read_exact (std_reader R) n) r (take n bs) (\<lambda>r'. V r' (drop n bs))" if "n \<le> length bs"
    using std_read_exact [OF r, of n] that by (auto simp: std_reader_def gives_def)
  show "fails (read_exact (std_reader R) n) r (\<lambda>_. True) (\<lambda>_. True)" if "length bs < n"
    using std_read_exact [OF r, of n] that by (auto simp: std_reader_def fails_def)
  show "gives (discard (std_reader R) n) r () (\<lambda>r'. V r' (drop n bs))" if "n \<le> length bs"
    using std_discard [OF r, of n] that by (auto simp: std_reader_def gives_def)
  show "fails (discard (std_reader R) n) r (\<lambda>_. True) (\<lambda>_. True)" if "length bs < n"
    using std_discard [OF r, of n] that by (auto simp: std_reader_def fails_def)
qed

text \<open>
  \<open>Take\<close> is a bounded reader, bare or inside a reader \<open>T\<close> that only passes calls on to it (\<open>proj\<close>
  gives the \<open>Take\<close>): within the limit it reads the stream, and a read that fails has consumed what
  the limit and the stream had.
\<close>

definition bounded_outcome ::
  "('s \<Rightarrow> nat \<Rightarrow> byte list \<Rightarrow> bool) \<Rightarrow> nat \<Rightarrow> byte list \<Rightarrow> nat \<Rightarrow> 'a \<Rightarrow> ('a, io_error) outcome \<times> 's \<Rightarrow> bool" where
  "bounded_outcome B lim bs n a res \<longleftrightarrow>
     (\<exists>k b'. k \<le> lim \<and> k \<le> length bs \<and> B b' (lim - k) (drop k bs) \<and>
        (if n \<le> lim \<and> n \<le> length bs then k = n \<and> res = (Ok a, b') else res = (Err UnexpectedEof, b')))"

lemma taken_outcome:
  assumes "\<exists>b'. if n \<le> length (take lim bs)
      then res = (Ok a, b') \<and> taken_view V (drop lim bs) (lim - length bs) (proj b') (drop n (take lim bs))
      else res = (Err UnexpectedEof, b') \<and> taken_view V (drop lim bs) (lim - length bs) (proj b') []"
  shows "bounded_outcome (\<lambda>b. bounded_view V (proj b)) lim bs n a res"
proof -
  let ?k = "if n \<le> lim \<and> n \<le> length bs then n else min lim (length bs)"
  from assms obtain b' where b': "if n \<le> length (take lim bs)
      then res = (Ok a, b') \<and> taken_view V (drop lim bs) (lim - length bs) (proj b') (drop n (take lim bs))
      else res = (Err UnexpectedEof, b') \<and> taken_view V (drop lim bs) (lim - length bs) (proj b') []" ..
  then have "taken_view V (drop lim bs) (lim - length bs) (proj b') (drop ?k (take lim bs))"
    by (auto split: if_splits)
  then have "bounded_view V (proj b') (lim - ?k) (drop ?k bs)"
    by (rule taken_bounded_view) auto
  with b' show ?thesis
    unfolding bounded_outcome_def
    by (intro exI [of _ ?k] exI [of _ b']) (auto split: if_splits)
qed

lemma lawful_bounded_projected:
  assumes T: "\<And>tail slack. lawful_read T (\<lambda>b. taken_view V tail slack (proj b)) patience"
  shows "lawful_bounded (reader.extend (std_reader T) \<lparr>remaining = \<lambda>b. limit (proj b)\<rparr>) (\<lambda>b. bounded_view V (proj b))"
proof unfold_locales
  fix b lim bs n
  let ?R = "reader.extend (std_reader T) \<lparr>remaining = \<lambda>b. limit (proj b)\<rparr>"
  assume b: "bounded_view V (proj b) lim bs"
  note view = bounded_taken_view [OF b]
  have "take n (take lim bs) = take n bs" if "n \<le> lim" using that by (simp add: min_absorb1)
  then have exact: "bounded_outcome (\<lambda>b. bounded_view V (proj b)) lim bs n (take n bs) (read_exact ?R n b)"
    using lawful_read.std_read_exact [OF T view, of n]
    by (intro taken_outcome) (auto simp: reader.defs std_reader_def)
  have discards: "bounded_outcome (\<lambda>b. bounded_view V (proj b)) lim bs n () (discard ?R n b)"
    using lawful_read.std_discard [OF T view, of n]
    by (intro taken_outcome) (auto simp: reader.defs std_reader_def)
  show "remaining ?R b = lim"
    using b by (simp add: reader.defs bounded_view_def)
  show "gives (read_exact ?R n) b (take n bs) (\<lambda>b'. bounded_view V (proj b') (lim - n) (drop n bs))"
    if "n \<le> lim" "n \<le> length bs"
    using exact that by (auto simp: bounded_outcome_def gives_def)
  show "gives (discard ?R n) b () (\<lambda>b'. bounded_view V (proj b') (lim - n) (drop n bs))"
    if "n \<le> lim" "n \<le> length bs"
    using discards that by (auto simp: bounded_outcome_def gives_def)
  show "fails (read_exact ?R n) b (\<lambda>_. True)
      (\<lambda>b'. \<exists>k. k \<le> lim \<and> k \<le> length bs \<and> bounded_view V (proj b') (lim - k) (drop k bs))"
    if "lim < n \<or> length bs < n"
    using exact that by (auto simp: bounded_outcome_def fails_def)
  show "fails (discard ?R n) b (\<lambda>_. True)
      (\<lambda>b'. \<exists>k. k \<le> lim \<and> k \<le> length bs \<and> bounded_view V (proj b') (lim - k) (drop k bs))"
    if "lim < n \<or> length bs < n"
    using discards that by (auto simp: bounded_outcome_def fails_def)
qed

sublocale lawful_read \<subseteq> bounded: lawful_bounded "std_bounded_reader R" "bounded_view V"
  unfolding std_bounded_reader_def
  using lawful_bounded_projected [where proj = "\<lambda>t. t", OF lawful_take [OF lawful_read_axioms]] by simp

context lawful_read
begin

lemma reader_lawful: "lawful_reader (std_reader R) V"
  by (rule reader.lawful_reader_axioms)

lemma bounded_lawful: "lawful_bounded (std_bounded_reader R) (bounded_view V)"
  by (rule bounded.lawful_bounded_axioms)

end

section \<open>Reading without blocking\<close>

text \<open>
  \<open>U r bs\<close> is the view of a reader that is switched to non-blocking: it answers a read of one byte
  at once, with what is ready or with \<open>WouldBlock\<close>.
\<close>

locale lawful_pollable = lawful_read R V patience
  for R :: "('r, 'x) std_read_scheme" and V :: "'r \<Rightarrow> byte list \<Rightarrow> bool" and patience :: "'r \<Rightarrow> nat" +
  fixes U :: "'r \<Rightarrow> byte list \<Rightarrow> bool" and ready :: "'r \<Rightarrow> bool"
  assumes unblock: "V r bs \<Longrightarrow> gives (set_blocking R False) r () (\<lambda>r'. U r' bs \<and> ready r' = ready r)"
    and block: "U r bs \<Longrightarrow> gives (set_blocking R True) r () (\<lambda>r'. V r' bs)"
    and poll_ready: "U r bs \<Longrightarrow> ready r \<Longrightarrow> gives (read_some R 1) r (take 1 bs) (\<lambda>r'. U r' (drop 1 bs))"
    and poll_blocked: "U r bs \<Longrightarrow> \<not> ready r \<Longrightarrow> fails (read_some R 1) r (\<lambda>e. e = WouldBlock) (\<lambda>r'. U r' bs)"

lemma read_exact_one:
  assumes "read_some R 1 r = (res, r')"
  shows "std_read_exact R 1 r = (case res of
      Ok bs \<Rightarrow> if bs = [] then (Err UnexpectedEof, r')
        else if length bs = 1 then (Ok bs, r') else std_read_exact R 1 r
    | Err e \<Rightarrow> if e = Interrupted then std_read_exact R 1 r else (Err e, r')
    | Panic \<Rightarrow> (Panic, r') | Diverge \<Rightarrow> (Diverge, r'))"
  using assms read_exact_loop.simps [of R 1 "[]" r]
  by (auto simp: std_read_exact_def io_total_def read_exact_loop.simps [of R 0] split: outcome.splits)

sublocale lawful_pollable \<subseteq> trying: lawful_trying "std_reader R" V ready
proof unfold_locales
  fix r bs b
  show "gives (try_read_byte (std_reader R)) r (Some b) (\<lambda>r'. V r' bs)" if r: "V r (b # bs)" and ready: "ready r"
  proof -
    obtain r1 where r1: "set_blocking R False r = (Ok (), r1)" "U r1 (b # bs)" "ready r1"
      using unblock [OF r] ready by (auto simp: gives_def)
    obtain r2 where r2: "read_some R 1 r1 = (Ok [b], r2)" "U r2 bs"
      using poll_ready [OF r1(2,3)] by (auto simp: gives_def)
    obtain r3 where r3: "set_blocking R True r2 = (Ok (), r3)" "V r3 bs"
      using block [OF r2(2)] by (auto simp: gives_def)
    show ?thesis
      using r3 by (simp add: gives_def std_reader_def std_try_read_byte_def io_bind_def io_ret_def r1(1)
          read_exact_one [OF r2(1), simplified])
  qed
  show "gives (try_read_byte (std_reader R)) r None (\<lambda>r'. V r' bs)" if r: "V r bs" and ready: "\<not> ready r"
  proof -
    obtain r1 where r1: "set_blocking R False r = (Ok (), r1)" "U r1 bs" "\<not> ready r1"
      using unblock [OF r] ready by (auto simp: gives_def)
    obtain r2 where r2: "read_some R 1 r1 = (Err WouldBlock, r2)" "U r2 bs"
      using poll_blocked [OF r1(2,3)] by (auto simp: fails_def)
    obtain r3 where r3: "set_blocking R True r2 = (Ok (), r3)" "V r3 bs"
      using block [OF r2(2)] by (auto simp: gives_def)
    show ?thesis
      using r3 by (simp add: gives_def std_reader_def std_try_read_byte_def io_bind_def io_ret_def r1(1)
          read_exact_one [OF r2(1), simplified])
  qed
  show "fails (try_read_byte (std_reader R)) r (\<lambda>_. True) (\<lambda>_. True)" if r: "V r []" and ready: "ready r"
  proof -
    obtain r1 where r1: "set_blocking R False r = (Ok (), r1)" "U r1 []" "ready r1"
      using unblock [OF r] ready by (auto simp: gives_def)
    obtain r2 where r2: "read_some R 1 r1 = (Ok [], r2)" "U r2 []"
      using poll_ready [OF r1(2,3)] by (auto simp: gives_def)
    obtain r3 where r3: "set_blocking R True r2 = (Ok (), r3)"
      using block [OF r2(2)] by (auto simp: gives_def)
    show ?thesis
      by (simp add: fails_def std_reader_def std_try_read_byte_def io_bind_def io_err_def r1(1) r3
          read_exact_one [OF r2(1), simplified])
  qed
qed

section \<open>Streams of std: a slice and a socket\<close>

text \<open>\<open>&[u8]\<close>, which ignores \<open>set_blocking\<close> (\<open>default_helper!\<close>).\<close>

definition slice_read :: "byte list std_read" where
  "slice_read = \<lparr>read_some = (\<lambda>n bs. (Ok (take n bs), drop n bs)), set_blocking = (\<lambda>_. io_ret ())\<rparr>"

interpretation slice: lawful_pollable slice_read "(=)" "\<lambda>_. 0" "(=)" "\<lambda>_. True"
proof unfold_locales
  fix r bs :: "byte list" and n
  assume "r = bs"
  then have "read_some slice_read n r = (Ok (take (min n (length bs)) bs), drop (min n (length bs)) bs)"
    by (simp add: slice_read_def min_def)
  then show "read_answers (=) (\<lambda>_. 0) n bs r (read_some slice_read n r)"
    by (auto simp: read_answers_def)
qed (simp_all add: slice_read_def gives_def io_ret_def)

text \<open>
  A \<open>TcpStream\<close>, as what arrives at it: bytes, a pause in which nothing is there, or a signal that
  interrupts a blocked call.  After the last arrival the peer has closed the connection.
\<close>

datatype arrival = Data "byte list" | Pause | Signal

record socket =
  arrivals :: "arrival list"
  nonblocking :: bool

fun socket_recv :: "bool \<Rightarrow> nat \<Rightarrow> arrival list \<Rightarrow> (byte list, io_error) outcome \<times> arrival list" where
  "socket_recv nb n [] = (Ok [], [])"
| "socket_recv nb n (Data bs # as) =
     (if bs = [] then socket_recv nb n as
      else if length bs \<le> n then (Ok bs, as) else (Ok (take n bs), Data (drop n bs) # as))"
| "socket_recv nb n (Pause # as) = (if nb then (Err WouldBlock, Pause # as) else socket_recv nb n as)"
| "socket_recv nb n (Signal # as) = (if nb then socket_recv nb n as else (Err Interrupted, as))"

definition socket_read :: "socket std_read" where
  "socket_read =
     \<lparr>read_some = (\<lambda>n s. case socket_recv (nonblocking s) n (arrivals s) of (res, as) \<Rightarrow> (res, s\<lparr>arrivals := as\<rparr>)),
      set_blocking = (\<lambda>blocking s. (Ok (), s\<lparr>nonblocking := \<not> blocking\<rparr>))\<rparr>"

fun arrival_bytes :: "arrival list \<Rightarrow> byte list" where
  "arrival_bytes [] = []"
| "arrival_bytes (Data bs # as) = bs @ arrival_bytes as"
| "arrival_bytes (_ # as) = arrival_bytes as"

fun arrived :: "arrival list \<Rightarrow> bool" where
  "arrived [] = True"
| "arrived (Data bs # as) = (bs \<noteq> [] \<or> arrived as)"
| "arrived (Pause # as) = False"
| "arrived (Signal # as) = arrived as"

lemma socket_recv_blocking:
  "\<exists>k as'. (socket_recv False n as = (Ok (take k (arrival_bytes as)), as') \<and>
       arrival_bytes as' = drop k (arrival_bytes as) \<and> k \<le> n \<and> k \<le> length (arrival_bytes as) \<and>
       (0 < n \<and> arrival_bytes as \<noteq> [] \<longrightarrow> 0 < k)) \<or>
     (socket_recv False n as = (Err Interrupted, as') \<and> arrival_bytes as' = arrival_bytes as \<and>
       count_list as' Signal < count_list as Signal)"
proof (induction as)
  case Nil
  show ?case by (intro exI [of _ 0]) simp
next
  case (Cons a as)
  show ?case
  proof (cases a)
    case (Data bs)
    show ?thesis
    proof (cases "bs = []")
      case False
      with Data show ?thesis
        by (intro exI [of _ "min n (length bs)"]) (auto simp: min_def)
    qed (use Cons Data in auto)
  qed (use Cons in auto)
qed

lemma socket_recv_poll:
  "if arrived as then \<exists>as'. socket_recv True (Suc 0) as = (Ok (take 1 (arrival_bytes as)), as') \<and>
       arrival_bytes as' = drop 1 (arrival_bytes as)
   else \<exists>as'. socket_recv True (Suc 0) as = (Err WouldBlock, as') \<and> arrival_bytes as' = arrival_bytes as"
proof (induction as)
  case (Cons a as)
  then show ?case
    by (cases a) (auto simp: Suc_le_eq neq_Nil_conv split: if_splits)
qed simp

interpretation socket: lawful_pollable socket_read
  "\<lambda>s bs. arrival_bytes (arrivals s) = bs \<and> \<not> nonblocking s" "\<lambda>s. count_list (arrivals s) Signal"
  "\<lambda>s bs. arrival_bytes (arrivals s) = bs \<and> nonblocking s" "\<lambda>s. arrived (arrivals s)"
proof unfold_locales
  fix s :: socket and bs n
  assume "arrival_bytes (arrivals s) = bs \<and> \<not> nonblocking s"
  then show "read_answers (\<lambda>s bs. arrival_bytes (arrivals s) = bs \<and> \<not> nonblocking s)
      (\<lambda>s. count_list (arrivals s) Signal) n bs s (read_some socket_read n s)"
    using socket_recv_blocking [of n "arrivals s"] unfolding read_answers_def
    by (auto simp: socket_read_def)
next
  fix s :: socket and bs
  assume s: "arrival_bytes (arrivals s) = bs \<and> nonblocking s"
  show "gives (read_some socket_read 1) s (take 1 bs)
      (\<lambda>s'. arrival_bytes (arrivals s') = drop 1 bs \<and> nonblocking s')" if "arrived (arrivals s)"
    using socket_recv_poll [of "arrivals s"] that s by (auto simp: socket_read_def gives_def)
  show "fails (read_some socket_read 1) s (\<lambda>e. e = WouldBlock)
      (\<lambda>s'. arrival_bytes (arrivals s') = bs \<and> nonblocking s')" if "\<not> arrived (arrivals s)"
    using socket_recv_poll [of "arrivals s"] that s by (auto simp: socket_read_def fails_def)
qed (auto simp: socket_read_def gives_def)

section \<open>The contract of Write\<close>

text \<open>\<open>V w bs\<close>: the writer has accepted the bytes \<open>bs\<close>.  A call accepts some of them, or is interrupted.\<close>

definition write_answers ::
  "('w \<Rightarrow> byte list \<Rightarrow> bool) \<Rightarrow> ('w \<Rightarrow> nat) \<Rightarrow> byte list \<Rightarrow> byte list \<Rightarrow> 'w \<Rightarrow>
   (nat, io_error) outcome \<times> 'w \<Rightarrow> bool" where
  "write_answers V patience sent buf w res \<longleftrightarrow>
     (\<exists>k w'. res = (Ok k, w') \<and> V w' (sent @ take k buf) \<and> 0 < k \<and> k \<le> length buf) \<or>
     (\<exists>w'. res = (Err Interrupted, w') \<and> V w' sent \<and> patience w' < patience w)"

locale lawful_write =
  fixes W :: "('w, 'x) std_write_scheme"
    and V :: "'w \<Rightarrow> byte list \<Rightarrow> bool"
    and patience :: "'w \<Rightarrow> nat"
  assumes write_some: "V w sent \<Longrightarrow> buf \<noteq> [] \<Longrightarrow> write_answers V patience sent buf w (write_some W buf w)"
    and flush_some: "V w sent \<Longrightarrow> gives (flush_std W) w () (\<lambda>w'. V w' sent)"
begin

lemma write_all_loop:
  "V w sent \<Longrightarrow> \<exists>w'. write_all_loop W buf w = Some (Ok (), w') \<and> V w' (sent @ buf)"
proof (induction "(length buf, patience w)" arbitrary: buf w sent
    rule: wf_induct [OF wf_lex_prod [OF wf_less_than wf_less_than]])
  case 1
  note IH = "1.hyps" [rule_format, OF _ refl]
  show ?case
  proof (cases "buf = []")
    case True
    then show ?thesis using "1.prems" by (auto simp: write_all_loop.simps)
  next
    case False
    from write_some [OF "1.prems" False] consider
      (some) k w' where "write_some W buf w = (Ok k, w')" "V w' (sent @ take k buf)" "0 < k" "k \<le> length buf"
    | (interrupted) w' where "write_some W buf w = (Err Interrupted, w')" "V w' sent" "patience w' < patience w"
      unfolding write_answers_def by blast
    then show ?thesis
    proof cases
      case (some k w')
      then have run: "write_all_loop W buf w = write_all_loop W (drop k buf) w'"
        using False by (subst write_all_loop.simps) simp
      have "length buf - k < length buf" using some(3,4) by linarith
      then have less: "((length (drop k buf), patience w'), (length buf, patience w)) \<in> less_than <*lex*> less_than"
        by simp
      show ?thesis
        using IH [OF less some(2)] by (simp add: run)
    next
      case (interrupted w')
      then have run: "write_all_loop W buf w = write_all_loop W buf w'"
        using False by (subst write_all_loop.simps) simp
      have less: "((length buf, patience w'), (length buf, patience w)) \<in> less_than <*lex*> less_than"
        using interrupted by simp
      show ?thesis
        using IH [OF less interrupted(2)] by (simp only: run)
    qed
  qed
qed

lemma write_all_ok: "V w sent \<Longrightarrow> gives (write_all W buf) w () (\<lambda>w'. V w' (sent @ buf))"
  using write_all_loop [of w sent buf] by (auto simp: write_all_def io_total_def gives_def)

end

sublocale lawful_write \<subseteq> writer: lawful_writer "std_writer W" V
  by unfold_locales (simp_all add: std_writer_def write_all_ok flush_some)

context lawful_write
begin

lemma writer_lawful: "lawful_writer (std_writer W) V"
  by (rule writer.lawful_writer_axioms)

end

text \<open>\<open>Vec<u8>\<close> as a writer, and a socket that takes at most \<open>room\<close> bytes in a call.\<close>

definition vec_write :: "byte list std_write" where
  "vec_write = \<lparr>write_some = (\<lambda>buf w. (Ok (length buf), w @ buf)), flush_std = io_ret ()\<rparr>"

interpretation vec: lawful_write vec_write "(=)" "\<lambda>_. 0"
proof unfold_locales
  fix w sent buf :: "byte list"
  assume "w = sent" and "buf \<noteq> []"
  then show "write_answers (=) (\<lambda>_. 0) sent buf w (write_some vec_write buf w)"
    unfolding write_answers_def
    by (intro disjI1 exI [of _ "length buf"] exI [of _ "sent @ buf"]) (simp add: vec_write_def)
qed (simp add: vec_write_def gives_def io_ret_def)

definition socket_write :: "nat \<Rightarrow> byte list std_write" where
  "socket_write room =
     \<lparr>write_some = (\<lambda>buf w. (Ok (min room (length buf)), w @ take room buf)), flush_std = io_ret ()\<rparr>"

lemma lawful_socket_write: "0 < room \<Longrightarrow> lawful_write (socket_write room) (=) (\<lambda>_. 0)"
proof (rule lawful_write.intro)
  fix w sent buf :: "byte list"
  assume "0 < room" and "w = sent" and "buf \<noteq> []"
  moreover have "take room buf = take (min room (length buf)) buf" by (simp add: min_def)
  ultimately show "write_answers (=) (\<lambda>_. 0) sent buf w (write_some (socket_write room) buf w)"
    unfolding write_answers_def
    by (intro disjI1 exI [of _ "min room (length buf)"] exI [of _ "sent @ take room buf"]) (simp add: socket_write_def)
qed (simp add: socket_write_def gives_def io_ret_def)

end
