(* ===== verification/Packet_Read.thy ===== *)
theory Packet_Read
  imports Varint Protocol_State Std_IO
begin

text \<open>
  \<open>ProtocolHandler::read_packet\<close> of \<open>src/protocol/mod.rs\<close> over the reader traits of \<open>src/traits.rs\<close>.
  The macro \<open>read_packet_helper!\<close> writes one body for the blocking and the asynchronous function;
  a borrow of the reader (blocking) and the conversion back into it (asynchronous) are both the
  pair of functions that enter and leave the derived reader.
\<close>

section \<open>The readers a packet is read through\<close>

text \<open>
  The type graph of \<open>ReadStreamProvider\<close>: the base reader, the bounded reader made of it by
  \<open>with_bound\<close>, the decompressing reader made of that by \<open>with_decompression\<close>, and its bounded reader.
\<close>

record ('r, 'b, 'd, 'c, 'e) read_stream =
  base :: "('r, 'e) reader"
  with_bound :: "'r \<Rightarrow> nat \<Rightarrow> 'b"
  end_bound :: "'b \<Rightarrow> 'r"
  bounded :: "('b, 'e) bounded_reader"
  with_decompression :: "'b \<Rightarrow> 'd"
  end_decompression :: "'d \<Rightarrow> 'b"
  inner_with_bound :: "'d \<Rightarrow> nat \<Rightarrow> 'c"
  inner_end_bound :: "'c \<Rightarrow> 'd"
  inner_bounded :: "('c, 'e) bounded_reader"

text \<open>
  \<open>ProtocolStateHandler::handle_packet\<close> is generic in its reader: it is given at the two bounded
  readers it is called with.
\<close>

record ('b, 'c, 'h, 'e) state_handler =
  handle_bounded :: "designator \<Rightarrow> ('b, 'h, 'e read_error) io"
  handle_inner :: "designator \<Rightarrow> ('c, 'h, 'e read_error) io"

definition within_bound ::
  "('r, 'b, 'd, 'c, 'e) read_stream \<Rightarrow> nat \<Rightarrow> ('b, 'a, 'f) io \<Rightarrow> ('r, 'a, 'f) io" where
  "within_bound S bound m = io_within (\<lambda>r. with_bound S r bound) (\<lambda>_ b. end_bound S b) m"

definition within_decompression ::
  "('r, 'b, 'd, 'c, 'e) read_stream \<Rightarrow> ('d, 'a, 'f) io \<Rightarrow> ('b, 'a, 'f) io" where
  "within_decompression S m = io_within (with_decompression S) (\<lambda>_ d. end_decompression S d) m"

definition within_inner_bound ::
  "('r, 'b, 'd, 'c, 'e) read_stream \<Rightarrow> nat \<Rightarrow> ('c, 'a, 'f) io \<Rightarrow> ('d, 'a, 'f) io" where
  "within_inner_bound S bound m = io_within (\<lambda>d. inner_with_bound S d bound) (\<lambda>_ c. inner_end_bound S c) m"

section \<open>read_packet\<close>

text \<open>\<open>discard_remaining!\<close>\<close>

definition discard_remaining :: "('b, 'e, 'x) bounded_reader_scheme \<Rightarrow> ('b, unit, 'e read_error) io" where
  "discard_remaining R = (\<lambda>b. io_map_err RStreamError (discard R (remaining R b)) b)"

text \<open>
  The handler's \<open>Result\<close> is kept while the rest of the packet is discarded; an error of the discard
  is returned in its place.
\<close>

definition then_discard ::
  "('b, 'e, 'x) bounded_reader_scheme \<Rightarrow> ('b, 'h, 'e read_error) io \<Rightarrow> ('b, 'h, 'e read_error) io" where
  "then_discard R handle = (\<lambda>b. case handle b of
     (Ok h, b') \<Rightarrow> io_bind (discard_remaining R) (\<lambda>_. io_ret h) b'
   | (Err e, b') \<Rightarrow> io_bind (discard_remaining R) (\<lambda>_. io_err e) b'
   | (Panic, b') \<Rightarrow> (Panic, b')
   | (Diverge, b') \<Rightarrow> (Diverge, b'))"

text \<open>\<open>handle_helper!\<close>\<close>

definition handle_helper ::
  "protocol \<Rightarrow> state \<Rightarrow> ('b, 'e, 'x) bounded_reader_scheme \<Rightarrow> (designator \<Rightarrow> ('b, 'h, 'e read_error) io) \<Rightarrow>
   ('b, 'h, 'e read_error) io" where
  "handle_helper p s R handle =
     io_bind (read_varint R) (\<lambda>v.
       let packet_id = varint_into v
       in case designator_from_id p s packet_id of
            Some designator \<Rightarrow> then_discard R (handle designator)
          | None \<Rightarrow> io_err (RUnknownPacket (state_name s) packet_id))"

definition read_compressed ::
  "protocol \<Rightarrow> state \<Rightarrow> ('r, 'b, 'd, 'c, 'e) read_stream \<Rightarrow> ('b, 'c, 'h, 'e) state_handler \<Rightarrow>
   ('b, 'h, 'e read_error) io" where
  "read_compressed p s S H =
     io_bind (read_varint (bounded S)) (\<lambda>v.
       let data_length = varint_into v
       in if data_length < 0 then io_err (NegativeLength ''uncompressed_size'')
          else if data_length = 0 then handle_helper p s (bounded S) (handle_bounded H)
          else within_decompression S (within_inner_bound S (nat data_length)
            (handle_helper p s (inner_bounded S) (handle_inner H))))"

text \<open>The \<open>match\<close> on the threshold.\<close>

definition read_body ::
  "protocol \<Rightarrow> state \<Rightarrow> nat option \<Rightarrow> ('r, 'b, 'd, 'c, 'e) read_stream \<Rightarrow>
   ('b, 'c, 'h, 'e) state_handler \<Rightarrow> ('b, 'h, 'e read_error) io" where
  "read_body p s compression_threshold S H =
     (case compression_threshold of
        Some _ \<Rightarrow> read_compressed p s S H
      | None \<Rightarrow> handle_helper p s (bounded S) (handle_bounded H))"

definition read_packet ::
  "protocol \<Rightarrow> state \<Rightarrow> nat option \<Rightarrow> ('r, 'b, 'd, 'c, 'e) read_stream \<Rightarrow>
   ('b, 'c, 'h, 'e) state_handler \<Rightarrow> ('r, 'h, 'e read_error) io" where
  "read_packet p s compression_threshold S H =
     io_bind (within_bound S 3 (read_varint (bounded S))) (\<lambda>v.
       let packet_length = varint_into v
       in if packet_length < 0 then io_err (NegativeLength ''packet_length'')
          else within_bound S (nat packet_length) (read_body p s compression_threshold S H))"

section \<open>The contract of a read stream\<close>

locale lawful_stream =
  fixes S :: "('r, 'b, 'd, 'c, 'e) read_stream"
    and V :: "'r \<Rightarrow> byte list \<Rightarrow> bool"
    and B :: "'b \<Rightarrow> nat \<Rightarrow> byte list \<Rightarrow> bool"
  assumes base_lawful: "lawful_reader (base S) V"
    and bounded_lawful: "lawful_bounded (bounded S) B"
    and bound_enter: "V r bs \<Longrightarrow> B (with_bound S r n) n bs"
    and bound_leave: "B b lim bs \<Longrightarrow> V (end_bound S b) bs"

text \<open>
  \<open>inflates zs out\<close>: the decompressor turns the compressed bytes \<open>zs\<close> into \<open>out\<close>.  \<open>C lim zs c n out\<close>:
  the inner reader \<open>c\<close>, entered where the packet had \<open>lim\<close> bytes of the stream \<open>zs\<close> left, may still
  read \<open>n\<close> bytes of the decompressed \<open>out\<close>.  The decompressor takes what it likes of the
  compressed bytes.
\<close>

locale lawful_inflating = lawful_stream S V B
  for S :: "('r, 'b, 'd, 'c, 'e) read_stream"
    and V :: "'r \<Rightarrow> byte list \<Rightarrow> bool" and B :: "'b \<Rightarrow> nat \<Rightarrow> byte list \<Rightarrow> bool" +
  fixes C :: "nat \<Rightarrow> byte list \<Rightarrow> 'c \<Rightarrow> nat \<Rightarrow> byte list \<Rightarrow> bool"
    and inflates :: "byte list \<Rightarrow> byte list \<Rightarrow> bool"
  assumes inner_lawful: "lawful_bounded (inner_bounded S) (C lim zs)"
    and inner_enter: "B b lim zs \<Longrightarrow> inflates (take lim zs) out \<Longrightarrow>
        C lim zs (inner_with_bound S (with_decompression S b) n) n out"
    and inner_leave: "C lim zs c n out \<Longrightarrow>
        \<exists>k. k \<le> lim \<and> k \<le> length zs \<and> B (end_decompression S (inner_end_bound S c)) (lim - k) (drop k zs)"

text \<open>A handler uses its reader only through the operations of the trait.\<close>

definition well_behaved :: "('b \<Rightarrow> nat \<Rightarrow> byte list \<Rightarrow> bool) \<Rightarrow> ('b, 'h, 'e) io \<Rightarrow> bool" where
  "well_behaved B m \<longleftrightarrow> (\<forall>b lim bs. B b lim bs \<longrightarrow>
     (\<exists>k. k \<le> lim \<and> k \<le> length bs \<and> B (snd (m b)) (lim - k) (drop k bs)))"

section \<open>Reading inside a bound\<close>

text \<open>The first three bytes of a stream decide about the length prefix; what comes after stays.\<close>

lemma bounded_varint:
  assumes R: "lawful_bounded R B" and b: "B b lim (enc_varint v @ rest)" and len: "length (enc_varint v) \<le> lim"
  shows "gives (read_varint R) b v (\<lambda>b'. B b' (lim - length (enc_varint v)) rest)"
proof -
  let ?bs = "enc_varint v @ rest"
  have "frame_view B (drop lim ?bs) (lim - length ?bs) b (enc_varint v @ take (lim - length (enc_varint v)) rest)"
    using frame_view_enter [of B b lim ?bs, OF b] len by (simp add: take_append)
  from decodesD [OF varint.reads_enc [OF TrueI lawful_bounded.frame_lawful [OF R]] this] show ?thesis
  proof (rule gives_mono)
    fix b'
    assume "frame_view B (drop lim ?bs) (lim - length ?bs) b' (take (lim - length (enc_varint v)) rest)"
    then show "B b' (lim - length (enc_varint v)) rest"
      using len by (cases "lim \<le> length ?bs") (auto simp: frame_view_def min_absorb2)
  qed
qed

lemma bounded_varint_short:
  assumes R: "lawful_bounded R B" and b: "B b lim bs" and short: "leb_decode 5 (take lim bs) = Truncated"
  shows "fails (read_varint R) b is_stream_error (\<lambda>_. True)"
  using read_varint_leb [OF lawful_bounded.frame_lawful [OF R] frame_view_enter [of B b lim bs, OF b]] short
  by (simp add: leb_outcome_def)

section \<open>Framing\<close>

text \<open>What the handler makes of a payload, wherever it stands in the stream.\<close>

definition answers ::
  "('b \<Rightarrow> nat \<Rightarrow> byte list \<Rightarrow> bool) \<Rightarrow> ('b, 'h, 'e) io \<Rightarrow> byte list \<Rightarrow> ('h, 'e) outcome \<Rightarrow> bool" where
  "answers B m payload res \<longleftrightarrow> (\<forall>b rest. B b (length payload) (payload @ rest) \<longrightarrow> fst (m b) = res)"

definition returns :: "('h, 'e) outcome \<Rightarrow> bool" where
  "returns res \<longleftrightarrow> res \<noteq> Panic \<and> res \<noteq> Diverge"

lemma then_discard_frame:
  assumes R: "lawful_bounded R B" and m: "well_behaved B m" "answers B m payload res" "returns res"
    and b: "B b (length payload) (payload @ rest)"
  shows "\<exists>b'. then_discard R m b = (res, b') \<and> B b' 0 rest"
proof -
  obtain b1 where m1: "m b = (res, b1)"
    using m(2) b by (metis answers_def prod.collapse)
  then obtain k where k: "k \<le> length payload" "B b1 (length payload - k) (drop k payload @ rest)"
    using m(1) b unfolding well_behaved_def by fastforce
  have "gives (discard R (length payload - k)) b1 () (\<lambda>b'. B b' 0 rest)"
    using lawful_bounded.bounded_discard_ok [OF R k(2), of "length payload - k"] k(1) by simp
  then obtain b2 where b2: "discard R (remaining R b1) b1 = (Ok (), b2)" "B b2 0 rest"
    using lawful_bounded.remaining_bound [OF R k(2)] by (auto simp: gives_def)
  then show ?thesis
    using m(3) by (cases res)
      (auto simp: then_discard_def m1 discard_remaining_def io_bind_def io_map_err_def io_ret_def io_err_def returns_def)
qed

lemma handle_helper_frame:
  assumes R: "lawful_bounded R B" and d: "designator_from_id p s (varint_into v) = Some d"
    and m: "well_behaved B (handle d)" "answers B (handle d) payload res" "returns res"
    and b: "B b (length (enc_varint v @ payload)) (enc_varint v @ payload @ rest)"
  shows "\<exists>b'. handle_helper p s R handle b = (res, b') \<and> B b' 0 rest"
proof -
  obtain b1 where b1: "read_varint R b = (Ok v, b1)" "B b1 (length payload) (payload @ rest)"
    using bounded_varint [OF R, of b _ v "payload @ rest", OF b] by (auto simp: gives_def)
  from then_discard_frame [OF R m b1(2)] show ?thesis
    by (simp add: handle_helper_def io_bind_def b1(1) d)
qed

lemma handle_helper_unknown:
  assumes R: "lawful_bounded R B" and d: "designator_from_id p s (varint_into v) = None"
    and b: "B b (length (enc_varint v @ payload)) (enc_varint v @ payload @ rest)"
  shows "\<exists>b'. handle_helper p s R handle b = (Err (RUnknownPacket (state_name s) (varint_into v)), b') \<and>
    B b' (length payload) (payload @ rest)"
proof -
  obtain b1 where "read_varint R b = (Ok v, b1)" "B b1 (length payload) (payload @ rest)"
    using bounded_varint [OF R, of b _ v "payload @ rest", OF b] by (auto simp: gives_def)
  then show ?thesis by (auto simp: handle_helper_def io_bind_def d io_err_def)
qed

text \<open>The length prefix of a packet.\<close>

definition length_prefix :: "nat \<Rightarrow> byte list" where
  "length_prefix n = enc_varint (varint_from (int n))"

lemma length_prefix_bytes: "n < 2 ^ 32 \<Longrightarrow> length_prefix n = varint_bytes n"
  by (simp add: length_prefix_def varint_from_def unsigned_of_nat take_bit_nat_eq_self)

lemma length_prefix_short: "n < 2 ^ 21 \<Longrightarrow> length (length_prefix n) \<le> 3"
  using length_varint_bytes_le [of n 3] by (simp add: length_prefix_bytes)

lemma varint_into_length: "n < 2 ^ 31 \<Longrightarrow> varint_into (varint_from (int n)) = int n"
  by (rule varint_into_from) simp_all

section \<open>The packet on the wire\<close>

definition wire_plain :: "byte list \<Rightarrow> byte list" where
  "wire_plain body = length_prefix (length body) @ body"

definition wire_uncompressed :: "byte list \<Rightarrow> byte list" where
  "wire_uncompressed body = length_prefix (length body + 1) @ 0 # body"

definition wire_compressed :: "nat \<Rightarrow> byte list \<Rightarrow> byte list" where
  "wire_compressed n zs = length_prefix (length (length_prefix n) + length zs) @ length_prefix n @ zs"

text \<open>Behind the length prefix, the body is read within its bound, and the bound ends where it was.\<close>

lemma read_packet_bounded:
  assumes S: "lawful_stream S V B" and r: "V r (length_prefix n @ bs)" and n: "n < 2 ^ 21"
  obtains b where "B b n bs" and "read_packet p s threshold S H r =
    (case read_body p s threshold S H b of (res, b') \<Rightarrow> (res, end_bound S b'))"
proof -
  let ?v = "varint_from (int n)"
  have "B (with_bound S r 3) 3 (enc_varint ?v @ bs)"
    using lawful_stream.bound_enter [OF S r] by (simp add: length_prefix_def)
  then have "gives (read_varint (bounded S)) (with_bound S r 3) ?v (\<lambda>b. B b (3 - length (enc_varint ?v)) bs)"
    using length_prefix_short [OF n] by (intro bounded_varint [OF lawful_stream.bounded_lawful [OF S]]) (simp_all add: length_prefix_def)
  then obtain b1 where b1: "read_varint (bounded S) (with_bound S r 3) = (Ok ?v, b1)"
      "B b1 (3 - length (enc_varint ?v)) bs"
    by (auto simp: gives_def)
  have "V (end_bound S b1) bs"
    by (rule lawful_stream.bound_leave [OF S b1(2)])
  then have "B (with_bound S (end_bound S b1) n) n bs"
    by (rule lawful_stream.bound_enter [OF S])
  moreover have "varint_into ?v = int n"
    using n by (intro varint_into_length) simp
  moreover from this have "read_packet p s threshold S H r =
      (case read_body p s threshold S H (with_bound S (end_bound S b1) n) of (res, b') \<Rightarrow> (res, end_bound S b'))"
    by (simp add: read_packet_def within_bound_def io_within_def io_bind_def b1(1))
  ultimately show ?thesis
    by (intro that)
qed

lemma read_packet_plain:
  assumes S: "lawful_stream S V B"
    and d: "designator_from_id p s (varint_into v) = Some d"
    and m: "well_behaved B (handle_bounded H d)" "answers B (handle_bounded H d) payload res" "returns res"
    and len: "length (enc_varint v @ payload) < 2 ^ 21"
    and r: "V r (wire_plain (enc_varint v @ payload) @ rest)"
  shows "\<exists>r'. read_packet p s None S H r = (res, r') \<and> V r' rest"
proof -
  have "V r (length_prefix (length (enc_varint v @ payload)) @ enc_varint v @ payload @ rest)"
    using r by (simp add: wire_plain_def)
  then obtain b where b: "B b (length (enc_varint v @ payload)) (enc_varint v @ payload @ rest)"
    and run: "read_packet p s None S H r = (case handle_helper p s (bounded S) (handle_bounded H) b of
       (res, b') \<Rightarrow> (res, end_bound S b'))"
    by (rule read_packet_bounded [OF S _ len, where p = p and s = s and threshold = None and H = H])
       (simp add: read_body_def)
  from handle_helper_frame [where handle = "handle_bounded H", OF lawful_stream.bounded_lawful [OF S] d m b] obtain b' where
    "handle_helper p s (bounded S) (handle_bounded H) b = (res, b')" "B b' 0 rest" by blast
  then show ?thesis
    by (auto simp: run lawful_stream.bound_leave [OF S])
qed

lemma enc_varint_zero: "enc_varint (varint_from 0) = [0]"
  by (simp add: varint_from_def)

lemma read_packet_uncompressed:
  assumes S: "lawful_stream S V B"
    and d: "designator_from_id p s (varint_into v) = Some d"
    and m: "well_behaved B (handle_bounded H d)" "answers B (handle_bounded H d) payload res" "returns res"
    and len: "length (enc_varint v @ payload) + 1 < 2 ^ 21"
    and r: "V r (wire_uncompressed (enc_varint v @ payload) @ rest)"
  shows "\<exists>r'. read_packet p s (Some threshold) S H r = (res, r') \<and> V r' rest"
proof -
  let ?body = "enc_varint v @ payload"
  have "V r (length_prefix (length ?body + 1) @ 0 # enc_varint v @ payload @ rest)"
    using r by (simp add: wire_uncompressed_def)
  then obtain b where b: "B b (length ?body + 1) (enc_varint (varint_from 0) @ enc_varint v @ payload @ rest)"
    and run: "read_packet p s (Some threshold) S H r = (case read_compressed p s S H b of
       (res, b') \<Rightarrow> (res, end_bound S b'))"
    by (rule read_packet_bounded [OF S _ len, where p = p and s = s and threshold = "Some threshold" and H = H])
       (simp add: read_body_def enc_varint_zero)
  obtain b1 where b1: "read_varint (bounded S) b = (Ok (varint_from 0), b1)"
      "B b1 (length ?body) (enc_varint v @ payload @ rest)"
    using bounded_varint [OF lawful_stream.bounded_lawful [OF S] b] by (auto simp: gives_def enc_varint_zero)
  from handle_helper_frame [where handle = "handle_bounded H", OF lawful_stream.bounded_lawful [OF S] d m b1(2)] obtain b' where b':
    "handle_helper p s (bounded S) (handle_bounded H) b1 = (res, b')" "B b' 0 rest" by blast
  have "varint_into (varint_from 0) = 0" by (rule varint_into_from) simp_all
  with b' have "read_compressed p s S H b = (res, b')"
    by (simp add: read_compressed_def io_bind_def b1(1))
  with b' show ?thesis
    by (auto simp: run lawful_stream.bound_leave [OF S])
qed

text \<open>
  A compressed packet: the handler gets the decompressed payload, and what the decompressor has not
  taken of the compressed bytes stays in the stream, in front of the next packet.
\<close>

lemma read_packet_compressed:
  assumes S: "lawful_inflating S V B C inflates"
    and d: "designator_from_id p s (varint_into v) = Some d"
    and zs: "inflates zs (enc_varint v @ payload)"
    and m: "well_behaved (C (length zs) (zs @ rest)) (handle_inner H d)"
      "answers (C (length zs) (zs @ rest)) (handle_inner H d) payload res" "returns res"
    and n: "n = length (enc_varint v @ payload)" "n < 2 ^ 31"
    and len: "length (length_prefix n) + length zs < 2 ^ 21"
    and r: "V r (wire_compressed n zs @ rest)"
  shows "\<exists>r' c k. read_packet p s (Some threshold) S H r = (res, r') \<and>
    C (length zs) (zs @ rest) c 0 [] \<and> r' = end_bound S (end_decompression S (inner_end_bound S c)) \<and>
    k \<le> length zs \<and> V r' (drop k zs @ rest)"
proof -
  note stream = lawful_inflating.axioms(1) [OF S]
  let ?n = "varint_from (int n)"
  have "V r (length_prefix (length (length_prefix n) + length zs) @ length_prefix n @ zs @ rest)"
    using r by (simp add: wire_compressed_def)
  then obtain b where b: "B b (length (length_prefix n) + length zs) (enc_varint ?n @ zs @ rest)"
    and run: "read_packet p s (Some threshold) S H r = (case read_compressed p s S H b of
       (res, b') \<Rightarrow> (res, end_bound S b'))"
    by (rule read_packet_bounded [OF stream _ len, where p = p and s = s and threshold = "Some threshold" and H = H])
       (simp add: read_body_def length_prefix_def)
  obtain b1 where b1: "read_varint (bounded S) b = (Ok ?n, b1)" "B b1 (length zs) (zs @ rest)"
    using bounded_varint [OF lawful_stream.bounded_lawful [OF stream] b]
    by (auto simp: gives_def length_prefix_def)
  let ?c = "inner_with_bound S (with_decompression S b1) n"
  have "C (length zs) (zs @ rest) ?c n (enc_varint v @ payload)"
    using zs by (intro lawful_inflating.inner_enter [OF S b1(2)]) simp
  then have c: "C (length zs) (zs @ rest) ?c (length (enc_varint v @ payload)) (enc_varint v @ payload @ [])"
    by (simp add: n)
  obtain c' where c': "handle_helper p s (inner_bounded S) (handle_inner H) ?c = (res, c')"
      "C (length zs) (zs @ rest) c' 0 []"
    using handle_helper_frame [where handle = "handle_inner H", OF lawful_inflating.inner_lawful [OF S] d m c] by blast
  have "varint_into ?n = int n" by (rule varint_into_length) (rule n(2))
  moreover have "0 < n" using enc_varint_length [of v] by (auto simp: n)
  ultimately have "read_compressed p s S H b = (res, end_decompression S (inner_end_bound S c'))"
    using c'(1) by (simp add: read_compressed_def io_bind_def b1(1) within_decompression_def within_inner_bound_def io_within_def)
  moreover obtain k where "k \<le> length zs" "B (end_decompression S (inner_end_bound S c')) (length zs - k) (drop k (zs @ rest))"
    using lawful_inflating.inner_leave [OF S c'(2)] by blast
  ultimately show ?thesis
    using c'(2) lawful_stream.bound_leave [OF stream]
    by (intro exI [of _ "end_bound S (end_decompression S (inner_end_bound S c'))"] exI [of _ c'] exI [of _ k])
       (auto simp: run)
qed

section \<open>Errors\<close>

text \<open>An unknown id is reported with the payload still unread: the next read starts inside the packet.\<close>

lemma read_packet_unknown:
  assumes S: "lawful_stream S V B"
    and d: "designator_from_id p s (varint_into v) = None"
    and len: "length (enc_varint v @ payload) < 2 ^ 21"
    and r: "V r (wire_plain (enc_varint v @ payload) @ rest)"
  shows "fails (read_packet p s None S H) r (\<lambda>e. e = RUnknownPacket (state_name s) (varint_into v))
    (\<lambda>r'. V r' (payload @ rest))"
proof -
  have "V r (length_prefix (length (enc_varint v @ payload)) @ enc_varint v @ payload @ rest)"
    using r by (simp add: wire_plain_def)
  then obtain b where b: "B b (length (enc_varint v @ payload)) (enc_varint v @ payload @ rest)"
    and run: "read_packet p s None S H r = (case handle_helper p s (bounded S) (handle_bounded H) b of
       (res, b') \<Rightarrow> (res, end_bound S b'))"
    by (rule read_packet_bounded [OF S _ len, where p = p and s = s and threshold = None and H = H])
       (simp add: read_body_def)
  from handle_helper_unknown [where handle = "handle_bounded H", OF lawful_stream.bounded_lawful [OF S] d b]
  show ?thesis
    by (auto simp: fails_def run lawful_stream.bound_leave [OF S])
qed

text \<open>A length prefix that does not end within three bytes, or a stream that ends inside it.\<close>

lemma read_packet_bad_prefix:
  assumes S: "lawful_stream S V B" and r: "V r bs" and bad: "leb_decode 5 (take 3 bs) = Truncated"
  shows "fails (read_packet p s threshold S H) r is_stream_error (\<lambda>_. True)"
  using bounded_varint_short [OF lawful_stream.bounded_lawful [OF S] lawful_stream.bound_enter [OF S r] bad]
  unfolding read_packet_def within_bound_def
  by (intro fails_bind_first) (auto simp: fails_def io_within_def split: prod.splits)

section \<open>What a reader can take\<close>

text \<open>
  The operations of a bounded reader, and all that is built of them, stay inside the bound on every
  path: what was in the stream is still there but for a prefix no longer than the bound.
\<close>

named_theorems contained \<open>computations that stay inside the bound of their reader\<close>

lemma well_behavedI:
  "(\<And>b lim bs. B b lim bs \<Longrightarrow> \<exists>k. k \<le> lim \<and> k \<le> length bs \<and> B (snd (m b)) (lim - k) (drop k bs)) \<Longrightarrow> well_behaved B m"
  by (simp add: well_behaved_def)

lemma well_behavedE:
  assumes "well_behaved B m" and "B b lim bs" and "m b = (res, b')"
  obtains k where "k \<le> lim" and "k \<le> length bs" and "B b' (lim - k) (drop k bs)"
  using assms unfolding well_behaved_def by fastforce

lemma well_behaved_trans:
  assumes m: "well_behaved B m" and b: "B b lim bs" "m b = (res, b1)"
    and rest: "\<And>lim bs. B b1 lim bs \<Longrightarrow> \<exists>k. k \<le> lim \<and> k \<le> length bs \<and> B b2 (lim - k) (drop k bs)"
  shows "\<exists>k. k \<le> lim \<and> k \<le> length bs \<and> B b2 (lim - k) (drop k bs)"
proof -
  obtain k where k: "k \<le> lim" "k \<le> length bs" "B b1 (lim - k) (drop k bs)"
    using well_behavedE [OF m b] .
  from rest [OF k(3)] obtain j where "j \<le> lim - k" "j \<le> length (drop k bs)"
      "B b2 (lim - k - j) (drop j (drop k bs))"
    by blast
  with k show ?thesis by (intro exI [of _ "k + j"]) (auto simp: add.commute)
qed

lemma well_behaved_ret [contained]: "well_behaved B (io_ret a)" and well_behaved_err [contained]: "well_behaved B (io_err e)"
  by (rule well_behavedI, rule exI [of _ 0], simp add: io_ret_def io_err_def)+

lemma well_behaved_bind [contained]:
  assumes m: "well_behaved B m" and f: "\<And>a. well_behaved B (f a)"
  shows "well_behaved B (io_bind m f)"
proof (rule well_behavedI)
  fix b lim bs
  assume b: "B b lim bs"
  obtain res b1 where m1: "m b = (res, b1)" by fastforce
  show "\<exists>k. k \<le> lim \<and> k \<le> length bs \<and> B (snd (io_bind m f b)) (lim - k) (drop k bs)"
  proof (rule well_behaved_trans [OF m b m1])
    fix lim bs
    assume b1: "B b1 lim bs"
    show "\<exists>k. k \<le> lim \<and> k \<le> length bs \<and> B (snd (io_bind m f b)) (lim - k) (drop k bs)"
    proof (cases res)
      case (Ok a)
      then show ?thesis using f [of a] b1 by (simp add: io_bind_def m1 well_behaved_def)
    qed (rule exI [of _ 0], simp add: io_bind_def m1 b1)+
  qed
qed

lemma well_behaved_map_err [contained]: "well_behaved B m \<Longrightarrow> well_behaved B (io_map_err g m)"
proof -
  have "snd (io_map_err g m b) = snd (m b)" for b
    by (simp add: io_map_err_def split: prod.split outcome.split)
  then show "well_behaved B m \<Longrightarrow> well_behaved B (io_map_err g m)"
    by (simp add: well_behaved_def)
qed

definition ops_contained :: "('b \<Rightarrow> nat \<Rightarrow> byte list \<Rightarrow> bool) \<Rightarrow> ('b, 'e, 'x) bounded_reader_scheme \<Rightarrow> bool" where
  "ops_contained B R \<longleftrightarrow> (\<forall>n. well_behaved B (read_exact R n) \<and> well_behaved B (discard R n))"

lemma lawful_ops_contained:
  assumes "lawful_bounded R B"
  shows "ops_contained B R"
  unfolding ops_contained_def
proof (intro allI conjI; rule well_behavedI)
  fix b lim bs n
  assume b: "B b lim bs"
  note lawful = lawful_bounded.bounded_read_ok [OF assms b, of n] lawful_bounded.bounded_read_short [OF assms b, of n]
    lawful_bounded.bounded_discard_ok [OF assms b, of n] lawful_bounded.bounded_discard_short [OF assms b, of n]
  show "\<exists>k. k \<le> lim \<and> k \<le> length bs \<and> B (snd (read_exact R n b)) (lim - k) (drop k bs)"
    using lawful(1,2) by (cases "n \<le> lim \<and> n \<le> length bs") (auto simp: gives_def fails_def not_le)
  show "\<exists>k. k \<le> lim \<and> k \<le> length bs \<and> B (snd (discard R n b)) (lim - k) (drop k bs)"
    using lawful(3,4) by (cases "n \<le> lim \<and> n \<le> length bs") (auto simp: gives_def fails_def not_le)
qed

lemma well_behaved_read_exact [contained]:
  "ops_contained B R \<Longrightarrow> well_behaved B (read_exact R n)" "ops_contained B R \<Longrightarrow> well_behaved B (discard R n)"
  by (simp_all add: ops_contained_def)

lemma well_behaved_read_u8 [contained]: "ops_contained B R \<Longrightarrow> well_behaved B (read_u8 R)"
  by (simp add: read_u8_def read_prim_def contained)

lemma well_behaved_read_varint [contained]: "ops_contained B R \<Longrightarrow> well_behaved B (read_varint R)"
proof -
  assume R: "ops_contained B R"
  have "well_behaved B (read_varint_loop R offsets v)" for offsets v
    by (induction offsets arbitrary: v)
       (auto simp: Let_def intro!: contained R split: if_splits)
  then show ?thesis by (simp add: read_varint_def)
qed

lemma well_behaved_discard_remaining [contained]: "ops_contained B R \<Longrightarrow> well_behaved B (discard_remaining R)"
  using well_behaved_map_err [OF well_behaved_read_exact(2)]
  by (fastforce simp: well_behaved_def discard_remaining_def)

lemma well_behaved_then_discard [contained]:
  assumes R: "ops_contained B R" and m: "well_behaved B m"
  shows "well_behaved B (then_discard R m)"
proof (rule well_behavedI)
  fix b lim bs
  assume b: "B b lim bs"
  obtain res b1 where m1: "m b = (res, b1)" by fastforce
  show "\<exists>k. k \<le> lim \<and> k \<le> length bs \<and> B (snd (then_discard R m b)) (lim - k) (drop k bs)"
  proof (rule well_behaved_trans [OF m b m1])
    fix lim bs
    assume b1: "B b1 lim bs"
    show "\<exists>k. k \<le> lim \<and> k \<le> length bs \<and> B (snd (then_discard R m b)) (lim - k) (drop k bs)"
    proof (cases res)
      case (Ok h)
      have "well_behaved B (io_bind (discard_remaining R) (\<lambda>_. io_ret h))"
        by (intro contained R)
      with b1 Ok show ?thesis by (simp add: then_discard_def m1 well_behaved_def)
    next
      case (Err e)
      have "well_behaved B (io_bind (discard_remaining R) (\<lambda>_. io_err e :: ('a, 'd, _) io))"
        by (intro contained R)
      with b1 Err show ?thesis by (simp add: then_discard_def m1 well_behaved_def)
    qed (rule exI [of _ 0], simp add: then_discard_def m1 b1)+
  qed
qed

lemma well_behaved_handle_helper [contained]:
  "ops_contained B R \<Longrightarrow> (\<And>d. well_behaved B (handle d)) \<Longrightarrow> well_behaved B (handle_helper p s R handle)"
  unfolding handle_helper_def Let_def by (intro contained) (auto intro: contained split: option.splits)

lemma snd_io_within: "snd (io_within enter leave m s) = leave s (snd (m (enter s)))"
  by (simp add: io_within_def split: prod.split)

text \<open>
  The decompressing side need not succeed for this, nor terminate: \<open>G lim zs c\<close> only says that the
  reader under the decompressor has taken some of the \<open>lim\<close> bytes of the packet.
\<close>

definition kept_view :: "('c \<Rightarrow> bool) \<Rightarrow> 'c \<Rightarrow> nat \<Rightarrow> byte list \<Rightarrow> bool" where
  "kept_view G c n bs \<longleftrightarrow> G c \<and> n = 0 \<and> bs = []"

locale contained_stream = lawful_stream S V B
  for S :: "('r, 'b, 'd, 'c, 'e) read_stream"
    and V :: "'r \<Rightarrow> byte list \<Rightarrow> bool" and B :: "'b \<Rightarrow> nat \<Rightarrow> byte list \<Rightarrow> bool" +
  fixes G :: "nat \<Rightarrow> byte list \<Rightarrow> 'c \<Rightarrow> bool"
  assumes inner_contained: "ops_contained (kept_view (G lim zs)) (inner_bounded S)"
    and contained_enter: "B b lim zs \<Longrightarrow> G lim zs (inner_with_bound S (with_decompression S b) n)"
    and contained_leave: "G lim zs c \<Longrightarrow>
        \<exists>k. k \<le> lim \<and> k \<le> length zs \<and> B (end_decompression S (inner_end_bound S c)) (lim - k) (drop k zs)"

lemma well_behaved_read_compressed:
  assumes S: "contained_stream S V B G"
    and H: "\<And>d. well_behaved B (handle_bounded H d)"
      "\<And>lim zs d. well_behaved (kept_view (G lim zs)) (handle_inner H d)"
  shows "well_behaved B (read_compressed p s S H)"
proof -
  note R = lawful_ops_contained [OF lawful_stream.bounded_lawful [OF contained_stream.axioms(1) [OF S]]]
  have inner: "well_behaved B (within_decompression S (within_inner_bound S n
      (handle_helper p s (inner_bounded S) (handle_inner H))))" for n
  proof (rule well_behavedI)
    fix b lim zs
    assume b: "B b lim zs"
    let ?m = "handle_helper p s (inner_bounded S) (handle_inner H)"
    let ?c = "inner_with_bound S (with_decompression S b) n"
    have "well_behaved (kept_view (G lim zs)) ?m"
      by (intro contained contained_stream.inner_contained [OF S] H)
    then have "G lim zs (snd (?m ?c))"
      using contained_stream.contained_enter [OF S b] unfolding well_behaved_def by (auto simp: kept_view_def)
    from contained_stream.contained_leave [OF S this]
    show "\<exists>k. k \<le> lim \<and> k \<le> length zs \<and> B (snd (within_decompression S (within_inner_bound S n ?m) b)) (lim - k) (drop k zs)"
      by (simp add: within_decompression_def within_inner_bound_def snd_io_within)
  qed
  show ?thesis
    unfolding read_compressed_def Let_def
    by (intro contained R) (auto intro!: contained inner R H)
qed

text \<open>
  On any stream whatever, and whatever the handler does with its reader, reading a packet takes no
  byte behind the packet its length prefix announces.
\<close>

lemma read_packet_contained:
  assumes S: "contained_stream S V B G"
    and H: "\<And>d. well_behaved B (handle_bounded H d)"
      "\<And>lim zs d. well_behaved (kept_view (G lim zs)) (handle_inner H d)"
    and r: "V r bs"
  shows "case leb_decode 3 bs of
      Value n rest \<Rightarrow> \<exists>k. k \<le> n \<and> k \<le> length rest \<and> V (snd (read_packet p s threshold S H r)) (drop k rest)
    | _ \<Rightarrow> \<exists>k. k \<le> 3 \<and> k \<le> length bs \<and> V (snd (read_packet p s threshold S H r)) (drop k bs)"
proof -
  note stream = contained_stream.axioms(1) [OF S]
  note R = lawful_stream.bounded_lawful [OF stream]
  note ops = lawful_ops_contained [OF R]
  let ?b = "with_bound S r 3"
  have b: "B ?b 3 bs" by (rule lawful_stream.bound_enter [OF stream r])
  note varint = read_varint_leb [OF lawful_bounded.frame_lawful [OF R] frame_view_enter [of B ?b 3 bs, OF b]]
  show ?thesis
  proof (cases "\<exists>n rest. leb_decode 3 bs = Value n rest")
    case True
    then obtain n rest where n: "leb_decode 3 bs = Value n rest" by blast
    then have small: "n < 2 ^ 21" using leb_decode_bound by fastforce
    obtain rest' where rest': "leb_decode 3 (take 3 bs) = Value n rest'" "rest = rest' @ drop 3 bs"
      using leb_decode_take [OF n] by blast
    then have "leb_decode 5 (take 3 bs) = Value n rest'"
      by (intro leb_decode_fuel [OF rest'(1)]) simp
    with varint obtain b1 where b1: "read_varint (bounded S) ?b = (Ok (VarInt (of_nat n)), b1)"
        "frame_view B (drop 3 bs) (3 - length bs) b1 rest'"
      by (auto simp: leb_outcome_def gives_def)
    then have "V (end_bound S b1) rest"
      using lawful_stream.bound_leave [OF stream] by (auto simp: frame_view_def rest'(2))
    then have b2: "B (with_bound S (end_bound S b1) n) n rest"
      by (rule lawful_stream.bound_enter [OF stream])
    have "well_behaved B (read_body p s threshold S H)"
      unfolding read_body_def
      by (auto split: option.splits intro!: contained ops H well_behaved_read_compressed [OF S])
    with b2 obtain k where "k \<le> n" "k \<le> length rest"
        "B (snd (read_body p s threshold S H (with_bound S (end_bound S b1) n))) (n - k) (drop k rest)"
      unfolding well_behaved_def by blast
    moreover have "varint_into (VarInt (of_nat n)) = int n"
      using small varint_into_length [of n] by (simp add: varint_from_def)
    ultimately show ?thesis
      using lawful_stream.bound_leave [OF stream]
      by (auto simp: n read_packet_def io_bind_def within_bound_def snd_io_within io_within_def b1(1) split: prod.split)
  next
    case False
    then have "leb_decode 5 (take 3 bs) = Truncated"
      by (intro leb_decode_take_truncated) auto
    with varint obtain e b1 where b1: "read_varint (bounded S) ?b = (Err e, b1)"
      by (auto simp: leb_outcome_def fails_def)
    obtain k where k: "k \<le> 3" "k \<le> length bs" "B b1 (3 - k) (drop k bs)"
      by (rule well_behavedE [OF well_behaved_read_varint [OF ops] b b1])
    then have "\<exists>k. k \<le> 3 \<and> k \<le> length bs \<and> V (snd (read_packet p s threshold S H r)) (drop k bs)"
      using lawful_stream.bound_leave [OF stream]
      by (intro exI [of _ k]) (auto simp: read_packet_def io_bind_def within_bound_def io_within_def b1)
    with False show ?thesis by (cases "leb_decode 3 bs") auto
  qed
qed

end
