(* ===== verification/Packet_Write.thy ===== *)
theory Packet_Write
  imports Packet_Read
begin

text \<open>
  \<open>ProtocolHandler::write_packet_internal\<close> of \<open>src/protocol/mod.rs\<close> over the writer traits of
  \<open>src/traits.rs\<close>, and the frame it puts on the wire: the three formats \<open>read_packet\<close> reads.
\<close>

section \<open>The writers a packet is written through\<close>

record ('w, 'q, 'z, 'pay, 'level, 'e) write_stream =
  base_writer :: "('w, 'e) writer"
  pre_compression_writer :: "'w \<Rightarrow> 'level \<Rightarrow> 'q"
  pre_writer :: "('q, 'e) writer"
  finish :: "('q, nat \<times> 'pay, 'e) io"
  end_pre :: "'q \<Rightarrow> 'w"
  with_compression :: "'w \<Rightarrow> 'level \<Rightarrow> 'z"
  comp_writer :: "('z, 'e) writer"
  initialize :: "'pay \<Rightarrow> ('z, unit, 'e) io"
  end_compression :: "'z \<Rightarrow> 'w"

text \<open>
  A packet has a size (\<open>Serializable\<close>) and is written (\<open>ToWriter\<close>) to any writer: it is given at
  the three it is written to.
\<close>

record ('w, 'q, 'z, 'e) packet =
  packet_size :: nat
  to_base :: "('w, unit, 'e write_error) io"
  to_pre :: "('q, unit, 'e write_error) io"
  to_comp :: "('z, unit, 'e write_error) io"

definition MAX_PACKET_SIZE :: nat where "MAX_PACKET_SIZE = 0x1FFFFF"

definition I32_MAX :: nat where "I32_MAX = 2 ^ 31 - 1"

section \<open>write_packet_internal\<close>

text \<open>The branch without compression, and the one below the threshold, differ in the marker byte.\<close>

definition write_uncompressed ::
  "('w, 'q, 'z, 'pay, 'level, 'e) write_stream \<Rightarrow> nat \<Rightarrow> varint \<Rightarrow> ('w, 'q, 'z, 'e) packet \<Rightarrow>
   ('w, unit, 'e write_error) io" where
  "write_uncompressed S total_size id_varint pkt =
     (let total_size = total_size + 1
      in if total_size > MAX_PACKET_SIZE
         then io_err (WOverSized ''compression_below_size'' MAX_PACKET_SIZE total_size)
         else io_bind (write_varint (base_writer S) (varint_from (int total_size))) (\<lambda>_.
              io_bind (write_varint (base_writer S) (varint_from 0)) (\<lambda>_.
              io_bind (write_varint (base_writer S) id_varint) (\<lambda>_.
              to_base pkt))))"

definition write_plain ::
  "('w, 'q, 'z, 'pay, 'level, 'e) write_stream \<Rightarrow> nat \<Rightarrow> varint \<Rightarrow> ('w, 'q, 'z, 'e) packet \<Rightarrow>
   ('w, unit, 'e write_error) io" where
  "write_plain S total_size id_varint pkt =
     (if total_size > MAX_PACKET_SIZE
      then io_err (WOverSized ''no_compression_size'' MAX_PACKET_SIZE total_size)
      else io_bind (write_varint (base_writer S) (varint_from (int total_size))) (\<lambda>_.
           io_bind (write_varint (base_writer S) id_varint) (\<lambda>_.
           to_base pkt)))"

text \<open>\<open>with_pre_compression!\<close> and \<open>with_compression!\<close>\<close>

definition pre_compress ::
  "('w, 'q, 'z, 'pay, 'level, 'e) write_stream \<Rightarrow> 'level \<Rightarrow> varint \<Rightarrow> ('w, 'q, 'z, 'e) packet \<Rightarrow>
   ('w, nat \<times> 'pay, 'e write_error) io" where
  "pre_compress S level id_varint pkt =
     io_within (\<lambda>w. pre_compression_writer S w level) (\<lambda>_ q. end_pre S q)
       (io_bind (write_varint (pre_writer S) id_varint) (\<lambda>_.
        io_bind (to_pre pkt) (\<lambda>_.
        io_bind (io_map_err WStreamError (flush (pre_writer S))) (\<lambda>_.
        io_map_err WStreamError (finish S)))))"

definition compress ::
  "('w, 'q, 'z, 'pay, 'level, 'e) write_stream \<Rightarrow> 'level \<Rightarrow> 'pay \<Rightarrow> varint \<Rightarrow> ('w, 'q, 'z, 'e) packet \<Rightarrow>
   ('w, unit, 'e write_error) io" where
  "compress S level payload id_varint pkt =
     io_within (\<lambda>w. with_compression S w level) (\<lambda>_ z. end_compression S z)
       (io_bind (io_map_err WStreamError (initialize S payload)) (\<lambda>_.
        io_bind (write_varint (comp_writer S) id_varint) (\<lambda>_.
        to_comp pkt)))"

definition write_compressed ::
  "('w, 'q, 'z, 'pay, 'level, 'e) write_stream \<Rightarrow> 'level \<Rightarrow> nat \<Rightarrow> varint \<Rightarrow> ('w, 'q, 'z, 'e) packet \<Rightarrow>
   ('w, unit, 'e write_error) io" where
  "write_compressed S level total_size id_varint pkt =
     io_bind (pre_compress S level id_varint pkt) (\<lambda>(compressed_size, payload).
       if total_size > I32_MAX
       then io_err (WOverSized ''uncompressed_varint'' I32_MAX total_size)
       else let uncompressed_varint = varint_from (int total_size);
                total_size = size_varint uncompressed_varint + compressed_size
            in if total_size > MAX_PACKET_SIZE
               then io_err (WOverSized ''no_compression_size'' MAX_PACKET_SIZE total_size)
               else io_bind (write_varint (base_writer S) (varint_from (int total_size))) (\<lambda>_.
                    io_bind (write_varint (base_writer S) uncompressed_varint) (\<lambda>_.
                    compress S level payload id_varint pkt)))"

definition write_packet_internal ::
  "nat option \<Rightarrow> 'level \<Rightarrow> ('w, 'q, 'z, 'pay, 'level, 'e) write_stream \<Rightarrow> int \<Rightarrow> ('w, 'q, 'z, 'e) packet \<Rightarrow>
   ('w, unit, 'e write_error) io" where
  "write_packet_internal compression_threshold compression_level S i pkt =
     (let id_varint = varint_from i;
          id_size = size_varint id_varint;
          total_size = id_size + packet_size pkt
      in io_bind
           (case compression_threshold of
              Some threshold \<Rightarrow>
                if total_size < threshold then write_uncompressed S total_size id_varint pkt
                else write_compressed S compression_level total_size id_varint pkt
            | None \<Rightarrow> write_plain S total_size id_varint pkt)
           (\<lambda>_. io_map_err WStreamError (flush (base_writer S))))"

text \<open>\<open>_build_protocol_writer!\<close>: \<open>write_packet\<close> of a state takes a packet of the other side.\<close>

definition write_packet ::
  "protocol \<Rightarrow> state \<Rightarrow> nat option \<Rightarrow> 'level \<Rightarrow> ('w, 'q, 'z, 'pay, 'level, 'e) write_stream \<Rightarrow> string \<Rightarrow>
   ('w, 'q, 'z, 'e) packet \<Rightarrow> ('w, unit, 'e write_error) io option" where
  "write_packet p s threshold level S name pkt =
     map_option (\<lambda>i. write_packet_internal threshold level S i pkt) (writer_packet_id p s name)"

section \<open>The contract of a write stream\<close>

text \<open>
  \<open>deflates bs zs\<close>: \<open>zs\<close> is a compressed form of \<open>bs\<close>.  \<open>P q sent bs\<close>: the pre-compression writer \<open>q\<close>
  has taken \<open>bs\<close>, and its parent stands at \<open>sent\<close>; \<open>F\<close> is the same after the flush that ends it.
  \<open>Z z sent zs bs\<close>: the compression writer \<open>z\<close> will have put \<open>zs\<close> behind \<open>sent\<close> once it has taken the
  bytes \<open>zs\<close> was computed of, of which it has \<open>bs\<close>.  \<open>carries pay bs zs\<close>: what one hands to the other.
\<close>

locale lawful_deflating =
  fixes S :: "('w, 'q, 'z, 'pay, 'level, 'e) write_stream"
    and V :: "'w \<Rightarrow> byte list \<Rightarrow> bool"
    and P :: "byte list \<Rightarrow> 'q \<Rightarrow> byte list \<Rightarrow> bool"
    and F :: "byte list \<Rightarrow> 'q \<Rightarrow> byte list \<Rightarrow> bool"
    and Z :: "byte list \<Rightarrow> byte list \<Rightarrow> 'z \<Rightarrow> byte list \<Rightarrow> bool"
    and N :: "byte list \<Rightarrow> 'z \<Rightarrow> bool"
    and carries :: "'pay \<Rightarrow> byte list \<Rightarrow> byte list \<Rightarrow> bool"
    and deflates :: "byte list \<Rightarrow> byte list \<Rightarrow> bool"
  assumes base_writes: "lawful_writer (base_writer S) V"
    and pre_enter: "V w sent \<Longrightarrow> P sent (pre_compression_writer S w level) []"
    and pre_writes: "P sent q bs \<Longrightarrow> gives (write_data (pre_writer S) cs) q () (\<lambda>q'. P sent q' (bs @ cs))"
    and pre_flushes: "P sent q bs \<Longrightarrow> gives (flush (pre_writer S)) q () (\<lambda>q'. F sent q' bs)"
    and pre_finishes: "F sent q bs \<Longrightarrow> \<exists>zs pay. deflates bs zs \<and> carries pay bs zs \<and>
        gives (finish S) q (length zs, pay) (\<lambda>q'. V (end_pre S q') sent)"
    and comp_enter: "V w sent \<Longrightarrow> N sent (with_compression S w level)"
    and comp_initializes: "N sent z \<Longrightarrow> carries pay bs zs \<Longrightarrow>
        gives (initialize S pay) z () (\<lambda>z'. Z sent zs z' [])"
    and comp_writes: "Z sent zs z bs \<Longrightarrow> gives (write_data (comp_writer S) cs) z () (\<lambda>z'. Z sent zs z' (bs @ cs))"
    and comp_leaves: "Z sent zs z bs \<Longrightarrow> carries pay bs zs \<Longrightarrow> V (end_compression S z) (sent @ zs)"

text \<open>A packet whose \<open>to_writer\<close> writes its payload, of the size it states, to each of the three.\<close>

definition packet_writes ::
  "('w \<Rightarrow> byte list \<Rightarrow> bool) \<Rightarrow> ('q \<Rightarrow> byte list \<Rightarrow> bool) \<Rightarrow> ('z \<Rightarrow> byte list \<Rightarrow> bool) \<Rightarrow>
   ('w, 'q, 'z, 'e) packet \<Rightarrow> byte list \<Rightarrow> bool" where
  "packet_writes V P Z pkt payload \<longleftrightarrow> packet_size pkt = length payload \<and>
     emits V (to_base pkt) payload \<and> emits P (to_pre pkt) payload \<and> emits Z (to_comp pkt) payload"

section \<open>What is written\<close>

lemma write_length:
  "lawful_sink W V \<Longrightarrow> emits V (write_varint W (varint_from (int n))) (length_prefix n)"
  using varint.writes_enc [OF TrueI] by (simp add: length_prefix_def)

lemma write_plain_emits:
  assumes W: "lawful_sink (base_writer S) V"
    and pkt: "emits V (to_base pkt) payload" and n: "n = length (enc_varint v @ payload)" "n \<le> MAX_PACKET_SIZE"
  shows "emits V (write_plain S n v pkt) (wire_plain (enc_varint v @ payload))"
proof -
  have "emits V (write_plain S n v pkt) (length_prefix n @ enc_varint v @ payload)"
    using n(2) unfolding write_plain_def
    by (simp, intro emits_bind write_length [OF W] varint.writes_enc [OF TrueI W] pkt)
  then show ?thesis by (simp add: wire_plain_def n(1))
qed

lemma write_uncompressed_emits:
  assumes W: "lawful_sink (base_writer S) V"
    and pkt: "emits V (to_base pkt) payload" and n: "n = length (enc_varint v @ payload)" "n + 1 \<le> MAX_PACKET_SIZE"
  shows "emits V (write_uncompressed S n v pkt) (wire_uncompressed (enc_varint v @ payload))"
proof -
  have "emits V (write_uncompressed S n v pkt) (length_prefix (n + 1) @ enc_varint (varint_from 0) @ enc_varint v @ payload)"
    using n(2) unfolding write_uncompressed_def Let_def
    by (simp only: not_less [symmetric] if_False)
       (intro emits_bind write_length [OF W] varint.writes_enc [OF TrueI W] pkt)
  then show ?thesis by (simp add: wire_uncompressed_def n(1) enc_varint_zero)
qed

lemma pre_compress_gives:
  assumes S: "lawful_deflating S V P F Z N carries deflates"
    and pkt: "emits (P sent) (to_pre pkt) payload" and w: "V w sent"
  obtains zs pay where "deflates (enc_varint v @ payload) zs" and "carries pay (enc_varint v @ payload) zs"
    and "gives (pre_compress S level v pkt) w (length zs, pay) (\<lambda>w'. V w' sent)"
proof -
  let ?body = "enc_varint v @ payload"
  let ?q = "pre_compression_writer S w level"
  have sink: "lawful_sink (pre_writer S) (P sent)"
    by (rule lawful_sink.intro) (rule lawful_deflating.pre_writes [OF S])
  have q: "P sent ?q []" by (rule lawful_deflating.pre_enter [OF S w])
  obtain q1 where q1: "write_varint (pre_writer S) v ?q = (Ok (), q1)" "P sent q1 (enc_varint v)"
    using emitsD [OF varint.writes_enc [OF TrueI sink] q] by (auto simp: gives_def)
  obtain q2 where q2: "to_pre pkt q1 = (Ok (), q2)" "P sent q2 ?body"
    using emitsD [OF pkt q1(2)] by (auto simp: gives_def)
  obtain q3 where q3: "flush (pre_writer S) q2 = (Ok (), q3)" "F sent q3 ?body"
    using lawful_deflating.pre_flushes [OF S q2(2)] by (auto simp: gives_def)
  obtain zs pay q4 where q4: "deflates ?body zs" "carries pay ?body zs"
      "finish S q3 = (Ok (length zs, pay), q4)" "V (end_pre S q4) sent"
    using lawful_deflating.pre_finishes [OF S q3(2)] by (auto simp: gives_def)
  show ?thesis
    by (rule that [OF q4(1,2)])
       (simp add: gives_def pre_compress_def io_within_def io_bind_def io_map_err_def q1(1) q2(1) q3(1) q4(3,4))
qed

lemma compress_gives:
  assumes S: "lawful_deflating S V P F Z N carries deflates"
    and pkt: "emits (Z sent zs) (to_comp pkt) payload" and w: "V w sent"
    and pay: "carries pay (enc_varint v @ payload) zs"
  shows "gives (compress S level pay v pkt) w () (\<lambda>w'. V w' (sent @ zs))"
proof -
  let ?z = "with_compression S w level"
  have sink: "lawful_sink (comp_writer S) (Z sent zs)"
    by (rule lawful_sink.intro) (rule lawful_deflating.comp_writes [OF S])
  obtain z1 where z1: "initialize S pay ?z = (Ok (), z1)" "Z sent zs z1 []"
    using lawful_deflating.comp_initializes [OF S lawful_deflating.comp_enter [OF S w] pay] by (auto simp: gives_def)
  obtain z2 where z2: "write_varint (comp_writer S) v z1 = (Ok (), z2)" "Z sent zs z2 (enc_varint v)"
    using emitsD [OF varint.writes_enc [OF TrueI sink] z1(2)] by (auto simp: gives_def)
  obtain z3 where z3: "to_comp pkt z2 = (Ok (), z3)" "Z sent zs z3 (enc_varint v @ payload)"
    using emitsD [OF pkt z2(2)] by (auto simp: gives_def)
  show ?thesis
    using lawful_deflating.comp_leaves [OF S z3(2) pay]
    by (simp add: gives_def compress_def io_within_def io_bind_def io_map_err_def z1(1) z2(1) z3(1))
qed

lemma write_compressed_gives:
  assumes S: "lawful_deflating S V P F Z N carries deflates"
    and pkt: "\<And>sent zs. packet_writes V (P sent) (Z sent zs) pkt payload"
    and n: "n = length (enc_varint v @ payload)" "n \<le> I32_MAX" and w: "V w sent"
  shows "\<exists>zs. deflates (enc_varint v @ payload) zs \<and>
    (if length (length_prefix n) + length zs \<le> MAX_PACKET_SIZE
     then gives (write_compressed S level n v pkt) w () (\<lambda>w'. V w' (sent @ wire_compressed n zs))
     else fails (write_compressed S level n v pkt) w
       (\<lambda>e. e = WOverSized ''no_compression_size'' MAX_PACKET_SIZE (length (length_prefix n) + length zs))
       (\<lambda>w'. V w' sent))"
proof -
  have sink: "lawful_sink (base_writer S) V"
    by (rule lawful_writer.axioms(1)) (rule lawful_deflating.base_writes [OF S])
  obtain zs pay where zs: "deflates (enc_varint v @ payload) zs" "carries pay (enc_varint v @ payload) zs"
      "gives (pre_compress S level v pkt) w (length zs, pay) (\<lambda>w'. V w' sent)"
    using pre_compress_gives [OF S _ w, of pkt payload v level] pkt by (auto simp: packet_writes_def)
  then obtain w1 where w1: "pre_compress S level v pkt w = (Ok (length zs, pay), w1)" "V w1 sent"
    by (auto simp: gives_def)
  let ?n = "length (length_prefix n) + length zs"
  have size: "size_varint (varint_from (int n)) = length (length_prefix n)"
    by (simp add: size_varint_enc length_prefix_def)
  have run: "write_compressed S level n v pkt w =
      (if ?n \<le> MAX_PACKET_SIZE
       then io_bind (write_varint (base_writer S) (varint_from (int ?n))) (\<lambda>_.
         io_bind (write_varint (base_writer S) (varint_from (int n))) (\<lambda>_. compress S level pay v pkt)) w1
       else (Err (WOverSized ''no_compression_size'' MAX_PACKET_SIZE ?n), w1))"
    using n(2) by (simp add: write_compressed_def io_bind_def w1(1) size Let_def io_err_def)
  show ?thesis
  proof (intro exI [of _ zs] conjI zs(1))
    have "gives (compress S level pay v pkt) w2 () (\<lambda>w'. V w' (sent2 @ zs))" if "V w2 sent2" for w2 sent2
      using pkt by (intro compress_gives [OF S _ that zs(2)]) (simp add: packet_writes_def)
    then have "emits V (compress S level pay v pkt) zs" by (simp add: emits_def)
    then have "emits V (io_bind (write_varint (base_writer S) (varint_from (int ?n))) (\<lambda>_.
        io_bind (write_varint (base_writer S) (varint_from (int n))) (\<lambda>_. compress S level pay v pkt)))
        (length_prefix ?n @ length_prefix n @ zs)"
      by (intro emits_bind write_length [OF sink])
    from emitsD [OF this w1(2)] w1(2)
    show "if ?n \<le> MAX_PACKET_SIZE
      then gives (write_compressed S level n v pkt) w () (\<lambda>w'. V w' (sent @ wire_compressed n zs))
      else fails (write_compressed S level n v pkt) w
        (\<lambda>e. e = WOverSized ''no_compression_size'' MAX_PACKET_SIZE ?n) (\<lambda>w'. V w' sent)"
      by (simp add: gives_def fails_def run wire_compressed_def)
  qed
qed

section \<open>The frame of a packet\<close>

text \<open>
  The specification: what stands behind the length prefix of a packet with the body \<open>body\<close> (the id
  and the payload) under a threshold, and the packet on the wire.
\<close>

definition frame_of :: "(byte list \<Rightarrow> byte list \<Rightarrow> bool) \<Rightarrow> nat option \<Rightarrow> byte list \<Rightarrow> byte list \<Rightarrow> bool" where
  "frame_of deflates threshold body frame \<longleftrightarrow> (case threshold of
     None \<Rightarrow> frame = body
   | Some t \<Rightarrow>
       if length body < t then frame = 0 # body
       else \<exists>zs. deflates body zs \<and> frame = length_prefix (length body) @ zs)"

definition wire_frame :: "byte list \<Rightarrow> byte list" where
  "wire_frame frame = length_prefix (length frame) @ frame"

definition oversized_name :: "nat option \<Rightarrow> byte list \<Rightarrow> string" where
  "oversized_name threshold body = (case threshold of
     None \<Rightarrow> ''no_compression_size''
   | Some t \<Rightarrow> if length body < t then ''compression_below_size'' else ''no_compression_size'')"

definition packet_body :: "int \<Rightarrow> byte list \<Rightarrow> byte list" where
  "packet_body i payload = enc_varint (varint_from i) @ payload"

definition wire_written ::
  "('w \<Rightarrow> byte list \<Rightarrow> bool) \<Rightarrow> byte list \<Rightarrow> string \<Rightarrow> byte list \<Rightarrow> ('w, unit, 'e write_error) io \<Rightarrow> 'w \<Rightarrow> bool" where
  "wire_written V sent label frame m w \<longleftrightarrow>
     (if length frame \<le> MAX_PACKET_SIZE then gives m w () (\<lambda>w'. V w' (sent @ wire_frame frame))
      else fails m w (\<lambda>e. e = WOverSized label MAX_PACKET_SIZE (length frame)) (\<lambda>w'. V w' sent))"

lemma wire_frames:
  "wire_plain body = wire_frame body" "wire_uncompressed body = wire_frame (0 # body)"
  "wire_compressed n zs = wire_frame (length_prefix n @ zs)"
  by (simp_all add: wire_plain_def wire_uncompressed_def wire_compressed_def wire_frame_def)

lemma wire_written_flush:
  assumes W: "lawful_writer W V" and m: "wire_written V sent label frame m w"
  shows "wire_written V sent label frame (io_bind m (\<lambda>_. io_map_err WStreamError (flush W))) w"
proof -
  have flush: "gives (io_map_err WStreamError (flush W)) w' () (\<lambda>w''. V w'' bs)" if "V w' bs" for w' bs
    using that by (intro gives_map_err lawful_writer.flush_ok [OF W])
  show ?thesis
    using m unfolding wire_written_def
    by (auto split: if_splits intro: fails_bind_first gives_bind flush)
qed

text \<open>
  A packet is written as a frame of the specification, or refused with the size it would have had
  and nothing of it sent.
\<close>

lemma write_packet_internal_frame:
  assumes S: "lawful_deflating S V P F Z N carries deflates"
    and pkt: "\<And>sent zs. packet_writes V (P sent) (Z sent zs) pkt payload"
    and size: "length (packet_body i payload) \<le> I32_MAX" and w: "V w sent"
  shows "\<exists>frame. frame_of deflates threshold (packet_body i payload) frame \<and>
    wire_written V sent (oversized_name threshold (packet_body i payload)) frame
      (write_packet_internal threshold level S i pkt) w"
proof -
  let ?v = "varint_from i" and ?body = "packet_body i payload"
  note W = lawful_deflating.base_writes [OF S]
  note sink = lawful_writer.axioms(1) [OF W]
  have total: "size_varint ?v + packet_size pkt = length ?body"
    using pkt by (simp add: size_varint_enc packet_body_def packet_writes_def)
  let ?m = "case threshold of
      Some t \<Rightarrow> if length ?body < t then write_uncompressed S (length ?body) ?v pkt
        else write_compressed S level (length ?body) ?v pkt
    | None \<Rightarrow> write_plain S (length ?body) ?v pkt"
  have base: "emits V (to_base pkt) payload" using pkt by (simp add: packet_writes_def)
  have "\<exists>frame. frame_of deflates threshold ?body frame \<and>
      wire_written V sent (oversized_name threshold ?body) frame ?m w"
  proof (cases threshold)
    case None
    have "wire_written V sent ''no_compression_size'' ?body (write_plain S (length ?body) ?v pkt) w"
      using emitsD [OF write_plain_emits [OF sink base, of "length ?body" ?v] w] w
      by (auto simp: wire_written_def wire_frames packet_body_def write_plain_def not_le intro!: fails_err)
    then show ?thesis by (simp add: None frame_of_def oversized_name_def)
  next
    case (Some t)
    show ?thesis
    proof (cases "length ?body < t")
      case True
      have "wire_written V sent ''compression_below_size'' (0 # ?body) (write_uncompressed S (length ?body) ?v pkt) w"
        using emitsD [OF write_uncompressed_emits [OF sink base, of "length ?body" ?v] w] w
        by (auto simp: wire_written_def wire_frames packet_body_def write_uncompressed_def not_le intro!: fails_err)
      with True show ?thesis by (simp add: Some frame_of_def oversized_name_def)
    next
      case False
      have "\<exists>zs. deflates ?body zs \<and> wire_written V sent ''no_compression_size'' (length_prefix (length ?body) @ zs)
           (write_compressed S level (length ?body) ?v pkt) w"
        using write_compressed_gives [OF S pkt refl size [unfolded packet_body_def] w, of level, folded packet_body_def]
        by (simp only: wire_written_def wire_frames length_append)
      with False show ?thesis by (auto simp: Some frame_of_def oversized_name_def)
    qed
  qed
  then obtain frame where frame: "frame_of deflates threshold ?body frame"
      "wire_written V sent (oversized_name threshold ?body) frame ?m w" by blast
  have "write_packet_internal threshold level S i pkt
      = io_bind ?m (\<lambda>_. io_map_err WStreamError (flush (base_writer S)))"
    unfolding write_packet_internal_def Let_def total ..
  with frame show ?thesis
    using wire_written_flush [OF W frame(2)] by auto
qed

section \<open>Written packets are read\<close>

text \<open>
  What the handler makes of the payload, at both readers it may get.  The last condition is about
  the decompressor alone: once it has given the last byte of a packet it has taken the last byte of
  its compressed form.
\<close>

definition handles ::
  "('r, 'b, 'd, 'c, 'e) read_stream \<Rightarrow> ('r \<Rightarrow> byte list \<Rightarrow> bool) \<Rightarrow> ('b \<Rightarrow> nat \<Rightarrow> byte list \<Rightarrow> bool) \<Rightarrow>
   (nat \<Rightarrow> byte list \<Rightarrow> 'c \<Rightarrow> nat \<Rightarrow> byte list \<Rightarrow> bool) \<Rightarrow> ('b, 'c, 'h, 'e) state_handler \<Rightarrow> designator \<Rightarrow>
   byte list \<Rightarrow> ('h, 'e read_error) outcome \<Rightarrow> bool" where
  "handles S V B C H d payload res \<longleftrightarrow> returns res \<and>
     well_behaved B (handle_bounded H d) \<and> answers B (handle_bounded H d) payload res \<and>
     (\<forall>lim zs. well_behaved (C lim zs) (handle_inner H d) \<and> answers (C lim zs) (handle_inner H d) payload res)"

definition drains ::
  "('r, 'b, 'd, 'c, 'e) read_stream \<Rightarrow> ('r \<Rightarrow> byte list \<Rightarrow> bool) \<Rightarrow>
   (nat \<Rightarrow> byte list \<Rightarrow> 'c \<Rightarrow> nat \<Rightarrow> byte list \<Rightarrow> bool) \<Rightarrow> bool" where
  "drains S V C \<longleftrightarrow> (\<forall>zs rest c. C (length zs) (zs @ rest) c 0 [] \<longrightarrow>
     V (end_bound S (end_decompression S (inner_end_bound S c))) rest)"

lemma read_packet_frame:
  assumes S: "lawful_inflating S V B C inflates" and drains: "drains S V C"
    and zlib: "\<And>bs zs. bs \<noteq> [] \<Longrightarrow> deflates bs zs \<Longrightarrow> inflates zs bs"
    and i: "- (2 ^ 31) \<le> i" "i < 2 ^ 31" and d: "designator_from_id p s i = Some d"
    and H: "handles S V B C H d payload res"
    and frame: "frame_of deflates threshold (packet_body i payload) frame"
      "length frame \<le> MAX_PACKET_SIZE" "length (packet_body i payload) \<le> I32_MAX"
    and r: "V r (wire_frame frame @ rest)"
  shows "\<exists>r'. read_packet p s threshold S H r = (res, r') \<and> V r' rest"
proof -
  note stream = lawful_inflating.axioms(1) [OF S]
  let ?v = "varint_from i"
  have d': "designator_from_id p s (varint_into ?v) = Some d"
    using d varint_into_from [OF i] by simp
  note H' = H [unfolded handles_def]
  have small: "n < 2 ^ 21" if "n \<le> MAX_PACKET_SIZE" for n
    using that by (simp add: MAX_PACKET_SIZE_def)
  show ?thesis
  proof (cases threshold)
    case None
    with frame have "frame = enc_varint ?v @ payload" by (simp add: frame_of_def packet_body_def)
    with frame(2) r show ?thesis
      unfolding None using H' small [of "length frame"]
      by (intro read_packet_plain [OF stream d']) (auto simp: wire_frames)
  next
    case (Some t)
    show ?thesis
    proof (cases "length (packet_body i payload) < t")
      case True
      with frame Some have "frame = 0 # enc_varint ?v @ payload" by (simp add: frame_of_def packet_body_def)
      with frame(2) r show ?thesis
        unfolding Some using H' small [of "length frame"]
        by (intro read_packet_uncompressed [OF stream d']) (auto simp: wire_frames)
    next
      case False
      let ?n = "length (enc_varint ?v @ payload)"
      from False frame Some obtain zs where zs: "deflates (enc_varint ?v @ payload) zs"
          "frame = length_prefix ?n @ zs"
        by (auto simp: frame_of_def packet_body_def)
      have len: "length (length_prefix ?n) + length zs < 2 ^ 21"
        using small [OF frame(2)] by (simp add: zs(2))
      have n: "?n < 2 ^ 31" using frame(3) by (simp add: packet_body_def I32_MAX_def)
      have "V r (wire_compressed ?n zs @ rest)" using r by (simp add: wire_frames zs(2))
      moreover have "enc_varint ?v @ payload \<noteq> []" using enc_varint_length [of ?v] by auto
      ultimately show ?thesis
        using read_packet_compressed [OF S d' zlib [OF _ zs(1)] _ _ _ refl n len, where r = r and rest = rest
            and H = H and res = res and threshold = t] H' drains
        unfolding Some drains_def by blast
    qed
  qed
qed

end
