(* ===== verification/Handshake_Version.thy ===== *)
theory Handshake_Version
  imports Varint
begin

text \<open>
  \<open>HandshakeVersion\<close> of \<open>src/primatives/handshake_version.rs\<close>: what the first bytes of a connection
  say about the client.  \<open>0xFE\<close> opens a legacy ping, told apart by what can be read without
  blocking; any other first byte is the first segment of the packet length.  The length is a
  base-128 number whose first segment keeps its continuation bit in the value: the reference of
  the \<open>VarInt\<close> says exactly which lengths that changes.
\<close>

section \<open>The model\<close>

datatype handshake_version = Standard nat | Legacy1_6 nat | Pre1_6 | Pre1_3

text \<open>The string \<open>MC|PingHost\<close> encoded as a UTF-16BE string.\<close>

definition ping_host_channel :: "byte list" where
  "ping_host_channel =
     [0x00, 0x4D, 0x00, 0x43, 0x00, 0x7C, 0x00, 0x50, 0x00, 0x69, 0x00, 0x6E, 0x00, 0x67,
      0x00, 0x48, 0x00, 0x6F, 0x00, 0x73, 0x00, 0x74]"

definition read_legacy_1_6 ::
  "('r, 'e, 'x) reader_scheme \<Rightarrow> ('r, handshake_version, 'e read_error) io" where
  "read_legacy_1_6 R =
     io_bind (io_map_err RStreamError (read_exact R 2)) (\<lambda>channel_length.
     if (from_be_bytes channel_length :: 16 word) \<noteq> 0x0B then io_err MalformedLegacyPing
     else io_bind (io_map_err RStreamError (read_exact R 22)) (\<lambda>channel.
     if channel \<noteq> ping_host_channel then io_err MalformedLegacyPing
     else io_bind (io_map_err RStreamError (read_exact R 2)) (\<lambda>data_length.
     let bound = sint (from_be_bytes data_length :: 16 word)
     in if bound < 0 then io_err (NegativeLength ''legacy_ping_bound'')
        else io_ret (Legacy1_6 (nat bound)))))"

definition read_legacy ::
  "('r, 'e, 'x) reader_scheme \<Rightarrow> ('r, handshake_version, 'e read_error) io" where
  "read_legacy R =
     io_bind (io_map_err RStreamError (try_read_byte R)) (\<lambda>next_byte. case next_byte of
       None \<Rightarrow> io_ret Pre1_3
     | Some next_byte \<Rightarrow>
         if next_byte \<noteq> 0x01 then io_err MalformedLegacyPing
         else io_bind (io_map_err RStreamError (try_read_byte R)) (\<lambda>channel_byte. case channel_byte of
           None \<Rightarrow> io_ret Pre1_6
         | Some channel_byte \<Rightarrow>
             if channel_byte \<noteq> 0xFA then io_err MalformedLegacyPing
             else read_legacy_1_6 R))"

definition standard_length :: "u32 \<Rightarrow> ('r, handshake_version, 'e read_error) io" where
  "standard_length value =
     (let value = sint value
      in if value < 0 then io_err (NegativeLength ''handshake_varint'')
         else io_ret (Standard (nat value)))"

primrec read_standard_loop ::
  "('r, 'e, 'x) reader_scheme \<Rightarrow> nat list \<Rightarrow> u32 \<Rightarrow> ('r, handshake_version, 'e read_error) io" where
  "read_standard_loop R [] value = io_err (ROverSized ''handshake_varint'' 3 4)"
| "read_standard_loop R (offset # offsets) value =
     io_bind (read_u8 R) (\<lambda>byte.
       let curr = ucast byte;
           value = value OR push_bit offset (curr AND SEGMENT_MASK)
       in if curr AND CONTINUE_MASK_U32 = 0 then standard_length value
          else read_standard_loop R offsets value)"

definition read_handshake_version ::
  "('r, 'e, 'x) reader_scheme \<Rightarrow> ('r, handshake_version, 'e read_error) io" where
  "read_handshake_version R =
     io_bind (read_u8 R) (\<lambda>first_byte.
       if first_byte = 0xFE then read_legacy R
       else let value = ucast first_byte
            in if value AND CONTINUE_MASK_U32 \<noteq> 0 then read_standard_loop R (step_by 7 24 7) value
               else standard_length value)"

section \<open>The standard handshake\<close>

text \<open>
  What the first segment \<open>b\<close> and the number \<open>n\<close> of the segments after it are read as: the bit 7
  of \<open>b\<close> is still set when \<open>n\<close> is laid over it.
\<close>

definition standard_value :: "nat \<Rightarrow> nat \<Rightarrow> nat" where
  "standard_value b n = (if odd n then b - 128 + 128 * n else b + 128 * n)"

lemma standard_value_or:
  "b = a + 128 * 1 \<Longrightarrow> m = n + of_bool (even n) \<Longrightarrow> a + 128 * m = standard_value b n"
  by (cases "even n") (simp_all add: standard_value_def)

lemma standard_value_word:
  assumes "128 \<le> unat (b :: byte)"
  shows "(ucast b :: u32) OR push_bit 7 (of_nat n) = of_nat (standard_value (unat b) n)"
proof -
  have b: "unat b = unat b mod 128 + 128 * 1"
    using assms unsigned_less [of b, where 'a = nat] by (simp add: le_mod_geq)
  have one_or: "of_nat (1 OR n) = (of_nat 1 :: u32) OR of_nat n"
    by (rule of_nat_or_eq)
  have "(ucast b :: u32) = of_nat (unat b mod 128) OR push_bit 7 (of_nat 1)"
    by (subst ucast_byte, subst b, subst of_nat_leb_digit) simp_all
  then have "(ucast b :: u32) OR push_bit 7 (of_nat n)
      = of_nat (unat b mod 128) OR push_bit 7 (of_nat (1 OR n))"
    by (simp only: one_or push_bit_or or.assoc)
  also have "\<dots> = of_nat (unat b mod 128 + 128 * (1 OR n))"
    by (rule of_nat_leb_digit [symmetric]) simp
  also have "unat b mod 128 + 128 * (1 OR n) = standard_value (unat b) n"
    by (rule standard_value_or [OF b one_or_eq])
  finally show ?thesis .
qed

lemma standard_length_of_nat:
  "n < 2 ^ 31 \<Longrightarrow> standard_length (of_nat n) = io_ret (Standard n)"
  by (simp add: standard_length_def signed_of_nat signed_take_bit_int_eq_self)

lemma standard_length_byte:
  "unat (b :: byte) < 128 \<Longrightarrow> standard_length (ucast b) = io_ret (Standard (unat b))"
  unfolding ucast_byte by (rule standard_length_of_nat) simp

lemma standard_value_bound: "b < 256 \<Longrightarrow> n < 128 ^ 3 \<Longrightarrow> standard_value b n < 2 ^ 28"
  by (auto simp: standard_value_def elim!: evenE oddE)

lemma standard_length_segments:
  assumes "128 \<le> unat (b :: byte)" and "leb_decode 3 bs = Value n rest"
  shows "standard_length ((ucast b :: u32) OR push_bit 7 (of_nat n))
    = io_ret (Standard (standard_value (unat b) n))"
proof -
  have "standard_value (unat b) n < 2 ^ 28"
    using leb_decode_bound [OF assms(2)] unsigned_less [of b, where 'a = nat]
    by (intro standard_value_bound) simp_all
  then show ?thesis
    unfolding standard_value_word [OF assms(1)] by (intro standard_length_of_nat) simp
qed

lemma read_standard_loop_segments:
  "read_standard_loop R offsets v =
   segments standard_length (\<lambda>_. io_err (ROverSized ''handshake_varint'' 3 4)) R offsets v"
  by (induction offsets arbitrary: v) (simp_all add: Let_def del: push_bit_and cong: if_cong)

lemma step_by_7_24_7: "step_by 7 24 7 = map (\<lambda>i. 7 * i) [1..<4]"
  by (simp add: step_by_def upt_rec)

text \<open>The reader on every stream whose first byte is not \<open>0xFE\<close>.\<close>

lemma read_first_byte:
  assumes "lawful_reader R V" and "V r (b # bs)"
  obtains r1 where "V r1 bs" and "read_u8 R r = (Ok b, r1)"
proof -
  have "gives (read_u8 R) r b (\<lambda>r'. V r' bs)"
    using assms(2) by (intro decodesD [OF u8.reads_enc [OF TrueI assms(1)]]) simp
  then show ?thesis by (rule givesE) (rule that)
qed

lemma read_handshake_one_segment:
  assumes "lawful_reader R V" and "V r (b # bs)" and "unat b < 128"
  shows "gives (read_handshake_version R) r (Standard (unat b)) (\<lambda>r'. V r' bs)"
proof -
  obtain r1 where "V r1 bs" and "read_u8 R r = (Ok b, r1)"
    using read_first_byte [OF assms(1,2)] .
  moreover have "b \<noteq> 0xFE" using assms(3) by auto
  ultimately show ?thesis
    using assms(3)
    by (simp add: read_handshake_version_def io_bind_def Let_def continue_mask_byte gives_def io_ret_def
        standard_length_byte)
qed

lemma read_handshake_segments:
  assumes R: "lawful_reader R V" and r: "V r (b # bs)" and b: "128 \<le> unat b" "b \<noteq> 0xFE"
  shows "leb_outcome V 3 bs (\<lambda>n. Standard (standard_value (unat b) n))
    (\<lambda>e. e = ROverSized ''handshake_varint'' 3 4) (read_handshake_version R) r"
proof -
  let ?over = "\<lambda>_. io_err (ROverSized ''handshake_varint'' 3 4)"
  obtain r1 where r1: "V r1 bs" "read_u8 R r = (Ok b, r1)"
    using read_first_byte [OF R r] .
  have run: "read_handshake_version R r
      = segments standard_length ?over R (map (\<lambda>i. 7 * i) [1..<4]) (ucast b) r1"
    using b by (simp add: read_handshake_version_def io_bind_def r1(2) continue_mask_byte
        read_standard_loop_segments step_by_7_24_7 not_less)
  have "leb_ends V (4 - 1) bs (\<lambda>n. standard_length ((ucast b :: u32) OR push_bit (7 * 1) (of_nat n)))
      ?over (segments standard_length ?over R (map (\<lambda>i. 7 * i) [1..<4]) (ucast b)) r1"
    by (rule segments_leb [OF R r1(1) refl]) simp
  then show ?thesis
    unfolding leb_ends_def leb_outcome_def
    by (cases "leb_decode 3 bs")
       (auto simp: standard_length_segments [OF b(1)] gives_def fails_def run io_ret_def io_err_def)
qed

text \<open>
  The lengths that come back as they were sent: one segment, or a second segment of odd value.
  Every other length comes back 128 larger.
\<close>

lemma read_handshake_length:
  assumes R: "lawful_reader R V" and r: "V r (varint_bytes n @ rest)"
    and n: "n < 2 ^ 28" and not_fe: "n < 128 \<or> n mod 128 \<noteq> 126"
  shows "gives (read_handshake_version R) r
    (Standard (if n < 128 \<or> odd (n div 128) then n else n + 128)) (\<lambda>r'. V r' rest)"
proof (cases "n < 128")
  case True
  then show ?thesis
    using read_handshake_one_segment [OF R, of r "of_nat n" rest] r by simp
next
  case False
  let ?b = "of_nat (n mod 128 + 128) :: byte"
  have b: "unat ?b = n mod 128 + 128" by simp
  have "?b \<noteq> 0xFE"
  proof
    assume "?b = 0xFE"
    then have "unat ?b = unat (0xFE :: byte)" by (rule arg_cong)
    with b False not_fe show False by simp
  qed
  have "V r (?b # varint_bytes (n div 128) @ rest)"
    using r False by (simp add: varint_bytes_large)
  moreover have "leb_decode 3 (varint_bytes (n div 128) @ rest) = Value (n div 128) rest"
    using n by (intro leb_decode_varint_bytes) (simp_all add: less_mult_imp_div_less)
  moreover have "standard_value (n mod 128 + 128) (n div 128)
      = (if n < 128 \<or> odd (n div 128) then n else n + 128)"
    using False by (simp add: standard_value_def)
  ultimately show ?thesis
    using read_handshake_segments [OF R _ _ \<open>?b \<noteq> 0xFE\<close>, of r "varint_bytes (n div 128) @ rest"]
    by (simp only: leb_outcome_def b leb.case le_add2)
qed

section \<open>The legacy pings\<close>

definition legacy_1_6_bytes :: "16 word \<Rightarrow> byte list" where
  "legacy_1_6_bytes bound = [0x00, 0x0B] @ ping_host_channel @ to_be_bytes 2 bound"

lemma legacy_channel_length: "(from_be_bytes [0x00, 0x0B] :: 16 word) = 0x0B"
  by (simp add: from_be_bytes_def push_bit_eq_mult)

lemma read_legacy_1_6_ping:
  assumes R: "lawful_reader R V" and r: "V r (legacy_1_6_bytes bound @ rest)"
  shows "if sint bound < 0
    then fails (read_legacy_1_6 R) r (\<lambda>e. e = NegativeLength ''legacy_ping_bound'') (\<lambda>r'. V r' rest)
    else gives (read_legacy_1_6 R) r (Legacy1_6 (nat (sint bound))) (\<lambda>r'. V r' rest)"
proof -
  let ?m = "\<lambda>n. io_map_err RStreamError (read_exact R n)"
  have part: "gives (?m n) r bs (\<lambda>r'. V r' cs)" if "V r (bs @ cs)" "n = length bs" for r n bs cs
    using that by (intro gives_map_err lawful_reader.read_prefix [OF R])
  obtain r1 where r1: "?m 2 r = (Ok [0x00, 0x0B], r1)"
      "V r1 (ping_host_channel @ to_be_bytes 2 bound @ rest)"
    by (rule givesE [OF part [where n = 2 and r = r and bs = "[0x00, 0x0B]"]]) (use r in \<open>simp_all add: legacy_1_6_bytes_def\<close>)
  obtain r2 where r2: "?m 22 r1 = (Ok ping_host_channel, r2)" "V r2 (to_be_bytes 2 bound @ rest)"
    by (rule givesE [OF part [OF r1(2), of 22]]) (simp_all add: ping_host_channel_def)
  obtain r3 where r3: "?m 2 r2 = (Ok (to_be_bytes 2 bound), r3)" "V r3 rest"
    by (rule givesE [OF part [OF r2(2), of 2]]) simp_all
  have "(from_be_bytes (to_be_bytes 2 bound) :: 16 word) = bound"
    by (rule from_to_be_bytes) simp
  then have "read_legacy_1_6 R r = (if sint bound < 0 then (Err (NegativeLength ''legacy_ping_bound''), r3)
      else (Ok (Legacy1_6 (nat (sint bound))), r3))"
    by (simp only: read_legacy_1_6_def io_bind_def r1(1) r2(1) r3(1) legacy_channel_length prod.case
        outcome.case not_True_eq_False if_False Let_def if_distribR io_ret_def io_err_def simp_thms)
  with r3(2) show ?thesis
    by (simp only: gives_def fails_def) auto
qed

text \<open>
  The first byte \<open>0xFE\<close>: the kind of ping is told by where the bytes that have arrived end.
\<close>

lemma read_handshake_fe:
  assumes "lawful_reader R V" and "V r (0xFE # bs)"
  obtains r1 where "V r1 bs" and "read_handshake_version R r = read_legacy R r1"
proof -
  obtain r1 where "V r1 bs" and "read_u8 R r = (Ok 0xFE, r1)"
    using read_first_byte [OF assms] .
  then show ?thesis by (intro that) (simp_all add: read_handshake_version_def io_bind_def)
qed

lemma try_next:
  assumes "lawful_trying R V ready" and "V r (b # bs)" and "ready r"
  obtains r1 where "V r1 bs" and "io_map_err RStreamError (try_read_byte R) r = (Ok (Some b), r1)"
  using givesE [OF gives_map_err [OF lawful_trying.try_ready [OF assms]]] by metis

lemma try_blocked_next:
  assumes "lawful_trying R V ready" and "V r bs" and "\<not> ready r"
  obtains r1 where "V r1 bs" and "io_map_err RStreamError (try_read_byte R) r = (Ok None, r1)"
  using givesE [OF gives_map_err [OF lawful_trying.try_blocked [OF assms]]] by metis

lemma read_handshake_pre_1_3:
  assumes T: "lawful_trying R V ready" and r: "V r (0xFE # bs)"
    and blocked: "\<And>r'. V r' bs \<Longrightarrow> \<not> ready r'"
  shows "gives (read_handshake_version R) r Pre1_3 (\<lambda>r'. V r' bs)"
proof -
  obtain r1 where r1: "V r1 bs" "read_handshake_version R r = read_legacy R r1"
    using read_handshake_fe [OF lawful_trying.axioms(1) [OF T] r] .
  from blocked [OF r1(1)] obtain r2 where
    "V r2 bs" "io_map_err RStreamError (try_read_byte R) r1 = (Ok None, r2)"
    using try_blocked_next [OF T r1(1)] by blast
  then show ?thesis by (simp add: gives_def r1(2) read_legacy_def io_bind_def io_ret_def)
qed

lemma read_handshake_pre_1_6:
  assumes T: "lawful_trying R V ready" and r: "V r (0xFE # 0x01 # bs)"
    and first: "\<And>r'. V r' (0x01 # bs) \<Longrightarrow> ready r'" and blocked: "\<And>r'. V r' bs \<Longrightarrow> \<not> ready r'"
  shows "gives (read_handshake_version R) r Pre1_6 (\<lambda>r'. V r' bs)"
proof -
  obtain r1 where r1: "V r1 (0x01 # bs)" "read_handshake_version R r = read_legacy R r1"
    using read_handshake_fe [OF lawful_trying.axioms(1) [OF T] r] .
  obtain r2 where r2: "V r2 bs" "io_map_err RStreamError (try_read_byte R) r1 = (Ok (Some 0x01), r2)"
    using try_next [OF T r1(1) first [OF r1(1)]] .
  obtain r3 where "V r3 bs" "io_map_err RStreamError (try_read_byte R) r2 = (Ok None, r3)"
    using try_blocked_next [OF T r2(1) blocked [OF r2(1)]] .
  then show ?thesis by (simp add: gives_def r1(2) r2(2) read_legacy_def io_bind_def io_ret_def)
qed

lemma read_handshake_legacy_1_6:
  assumes T: "lawful_trying R V ready" and r: "V r (0xFE # 0x01 # 0xFA # legacy_1_6_bytes bound @ rest)"
    and first: "\<And>r'. V r' (0x01 # 0xFA # legacy_1_6_bytes bound @ rest) \<Longrightarrow> ready r'"
    and second: "\<And>r'. V r' (0xFA # legacy_1_6_bytes bound @ rest) \<Longrightarrow> ready r'"
  shows "if sint bound < 0
    then fails (read_handshake_version R) r (\<lambda>e. e = NegativeLength ''legacy_ping_bound'') (\<lambda>r'. V r' rest)
    else gives (read_handshake_version R) r (Legacy1_6 (nat (sint bound))) (\<lambda>r'. V r' rest)"
proof -
  obtain r1 where r1: "V r1 (0x01 # 0xFA # legacy_1_6_bytes bound @ rest)"
      "read_handshake_version R r = read_legacy R r1"
    using read_handshake_fe [OF lawful_trying.axioms(1) [OF T] r] .
  obtain r2 where r2: "V r2 (0xFA # legacy_1_6_bytes bound @ rest)"
      "io_map_err RStreamError (try_read_byte R) r1 = (Ok (Some 0x01), r2)"
    using try_next [OF T r1(1) first [OF r1(1)]] .
  obtain r3 where r3: "V r3 (legacy_1_6_bytes bound @ rest)"
      "io_map_err RStreamError (try_read_byte R) r2 = (Ok (Some 0xFA), r3)"
    using try_next [OF T r2(1) second [OF r2(1)]] .
  have "read_handshake_version R r = read_legacy_1_6 R r3"
    by (simp add: r1(2) r2(2) r3(2) read_legacy_def io_bind_def)
  then show ?thesis
    using read_legacy_1_6_ping [OF lawful_trying.axioms(1) [OF T] r3(1)]
    by (cases "sint bound < 0") (simp_all add: gives_def fails_def)
qed

lemma read_handshake_malformed:
  assumes T: "lawful_trying R V ready" and r: "V r (0xFE # b # bs)" and b: "b \<noteq> 0x01"
    and first: "\<And>r'. V r' (b # bs) \<Longrightarrow> ready r'"
  shows "fails (read_handshake_version R) r (\<lambda>e. e = MalformedLegacyPing) (\<lambda>r'. V r' bs)"
proof -
  obtain r1 where r1: "V r1 (b # bs)" "read_handshake_version R r = read_legacy R r1"
    using read_handshake_fe [OF lawful_trying.axioms(1) [OF T] r] .
  obtain r2 where "V r2 bs" "io_map_err RStreamError (try_read_byte R) r1 = (Ok (Some b), r2)"
    using try_next [OF T r1(1) first [OF r1(1)]] .
  with b show ?thesis by (simp add: fails_def r1(2) read_legacy_def io_bind_def io_err_def)
qed

end
