(* ===== verification/Handshake.thy ===== *)
theory Handshake
  imports Packet_Write Handshake_Version
begin

text \<open>
  The handshake state of \<open>src/protocol/mod.rs\<close>: \<open>read_handshake\<close>, and the responses to a legacy
  ping.  A Rust string is the list of its Unicode scalar values.
\<close>

section \<open>Reading a handshake\<close>

definition read_handshake ::
  "protocol \<Rightarrow> state \<Rightarrow> ('r, 'b, 'd, 'c, 'e) read_stream \<Rightarrow> ('b, 'c, 'h, 'e) state_handler \<Rightarrow>
   ('r, 'h, 'e read_error) io" where
  "read_handshake p s S H =
     io_bind (read_handshake_version (base S)) (\<lambda>version. case version of
       handshake_version.Standard bound \<Rightarrow>
         within_bound S bound (handle_helper p s (bounded S) (handle_bounded H))
     | handshake_version.Legacy1_6 bound \<Rightarrow>
         within_bound S bound (then_discard (bounded S) (handle_bounded H (Handshake handshake.Legacy1_6)))
     | Pre1_6 \<Rightarrow>
         within_bound S 0 (then_discard (bounded S) (handle_bounded H (Handshake Legacy1_5)))
     | Pre1_3 \<Rightarrow>
         within_bound S 0 (then_discard (bounded S) (handle_bounded H (Handshake Legacy1_3))))"

section \<open>Legacy ping responses\<close>

type_synonym rust_str = "nat list"

fun utf16_units :: "nat \<Rightarrow> 16 word list" where
  "utf16_units c =
     (if c < 0x10000 then [of_nat c]
      else [of_nat (0xD800 + (c - 0x10000) div 0x400), of_nat (0xDC00 + (c - 0x10000) mod 0x400)])"

definition encode_utf16 :: "rust_str \<Rightarrow> 16 word list" where
  "encode_utf16 s = concat (map utf16_units s)"

definition utf16_code_units :: "rust_str \<Rightarrow> nat" where
  "utf16_code_units s = length (encode_utf16 s)"

text \<open>\<open>write_legacy_string!\<close>\<close>

primrec write_legacy_units ::
  "('w, 'e, 'x) writer_scheme \<Rightarrow> 16 word list \<Rightarrow> ('w, unit, 'e write_error) io" where
  "write_legacy_units W [] = io_ret ()"
| "write_legacy_units W (codeunit # rest) = io_bind (write_u16 W codeunit) (\<lambda>_. write_legacy_units W rest)"

definition write_legacy_string ::
  "('w, 'e, 'x) writer_scheme \<Rightarrow> rust_str \<Rightarrow> ('w, unit, 'e write_error) io" where
  "write_legacy_string W s = write_legacy_units W (encode_utf16 s)"

record legacy1_3_ping_response =
  motd :: rust_str
  player_count :: rust_str
  max_players :: rust_str
  payload_length :: "16 word"

record legacy1_6_ping_response =
  server_version :: rust_str
  motd6 :: rust_str
  player_count6 :: rust_str
  max_players6 :: rust_str
  payload_length6 :: "16 word"

definition new_1_3 :: "rust_str \<Rightarrow> rust_str \<Rightarrow> rust_str \<Rightarrow> legacy1_3_ping_response option" where
  "new_1_3 m pc mp =
     (let payload_len = 2 + utf16_code_units m + utf16_code_units pc + utf16_code_units mp
      in if payload_len > 0x100 then None
         else Some \<lparr>motd = m, player_count = pc, max_players = mp, payload_length = of_nat payload_len\<rparr>)"

definition I16_MAX :: nat where "I16_MAX = 2 ^ 15 - 1"

definition new_1_6 :: "rust_str \<Rightarrow> rust_str \<Rightarrow> rust_str \<Rightarrow> rust_str \<Rightarrow> legacy1_6_ping_response option" where
  "new_1_6 v m pc mp =
     (let payload_len = 10 + (utf16_code_units v + utf16_code_units m + utf16_code_units pc + utf16_code_units mp)
      in if payload_len > I16_MAX then None
         else Some \<lparr>server_version = v, motd6 = m, player_count6 = pc, max_players6 = mp,
                    payload_length6 = of_nat payload_len\<rparr>)"

text \<open>The section sign, and the strings \<open>\<section>1\<close> and \<open>127\<close>.\<close>

definition section_sign :: rust_str where "section_sign = [0xA7]"
definition section_one :: rust_str where "section_one = [0xA7, 0x31]"
definition version_127 :: rust_str where "version_127 = [0x31, 0x32, 0x37]"

definition write_legacy1_3 ::
  "('w, 'e, 'x) writer_scheme \<Rightarrow> legacy1_3_ping_response \<Rightarrow> ('w, unit, 'e write_error) io" where
  "write_legacy1_3 W this =
     io_bind (write_u8 W 0xFF) (\<lambda>_.
     io_bind (write_i16 W (payload_length this)) (\<lambda>_.
     io_bind (write_legacy_string W (motd this)) (\<lambda>_.
     io_bind (write_legacy_string W section_sign) (\<lambda>_.
     io_bind (write_legacy_string W (player_count this)) (\<lambda>_.
     io_bind (write_legacy_string W section_sign) (\<lambda>_.
     write_legacy_string W (max_players this)))))))"

definition write_legacy1_6 ::
  "('w, 'e, 'x) writer_scheme \<Rightarrow> legacy1_6_ping_response \<Rightarrow> ('w, unit, 'e write_error) io" where
  "write_legacy1_6 W this =
     io_bind (write_u8 W 0xFF) (\<lambda>_.
     io_bind (write_i16 W (payload_length6 this)) (\<lambda>_.
     io_bind (write_legacy_string W section_one) (\<lambda>_.
     io_bind (write_u16 W 0) (\<lambda>_.
     io_bind (write_legacy_string W version_127) (\<lambda>_.
     io_bind (write_u16 W 0) (\<lambda>_.
     io_bind (write_legacy_string W (server_version this)) (\<lambda>_.
     io_bind (write_u16 W 0) (\<lambda>_.
     io_bind (write_legacy_string W (motd6 this)) (\<lambda>_.
     io_bind (write_u16 W 0) (\<lambda>_.
     io_bind (write_legacy_string W (player_count6 this)) (\<lambda>_.
     io_bind (write_u16 W 0) (\<lambda>_.
     write_legacy_string W (max_players6 this)))))))))))))"

definition write_raw ::
  "('w, 'e, 'x) writer_scheme \<Rightarrow> (('w, 'e, 'x) writer_scheme \<Rightarrow> ('w, unit, 'e write_error) io) \<Rightarrow>
   ('w, unit, 'e write_error) io" where
  "write_raw W data = io_bind (data W) (\<lambda>_. io_map_err WStreamError (flush W))"

definition write_legacy_1_3_ping_response ::
  "('w, 'e, 'x) writer_scheme \<Rightarrow> legacy1_3_ping_response \<Rightarrow> ('w, unit, 'e write_error) io" where
  "write_legacy_1_3_ping_response W response = write_raw W (\<lambda>W. write_legacy1_3 W response)"

definition write_legacy_1_6_ping_response ::
  "('w, 'e, 'x) writer_scheme \<Rightarrow> legacy1_6_ping_response \<Rightarrow> ('w, unit, 'e write_error) io" where
  "write_legacy_1_6_ping_response W response = write_raw W (\<lambda>W. write_legacy1_6 W response)"

section \<open>The bytes of a response\<close>

text \<open>A ping response is a kick packet: \<open>0xFF\<close>, the number of UTF-16 code units, and the units.\<close>

definition kick_bytes :: "rust_str \<Rightarrow> byte list" where
  "kick_bytes s = 0xFF # to_be_bytes 2 (of_nat (utf16_code_units s) :: 16 word) @
     concat (map (to_be_bytes 2) (encode_utf16 s))"

definition legacy1_3_text :: "rust_str \<Rightarrow> rust_str \<Rightarrow> rust_str \<Rightarrow> rust_str" where
  "legacy1_3_text m pc mp = m @ section_sign @ pc @ section_sign @ mp"

definition legacy1_6_text :: "rust_str \<Rightarrow> rust_str \<Rightarrow> rust_str \<Rightarrow> rust_str \<Rightarrow> rust_str" where
  "legacy1_6_text v m pc mp =
     section_one @ 0 # version_127 @ 0 # v @ 0 # m @ 0 # pc @ 0 # mp"

lemma encode_utf16_append [simp]: "encode_utf16 (s @ t) = encode_utf16 s @ encode_utf16 t"
  by (simp add: encode_utf16_def)

lemma encode_utf16_bmp [simp]: "c < 0x10000 \<Longrightarrow> encode_utf16 (c # s) = of_nat c # encode_utf16 s"
  by (simp add: encode_utf16_def)

lemma encode_utf16_nil [simp]: "encode_utf16 [] = []"
  by (simp add: encode_utf16_def)

lemma write_legacy_string_emits:
  assumes "lawful_sink W V"
  shows "emits V (write_legacy_string W s) (concat (map (to_be_bytes 2) (encode_utf16 s)))"
proof -
  have "emits V (write_legacy_units W us) (concat (map (to_be_bytes 2) us))" for us
    by (induction us) (auto intro!: emits_ret emits_bind u16.writes_enc [OF TrueI assms])
  then show ?thesis by (simp add: write_legacy_string_def)
qed

text \<open>
  A response that \<open>new\<close> accepts is written as the kick packet of its text, with the right number of
  code units and a length field that is not negative.
\<close>

lemma legacy1_3_bytes:
  assumes W: "lawful_writer W V" and new: "new_1_3 m pc mp = Some response"
  shows "emits V (write_legacy_1_3_ping_response W response) (kick_bytes (legacy1_3_text m pc mp)) \<and>
    utf16_code_units (legacy1_3_text m pc mp) \<le> 0x100"
proof -
  note sink = lawful_writer.axioms(1) [OF W]
  have r: "response = \<lparr>motd = m, player_count = pc, max_players = mp,
      payload_length = of_nat (utf16_code_units (legacy1_3_text m pc mp))\<rparr>"
    and len: "utf16_code_units (legacy1_3_text m pc mp) \<le> 0x100"
    using new by (auto simp: new_1_3_def Let_def legacy1_3_text_def utf16_code_units_def section_sign_def
        ac_simps split: if_splits)
  let ?u = "\<lambda>s. concat (map (to_be_bytes 2) (encode_utf16 s))"
  have "emits V (write_legacy_1_3_ping_response W response)
      ((to_be_bytes 1 (0xFF :: 8 word) @ to_be_bytes 2 (of_nat (utf16_code_units (legacy1_3_text m pc mp)) :: 16 word) @
        ?u m @ ?u section_sign @ ?u pc @ ?u section_sign @ ?u mp) @ [])"
    unfolding write_legacy_1_3_ping_response_def write_raw_def write_legacy1_3_def r
    by (simp only: legacy1_3_ping_response.simps)
       (intro emits_bind emits_flush [OF W] write_legacy_string_emits [OF sink] u8.writes_enc [OF TrueI sink] i16.writes_enc [OF TrueI sink])
  then show ?thesis
    using len by (simp add: kick_bytes_def legacy1_3_text_def to_be_bytes_def)
qed

lemma legacy1_6_bytes:
  assumes W: "lawful_writer W V" and new: "new_1_6 v m pc mp = Some response"
  shows "emits V (write_legacy_1_6_ping_response W response) (kick_bytes (legacy1_6_text v m pc mp)) \<and>
    utf16_code_units (legacy1_6_text v m pc mp) \<le> I16_MAX"
proof -
  note sink = lawful_writer.axioms(1) [OF W]
  have r: "response = \<lparr>server_version = v, motd6 = m, player_count6 = pc, max_players6 = mp,
      payload_length6 = of_nat (utf16_code_units (legacy1_6_text v m pc mp))\<rparr>"
    and len: "utf16_code_units (legacy1_6_text v m pc mp) \<le> I16_MAX"
    using new by (auto simp: new_1_6_def Let_def legacy1_6_text_def utf16_code_units_def section_one_def version_127_def
        ac_simps split: if_splits)
  let ?u = "\<lambda>s. concat (map (to_be_bytes 2) (encode_utf16 s))" and ?z = "to_be_bytes 2 (0 :: 16 word)"
  have "emits V (write_legacy_1_6_ping_response W response)
      ((to_be_bytes 1 (0xFF :: 8 word) @ to_be_bytes 2 (of_nat (utf16_code_units (legacy1_6_text v m pc mp)) :: 16 word) @
        ?u section_one @ ?z @ ?u version_127 @ ?z @ ?u v @ ?z @ ?u m @ ?z @ ?u pc @ ?z @ ?u mp) @ [])"
    unfolding write_legacy_1_6_ping_response_def write_raw_def write_legacy1_6_def r
    by (simp only: legacy1_6_ping_response.simps)
       (intro emits_bind emits_flush [OF W] write_legacy_string_emits [OF sink] u8.writes_enc [OF TrueI sink]
         u16.writes_enc [OF TrueI sink] i16.writes_enc [OF TrueI sink])
  then show ?thesis
    using len by (simp add: kick_bytes_def legacy1_6_text_def to_be_bytes_def)
qed

section \<open>What a handshake is read as\<close>

text \<open>A handler called at a bound: its outcome, and the rest of the bound discarded.\<close>

lemma within_bound_frame:
  assumes S: "lawful_stream S V B" and r: "V r (payload @ rest)"
    and m: "\<And>b. B b (length payload) (payload @ rest) \<Longrightarrow> \<exists>b'. m b = (res, b') \<and> B b' 0 rest"
  shows "\<exists>r'. within_bound S (length payload) m r = (res, r') \<and> V r' rest"
  using m [OF lawful_stream.bound_enter [OF S r]] lawful_stream.bound_leave [OF S]
  by (auto simp: within_bound_def io_within_def)

lemma read_handshake_standard:
  assumes S: "lawful_stream S V B" and d: "designator_from_id p s 0 = Some d"
    and m: "well_behaved B (handle_bounded H d)" "answers B (handle_bounded H d) payload res" "returns res"
    and v: "gives (read_handshake_version (base S)) r (handshake_version.Standard (length payload + 1))
      (\<lambda>r'. V r' (0 # payload @ rest))"
  shows "\<exists>r'. read_handshake p s S H r = (res, r') \<and> V r' rest"
proof -
  have zero: "varint_into (varint_from 0) = 0" by (rule varint_into_from) simp_all
  obtain r1 where r1: "read_handshake_version (base S) r = (Ok (handshake_version.Standard (length (0 # payload))), r1)"
      "V r1 ((0 # payload) @ rest)"
    using v by (auto simp: gives_def)
  have "\<exists>r'. within_bound S (length (0 # payload)) (handle_helper p s (bounded S) (handle_bounded H)) r1 = (res, r')
      \<and> V r' rest"
  proof (rule within_bound_frame [OF S r1(2)])
    fix b
    assume "B b (length (0 # payload)) ((0 # payload) @ rest)"
    then show "\<exists>b'. handle_helper p s (bounded S) (handle_bounded H) b = (res, b') \<and> B b' 0 rest"
      using handle_helper_frame [where handle = "handle_bounded H" and v = "varint_from 0" and B = B,
        OF lawful_stream.bounded_lawful [OF S] _ m] d
      by (simp add: zero enc_varint_zero)
  qed
  then show ?thesis
    by (simp add: read_handshake_def io_bind_def r1(1))
qed

text \<open>
  A modern handshake of a length that the first segment codes, or whose second segment is odd, is
  read as the packet it is.
\<close>

lemma read_handshake_modern:
  assumes S: "lawful_stream S V B" and d: "designator_from_id p s 0 = Some d"
    and m: "well_behaved B (handle_bounded H d)" "answers B (handle_bounded H d) payload res" "returns res"
    and n: "n = length payload + 1" "n < 2 ^ 28" "n < 128 \<or> n mod 128 \<noteq> 126" "n < 128 \<or> odd (n div 128)"
    and r: "V r (varint_bytes n @ 0 # payload @ rest)"
  shows "\<exists>r'. read_handshake p s S H r = (res, r') \<and> V r' rest"
proof (rule read_handshake_standard [OF S d m])
  show "gives (read_handshake_version (base S)) r (handshake_version.Standard (length payload + 1))
      (\<lambda>r'. V r' (0 # payload @ rest))"
    using read_handshake_length [OF lawful_stream.base_lawful [OF S] r n(2,3)] n(1,4) by simp
qed

text \<open>
  Of the other lengths, the bound is 128 too large: the handler sees the first 128 bytes of what
  follows as part of the handshake, and they are discarded with it.
\<close>

lemma read_handshake_overread:
  assumes S: "lawful_stream S V B" and d: "designator_from_id p s 0 = Some d"
    and m: "well_behaved B (handle_bounded H d)"
      "answers B (handle_bounded H d) (payload @ next_bytes) res" "returns res"
    and n: "n = length payload + 1" "n < 2 ^ 28" "128 \<le> n" "n mod 128 \<noteq> 126" "even (n div 128)"
    and next_bytes: "length next_bytes = 128"
    and r: "V r (varint_bytes n @ 0 # payload @ next_bytes @ rest)"
  shows "\<exists>r'. read_handshake p s S H r = (res, r') \<and> V r' rest"
proof (rule read_handshake_standard [OF S d m])
  show "gives (read_handshake_version (base S)) r (handshake_version.Standard (length (payload @ next_bytes) + 1))
      (\<lambda>r'. V r' (0 # (payload @ next_bytes) @ rest))"
    using read_handshake_length [OF lawful_stream.base_lawful [OF S] r n(2)] n next_bytes
    by (simp add: ac_simps)
qed

text \<open>The legacy pings: the handler is told which, and gets the data of the \<open>MC|PingHost\<close> message.\<close>

lemma read_handshake_legacy:
  assumes S: "lawful_stream S V B"
    and m: "well_behaved B (handle_bounded H (Handshake h))" "answers B (handle_bounded H (Handshake h)) payload res"
      "returns res"
    and v: "gives (read_handshake_version (base S)) r v (\<lambda>r'. V r' (payload @ rest))"
    and h: "(v, h) = (handshake_version.Legacy1_6 (length payload), handshake.Legacy1_6) \<or>
      (v, h) = (Pre1_6, Legacy1_5) \<and> payload = [] \<or> (v, h) = (Pre1_3, Legacy1_3) \<and> payload = []"
  shows "\<exists>r'. read_handshake p s S H r = (res, r') \<and> V r' rest"
proof -
  obtain r1 where r1: "read_handshake_version (base S) r = (Ok v, r1)" "V r1 (payload @ rest)"
    using v by (auto simp: gives_def)
  have "\<exists>r'. within_bound S (length payload) (then_discard (bounded S) (handle_bounded H (Handshake h))) r1 = (res, r')
      \<and> V r' rest"
    by (rule within_bound_frame [OF S r1(2)], rule then_discard_frame [OF lawful_stream.bounded_lawful [OF S] m])
  with h show ?thesis
    by (auto simp: read_handshake_def io_bind_def r1(1))
qed

end
