(* ===== verification/Sync_Read.thy ===== *)
theory Sync_Read
  imports Packet_Read
begin

text \<open>
  The readers of \<open>src/defaults/sync.rs\<close>: a \<open>BufReader\<close> of the stream, decrypted once encryption is
  switched on, bounded by \<open>Take\<close> and decompressed in between.  The cipher (\<open>cfb8\<close>, \<open>aes\<close>) and
  \<open>inflate\<close> (\<open>miniz_oxide\<close>) are parameters.
\<close>

section \<open>BufReader\<close>

record 'r buf_reader =
  source :: 'r
  buffered :: "byte list"
  buf_capacity :: nat

definition buf_reader_fill_buf :: "('r, 'x) std_read_scheme \<Rightarrow> ('r buf_reader, byte list, io_error) io" where
  "buf_reader_fill_buf R = (\<lambda>b.
     if buffered b = []
     then case read_some R (buf_capacity b) (source b) of
         (Ok bs, r) \<Rightarrow> (Ok bs, b\<lparr>source := r, buffered := bs\<rparr>)
       | (Err e, r) \<Rightarrow> (Err e, b\<lparr>source := r\<rparr>)
       | (Panic, r) \<Rightarrow> (Panic, b\<lparr>source := r\<rparr>)
       | (Diverge, r) \<Rightarrow> (Diverge, b\<lparr>source := r\<rparr>)
     else (Ok (buffered b), b))"

definition buf_reader_consume :: "nat \<Rightarrow> 'r buf_reader \<Rightarrow> 'r buf_reader" where
  "buf_reader_consume amt b = b\<lparr>buffered := drop amt (buffered b)\<rparr>"

definition buf_reader_read :: "('r, 'x) std_read_scheme \<Rightarrow> nat \<Rightarrow> ('r buf_reader, byte list, io_error) io" where
  "buf_reader_read R n = (\<lambda>b.
     if buffered b = [] \<and> buf_capacity b \<le> n
     then io_within source (\<lambda>b r. b\<lparr>source := r\<rparr>) (read_some R n) b
     else io_bind (buf_reader_fill_buf R)
       (\<lambda>rem b. (Ok (take n rem), buf_reader_consume (min n (length rem)) b)) b)"

definition buf_read :: "('r, 'x) std_read_scheme \<Rightarrow> 'r buf_reader std_buf_read" where
  "buf_read R =
     \<lparr>read_some = buf_reader_read R,
      set_blocking = (\<lambda>blocking. io_within source (\<lambda>b r. b\<lparr>source := r\<rparr>) (set_blocking R blocking)),
      fill_buf = buf_reader_fill_buf R,
      consume = buf_reader_consume\<rparr>"

definition buf_view :: "('r \<Rightarrow> byte list \<Rightarrow> bool) \<Rightarrow> 'r buf_reader \<Rightarrow> byte list \<Rightarrow> bool" where
  "buf_view V b bs \<longleftrightarrow> 0 < buf_capacity b \<and> (\<exists>cs. V (source b) cs \<and> bs = buffered b @ cs)"

section \<open>The stream, decrypted or not\<close>

text \<open>
  The cipher is \<open>Decryptor<Aes128>\<close> in CFB-8: \<open>init key\<close> is \<open>Decryptor::new(key, key)\<close>,
  \<open>apply_blocks k bs\<close> is \<open>decrypt_blocks_inout_mut\<close> on blocks of one byte.
\<close>

record 'k cipher =
  init :: "byte list \<Rightarrow> 'k"
  apply_blocks :: "'k \<Rightarrow> byte list \<Rightarrow> byte list \<times> 'k"

text \<open>Documented behaviour of a cipher on blocks of one byte: one byte for one byte, in order.\<close>

definition stream_cipher :: "'k cipher \<Rightarrow> bool" where
  "stream_cipher c \<longleftrightarrow>
     (\<forall>k. apply_blocks c k [] = ([], k)) \<and>
     (\<forall>k bs. length (fst (apply_blocks c k bs)) = length bs) \<and>
     (\<forall>k bs cs. apply_blocks c k (bs @ cs) =
        (let (ps, k') = apply_blocks c k bs; (qs, k'') = apply_blocks c k' cs in (ps @ qs, k'')))"

datatype ('k, 'r) default_reader = StandardReader 'r | DecryptReader 'k 'r | PoisonedReader

definition decryption_read ::
  "'k cipher \<Rightarrow> ('r, 'x) std_read_scheme \<Rightarrow> nat \<Rightarrow> ('k \<times> 'r, byte list, io_error) io" where
  "decryption_read c R n = (\<lambda>(k, r). case read_some R n r of
     (Ok bs, r') \<Rightarrow>
       if bs = [] then (Ok [], (k, r'))
       else (case apply_blocks c k bs of (ps, k') \<Rightarrow> (Ok ps, (k', r')))
   | (Err e, r') \<Rightarrow> (Err e, (k, r'))
   | (Panic, r') \<Rightarrow> (Panic, (k, r'))
   | (Diverge, r') \<Rightarrow> (Diverge, (k, r')))"

definition default_reader_read ::
  "'k cipher \<Rightarrow> ('r, 'x) std_read_scheme \<Rightarrow> nat \<Rightarrow> (('k, 'r) default_reader, byte list, io_error) io" where
  "default_reader_read c R n = (\<lambda>s. case s of
     StandardReader r \<Rightarrow> (case read_some R n r of (res, r') \<Rightarrow> (res, StandardReader r'))
   | DecryptReader k r \<Rightarrow> (case decryption_read c R n (k, r) of (res, (k', r')) \<Rightarrow> (res, DecryptReader k' r'))
   | PoisonedReader \<Rightarrow> (Panic, PoisonedReader))"

definition default_reader_set_blocking ::
  "('r, 'x) std_read_scheme \<Rightarrow> bool \<Rightarrow> (('k, 'r) default_reader, unit, io_error) io" where
  "default_reader_set_blocking R blocking = (\<lambda>s. case s of
     StandardReader r \<Rightarrow> (case set_blocking R blocking r of (res, r') \<Rightarrow> (res, StandardReader r'))
   | DecryptReader k r \<Rightarrow> (case set_blocking R blocking r of (res, r') \<Rightarrow> (res, DecryptReader k r'))
   | PoisonedReader \<Rightarrow> (Panic, PoisonedReader))"

definition default_read :: "'k cipher \<Rightarrow> ('r, 'x) std_read_scheme \<Rightarrow> ('k, 'r) default_reader std_read" where
  "default_read c R = \<lparr>read_some = default_reader_read c R, set_blocking = default_reader_set_blocking R\<rparr>"

text \<open>\<open>DefaultReader::with_encryption\<close> leaves \<open>Poisoned\<close> behind where it panics.\<close>

definition reader_with_encryption ::
  "'k cipher \<Rightarrow> byte list \<Rightarrow> (('k, 'r) default_reader, unit, 'e) io" where
  "reader_with_encryption c k = (\<lambda>s. case s of
     StandardReader r \<Rightarrow> (Ok (), DecryptReader (init c k) r)
   | DecryptReader _ _ \<Rightarrow> (Panic, PoisonedReader)
   | PoisonedReader \<Rightarrow> (Panic, PoisonedReader))"

definition default_view ::
  "'k cipher \<Rightarrow> ('r \<Rightarrow> byte list \<Rightarrow> bool) \<Rightarrow> ('k, 'r) default_reader \<Rightarrow> byte list \<Rightarrow> bool" where
  "default_view c V s bs = (case s of
     StandardReader r \<Rightarrow> V r bs
   | DecryptReader k r \<Rightarrow> \<exists>cs. V r cs \<and> bs = fst (apply_blocks c k cs)
   | PoisonedReader \<Rightarrow> False)"

fun reader_stream :: "('k, 'r) default_reader \<Rightarrow> 'r option" where
  "reader_stream (StandardReader r) = Some r"
| "reader_stream (DecryptReader _ r) = Some r"
| "reader_stream PoisonedReader = None"

section \<open>DecompressionStateWrappedReader and DecompressionReader\<close>

record ('z, 'r) state_wrapped =
  decompression_state :: 'z
  wrapped :: 'r

definition wrapped_read :: "('r, 'x) std_read_scheme \<Rightarrow> ('z, 'r) state_wrapped std_read" where
  "wrapped_read R =
     \<lparr>read_some = (\<lambda>n. io_within wrapped (\<lambda>w r. w\<lparr>wrapped := r\<rparr>) (read_some R n)),
      set_blocking = (\<lambda>blocking. io_within wrapped (\<lambda>w r. w\<lparr>wrapped := r\<rparr>) (set_blocking R blocking))\<rparr>"

text \<open>
  \<open>inflate\<close>: the state, the input at hand and the room for output give the new state, the number of
  bytes consumed, and the bytes written or the error.  \<open>reset_as(MinReset)\<close> is \<open>reset\<close>.
\<close>

record 'z inflater =
  inflate :: "'z \<Rightarrow> byte list \<Rightarrow> nat \<Rightarrow> 'z \<times> nat \<times> (byte list, string) outcome"
  reset :: "'z \<Rightarrow> 'z"

record ('z, 'r) decompression_reader =
  state :: 'z
  reader :: 'r

definition decompression_read_some ::
  "'z inflater \<Rightarrow> ('r, 'x) std_buf_read_scheme \<Rightarrow> nat \<Rightarrow> (('z, 'r) decompression_reader, byte list, io_error) io" where
  "decompression_read_some I R n = (\<lambda>d. case fill_buf R (reader d) of
     (Ok internal_buf, r) \<Rightarrow>
       (case inflate I (state d) internal_buf n of
          (z, bytes_consumed, Ok written) \<Rightarrow> (Ok written, d\<lparr>state := z, reader := consume R bytes_consumed r\<rparr>)
        | (z, bytes_consumed, Err e) \<Rightarrow> (Err (OtherError ''Decompression error''), d\<lparr>state := z, reader := r\<rparr>)
        | (z, bytes_consumed, Panic) \<Rightarrow> (Panic, d\<lparr>state := z, reader := r\<rparr>)
        | (z, bytes_consumed, Diverge) \<Rightarrow> (Diverge, d\<lparr>state := z, reader := r\<rparr>))
   | (Err e, r) \<Rightarrow> (Err e, d\<lparr>reader := r\<rparr>)
   | (Panic, r) \<Rightarrow> (Panic, d\<lparr>reader := r\<rparr>)
   | (Diverge, r) \<Rightarrow> (Diverge, d\<lparr>reader := r\<rparr>))"

definition decompression_read ::
  "'z inflater \<Rightarrow> ('r, 'x) std_buf_read_scheme \<Rightarrow> ('z, 'r) decompression_reader std_read" where
  "decompression_read I R =
     \<lparr>read_some = decompression_read_some I R,
      set_blocking = (\<lambda>blocking. io_within reader (\<lambda>d r. d\<lparr>reader := r\<rparr>) (set_blocking R blocking))\<rparr>"

section \<open>The read stream\<close>

definition default_read_stream ::
  "'z inflater \<Rightarrow> ('r, 'x) std_buf_read_scheme \<Rightarrow>
   (('z, 'r) state_wrapped, ('z, 'r taken) state_wrapped, ('z, 'r taken) decompression_reader,
    ('z, 'r taken) decompression_reader taken, io_error) read_stream" where
  "default_read_stream I R =
     \<lparr>base = std_reader (wrapped_read R),
      with_bound = (\<lambda>w bound. \<lparr>decompression_state = decompression_state w,
        wrapped = \<lparr>inner = wrapped w, limit = bound\<rparr>\<rparr>),
      end_bound = (\<lambda>b. \<lparr>decompression_state = decompression_state b, wrapped = inner (wrapped b)\<rparr>),
      bounded = reader.extend (std_reader (wrapped_read (std_take R)))
        \<lparr>remaining = \<lambda>b. limit (wrapped b)\<rparr>,
      with_decompression = (\<lambda>b. \<lparr>state = reset I (decompression_state b), reader = wrapped b\<rparr>),
      end_decompression = (\<lambda>d. \<lparr>decompression_state = state d, wrapped = reader d\<rparr>),
      inner_with_bound = (\<lambda>d bound. \<lparr>inner = d, limit = bound\<rparr>),
      inner_end_bound = inner,
      inner_bounded = std_bounded_reader (decompression_read I (std_buf_take R))\<rparr>"

section \<open>The readers keep the contract of Read\<close>

lemma lawful_buf_reader:
  assumes R: "lawful_read R V patience"
  shows "lawful_read (buf_read R) (buf_view V) (\<lambda>b. patience (source b))"
proof (rule lawful_read.intro)
  fix b bs n
  assume b: "buf_view V b bs"
  then obtain cs where cap: "0 < buf_capacity b" and cs: "V (source b) cs" "bs = buffered b @ cs"
    by (auto simp: buf_view_def)
  have run: "read_some (buf_read R) n b = buf_reader_read R n b" by (simp add: buf_read_def)
  consider (direct) "buffered b = []" "buf_capacity b \<le> n" | (fill) "buffered b = []" "n < buf_capacity b"
    | (hit) "buffered b \<noteq> []"
    by linarith
  then show "read_answers (buf_view V) (\<lambda>b. patience (source b)) n bs b (read_some (buf_read R) n b)"
  proof cases
    case direct
    from lawful_read.read_some [OF R cs(1), of n] show ?thesis
    proof (cases rule: read_answers_cases)
      case (some k r')
      with direct cs cap show ?thesis
        unfolding read_answers_def run
        by (intro disjI1 exI [of _ k] exI [of _ "b\<lparr>source := r'\<rparr>"])
           (auto simp: buf_reader_read_def io_within_def buf_view_def)
    next
      case (interrupted r')
      with direct cs cap show ?thesis
        unfolding read_answers_def run
        by (intro disjI2 exI [of _ "b\<lparr>source := r'\<rparr>"]) (auto simp: buf_reader_read_def io_within_def buf_view_def)
    qed
  next
    case fill
    from lawful_read.read_some [OF R cs(1), of "buf_capacity b"] show ?thesis
    proof (cases rule: read_answers_cases)
      case (some k r')
      let ?k = "min n k"
      let ?b' = "b\<lparr>source := r', buffered := drop ?k (take k cs)\<rparr>"
      have "read_some (buf_read R) n b = (Ok (take n (take k cs)), b\<lparr>source := r', buffered := drop (min n (length (take k cs))) (take k cs)\<rparr>)"
        using fill some(1) by (simp add: run buf_reader_read_def io_bind_def buf_reader_fill_buf_def buf_reader_consume_def)
      then have read: "read_some (buf_read R) n b = (Ok (take ?k cs), ?b')"
        using some(4) by (simp add: min_absorb2)
      have "drop ?k (take k cs) @ drop k cs = drop ?k cs"
        by (simp add: drop_take) (metis append_take_drop_id drop_drop le_add_diff_inverse2 min.cobounded2)
      then have "buf_view V ?b' (drop ?k bs)"
        using fill some(2) cs(2) cap by (auto simp: buf_view_def)
      with read some fill cs(2) cap show ?thesis
        unfolding read_answers_def by (intro disjI1 exI [of _ ?k] exI [of _ ?b']) auto
    next
      case (interrupted r')
      with fill cs cap show ?thesis
        unfolding read_answers_def run
        by (intro disjI2 exI [of _ "b\<lparr>source := r'\<rparr>"])
           (auto simp: buf_reader_read_def io_bind_def buf_reader_fill_buf_def buf_view_def)
    qed
  next
    case hit
    let ?k = "min n (length (buffered b))"
    have "read_some (buf_read R) n b = (Ok (take ?k bs), b\<lparr>buffered := drop ?k (buffered b)\<rparr>)"
      using hit cs(2) by (simp add: run buf_reader_read_def io_bind_def buf_reader_fill_buf_def buf_reader_consume_def min_def)
    moreover have "buf_view V (b\<lparr>buffered := drop ?k (buffered b)\<rparr>) (drop ?k bs)"
      using cs cap by (auto simp: buf_view_def)
    ultimately show ?thesis
      using hit cs(2) unfolding read_answers_def
      by (intro disjI1 exI [of _ ?k]) auto
  qed
qed

lemma apply_blocks_append:
  assumes "stream_cipher c"
  shows "fst (apply_blocks c k (bs @ cs)) = fst (apply_blocks c k bs) @ fst (apply_blocks c (snd (apply_blocks c k bs)) cs)"
    and "snd (apply_blocks c k (bs @ cs)) = snd (apply_blocks c (snd (apply_blocks c k bs)) cs)"
    and "length (fst (apply_blocks c k bs)) = length bs"
    and "apply_blocks c k [] = ([], k)"
  using assms by (simp_all add: stream_cipher_def split: prod.splits)

fun reader_patience :: "('r \<Rightarrow> nat) \<Rightarrow> ('k, 'r) default_reader \<Rightarrow> nat" where
  "reader_patience patience (StandardReader r) = patience r"
| "reader_patience patience (DecryptReader k r) = patience r"
| "reader_patience patience PoisonedReader = 0"

lemma lawful_default_reader:
  assumes R: "lawful_read R V patience" and c: "stream_cipher c"
  shows "lawful_read (default_read c R) (default_view c V) (reader_patience patience)"
proof (rule lawful_read.intro)
  fix s bs n
  assume s: "default_view c V s bs"
  show "read_answers (default_view c V) (reader_patience patience) n bs s (read_some (default_read c R) n s)"
  proof (cases s)
    case (StandardReader r)
    with s have "V r bs" by (simp add: default_view_def)
    from lawful_read.read_some [OF R this, of n] show ?thesis
      by (cases rule: read_answers_cases)
         (auto simp: read_answers_def default_read_def default_reader_read_def StandardReader default_view_def)
  next
    case (DecryptReader k r)
    with s obtain cs where cs: "V r cs" "bs = fst (apply_blocks c k cs)"
      by (auto simp: default_view_def)
    note split = apply_blocks_append [OF c]
    from lawful_read.read_some [OF R cs(1), of n] show ?thesis
    proof (cases rule: read_answers_cases)
      case (some j r')
      let ?k' = "snd (apply_blocks c k (take j cs))"
      have bs: "bs = fst (apply_blocks c k (take j cs)) @ fst (apply_blocks c ?k' (drop j cs))"
        using split(1) [of k "take j cs" "drop j cs"] cs(2) by simp
      have "fst (apply_blocks c k (take j cs)) = take j bs" "fst (apply_blocks c ?k' (drop j cs)) = drop j bs"
        unfolding bs using some(4) split(3) [of k "take j cs"] by simp_all
      then have "read_some (default_read c R) n s = (Ok (take j bs), DecryptReader ?k' r')"
        "default_view c V (DecryptReader ?k' r') (drop j bs)"
        using some(1,2) split(4)
        by (auto simp: default_read_def default_reader_read_def decryption_read_def DecryptReader default_view_def
            split: prod.splits)
      moreover have "length bs = length cs" "bs \<noteq> [] \<Longrightarrow> cs \<noteq> []"
        using cs(2) split(3) [of k cs] by auto
      ultimately show ?thesis
        using some(3,4,5) unfolding read_answers_def
        by (intro disjI1 exI [of _ j] exI [of _ "DecryptReader ?k' r'"]) auto
    next
      case (interrupted r')
      with cs show ?thesis
        by (auto simp: read_answers_def default_read_def default_reader_read_def decryption_read_def DecryptReader default_view_def)
    qed
  next
    case PoisonedReader
    with s show ?thesis by (simp add: default_view_def)
  qed
qed

lemma lawful_wrapped:
  fixes R :: "('r, 'x) std_read_scheme"
  assumes R: "lawful_read R V patience"
  shows "lawful_read (wrapped_read R) (\<lambda>w. V (wrapped w)) (\<lambda>w. patience (wrapped w))"
proof (rule lawful_read.intro)
  fix w :: "('z, 'r) state_wrapped" and bs n
  assume "V (wrapped w) bs"
  from lawful_read.read_some [OF R this, of n]
  show "read_answers (\<lambda>w. V (wrapped w)) (\<lambda>w. patience (wrapped w)) n bs w (read_some (wrapped_read R) n w)"
    by (cases rule: read_answers_cases)
       (force simp: read_answers_def wrapped_read_def io_within_def)+
qed

lemma lawful_wrapped_take:
  fixes R :: "('r, 'x) std_read_scheme"
  assumes R: "lawful_read R V patience"
  shows "lawful_read (wrapped_read (std_take R)) (\<lambda>w. taken_view V tail slack (wrapped w)) (\<lambda>w. patience (inner (wrapped w)))"
  by (rule lawful_wrapped [OF lawful_take [OF R]])

definition wrapped_view :: "('r \<Rightarrow> byte list \<Rightarrow> bool) \<Rightarrow> ('z, 'r) state_wrapped \<Rightarrow> byte list \<Rightarrow> bool" where
  "wrapped_view V w bs = V (wrapped w) bs"

definition wrapped_bound ::
  "('r \<Rightarrow> byte list \<Rightarrow> bool) \<Rightarrow> ('z, 'r taken) state_wrapped \<Rightarrow> nat \<Rightarrow> byte list \<Rightarrow> bool" where
  "wrapped_bound V b lim bs = bounded_view V (wrapped b) lim bs"

lemma lawful_default_stream:
  assumes R: "lawful_read R V patience"
  shows "lawful_stream (default_read_stream I R) (wrapped_view V) (wrapped_bound V)"
proof (rule lawful_stream.intro)
  have "lawful_read (wrapped_read R) (wrapped_view V) (\<lambda>w. patience (wrapped w))"
    using lawful_wrapped [OF R] by (simp add: wrapped_view_def [abs_def])
  from lawful_read.reader_lawful [OF this]
  show "lawful_reader (base (default_read_stream I R)) (wrapped_view V)"
    by (simp add: default_read_stream_def)
  show "lawful_bounded (bounded (default_read_stream I R)) (wrapped_bound V)"
    using lawful_bounded_projected [where proj = wrapped, OF lawful_wrapped_take [OF R]]
    by (simp add: default_read_stream_def wrapped_bound_def [abs_def])
qed (auto simp: default_read_stream_def wrapped_view_def wrapped_bound_def bounded_view_def)

end
