(* ===== verification/Sync_Write.thy ===== *)
theory Sync_Write
  imports Packet_Write Sync_Read
begin

text \<open>
  The writers of \<open>src/defaults/sync.rs\<close>: a buffer in front of the stream, encrypted once encryption
  is switched on.  A \<open>Vec\<close> is its bytes and its capacity.  The cipher is the parameter of
  \<open>Sync_Read\<close>, used as \<open>Encryptor<Aes128>\<close>.
\<close>

section \<open>BufferedWriter and EncryptionWriter\<close>

record 'w buffered_writer =
  bw_writer :: 'w
  bw_buffer :: "byte list"
  bw_capacity :: nat

definition on_bw_writer :: "('w, 'a, 'e) io \<Rightarrow> ('w buffered_writer, 'a, 'e) io" where
  "on_bw_writer = io_within bw_writer (\<lambda>b w. b\<lparr>bw_writer := w\<rparr>)"

text \<open>The common end of \<open>write\<close>: what fits into the free capacity is stored.\<close>

definition store_some :: "nat \<Rightarrow> byte list \<Rightarrow> ('w buffered_writer, nat, 'e) io" where
  "store_some capacity buf = (\<lambda>b.
     let amount_to_write = min capacity (length buf)
     in (Ok amount_to_write, b\<lparr>bw_buffer := bw_buffer b @ take amount_to_write buf\<rparr>))"

definition buffered_write ::
  "('w, 'x) std_write_scheme \<Rightarrow> byte list \<Rightarrow> ('w buffered_writer, nat, io_error) io" where
  "buffered_write W buf = (\<lambda>b.
     let capacity = bw_capacity b - length (bw_buffer b)
     in if capacity = 0
        then io_bind (on_bw_writer (write_all W (bw_buffer b)))
          (\<lambda>_ b. store_some (bw_capacity b) buf (b\<lparr>bw_buffer := []\<rparr>)) b
        else store_some capacity buf b)"

definition buffered_flush :: "('w, 'x) std_write_scheme \<Rightarrow> ('w buffered_writer, unit, io_error) io" where
  "buffered_flush W = (\<lambda>b.
     if bw_buffer b \<noteq> []
     then io_bind (on_bw_writer (write_all W (bw_buffer b)))
       (\<lambda>_ b. on_bw_writer (flush_std W) (b\<lparr>bw_buffer := []\<rparr>)) b
     else on_bw_writer (flush_std W) b)"

definition std_buffered :: "('w, 'x) std_write_scheme \<Rightarrow> 'w buffered_writer std_write" where
  "std_buffered W = \<lparr>write_some = buffered_write W, flush_std = buffered_flush W\<rparr>"

record ('k, 'w) encryption_writer = "'w buffered_writer" +
  encryptor :: 'k

definition on_ew_writer :: "('w, 'a, 'e) io \<Rightarrow> (('k, 'w) encryption_writer, 'a, 'e) io" where
  "on_ew_writer = io_within bw_writer (\<lambda>b w. b\<lparr>bw_writer := w\<rparr>)"

text \<open>The buffer is encrypted in place before it is written.\<close>

definition encrypt_buffer :: "'k cipher \<Rightarrow> ('k, 'w) encryption_writer \<Rightarrow> ('k, 'w) encryption_writer" where
  "encrypt_buffer c b = (case apply_blocks c (encryptor b) (bw_buffer b) of
     (cs, k) \<Rightarrow> b\<lparr>bw_buffer := cs, encryptor := k\<rparr>)"

definition encryption_write ::
  "'k cipher \<Rightarrow> ('w, 'x) std_write_scheme \<Rightarrow> byte list \<Rightarrow> (('k, 'w) encryption_writer, nat, io_error) io" where
  "encryption_write c W buf = (\<lambda>b.
     let capacity = bw_capacity b - length (bw_buffer b)
     in if capacity = 0
        then let b = encrypt_buffer c b
          in io_bind (on_ew_writer (write_all W (bw_buffer b)))
            (\<lambda>_ b. let b = b\<lparr>bw_buffer := []\<rparr>; amount_to_write = min (bw_capacity b) (length buf)
               in (Ok amount_to_write, b\<lparr>bw_buffer := take amount_to_write buf\<rparr>)) b
        else let amount_to_write = min capacity (length buf)
          in (Ok amount_to_write, b\<lparr>bw_buffer := bw_buffer b @ take amount_to_write buf\<rparr>))"

definition encryption_flush ::
  "'k cipher \<Rightarrow> ('w, 'x) std_write_scheme \<Rightarrow> (('k, 'w) encryption_writer, unit, io_error) io" where
  "encryption_flush c W = (\<lambda>b.
     if bw_buffer b \<noteq> []
     then let b = encrypt_buffer c b
       in io_bind (on_ew_writer (write_all W (bw_buffer b)))
         (\<lambda>_ b. on_ew_writer (flush_std W) (b\<lparr>bw_buffer := []\<rparr>)) b
     else on_ew_writer (flush_std W) b)"

definition std_encryption :: "'k cipher \<Rightarrow> ('w, 'x) std_write_scheme \<Rightarrow> ('k, 'w) encryption_writer std_write" where
  "std_encryption c W = \<lparr>write_some = encryption_write c W, flush_std = encryption_flush c W\<rparr>"

section \<open>DefaultWriter\<close>

datatype ('k, 'w) default_writer_state =
    StandardWriter "'w buffered_writer"
  | EncryptWriter "('k, 'w) encryption_writer"
  | PoisonedWriter

record ('q, 'k, 'w) default_writer =
  compression_state :: 'q
  writer_state :: "('k, 'w) default_writer_state"

definition writer_state_write ::
  "'k cipher \<Rightarrow> ('w, 'x) std_write_scheme \<Rightarrow> byte list \<Rightarrow> (('k, 'w) default_writer_state, nat, io_error) io" where
  "writer_state_write c W buf = (\<lambda>s. case s of
     StandardWriter b \<Rightarrow> (case buffered_write W buf b of (res, b') \<Rightarrow> (res, StandardWriter b'))
   | EncryptWriter b \<Rightarrow> (case encryption_write c W buf b of (res, b') \<Rightarrow> (res, EncryptWriter b'))
   | PoisonedWriter \<Rightarrow> (Panic, PoisonedWriter))"

definition writer_state_flush ::
  "'k cipher \<Rightarrow> ('w, 'x) std_write_scheme \<Rightarrow> (('k, 'w) default_writer_state, unit, io_error) io" where
  "writer_state_flush c W = (\<lambda>s. case s of
     StandardWriter b \<Rightarrow> (case buffered_flush W b of (res, b') \<Rightarrow> (res, StandardWriter b'))
   | EncryptWriter b \<Rightarrow> (case encryption_flush c W b of (res, b') \<Rightarrow> (res, EncryptWriter b'))
   | PoisonedWriter \<Rightarrow> (Panic, PoisonedWriter))"

definition on_writer_state :: "(('k, 'w) default_writer_state, 'a, 'e) io \<Rightarrow> (('q, 'k, 'w) default_writer, 'a, 'e) io" where
  "on_writer_state = io_within writer_state (\<lambda>w s. w\<lparr>writer_state := s\<rparr>)"

definition default_write ::
  "'k cipher \<Rightarrow> ('w, 'x) std_write_scheme \<Rightarrow> ('q, 'k, 'w) default_writer std_write" where
  "default_write c W =
     \<lparr>write_some = (\<lambda>buf. on_writer_state (writer_state_write c W buf)),
      flush_std = on_writer_state (writer_state_flush c W)\<rparr>"

text \<open>
  \<open>DefaultWriter::with_encryption\<close> clears the buffer it hands over, and leaves \<open>Poisoned\<close> behind
  where it panics.
\<close>

definition writer_with_encryption ::
  "'k cipher \<Rightarrow> byte list \<Rightarrow> (('k, 'w) default_writer_state, unit, 'e) io" where
  "writer_with_encryption c k = (\<lambda>s. case s of
     StandardWriter b \<Rightarrow>
       (Ok (), EncryptWriter \<lparr>bw_writer = bw_writer b, bw_buffer = [], bw_capacity = bw_capacity b,
         encryptor = init c k\<rparr>)
   | EncryptWriter _ \<Rightarrow> (Panic, PoisonedWriter)
   | PoisonedWriter \<Rightarrow> (Panic, PoisonedWriter))"

section \<open>The writers keep the contract of Write\<close>

definition buffered_view :: "('w \<Rightarrow> byte list \<Rightarrow> bool) \<Rightarrow> 'w buffered_writer \<Rightarrow> byte list \<Rightarrow> bool" where
  "buffered_view V b bs \<longleftrightarrow> 0 < bw_capacity b \<and> (\<exists>sent. V (bw_writer b) sent \<and> bs = sent @ bw_buffer b)"

lemma store_some_answers:
  assumes "0 < capacity" and "buf \<noteq> []"
  shows "store_some capacity buf b = (Ok (min capacity (length buf)),
      b\<lparr>bw_buffer := bw_buffer b @ take (min capacity (length buf)) buf\<rparr>)"
    and "0 < min capacity (length buf)" and "min capacity (length buf) \<le> length buf"
  using assms by (simp_all add: store_some_def Let_def)

lemma buffered_write_view:
  assumes W: "lawful_write W V patience" and b: "buffered_view V b bs" and buf: "buf \<noteq> []"
  shows "\<exists>k b'. buffered_write W buf b = (Ok k, b') \<and> buffered_view V b' (bs @ take k buf) \<and> 0 < k \<and> k \<le> length buf"
proof -
  from b obtain sent where cap: "0 < bw_capacity b" and sent: "V (bw_writer b) sent" "bs = sent @ bw_buffer b"
    by (auto simp: buffered_view_def)
  show ?thesis
  proof (cases "bw_capacity b - length (bw_buffer b) = 0")
    case True
    obtain w where w: "write_all W (bw_buffer b) (bw_writer b) = (Ok (), w)" "V w (sent @ bw_buffer b)"
      using lawful_write.write_all_ok [OF W sent(1)] by (auto simp: gives_def)
    let ?b = "b\<lparr>bw_writer := w, bw_buffer := []\<rparr>" and ?k = "min (bw_capacity b) (length buf)"
    have "buffered_write W buf b = store_some (bw_capacity b) buf ?b"
      using True by (simp add: buffered_write_def io_bind_def on_bw_writer_def io_within_def w(1))
    with w(2) cap buf sent(2) show ?thesis
      by (intro exI [of _ ?k] exI [of _ "?b\<lparr>bw_buffer := take ?k buf\<rparr>"])
         (auto simp: store_some_def Let_def buffered_view_def)
  next
    case False
    let ?k = "min (bw_capacity b - length (bw_buffer b)) (length buf)"
    have "buffered_write W buf b = store_some (bw_capacity b - length (bw_buffer b)) buf b"
      using False by (simp add: buffered_write_def)
    with sent cap buf False show ?thesis
      by (intro exI [of _ ?k] exI [of _ "b\<lparr>bw_buffer := bw_buffer b @ take ?k buf\<rparr>"])
         (auto simp: store_some_def Let_def buffered_view_def)
  qed
qed

text \<open>A flush hands over everything, and leaves an empty buffer.\<close>

lemma buffered_flush_view:
  assumes W: "lawful_write W V patience" and b: "buffered_view V b bs"
  shows "gives (buffered_flush W) b () (\<lambda>b'. buffered_view V b' bs \<and> bw_buffer b' = [] \<and> V (bw_writer b') bs)"
proof -
  from b obtain sent where cap: "0 < bw_capacity b" and sent: "V (bw_writer b) sent" "bs = sent @ bw_buffer b"
    by (auto simp: buffered_view_def)
  obtain w where w: "write_all W (bw_buffer b) (bw_writer b) = (Ok (), w)" "V w bs"
    using lawful_write.write_all_ok [OF W sent(1)] sent(2) by (auto simp: gives_def)
  have flush: "\<exists>w'. flush_std W w = (Ok (), w') \<and> V w' bs" if "V w bs" for w
    using lawful_write.flush_some [OF W that] by (auto simp: gives_def)
  obtain w1 where w1: "flush_std W w = (Ok (), w1)" "V w1 bs" using flush [OF w(2)] by blast
  show ?thesis
  proof (cases "bw_buffer b = []")
    case True
    with sent obtain w2 where "flush_std W (bw_writer b) = (Ok (), w2)" "V w2 bs"
      using flush [of "bw_writer b"] by auto
    with True cap show ?thesis
      by (auto simp: gives_def buffered_flush_def on_bw_writer_def io_within_def buffered_view_def)
  next
    case False
    with w w1 cap show ?thesis
      by (auto simp: gives_def buffered_flush_def on_bw_writer_def io_within_def io_bind_def buffered_view_def)
  qed
qed

text \<open>
  The encrypting writer has accepted \<open>bs\<close> since the cipher stood at \<open>k0\<close> and the stream at \<open>sent0\<close>:
  the stream has the encryption of what is no longer in the buffer.
\<close>

definition encryption_view ::
  "'k cipher \<Rightarrow> ('w \<Rightarrow> byte list \<Rightarrow> bool) \<Rightarrow> 'k \<Rightarrow> byte list \<Rightarrow> ('k, 'w) encryption_writer \<Rightarrow> byte list \<Rightarrow> bool" where
  "encryption_view c V k0 sent0 b bs \<longleftrightarrow> 0 < bw_capacity b \<and>
     (\<exists>ps. V (bw_writer b) (sent0 @ fst (apply_blocks c k0 ps)) \<and> encryptor b = snd (apply_blocks c k0 ps) \<and>
        bs = ps @ bw_buffer b)"

text \<open>Writing out the encrypted buffer, the step both operations share.\<close>

lemma write_encrypted_buffer:
  assumes W: "lawful_write W V patience" and c: "stream_cipher c" and b: "encryption_view c V k0 sent0 b bs"
  obtains w where "write_all W (bw_buffer (encrypt_buffer c b)) (bw_writer b) = (Ok (), w)"
    and "V w (sent0 @ fst (apply_blocks c k0 bs))"
    and "encryptor (encrypt_buffer c b) = snd (apply_blocks c k0 bs)"
    and "bw_writer (encrypt_buffer c b) = bw_writer b" and "bw_capacity (encrypt_buffer c b) = bw_capacity b"
proof -
  from b obtain ps where ps: "V (bw_writer b) (sent0 @ fst (apply_blocks c k0 ps))"
      "encryptor b = snd (apply_blocks c k0 ps)" "bs = ps @ bw_buffer b"
    by (auto simp: encryption_view_def)
  obtain cs k where cs: "apply_blocks c (encryptor b) (bw_buffer b) = (cs, k)" by fastforce
  have all: "fst (apply_blocks c k0 bs) = fst (apply_blocks c k0 ps) @ cs" "snd (apply_blocks c k0 bs) = k"
    using apply_blocks_append(1,2) [OF c, of k0 ps "bw_buffer b"] cs by (simp_all add: ps(2,3))
  obtain w where "write_all W cs (bw_writer b) = (Ok (), w)" "V w ((sent0 @ fst (apply_blocks c k0 ps)) @ cs)"
    using lawful_write.write_all_ok [OF W ps(1)] by (auto simp: gives_def)
  then show ?thesis
    by (intro that) (simp_all add: encrypt_buffer_def cs all)
qed

lemma encryption_write_view:
  assumes W: "lawful_write W V patience" and c: "stream_cipher c" and b: "encryption_view c V k0 sent0 b bs"
    and buf: "buf \<noteq> []"
  shows "\<exists>k b'. encryption_write c W buf b = (Ok k, b') \<and> encryption_view c V k0 sent0 b' (bs @ take k buf) \<and>
    0 < k \<and> k \<le> length buf"
proof -
  have cap: "0 < bw_capacity b" using b by (simp add: encryption_view_def)
  show ?thesis
  proof (cases "bw_capacity b - length (bw_buffer b) = 0")
    case True
    obtain w where w: "write_all W (bw_buffer (encrypt_buffer c b)) (bw_writer b) = (Ok (), w)"
      "V w (sent0 @ fst (apply_blocks c k0 bs))" "encryptor (encrypt_buffer c b) = snd (apply_blocks c k0 bs)"
      "bw_writer (encrypt_buffer c b) = bw_writer b" "bw_capacity (encrypt_buffer c b) = bw_capacity b"
      using write_encrypted_buffer [OF W c b] .
    let ?k = "min (bw_capacity b) (length buf)"
    let ?b = "(encrypt_buffer c b)\<lparr>bw_writer := w, bw_buffer := take ?k buf\<rparr>"
    have "encryption_write c W buf b = (Ok ?k, ?b)"
      using True by (simp add: encryption_write_def Let_def io_bind_def on_ew_writer_def io_within_def w(1,4,5))
    with w(2,3,5) cap buf show ?thesis
      by (intro exI [of _ ?k] exI [of _ ?b]) (auto simp: encryption_view_def)
  next
    case False
    let ?k = "min (bw_capacity b - length (bw_buffer b)) (length buf)"
    have "encryption_write c W buf b = (Ok ?k, b\<lparr>bw_buffer := bw_buffer b @ take ?k buf\<rparr>)"
      using False by (simp add: encryption_write_def Let_def)
    with b cap buf False show ?thesis
      by (intro exI [of _ ?k] exI [of _ "b\<lparr>bw_buffer := bw_buffer b @ take ?k buf\<rparr>"])
         (auto simp: encryption_view_def)
  qed
qed

lemma encryption_flush_view:
  assumes W: "lawful_write W V patience" and c: "stream_cipher c" and b: "encryption_view c V k0 sent0 b bs"
  shows "gives (encryption_flush c W) b () (\<lambda>b'. encryption_view c V k0 sent0 b' bs \<and> bw_buffer b' = [] \<and>
    V (bw_writer b') (sent0 @ fst (apply_blocks c k0 bs)))"
proof -
  let ?sent = "sent0 @ fst (apply_blocks c k0 bs)"
  have cap: "0 < bw_capacity b" using b by (simp add: encryption_view_def)
  have flush: "\<exists>w'. flush_std W w = (Ok (), w') \<and> V w' ?sent" if "V w ?sent" for w
    using lawful_write.flush_some [OF W that] by (auto simp: gives_def)
  show ?thesis
  proof (cases "bw_buffer b = []")
    case True
    with b have "V (bw_writer b) ?sent" "encryptor b = snd (apply_blocks c k0 bs)"
      by (auto simp: encryption_view_def)
    with flush True cap show ?thesis
      by (fastforce simp: gives_def encryption_flush_def on_ew_writer_def io_within_def encryption_view_def)
  next
    case False
    obtain w where w: "write_all W (bw_buffer (encrypt_buffer c b)) (bw_writer b) = (Ok (), w)" "V w ?sent"
      "encryptor (encrypt_buffer c b) = snd (apply_blocks c k0 bs)"
      "bw_writer (encrypt_buffer c b) = bw_writer b" "bw_capacity (encrypt_buffer c b) = bw_capacity b"
      using write_encrypted_buffer [OF W c b] .
    obtain w1 where w1: "flush_std W w = (Ok (), w1)" "V w1 ?sent" using flush [OF w(2)] by blast
    have "encryption_flush c W b = (Ok (), (encrypt_buffer c b)\<lparr>bw_writer := w1, bw_buffer := []\<rparr>)"
      using False w w1 by (simp add: encryption_flush_def on_ew_writer_def io_within_def io_bind_def Let_def)
    with w w1 cap show ?thesis
      by (auto simp: gives_def encryption_view_def)
  qed
qed

section \<open>DefaultWriter keeps the contract\<close>

definition writer_view ::
  "'k cipher \<Rightarrow> ('w \<Rightarrow> byte list \<Rightarrow> bool) \<Rightarrow> 'k \<Rightarrow> byte list \<Rightarrow> ('k, 'w) default_writer_state \<Rightarrow> byte list \<Rightarrow> bool" where
  "writer_view c V k0 sent0 s bs = (case s of
     StandardWriter b \<Rightarrow> buffered_view V b bs
   | EncryptWriter b \<Rightarrow> encryption_view c V k0 sent0 b bs
   | PoisonedWriter \<Rightarrow> False)"

definition default_writer_view ::
  "'k cipher \<Rightarrow> ('w \<Rightarrow> byte list \<Rightarrow> bool) \<Rightarrow> 'k \<Rightarrow> byte list \<Rightarrow> ('q, 'k, 'w) default_writer \<Rightarrow> byte list \<Rightarrow> bool" where
  "default_writer_view c V k0 sent0 w bs = writer_view c V k0 sent0 (writer_state w) bs"

lemma writer_state_write_view:
  assumes W: "lawful_write W V patience" and c: "stream_cipher c" and s: "writer_view c V k0 sent0 s bs" and buf: "buf \<noteq> []"
  shows "\<exists>k s'. writer_state_write c W buf s = (Ok k, s') \<and> writer_view c V k0 sent0 s' (bs @ take k buf) \<and> 0 < k \<and> k \<le> length buf"
proof (cases s)
  case (StandardWriter b)
  with s have "buffered_view V b bs" by (simp add: writer_view_def)
  from buffered_write_view [OF W this buf] show ?thesis
    by (fastforce simp: writer_state_write_def writer_view_def StandardWriter)
next
  case (EncryptWriter b)
  with s have "encryption_view c V k0 sent0 b bs" by (simp add: writer_view_def)
  from encryption_write_view [OF W c this buf] show ?thesis
    by (fastforce simp: writer_state_write_def writer_view_def EncryptWriter)
qed (use s in \<open>simp add: writer_view_def\<close>)

lemma writer_state_flush_view:
  assumes W: "lawful_write W V patience" and c: "stream_cipher c" and s: "writer_view c V k0 sent0 s bs"
  shows "gives (writer_state_flush c W) s () (\<lambda>s'. writer_view c V k0 sent0 s' bs)"
proof (cases s)
  case (StandardWriter b)
  with s have "buffered_view V b bs" by (simp add: writer_view_def)
  from buffered_flush_view [OF W this] show ?thesis
    by (auto simp: gives_def writer_state_flush_def writer_view_def StandardWriter)
next
  case (EncryptWriter b)
  with s have "encryption_view c V k0 sent0 b bs" by (simp add: writer_view_def)
  from encryption_flush_view [OF W c this] show ?thesis
    by (auto simp: gives_def writer_state_flush_def writer_view_def EncryptWriter)
qed (use s in \<open>simp add: writer_view_def\<close>)

lemma lawful_default_write:
  fixes W :: "('w, 'x) std_write_scheme" and c :: "'k cipher"
  assumes W: "lawful_write W V patience" and c: "stream_cipher c"
  shows "lawful_write (default_write c W) (default_writer_view c V k0 sent0) (\<lambda>_. 0)"
proof (rule lawful_write.intro)
  fix w :: "('q, 'k, 'w) default_writer" and sent buf
  assume w: "default_writer_view c V k0 sent0 w sent"
  then have s: "writer_view c V k0 sent0 (writer_state w) sent" by (simp add: default_writer_view_def)
  show "write_answers (default_writer_view c V k0 sent0) (\<lambda>_. 0) sent buf w (write_some (default_write c W) buf w)"
    if "buf \<noteq> []"
    using writer_state_write_view [OF W c s that]
    by (fastforce simp: write_answers_def default_write_def on_writer_state_def io_within_def default_writer_view_def)
  show "gives (flush_std (default_write c W)) w () (\<lambda>w'. default_writer_view c V k0 sent0 w' sent)"
    using writer_state_flush_view [OF W c s]
    by (auto simp: gives_def default_write_def on_writer_state_def io_within_def default_writer_view_def)
qed

end
