(* ===== verification/Wire_Properties.thy ===== *)
theory Wire_Properties
  imports Containers Handshake Sync_Write
begin

text \<open>
  The properties of the encodings: \<open>VarInt\<close>, the primitive types, the containers, the first bytes of a
  connection and the legacy ping responses.  The witnesses run on a byte slice as the reader and a
  \<open>Vec\<close> as the writer.
\<close>

section \<open>VarInt\<close>

lemma varint_bytes_ge: "128 ^ k \<le> n \<Longrightarrow> k < length (varint_bytes n)"
proof (induction k arbitrary: n)
  case (Suc k)
  then have "128 \<le> n"
    by (metis le_trans one_le_power mult.right_neutral mult_le_mono2 one_le_numeral power_Suc)
  moreover from Suc.prems have "128 ^ k \<le> n div 128"
    by (simp add: less_eq_div_iff_mult_less_eq mult.commute)
  ultimately show ?case using Suc.IH [of "n div 128"] by (simp add: varint_bytes_large)
qed simp

lemma length_varint_bytes_iff: "0 < k \<Longrightarrow> length (varint_bytes n) \<le> k \<longleftrightarrow> n < 128 ^ k"
  using length_varint_bytes_le [of n k] varint_bytes_ge [of k n] by (meson not_le)

lemma sint_u32:
  assumes n: "unat (x :: u32) = n"
  shows "n < 2 ^ 32" and "sint x = (if n < 2 ^ 31 then int n else int n - 2 ^ 32)"
proof -
  have x: "uint x = int n" using n by (simp flip: n)
  show bound: "n < 2 ^ 32" using unsigned_less [of x, where 'a = nat] n by simp
  have "sint x = (int n + 2 ^ 31) mod 2 ^ 32 - 2 ^ 31"
    by (simp add: sint_uint signed_take_bit_eq_take_bit_shift take_bit_eq_mod x)
  moreover have "(int n + 2 ^ 31) mod 2 ^ 32 = int n + 2 ^ 31" if "n < 2 ^ 31"
    using that by (intro mod_pos_pos_trivial) simp_all
  moreover have "(int n + 2 ^ 31) mod 2 ^ 32 = int n - 2 ^ 31" if "\<not> n < 2 ^ 31"
  proof -
    have "(int n + 2 ^ 31) mod 2 ^ 32 = (int n - 2 ^ 31 + 2 ^ 32) mod 2 ^ 32" by (simp add: add.commute)
    also have "\<dots> = (int n - 2 ^ 31) mod 2 ^ 32" by (rule mod_add_self2)
    finally show ?thesis using that bound by simp
  qed
  ultimately show "sint x = (if n < 2 ^ 31 then int n else int n - 2 ^ 32)" by simp
qed

lemma sint_small_iff:
  assumes "m \<le> 2 ^ 31"
  shows "unat (x :: u32) < m \<longleftrightarrow> 0 \<le> sint x \<and> sint x < int m"
proof -
  obtain n where n: "unat x = n" by simp
  show ?thesis using sint_u32 [OF n] assms unfolding n by (cases "n < 2 ^ 31") simp_all
qed

text \<open>C17: what \<open>VarInt\<close> writes it reads back, stopping behind it, and \<open>size\<close> is the number of bytes.\<close>

theorem varint_roundtrip:
  fixes R :: "('r, 're, 'rx) reader_scheme" and W :: "('w, 'we, 'wx) writer_scheme"
  assumes "lawful_sink W VW" and "VW w sent" and "lawful_reader R VR" and "VR r (enc_varint v @ rest)"
  shows "gives (write_varint W v) w () (\<lambda>w'. VW w' (sent @ enc_varint v)) \<and>
    gives (read_varint R) r v (\<lambda>r'. VR r' rest) \<and> size_varint v = length (enc_varint v)"
  by (rule varint.roundtrip [OF TrueI assms])

lemma varint_roundtrip_witness:
  "gives (write_varint (std_writer vec_write) (VarInt 300)) [] () (\<lambda>w'. w' = enc_varint (VarInt 300)) \<and>
   gives (read_varint (std_reader slice_read)) (enc_varint (VarInt 300) @ [7]) (VarInt 300) (\<lambda>r'. r' = [7])"
  using varint_roundtrip [OF lawful_writer.axioms(1) [OF vec.writer_lawful] refl slice.reader_lawful refl,
      where v = "VarInt 300" and rest = "[7]" and sent = "[]"]
  by (simp add: gives_def)

text \<open>
  C16: on every input \<open>VarInt::from_reader\<close> is base-128 decoding of at most five digits, modulo \<open>2\<^sup>3\<^sup>2\<close>: a
  stream that ends inside gives a stream error, five continued bytes give \<open>OverSized\<close>.
\<close>

theorem varint_reads_reference:
  fixes R :: "('r, 'e, 'x) reader_scheme"
  assumes "lawful_reader R V" and "V r bs"
  shows "case leb_decode 5 bs of
      Value n rest \<Rightarrow> gives (read_varint R) r (VarInt (of_nat n)) (\<lambda>r'. V r' rest)
    | Truncated \<Rightarrow> fails (read_varint R) r is_stream_error (\<lambda>_. True)
    | TooLong \<Rightarrow> fails (read_varint R) r (\<lambda>e. e = ROverSized ''varint'' 5 6) (\<lambda>r'. V r' (drop 5 bs))"
  using read_varint_leb [OF assms] unfolding leb_outcome_def .

lemma varint_reads_reference_witness:
  "fails (read_varint (std_reader slice_read)) [0xFF, 0xFF, 0xFF, 0xFF, 0xFF, 1]
     (\<lambda>e. e = ROverSized ''varint'' 5 6) (\<lambda>r'. r' = [1])"
proof -
  have "leb_decode 5 [0xFF, 0xFF, 0xFF, 0xFF, 0xFF, 1] = TooLong" by code_simp
  then show ?thesis
    using varint_reads_reference [OF slice.reader_lawful refl, of "[0xFF, 0xFF, 0xFF, 0xFF, 0xFF, 1]"]
    by (simp add: fails_def)
qed

text \<open>\<open>size\<close> is between one and five, and at most \<open>k < 5\<close> exactly for the values from 0 below \<open>128\<^sup>k\<close>.\<close>

theorem varint_size_bounds:
  "1 \<le> size_varint v \<and> size_varint v \<le> 5 \<and>
   (\<forall>k \<in> {1, 2, 3, 4}. size_varint v \<le> k \<longleftrightarrow> 0 \<le> varint_into v \<and> varint_into v < 128 ^ k)"
proof (cases v)
  case (VarInt x)
  have "size_varint v \<le> k \<longleftrightarrow> 0 \<le> varint_into v \<and> varint_into v < 128 ^ k" if "0 < k" "128 ^ k \<le> (2 :: nat) ^ 31" for k
    using length_varint_bytes_iff [OF that(1)] sint_small_iff [OF that(2), of x] VarInt
    by (simp add: size_varint_enc del: size_varint.simps)
  from this [of 1] this [of 2] this [of 3] this [of 4] show ?thesis
    using enc_varint_length [of v] by (simp add: size_varint_enc del: size_varint.simps)
qed

lemma varint_size_bounds_witness: "size_varint (VarInt 300) \<le> 2 \<and> \<not> size_varint (VarInt 300) \<le> 1"
  using varint_size_bounds [of "VarInt 300"] by simp

text \<open>No encoding of a \<open>VarInt\<close> is a prefix of another one's.\<close>

theorem varint_prefix_free:
  assumes "enc_varint y = enc_varint x @ cont"
  shows "x = y \<and> cont = []"
proof -
  have "x = y"
    using varint.prefix_free [OF TrueI TrueI slice.reader_lawful refl assms] .
  with assms show ?thesis by simp
qed

lemma varint_prefix_free_witness: "enc_varint (VarInt 5) = [5] @ [] \<and> ([] :: byte list) = []"
  using varint_prefix_free [of "VarInt 5" "VarInt 5" "[]"] by simp

section \<open>Primitive types and containers\<close>

text \<open>C39: a primitive type of \<open>n\<close> bytes is written big-endian in \<open>n\<close> bytes and read back.\<close>

theorem primitive_roundtrip:
  fixes R :: "('r, 're, 'rx) reader_scheme" and W :: "('w, 'we, 'wx) writer_scheme" and x :: "'a::len word"
  assumes "LENGTH('a) = 8 * n" and "lawful_sink W VW" and "VW w sent"
    and "lawful_reader R VR" and "VR r (to_be_bytes n x @ rest)"
  shows "gives (write_prim n W x) w () (\<lambda>w'. VW w' (sent @ to_be_bytes n x)) \<and>
    gives (read_prim n R) r x (\<lambda>r'. VR r' rest) \<and> size_prim n x = length (to_be_bytes n x)"
  by (rule codec.roundtrip [OF codec_prim [OF assms(1)] TrueI assms(2-)])

lemma primitive_roundtrip_witness:
  "gives (read_prim 2 (std_reader slice_read)) [0x12, 0x34, 5] (0x1234 :: 16 word) (\<lambda>r'. r' = [5])"
proof -
  have bytes: "to_be_bytes 2 (0x1234 :: 16 word) = [0x12, 0x34]"
    by code_simp
  show ?thesis
    using primitive_roundtrip [where x = "0x1234 :: 16 word" and n = 2 and rest = "[5]" and sent = "[]",
        OF _ lawful_writer.axioms(1) [OF vec.writer_lawful] refl slice.reader_lawful refl]
    by (simp add: bytes gives_def)
qed



section \<open>The first bytes of a connection\<close>

text \<open>
  C20: a packet length below \<open>2\<^sup>2\<^sup>8\<close> at the start of a connection is read as it was sent if it takes one
  byte or its second base-128 digit is odd, and as 128 more than it is otherwise.  (A first byte of
  \<open>0xFE\<close>, the length \<open>126\<close> modulo 128, starts a legacy ping.)
\<close>

theorem handshake_length:
  fixes R :: "('r, 'e, 'x) reader_scheme"
  assumes "lawful_reader R V" and "V r (varint_bytes n @ rest)" and "n < 2 ^ 28" and "n < 128 \<or> n mod 128 \<noteq> 126"
  shows "gives (read_handshake_version R) r (handshake_version.Standard (if n < 128 \<or> odd (n div 128) then n else n + 128))
    (\<lambda>r'. V r' rest)"
  by (rule read_handshake_length [OF assms])

lemma handshake_length_witness:
  "gives (read_handshake_version (std_reader slice_read)) (varint_bytes 300 @ [0]) (handshake_version.Standard 428) (\<lambda>r'. r' = [0])"
  using handshake_length [OF slice.reader_lawful refl, of 300 "[0]"] by (simp add: gives_def)

text \<open>A first byte with the continuation bit and three more leave no standard handshake but \<open>OverSized\<close>.\<close>

theorem handshake_length_oversized:
  fixes R :: "('r, 'e, 'x) reader_scheme"
  assumes "lawful_reader R V" and "V r (b # c # d # e # rest)"
    and "128 \<le> unat b" and "b \<noteq> 0xFE" and "128 \<le> unat c" and "128 \<le> unat d" and "128 \<le> unat e"
  shows "fails (read_handshake_version R) r (\<lambda>err. err = ROverSized ''handshake_varint'' 3 4) (\<lambda>r'. V r' rest)"
proof -
  have "leb_decode 3 (c # d # e # rest) = TooLong"
    using assms(5-) by (simp add: numeral_3_eq_3)
  then show ?thesis
    using read_handshake_segments [OF assms(1-4)] by (simp add: leb_outcome_def)
qed

lemma handshake_length_oversized_witness:
  "fails (read_handshake_version (std_reader slice_read)) [0x80, 0x80, 0x80, 0x80, 7]
     (\<lambda>err. err = ROverSized ''handshake_varint'' 3 4) (\<lambda>r'. r' = [7])"
  using handshake_length_oversized [OF slice.reader_lawful refl, where b = "0x80" and c = "0x80" and d = "0x80" and e = "0x80"
      and rest = "[7]"]
  by (simp add: fails_def)

section \<open>Legacy pings on a socket\<close>

text \<open>What has arrived decides how \<open>try_read_byte\<close> and a read of one byte go on.\<close>

lemma socket_try_read_byte:
  assumes "\<not> nonblocking s"
  shows "\<exists>as'. std_try_read_byte socket_read s =
      (if arrived (arrivals s)
       then (case arrival_bytes (arrivals s) of [] \<Rightarrow> Err UnexpectedEof | b # _ \<Rightarrow> Ok (Some b)) else Ok None,
       s\<lparr>arrivals := as'\<rparr>) \<and>
    arrival_bytes as' = (if arrived (arrivals s) then tl (arrival_bytes (arrivals s)) else arrival_bytes (arrivals s))"
proof -
  let ?s1 = "s\<lparr>nonblocking := True\<rparr>"
  obtain res as' where run: "socket_recv True (Suc 0) (arrivals s) = (res, as')" by fastforce
  have read: "read_some socket_read 1 ?s1 = (res, ?s1\<lparr>arrivals := as'\<rparr>)"
    by (simp add: socket_read_def run)
  have restored: "?s1\<lparr>arrivals := as', nonblocking := False\<rparr> = s\<lparr>arrivals := as'\<rparr>" using assms by simp
  from socket_recv_poll [of "arrivals s"] run show ?thesis
    by (intro exI [of _ as'])
       (auto simp: std_try_read_byte_def socket_read_def io_bind_def io_ret_def io_err_def restored
         read_exact_one [OF read, unfolded socket_read_def, simplified] drop_Suc split: list.splits if_splits)
qed

lemma socket_next_byte:
  assumes "\<not> nonblocking s" and "arrivals s = Data (b # bs) # later"
  shows "read_u8 (std_reader socket_read) s = (Ok b, s\<lparr>arrivals := if bs = [] then later else Data bs # later\<rparr>)"
    and "std_try_read_byte socket_read s = (Ok (Some b), s\<lparr>arrivals := if bs = [] then later else Data bs # later\<rparr>)"
proof -
  let ?arrivals = "if bs = [] then later else Data bs # later" and ?s1 = "s\<lparr>nonblocking := True\<rparr>"
  have read: "read_some socket_read 1 s = (Ok [b], s\<lparr>arrivals := ?arrivals\<rparr>)"
    and poll: "read_some socket_read 1 ?s1 = (Ok [b], ?s1\<lparr>arrivals := ?arrivals\<rparr>)"
    using assms by (auto simp: socket_read_def)
  have "from_be_bytes [b] = b" using from_to_be_bytes [of 1 b] by simp
  then show "read_u8 (std_reader socket_read) s = (Ok b, s\<lparr>arrivals := ?arrivals\<rparr>)"
    using read_exact_one [OF read]
    by (simp add: read_u8_def read_prim_def std_reader_def io_bind_def io_map_err_def io_ret_def)
  have "?s1\<lparr>arrivals := ?arrivals, nonblocking := False\<rparr> = s\<lparr>arrivals := ?arrivals\<rparr>" using assms by simp
  moreover have "set_blocking socket_read False s = (Ok (), ?s1)"
    "set_blocking socket_read True s' = (Ok (), s'\<lparr>nonblocking := False\<rparr>)" for s'
    by (simp_all add: socket_read_def)
  ultimately show "std_try_read_byte socket_read s = (Ok (Some b), s\<lparr>arrivals := ?arrivals\<rparr>)"
    using read_exact_one [OF poll] by (simp add: std_try_read_byte_def io_bind_def io_ret_def)
qed

lemma socket_try_blocked:
  assumes "\<not> nonblocking s" and "\<not> arrived (arrivals s)"
  shows "\<exists>more. std_try_read_byte socket_read s = (Ok None, s\<lparr>arrivals := more\<rparr>) \<and>
    arrival_bytes more = arrival_bytes (arrivals s)"
  using socket_try_read_byte [OF assms(1)] assms(2) by auto

text \<open>
  C36: a ping of \<open>0xFE\<close> alone is told from one that goes on by whether the next byte has arrived: where it
  has not, the client is taken for one from before 1.4 (after a byte \<open>0x01\<close>: before 1.6), and the bytes
  still to come stay in the stream.
\<close>

theorem legacy_ping_by_arrival:
  assumes s: "\<not> nonblocking s" "arrivals s = Data (0xFE # bs) # later" and "\<not> arrived later"
    and "bs = [] \<and> kind = Pre1_3 \<or> bs = [0x01] \<and> kind = Pre1_6"
  shows "gives (read_handshake_version (std_reader socket_read)) s kind
    (\<lambda>s'. arrival_bytes (arrivals s') = arrival_bytes later)"
proof -
  let ?s1 = "s\<lparr>arrivals := if bs = [] then later else Data bs # later\<rparr>" and ?s2 = "s\<lparr>arrivals := later\<rparr>"
  have run: "read_handshake_version (std_reader socket_read) s = read_legacy (std_reader socket_read) ?s1"
    by (simp add: read_handshake_version_def io_bind_def socket_next_byte(1) [OF s])
  have polls: "try_read_byte (std_reader socket_read) = std_try_read_byte socket_read"
    by (simp add: std_reader_def)
  obtain more where blocked: "std_try_read_byte socket_read ?s2 = (Ok None, s\<lparr>arrivals := more\<rparr>)"
      "arrival_bytes more = arrival_bytes later"
    using socket_try_blocked [of ?s2] s(1) assms(3) by auto
  have "std_try_read_byte socket_read ?s1 = (Ok (Some 0x01), ?s2)" if "bs = [0x01]"
    using socket_next_byte(2) [of ?s1 "0x01" "[]" later] s(1) that by simp
  then show ?thesis
    using assms(4) blocked
    by (auto simp: gives_def run read_legacy_def io_bind_def io_map_err_def io_ret_def polls)
qed

lemma legacy_ping_by_arrival_witness:
  "gives (read_handshake_version (std_reader socket_read)) \<lparr>arrivals = [Data [0xFE], Pause, Data [0x01, 0xFA]], nonblocking = False\<rparr>
     Pre1_3 (\<lambda>s'. arrival_bytes (arrivals s') = [0x01, 0xFA])"
  using legacy_ping_by_arrival [of "\<lparr>arrivals = [Data [0xFE], Pause, Data [0x01, 0xFA]], nonblocking = False\<rparr>" "[]"
      "[Pause, Data [0x01, 0xFA]]" Pre1_3]
  by simp

text \<open>
  C37: a ping of version 1.6 that has arrived is read as one, with the length of its data; a negative length
  is an error.  Either way the stream then stands behind the length.
\<close>

theorem legacy_1_6_ping:
  assumes "\<not> nonblocking s" and "arrivals s = Data (0xFE # 0x01 # 0xFA # legacy_1_6_bytes bound) # later"
  shows "if sint bound < 0
    then fails (read_handshake_version (std_reader socket_read)) s (\<lambda>e. e = NegativeLength ''legacy_ping_bound'')
      (\<lambda>s'. arrival_bytes (arrivals s') = arrival_bytes later)
    else gives (read_handshake_version (std_reader socket_read)) s (handshake_version.Legacy1_6 (nat (sint bound)))
      (\<lambda>s'. arrival_bytes (arrivals s') = arrival_bytes later)"
proof -
  let ?R = "std_reader socket_read"
  let ?s = "\<lambda>bs. s\<lparr>arrivals := Data bs # later\<rparr>"
  have polls: "try_read_byte ?R = std_try_read_byte socket_read" by (simp add: std_reader_def)
  note next_byte = socket_next_byte(2) [of "?s (b # c # bs)" b "c # bs" later for b c bs, simplified, OF assms(1)]
  obtain c bs where ping: "legacy_1_6_bytes bound = c # bs" by (simp add: legacy_1_6_bytes_def)
  have "read_handshake_version ?R s = read_legacy ?R (?s (0x01 # 0xFA # legacy_1_6_bytes bound))"
    using socket_next_byte(1) [OF assms] by (simp add: read_handshake_version_def io_bind_def)
  also have "\<dots> = read_legacy_1_6 ?R (?s (legacy_1_6_bytes bound))"
    by (simp add: read_legacy_def io_bind_def io_map_err_def polls next_byte ping)
  finally have run: "read_handshake_version ?R s = read_legacy_1_6 ?R (?s (legacy_1_6_bytes bound))" .
  have "arrival_bytes (arrivals (?s (legacy_1_6_bytes bound))) = legacy_1_6_bytes bound @ arrival_bytes later \<and>
      \<not> nonblocking (?s (legacy_1_6_bytes bound))"
    using assms(1) by simp
  from read_legacy_1_6_ping [OF socket.reader_lawful this] show ?thesis
    by (cases "sint bound < 0") (auto simp: gives_def fails_def run)
qed

lemma legacy_1_6_ping_witness:
  "gives (read_handshake_version (std_reader socket_read))
     \<lparr>arrivals = [Data (0xFE # 0x01 # 0xFA # legacy_1_6_bytes 5)], nonblocking = False\<rparr>
     (handshake_version.Legacy1_6 5) (\<lambda>s'. arrival_bytes (arrivals s') = [])"
  using legacy_1_6_ping [of "\<lparr>arrivals = [Data (0xFE # 0x01 # 0xFA # legacy_1_6_bytes 5)], nonblocking = False\<rparr>" 5 "[]"]
  by simp

section \<open>Legacy ping responses\<close>

text \<open>
  A response to a ping of version 1.3 and before is made if its text has at most 256 UTF-16 code units, and
  it is then written as the kick packet of that text, flushed.
\<close>

theorem legacy_1_3_response:
  fixes W :: "('w, 'e, 'x) writer_scheme"
  assumes "lawful_writer W V" and "V w sent"
  shows "case new_1_3 m pc mp of
      None \<Rightarrow> 0x100 < utf16_code_units (legacy1_3_text m pc mp)
    | Some response \<Rightarrow> utf16_code_units (legacy1_3_text m pc mp) \<le> 0x100 \<and>
        gives (write_legacy_1_3_ping_response W response) w () (\<lambda>w'. V w' (sent @ kick_bytes (legacy1_3_text m pc mp)))"
proof (cases "new_1_3 m pc mp")
  case None
  then show ?thesis
    by (auto simp: new_1_3_def Let_def legacy1_3_text_def utf16_code_units_def section_sign_def split: if_splits)
next
  case (Some response)
  with legacy1_3_bytes [OF assms(1) Some] assms(2) show ?thesis by (simp add: emits_def)
qed

lemma legacy_1_3_response_witness:
  "case new_1_3 [0x41] [0x30] [0x35] of None \<Rightarrow> False
   | Some response \<Rightarrow> gives (write_legacy_1_3_ping_response (std_writer vec_write) response) [] ()
       (\<lambda>w'. w' = kick_bytes [0x41, 0xA7, 0x30, 0xA7, 0x35])"
  using legacy_1_3_response [OF vec.writer_lawful refl, where sent = "[]" and m = "[0x41]" and pc = "[0x30]" and mp = "[0x35]"]
  by (simp add: new_1_3_def utf16_code_units_def legacy1_3_text_def section_sign_def gives_def Let_def eq_commute)

text \<open>
  C40: a response to a ping of versions 1.4 to 1.6 is made if its text has a number of UTF-16 code units that
  an \<open>i16\<close> holds, and it is then written as the kick packet of that text, flushed.
\<close>

theorem legacy_1_6_response:
  fixes W :: "('w, 'e, 'x) writer_scheme"
  assumes "lawful_writer W V" and "V w sent"
  shows "case new_1_6 v m pc mp of
      None \<Rightarrow> 32767 < utf16_code_units (legacy1_6_text v m pc mp)
    | Some response \<Rightarrow> utf16_code_units (legacy1_6_text v m pc mp) \<le> 32767 \<and>
        gives (write_legacy_1_6_ping_response W response) w () (\<lambda>w'. V w' (sent @ kick_bytes (legacy1_6_text v m pc mp)))"
proof (cases "new_1_6 v m pc mp")
  case None
  then show ?thesis
    by (auto simp: new_1_6_def Let_def legacy1_6_text_def utf16_code_units_def section_one_def version_127_def
        I16_MAX_def split: if_splits)
next
  case (Some response)
  with legacy1_6_bytes [OF assms(1) Some] assms(2) show ?thesis by (simp add: emits_def I16_MAX_def)
qed

lemma legacy_1_6_response_witness:
  "case new_1_6 [0x31] [0x41] [0x30] [0x35] of None \<Rightarrow> False
   | Some response \<Rightarrow> gives (write_legacy_1_6_ping_response (std_writer vec_write) response) [] ()
       (\<lambda>w'. w' = kick_bytes (legacy1_6_text [0x31] [0x41] [0x30] [0x35]))"
  using legacy_1_6_response [OF vec.writer_lawful refl, where sent = "[]" and v = "[0x31]" and m = "[0x41]" and pc = "[0x30]"
      and mp = "[0x35]"]
  by (simp add: new_1_6_def utf16_code_units_def I16_MAX_def gives_def Let_def eq_commute)

end
