(* ===== verification/Packet_Tables.thy ===== *)
theory Packet_Tables
  imports Protocol_State
begin

text \<open>
  A fast check that the names of a packet table differ, used on the tables of all versions.  The
  names are split by the bits of a key, two bits of each character, as in a radix sort; names with
  different keys are different names, so a successful check is a proof of \<open>distinct\<close>.
\<close>

section \<open>Splitting by one bit\<close>

type_synonym keyed = "bool list \<times> string"

fun char_key :: "char \<Rightarrow> bool list" where
  "char_key (Char a b c d e f g h) = [b, c]"

definition key :: "keyed \<Rightarrow> bool list" where
  "key p = fst p @ concat (map char_key (snd p))"

fun split_keys :: "keyed list \<Rightarrow> bool \<Rightarrow> keyed list \<Rightarrow> keyed list \<Rightarrow> bool \<times> keyed list \<times> keyed list" where
  "split_keys [] ended fs ts = (True, fs, ts)"
| "split_keys (([], []) # ps) ended fs ts =
     (if ended then (False, [], []) else split_keys ps True fs ts)"
| "split_keys (([], Char a b c d e f g h # s) # ps) ended fs ts =
     (if b then split_keys ps ended fs (([c], s) # ts) else split_keys ps ended (([c], s) # fs) ts)"
| "split_keys ((False # k, s) # ps) ended fs ts = split_keys ps ended ((k, s) # fs) ts"
| "split_keys ((True # k, s) # ps) ended fs ts = split_keys ps ended fs ((k, s) # ts)"

definition key_weight :: "keyed list \<Rightarrow> nat" where
  "key_weight ps = sum_list (map (length \<circ> key) ps)"

lemma key_simps [simp]:
  "key ([], []) = []" "key ([], Char a b c d e f g h # s) = b # key ([c], s)" "key (x # k, s) = x # key (k, s)"
  by (simp_all add: key_def)

lemma key_weight_simps [simp]:
  "key_weight [] = 0" "key_weight (p # ps) = length (key p) + key_weight ps"
  by (simp_all add: key_weight_def)

lemma split_keys_weight:
  "split_keys ps ended fs ts = (ok, fs', ts') \<Longrightarrow> ok \<Longrightarrow>
     key_weight fs' + key_weight ts' + length ps =
     key_weight fs + key_weight ts + key_weight ps + (if ended then 0 else of_bool ([] \<in> key ` set ps))"
  by (induction ps ended fs ts arbitrary: ok fs' ts' rule: split_keys.induct)
     (auto split: if_splits)

lemma split_keys_decreases:
  assumes "(True, fs, ts) = split_keys (p # q # ps) False [] []"
  shows "key_weight fs < key_weight (p # q # ps)" and "key_weight ts < key_weight (p # q # ps)"
  using split_keys_weight [OF assms [symmetric]] by (auto split: if_splits simp: of_bool_def)

function keys_differ :: "keyed list \<Rightarrow> bool" where
  "keys_differ [] = True"
| "keys_differ [p] = True"
| "keys_differ (p # q # ps) =
     (case split_keys (p # q # ps) False [] [] of
        (ok, fs, ts) \<Rightarrow> if ok then keys_differ fs \<and> keys_differ ts else False)"
  by pat_completeness auto

termination
  by (relation "measure key_weight") (use split_keys_decreases in \<open>auto simp del: key_weight_simps\<close>)

lemma distinct_Cons_key [simp]:
  "distinct (map (\<lambda>p. x # key p) ps) = distinct (map key ps)"
  by (induction ps) auto

lemma split_keys_distinct:
  "split_keys ps ended fs ts = (ok, fs', ts') \<Longrightarrow> ok \<Longrightarrow>
     distinct (map key fs') \<Longrightarrow> distinct (map key ts') \<Longrightarrow>
     distinct (map key ps @ map (\<lambda>p. False # key p) fs @ map (\<lambda>p. True # key p) ts @ (if ended then [[]] else []))"
proof (induction ps ended fs ts arbitrary: ok fs' ts' rule: split_keys.induct)
  case (2 ps ended fs ts)
  then show ?case by (cases ended) auto
next
  case (3 a b c d e f g h s ps ended fs ts)
  then show ?case by (cases b) auto
next
  case (4 k s ps ended fs ts)
  then show ?case by auto
next
  case (5 k s ps ended fs ts)
  then show ?case by auto
qed auto

lemma keys_differ_distinct: "keys_differ ps \<Longrightarrow> distinct (map key ps)"
proof (induction ps rule: keys_differ.induct)
  case (3 p q ps)
  obtain ok fs ts where split: "split_keys (p # q # ps) False [] [] = (ok, fs, ts)"
    by (metis prod_cases3)
  with "3.prems" have ok: "ok" "keys_differ fs" "keys_differ ts" by (simp_all split: if_splits)
  with split "3.IH" have "distinct (map key fs)" "distinct (map key ts)" by simp_all
  from split_keys_distinct [OF split ok(1) this] show ?case by simp
qed simp_all

section \<open>The check of a table\<close>

definition table_check :: "packet_table \<Rightarrow> bool" where
  "table_check t \<longleftrightarrow> map fst t = map int [0..<length t] \<and> keys_differ (map (\<lambda>p. ([], snd p)) t)"

lemma table_ok_check: "table_check t \<Longrightarrow> table_ok t"
proof -
  assume check: "table_check t"
  then have "distinct (map (\<lambda>n. key ([], n)) (map snd t))"
    using keys_differ_distinct by (fastforce simp: table_check_def comp_def)
  then have "distinct (map snd t)" by (auto simp: distinct_map inj_on_def)
  with check show ?thesis by (simp add: table_check_def table_ok_def)
qed

definition tables_check :: "tables \<Rightarrow> bool" where
  "tables_check t \<longleftrightarrow> table_check (clientbound t) \<and> table_check (serverbound t)"

definition protocol_check :: "protocol \<Rightarrow> bool" where
  "protocol_check p \<longleftrightarrow> tables_check (status_tables p) \<and> tables_check (login_tables p) \<and>
     (case config_tables p of None \<Rightarrow> True | Some t \<Rightarrow> tables_check t) \<and> tables_check (play_tables p)"

lemma protocol_ok_check: "protocol_check p \<Longrightarrow> protocol_ok p"
  by (auto simp: protocol_check_def protocol_ok_def tables_check_def tables_ok_def table_ok_check
      split: option.splits)

end
