(* ===== verification/Versions_1_7.thy ===== *)
theory Versions_1_7
  imports Packet_Tables
begin

text \<open>
  The packet tables of Minecraft 1.7 to 1.11: one definition for each group of rows of
  \<open>src/protocol/versions/v*.rs\<close>, and the version the macro builds of them.  Every table is checked:
  its ids count up from zero and its names differ.
\<close>

section \<open>Version 4 (\<open>v1_7_2\<close>, \<open>v4.rs\<close>)\<close>

definition v4_status :: tables where
  "v4_status = \<lparr>
   clientbound =
    [(0x00, ''Response''), (0x01, ''Ping'')],
   serverbound =
    [(0x00, ''Request''), (0x01, ''Ping'')]\<rparr>"

definition v4_login :: tables where
  "v4_login = \<lparr>
   clientbound =
    [(0x00, ''Disconnect''), (0x01, ''EncryptionRequest''), (0x02, ''LoginSuccess'')],
   serverbound =
    [(0x00, ''LoginStart''), (0x01, ''EncryptionResponse'')]\<rparr>"

definition v4_play_clientbound :: packet_table where
  "v4_play_clientbound =
    [(0x00, ''KeepAlive''), (0x01, ''JoinGame''), (0x02, ''ChatMessage''), (0x03, ''TimeUpdate''),
     (0x04, ''EntityEquipment''), (0x05, ''SpawnPosition''), (0x06, ''UpdateHealth''),
     (0x07, ''Respawn''), (0x08, ''PlayerPositionAndLook''), (0x09, ''HeldItemChange''),
     (0x0A, ''UseBed''), (0x0B, ''Animation''), (0x0C, ''SpawnPlayer''), (0x0D, ''CollectItem''),
     (0x0E, ''SpawnObject''), (0x0F, ''SpawnMob''), (0x10, ''SpawnPainting''),
     (0x11, ''SpawnExperienceOrb''), (0x12, ''EntityVelocity''), (0x13, ''DestroyEntities''),
     (0x14, ''Entity''), (0x15, ''EntityRelativeMove''), (0x16, ''EntityLook''),
     (0x17, ''EntityLookandRelativeMove''), (0x18, ''EntityTeleport''), (0x19, ''EntityHeadLook''),
     (0x1A, ''EntityStatus''), (0x1B, ''AttachEntity''), (0x1C, ''EntityMetadata''),
     (0x1D, ''EntityEffect''), (0x1E, ''RemoveEntityEffect''), (0x1F, ''SetExperience''),
     (0x20, ''EntityProperties''), (0x21, ''ChunkData''), (0x22, ''MultiBlockChange''),
     (0x23, ''BlockChange''), (0x24, ''BlockAction''), (0x25, ''BlockBreakAnimation''),
     (0x26, ''MapChunkBulk''), (0x27, ''Explosion''), (0x28, ''Effect''), (0x29, ''Effects''),
     (0x2A, ''SoundEffect''), (0x2B, ''Particle''), (0x2C, ''ChangeGameState''),
     (0x2D, ''SpawnGlobalEntity''), (0x2E, ''OpenWindow''), (0x2F, ''CloseWindow''),
     (0x30, ''SetSlot''), (0x31, ''WindowItems''), (0x32, ''WindowProperty''),
     (0x33, ''ConfirmTransaction''), (0x34, ''UpdateSign''), (0x35, ''Maps''),
     (0x36, ''UpdateBlockEntity''), (0x37, ''SignEditorOpen''), (0x38, ''Statistics''),
     (0x39, ''PlayerListItem''), (0x3A, ''PlayerAbilities''), (0x3B, ''TabComplete''),
     (0x3C, ''ScoreboardObjective''), (0x3D, ''UpdateScore''), (0x3E, ''DisplayScoreboard''),
     (0x3F, ''Teams''), (0x40, ''PluginMessage''), (0x41, ''Disconnect'')]"

definition v4_play_serverbound :: packet_table where
  "v4_play_serverbound =
    [(0x00, ''KeepAlive''), (0x01, ''ChatMessage''), (0x02, ''UseEntity''), (0x03, ''Player''),
     (0x04, ''PlayerPosition''), (0x05, ''PlayerLook''), (0x06, ''PlayerPositionAndLook''),
     (0x07, ''PlayerDigging''), (0x08, ''PlayerBlockPlacement''), (0x09, ''HeldItemChange''),
     (0x0A, ''Animation''), (0x0B, ''EntityAction''), (0x0C, ''SteerVehicle''),
     (0x0D, ''CloseWindow''), (0x0E, ''ClickWindow''), (0x0F, ''ConfirmTransaction''),
     (0x10, ''CreativeInventoryAction''), (0x11, ''EnchantItem''), (0x12, ''UpdateSign''),
     (0x13, ''PlayerAbilities''), (0x14, ''TabComplete''), (0x15, ''ClientSettings''),
     (0x16, ''ClientStatus''), (0x17, ''PluginMessage'')]"

definition v4 :: protocol where
  "v4 = build_protocol_pre_1_21_2 4 v4_status v4_login
     \<lparr>clientbound = v4_play_clientbound, serverbound = v4_play_serverbound\<rparr>"

lemma v4_ok: "protocol_ok v4"
  by (rule protocol_ok_check) code_simp

section \<open>Version 5 (\<open>v1_7_6\<close>, \<open>v5.rs\<close>)\<close>

definition v5_status :: tables where
  "v5_status = \<lparr>
   clientbound =
    [(0x00, ''Response''), (0x01, ''Ping'')],
   serverbound =
    [(0x00, ''Request''), (0x01, ''Ping'')]\<rparr>"

definition v5_login :: tables where
  "v5_login = \<lparr>
   clientbound =
    [(0x00, ''Disconnect''), (0x01, ''EncryptionRequest''), (0x02, ''LoginSuccess'')],
   serverbound =
    [(0x00, ''LoginStart''), (0x01, ''EncryptionResponse'')]\<rparr>"

definition v5_play_clientbound :: packet_table where
  "v5_play_clientbound =
    [(0x00, ''KeepAlive''), (0x01, ''JoinGame''), (0x02, ''ChatMessage''), (0x03, ''TimeUpdate''),
     (0x04, ''EntityEquipment''), (0x05, ''SpawnPosition''), (0x06, ''UpdateHealth''),
     (0x07, ''Respawn''), (0x08, ''PlayerPositionAndLook''), (0x09, ''HeldItemChange''),
     (0x0A, ''UseBed''), (0x0B, ''Animation''), (0x0C, ''SpawnPlayer''), (0x0D, ''CollectItem''),
     (0x0E, ''SpawnObject''), (0x0F, ''SpawnMob''), (0x10, ''SpawnPainting''),
     (0x11, ''SpawnExperienceOrb''), (0x12, ''EntityVelocity''), (0x13, ''DestroyEntities''),
     (0x14, ''Entity''), (0x15, ''EntityRelativeMove''), (0x16, ''EntityLook''),
     (0x17, ''EntityLookandRelativeMove''), (0x18, ''EntityTeleport''), (0x19, ''EntityHeadLook''),
     (0x1A, ''EntityStatus''), (0x1B, ''AttachEntity''), (0x1C, ''EntityMetadata''),
     (0x1D, ''EntityEffect''), (0x1E, ''RemoveEntityEffect''), (0x1F, ''SetExperience''),
     (0x20, ''EntityProperties''), (0x21, ''ChunkData''), (0x22, ''MultiBlockChange''),
     (0x23, ''BlockChange''), (0x24, ''BlockAction''), (0x25, ''BlockBreakAnimation''),
     (0x26, ''MapChunkBulk''), (0x27, ''Explosion''), (0x28, ''Effect''), (0x29, ''Effects''),
     (0x2A, ''SoundEffect''), (0x2B, ''Particle''), (0x2C, ''ChangeGameState''),
     (0x2D, ''SpawnGlobalEntity''), (0x2E, ''OpenWindow''), (0x2F, ''CloseWindow''),
     (0x30, ''SetSlot''), (0x31, ''WindowItems''), (0x32, ''WindowProperty''),
     (0x33, ''ConfirmTransaction''), (0x34, ''UpdateSign''), (0x35, ''Maps''),
     (0x36, ''UpdateBlockEntity''), (0x37, ''SignEditorOpen''), (0x38, ''Statistics''),
     (0x39, ''PlayerListItem''), (0x3A, ''PlayerAbilities''), (0x3B, ''TabComplete''),
     (0x3C, ''ScoreboardObjective''), (0x3D, ''UpdateScore''), (0x3E, ''DisplayScoreboard''),
     (0x3F, ''Teams''), (0x40, ''PluginMessage''), (0x41, ''Disconnect'')]"

definition v5_play_serverbound :: packet_table where
  "v5_play_serverbound =
    [(0x00, ''KeepAlive''), (0x01, ''ChatMessage''), (0x02, ''UseEntity''), (0x03, ''Player''),
     (0x04, ''PlayerPosition''), (0x05, ''PlayerLook''), (0x06, ''PlayerPositionAndLook''),
     (0x07, ''PlayerDigging''), (0x08, ''PlayerBlockPlacement''), (0x09, ''HeldItemChange''),
     (0x0A, ''Animation''), (0x0B, ''EntityAction''), (0x0C, ''SteerVehicle''),
     (0x0D, ''CloseWindow''), (0x0E, ''ClickWindow''), (0x0F, ''ConfirmTransaction''),
     (0x10, ''CreativeInventoryAction''), (0x11, ''EnchantItem''), (0x12, ''UpdateSign''),
     (0x13, ''PlayerAbilities''), (0x14, ''TabComplete''), (0x15, ''ClientSettings''),
     (0x16, ''ClientStatus''), (0x17, ''PluginMessage'')]"

definition v5 :: protocol where
  "v5 = build_protocol_pre_1_21_2 5 v5_status v5_login
     \<lparr>clientbound = v5_play_clientbound, serverbound = v5_play_serverbound\<rparr>"

lemma v5_ok: "protocol_ok v5"
  by (rule protocol_ok_check) code_simp

section \<open>Version 47 (\<open>v1_8_0\<close>, \<open>v47.rs\<close>)\<close>

definition v47_status :: tables where
  "v47_status = \<lparr>
   clientbound =
    [(0x00, ''Response''), (0x01, ''Pong'')],
   serverbound =
    [(0x00, ''Request''), (0x01, ''Ping'')]\<rparr>"

definition v47_login :: tables where
  "v47_login = \<lparr>
   clientbound =
    [(0x00, ''Disconnect''), (0x01, ''EncryptionRequest''), (0x02, ''LoginSuccess''),
     (0x03, ''SetCompression'')],
   serverbound =
    [(0x00, ''LoginStart''), (0x01, ''EncryptionResponse'')]\<rparr>"

definition v47_play_clientbound :: packet_table where
  "v47_play_clientbound =
    [(0x00, ''KeepAlive''), (0x01, ''JoinGame''), (0x02, ''ChatMessage''), (0x03, ''TimeUpdate''),
     (0x04, ''EntityEquipment''), (0x05, ''SpawnPosition''), (0x06, ''UpdateHealth''),
     (0x07, ''Respawn''), (0x08, ''PlayerPositionAndLook''), (0x09, ''HeldItemChange''),
     (0x0A, ''UseBed''), (0x0B, ''Animation''), (0x0C, ''SpawnPlayer''), (0x0D, ''CollectItem''),
     (0x0E, ''SpawnObject''), (0x0F, ''SpawnMob''), (0x10, ''SpawnPainting''),
     (0x11, ''SpawnExperienceOrb''), (0x12, ''EntityVelocity''), (0x13, ''DestroyEntities''),
     (0x14, ''Entity''), (0x15, ''EntityRelativeMove''), (0x16, ''EntityLook''),
     (0x17, ''EntityLookAndRelativeMove''), (0x18, ''EntityTeleport''), (0x19, ''EntityHeadLook''),
     (0x1A, ''EntityStatus''), (0x1B, ''AttachEntity''), (0x1C, ''EntityMetadata''),
     (0x1D, ''EntityEffect''), (0x1E, ''RemoveEntityEffect''), (0x1F, ''SetExperience''),
     (0x20, ''EntityProperties''), (0x21, ''ChunkData''), (0x22, ''MultiBlockChange''),
     (0x23, ''BlockChange''), (0x24, ''BlockAction''), (0x25, ''BlockBreakAnimation''),
     (0x26, ''MapChunkBulk''), (0x27, ''Explosion''), (0x28, ''Effect''), (0x29, ''SoundEffect''),
     (0x2A, ''Particle''), (0x2B, ''ChangeGameState''), (0x2C, ''SpawnGlobalEntity''),
     (0x2D, ''OpenWindow''), (0x2E, ''CloseWindow''), (0x2F, ''SetSlot''), (0x30, ''WindowItems''),
     (0x31, ''WindowProperty''), (0x32, ''ConfirmTransaction''), (0x33, ''UpdateSign''),
     (0x34, ''Map''), (0x35, ''UpdateBlockEntity''), (0x36, ''OpenSignEditor''),
     (0x37, ''Statistics''), (0x38, ''PlayerListItem''), (0x39, ''PlayerAbilities''),
     (0x3A, ''TabComplete''), (0x3B, ''ScoreboardObjective''), (0x3C, ''UpdateScore''),
     (0x3D, ''DisplayScoreboard''), (0x3E, ''Teams''), (0x3F, ''PluginMessage''),
     (0x40, ''Disconnect''), (0x41, ''ServerDifficulty''), (0x42, ''CombatEvent''), (0x43, ''Camera''),
     (0x44, ''WorldBorder''), (0x45, ''Title''), (0x46, ''SetCompression''),
     (0x47, ''PlayerListHeaderAndFooter''), (0x48, ''ResourcePackSend''), (0x49, ''UpdateEntityNBT'')]"

definition v47_play_serverbound :: packet_table where
  "v47_play_serverbound =
    [(0x00, ''KeepAlive''), (0x01, ''ChatMessage''), (0x02, ''UseEntity''), (0x03, ''Player''),
     (0x04, ''PlayerPosition''), (0x05, ''PlayerLook''), (0x06, ''PlayerPositionAndLook''),
     (0x07, ''PlayerDigging''), (0x08, ''PlayerBlockPlacement''), (0x09, ''HeldItemChange''),
     (0x0A, ''Animation''), (0x0B, ''EntityAction''), (0x0C, ''SteerVehicle''),
     (0x0D, ''CloseWindow''), (0x0E, ''ClickWindow''), (0x0F, ''ConfirmTransaction''),
     (0x10, ''CreativeInventoryAction''), (0x11, ''EnchantItem''), (0x12, ''UpdateSign''),
     (0x13, ''PlayerAbilities''), (0x14, ''TabComplete''), (0x15, ''ClientSettings''),
     (0x16, ''ClientStatus''), (0x17, ''PluginMessage''), (0x18, ''Spectate''),
     (0x19, ''ResourcePackStatus'')]"

definition v47 :: protocol where
  "v47 = build_protocol_pre_1_21_2 47 v47_status v47_login
     \<lparr>clientbound = v47_play_clientbound, serverbound = v47_play_serverbound\<rparr>"

lemma v47_ok: "protocol_ok v47"
  by (rule protocol_ok_check) code_simp

section \<open>Version 107 (\<open>v1_9_0\<close>, \<open>v107.rs\<close>)\<close>

definition v107_status :: tables where
  "v107_status = \<lparr>
   clientbound =
    [(0x00, ''Response''), (0x01, ''Pong'')],
   serverbound =
    [(0x00, ''Request''), (0x01, ''Ping'')]\<rparr>"

definition v107_login :: tables where
  "v107_login = \<lparr>
   clientbound =
    [(0x00, ''Disconnect''), (0x01, ''EncryptionRequest''), (0x02, ''LoginSuccess''),
     (0x03, ''SetCompression'')],
   serverbound =
    [(0x00, ''LoginStart''), (0x01, ''EncryptionResponse'')]\<rparr>"

definition v107_play_clientbound :: packet_table where
  "v107_play_clientbound =
    [(0x00, ''SpawnObject''), (0x01, ''SpawnExperienceOrb''), (0x02, ''SpawnGlobalEntity''),
     (0x03, ''SpawnMob''), (0x04, ''SpawnPainting''), (0x05, ''SpawnPlayer''), (0x06, ''Animation''),
     (0x07, ''Statistics''), (0x08, ''BlockBreakAnimation''), (0x09, ''UpdateBlockEntity''),
     (0x0A, ''BlockAction''), (0x0B, ''BlockChange''), (0x0C, ''BossBar''),
     (0x0D, ''ServerDifficulty''), (0x0E, ''TabComplete''), (0x0F, ''ChatMessage''),
     (0x10, ''MultiBlockChange''), (0x11, ''ConfirmTransaction''), (0x12, ''CloseWindow''),
     (0x13, ''OpenWindow''), (0x14, ''WindowItems''), (0x15, ''WindowProperty''), (0x16, ''SetSlot''),
     (0x17, ''SetCooldown''), (0x18, ''PluginMessage''), (0x19, ''NamedSoundEffect''),
     (0x1A, ''Disconnect''), (0x1B, ''EntityStatus''), (0x1C, ''Explosion''), (0x1D, ''UnloadChunk''),
     (0x1E, ''ChangeGameState''), (0x1F, ''KeepAlive''), (0x20, ''ChunkData''), (0x21, ''Effect''),
     (0x22, ''Particle''), (0x23, ''JoinGame''), (0x24, ''Map''), (0x25, ''EntityRelativeMove''),
     (0x26, ''EntityLookAndRelativeMove''), (0x27, ''EntityLook''), (0x28, ''Entity''),
     (0x29, ''VehicleMove''), (0x2A, ''OpenSignEditor''), (0x2B, ''PlayerAbilities''),
     (0x2C, ''CombatEvent''), (0x2D, ''PlayerListItem''), (0x2E, ''PlayerPositionAndLook''),
     (0x2F, ''UseBed''), (0x30, ''DestroyEntities''), (0x31, ''RemoveEntityEffect''),
     (0x32, ''ResourcePackSend''), (0x33, ''Respawn''), (0x34, ''EntityHeadLook''),
     (0x35, ''WorldBorder''), (0x36, ''Camera''), (0x37, ''HeldItemChange''),
     (0x38, ''DisplayScoreboard''), (0x39, ''EntityMetadata''), (0x3A, ''AttachEntity''),
     (0x3B, ''EntityVelocity''), (0x3C, ''EntityEquipment''), (0x3D, ''SetExperience''),
     (0x3E, ''UpdateHealth''), (0x3F, ''ScoreboardObjective''), (0x40, ''SetPassengers''),
     (0x41, ''Teams''), (0x42, ''UpdateScore''), (0x43, ''SpawnPosition''), (0x44, ''TimeUpdate''),
     (0x45, ''Title''), (0x46, ''UpdateSign''), (0x47, ''SoundEffect''),
     (0x48, ''PlayerListHeaderAndFooter''), (0x49, ''CollectItem''), (0x4A, ''EntityTeleport''),
     (0x4B, ''EntityProperties''), (0x4C, ''EntityEffect'')]"

definition v107_play_serverbound :: packet_table where
  "v107_play_serverbound =
    [(0x00, ''TeleportConfirm''), (0x01, ''TabComplete''), (0x02, ''ChatMessage''),
     (0x03, ''ClientStatus''), (0x04, ''ClientSettings''), (0x05, ''ConfirmTransaction''),
     (0x06, ''EnchantItem''), (0x07, ''ClickWindow''), (0x08, ''CloseWindow''),
     (0x09, ''PluginMessage''), (0x0A, ''UseEntity''), (0x0B, ''KeepAlive''),
     (0x0C, ''PlayerPosition''), (0x0D, ''PlayerPositionAndLook''), (0x0E, ''PlayerLook''),
     (0x0F, ''Player''), (0x10, ''VehicleMove''), (0x11, ''SteerBoat''), (0x12, ''PlayerAbilities''),
     (0x13, ''PlayerDigging''), (0x14, ''EntityAction''), (0x15, ''SteerVehicle''),
     (0x16, ''ResourcePackStatus''), (0x17, ''HeldItemChange''), (0x18, ''CreativeInventoryAction''),
     (0x19, ''UpdateSign''), (0x1A, ''Animation''), (0x1B, ''Spectate''),
     (0x1C, ''PlayerBlockPlacement''), (0x1D, ''UseItem'')]"

definition v107 :: protocol where
  "v107 = build_protocol_pre_1_21_2 107 v107_status v107_login
     \<lparr>clientbound = v107_play_clientbound, serverbound = v107_play_serverbound\<rparr>"

lemma v107_ok: "protocol_ok v107"
  by (rule protocol_ok_check) code_simp

section \<open>Version 108 (\<open>v1_9_1\<close>, \<open>v108.rs\<close>)\<close>

definition v108_status :: tables where
  "v108_status = \<lparr>
   clientbound =
    [(0x00, ''Response''), (0x01, ''Pong'')],
   serverbound =
    [(0x00, ''Request''), (0x01, ''Ping'')]\<rparr>"

definition v108_login :: tables where
  "v108_login = \<lparr>
   clientbound =
    [(0x00, ''Disconnect''), (0x01, ''EncryptionRequest''), (0x02, ''LoginSuccess''),
     (0x03, ''SetCompression'')],
   serverbound =
    [(0x00, ''LoginStart''), (0x01, ''EncryptionResponse'')]\<rparr>"

definition v108_play_clientbound :: packet_table where
  "v108_play_clientbound =
    [(0x00, ''SpawnObject''), (0x01, ''SpawnExperienceOrb''), (0x02, ''SpawnGlobalEntity''),
     (0x03, ''SpawnMob''), (0x04, ''SpawnPainting''), (0x05, ''SpawnPlayer''), (0x06, ''Animation''),
     (0x07, ''Statistics''), (0x08, ''BlockBreakAnimation''), (0x09, ''UpdateBlockEntity''),
     (0x0A, ''BlockAction''), (0x0B, ''BlockChange''), (0x0C, ''BossBar''),
     (0x0D, ''ServerDifficulty''), (0x0E, ''TabComplete''), (0x0F, ''ChatMessage''),
     (0x10, ''MultiBlockChange''), (0x11, ''ConfirmTransaction''), (0x12, ''CloseWindow''),
     (0x13, ''OpenWindow''), (0x14, ''WindowItems''), (0x15, ''WindowProperty''), (0x16, ''SetSlot''),
     (0x17, ''SetCooldown''), (0x18, ''PluginMessage''), (0x19, ''NamedSoundEffect''),
     (0x1A, ''Disconnect''), (0x1B, ''EntityStatus''), (0x1C, ''Explosion''), (0x1D, ''UnloadChunk''),
     (0x1E, ''ChangeGameState''), (0x1F, ''KeepAlive''), (0x20, ''ChunkData''), (0x21, ''Effect''),
     (0x22, ''Particle''), (0x23, ''JoinGame''), (0x24, ''Map''), (0x25, ''EntityRelativeMove''),
     (0x26, ''EntityLookAndRelativeMove''), (0x27, ''EntityLook''), (0x28, ''Entity''),
     (0x29, ''VehicleMove''), (0x2A, ''OpenSignEditor''), (0x2B, ''PlayerAbilities''),
     (0x2C, ''CombatEvent''), (0x2D, ''PlayerListItem''), (0x2E, ''PlayerPositionAndLook''),
     (0x2F, ''UseBed''), (0x30, ''DestroyEntities''), (0x31, ''RemoveEntityEffect''),
     (0x32, ''ResourcePackSend''), (0x33, ''Respawn''), (0x34, ''EntityHeadLook''),
     (0x35, ''WorldBorder''), (0x36, ''Camera''), (0x37, ''HeldItemChange''),
     (0x38, ''DisplayScoreboard''), (0x39, ''EntityMetadata''), (0x3A, ''AttachEntity''),
     (0x3B, ''EntityVelocity''), (0x3C, ''EntityEquipment''), (0x3D, ''SetExperience''),
     (0x3E, ''UpdateHealth''), (0x3F, ''ScoreboardObjective''), (0x40, ''SetPassengers''),
     (0x41, ''Teams''), (0x42, ''UpdateScore''), (0x43, ''SpawnPosition''), (0x44, ''TimeUpdate''),
     (0x45, ''Title''), (0x46, ''UpdateSign''), (0x47, ''SoundEffect''),
     (0x48, ''PlayerListHeaderAndFooter''), (0x49, ''CollectItem''), (0x4A, ''EntityTeleport''),
     (0x4B, ''EntityProperties''), (0x4C, ''EntityEffect'')]"

definition v108_play_serverbound :: packet_table where
  "v108_play_serverbound =
    [(0x00, ''TeleportConfirm''), (0x01, ''TabComplete''), (0x02, ''ChatMessage''),
     (0x03, ''ClientStatus''), (0x04, ''ClientSettings''), (0x05, ''ConfirmTransaction''),
     (0x06, ''EnchantItem''), (0x07, ''ClickWindow''), (0x08, ''CloseWindow''),
     (0x09, ''PluginMessage''), (0x0A, ''UseEntity''), (0x0B, ''KeepAlive''),
     (0x0C, ''PlayerPosition''), (0x0D, ''PlayerPositionAndLook''), (0x0E, ''PlayerLook''),
     (0x0F, ''Player''), (0x10, ''VehicleMove''), (0x11, ''SteerBoat''), (0x12, ''PlayerAbilities''),
     (0x13, ''PlayerDigging''), (0x14, ''EntityAction''), (0x15, ''SteerVehicle''),
     (0x16, ''ResourcePackStatus''), (0x17, ''HeldItemChange''), (0x18, ''CreativeInventoryAction''),
     (0x19, ''UpdateSign''), (0x1A, ''Animation''), (0x1B, ''Spectate''),
     (0x1C, ''PlayerBlockPlacement''), (0x1D, ''UseItem'')]"

definition v108 :: protocol where
  "v108 = build_protocol_pre_1_21_2 108 v108_status v108_login
     \<lparr>clientbound = v108_play_clientbound, serverbound = v108_play_serverbound\<rparr>"

lemma v108_ok: "protocol_ok v108"
  by (rule protocol_ok_check) code_simp

section \<open>Version 109 (\<open>v1_9_2\<close>, \<open>v109.rs\<close>)\<close>

definition v109_status :: tables where
  "v109_status = \<lparr>
   clientbound =
    [(0x00, ''Response''), (0x01, ''Pong'')],
   serverbound =
    [(0x00, ''Request''), (0x01, ''Ping'')]\<rparr>"

definition v109_login :: tables where
  "v109_login = \<lparr>
   clientbound =
    [(0x00, ''Disconnect''), (0x01, ''EncryptionRequest''), (0x02, ''LoginSuccess''),
     (0x03, ''SetCompression'')],
   serverbound =
    [(0x00, ''LoginStart''), (0x01, ''EncryptionResponse'')]\<rparr>"

definition v109_play_clientbound :: packet_table where
  "v109_play_clientbound =
    [(0x00, ''SpawnObject''), (0x01, ''SpawnExperienceOrb''), (0x02, ''SpawnGlobalEntity''),
     (0x03, ''SpawnMob''), (0x04, ''SpawnPainting''), (0x05, ''SpawnPlayer''), (0x06, ''Animation''),
     (0x07, ''Statistics''), (0x08, ''BlockBreakAnimation''), (0x09, ''UpdateBlockEntity''),
     (0x0A, ''BlockAction''), (0x0B, ''BlockChange''), (0x0C, ''BossBar''),
     (0x0D, ''ServerDifficulty''), (0x0E, ''TabComplete''), (0x0F, ''ChatMessage''),
     (0x10, ''MultiBlockChange''), (0x11, ''ConfirmTransaction''), (0x12, ''CloseWindow''),
     (0x13, ''OpenWindow''), (0x14, ''WindowItems''), (0x15, ''WindowProperty''), (0x16, ''SetSlot''),
     (0x17, ''SetCooldown''), (0x18, ''PluginMessage''), (0x19, ''NamedSoundEffect''),
     (0x1A, ''Disconnect''), (0x1B, ''EntityStatus''), (0x1C, ''Explosion''), (0x1D, ''UnloadChunk''),
     (0x1E, ''ChangeGameState''), (0x1F, ''KeepAlive''), (0x20, ''ChunkData''), (0x21, ''Effect''),
     (0x22, ''Particle''), (0x23, ''JoinGame''), (0x24, ''Map''), (0x25, ''EntityRelativeMove''),
     (0x26, ''EntityLookAndRelativeMove''), (0x27, ''EntityLook''), (0x28, ''Entity''),
     (0x29, ''VehicleMove''), (0x2A, ''OpenSignEditor''), (0x2B, ''PlayerAbilities''),
     (0x2C, ''CombatEvent''), (0x2D, ''PlayerListItem''), (0x2E, ''PlayerPositionAndLook''),
     (0x2F, ''UseBed''), (0x30, ''DestroyEntities''), (0x31, ''RemoveEntityEffect''),
     (0x32, ''ResourcePackSend''), (0x33, ''Respawn''), (0x34, ''EntityHeadLook''),
     (0x35, ''WorldBorder''), (0x36, ''Camera''), (0x37, ''HeldItemChange''),
     (0x38, ''DisplayScoreboard''), (0x39, ''EntityMetadata''), (0x3A, ''AttachEntity''),
     (0x3B, ''EntityVelocity''), (0x3C, ''EntityEquipment''), (0x3D, ''SetExperience''),
     (0x3E, ''UpdateHealth''), (0x3F, ''ScoreboardObjective''), (0x40, ''SetPassengers''),
     (0x41, ''Teams''), (0x42, ''UpdateScore''), (0x43, ''SpawnPosition''), (0x44, ''TimeUpdate''),
     (0x45, ''Title''), (0x46, ''UpdateSign''), (0x47, ''SoundEffect''),
     (0x48, ''PlayerListHeaderAndFooter''), (0x49, ''CollectItem''), (0x4A, ''EntityTeleport''),
     (0x4B, ''EntityProperties''), (0x4C, ''EntityEffect'')]"

definition v109_play_serverbound :: packet_table where
  "v109_play_serverbound =
    [(0x00, ''TeleportConfirm''), (0x01, ''TabComplete''), (0x02, ''ChatMessage''),
     (0x03, ''ClientStatus''), (0x04, ''ClientSettings''), (0x05, ''ConfirmTransaction''),
     (0x06, ''EnchantItem''), (0x07, ''ClickWindow''), (0x08, ''CloseWindow''),
     (0x09, ''PluginMessage''), (0x0A, ''UseEntity''), (0x0B, ''KeepAlive''),
     (0x0C, ''PlayerPosition''), (0x0D, ''PlayerPositionAndLook''), (0x0E, ''PlayerLook''),
     (0x0F, ''Player''), (0x10, ''VehicleMove''), (0x11, ''SteerBoat''), (0x12, ''PlayerAbilities''),
     (0x13, ''PlayerDigging''), (0x14, ''EntityAction''), (0x15, ''SteerVehicle''),
     (0x16, ''ResourcePackStatus''), (0x17, ''HeldItemChange''), (0x18, ''CreativeInventoryAction''),
     (0x19, ''UpdateSign''), (0x1A, ''Animation''), (0x1B, ''Spectate''),
     (0x1C, ''PlayerBlockPlacement''), (0x1D, ''UseItem'')]"

definition v109 :: protocol where
  "v109 = build_protocol_pre_1_21_2 109 v109_status v109_login
     \<lparr>clientbound = v109_play_clientbound, serverbound = v109_play_serverbound\<rparr>"

lemma v109_ok: "protocol_ok v109"
  by (rule protocol_ok_check) code_simp

section \<open>Version 110 (\<open>v1_9_3\<close>, \<open>v110.rs\<close>)\<close>

definition v110_status :: tables where
  "v110_status = \<lparr>
   clientbound =
    [(0x00, ''Response''), (0x01, ''Pong'')],
   serverbound =
    [(0x00, ''Request''), (0x01, ''Ping'')]\<rparr>"

definition v110_login :: tables where
  "v110_login = \<lparr>
   clientbound =
    [(0x00, ''Disconnect''), (0x01, ''EncryptionRequest''), (0x02, ''LoginSuccess''),
     (0x03, ''SetCompression'')],
   serverbound =
    [(0x00, ''LoginStart''), (0x01, ''EncryptionResponse'')]\<rparr>"

definition v110_play_clientbound :: packet_table where
  "v110_play_clientbound =
    [(0x00, ''SpawnObject''), (0x01, ''SpawnExperienceOrb''), (0x02, ''SpawnGlobalEntity''),
     (0x03, ''SpawnMob''), (0x04, ''SpawnPainting''), (0x05, ''SpawnPlayer''), (0x06, ''Animation''),
     (0x07, ''Statistics''), (0x08, ''BlockBreakAnimation''), (0x09, ''UpdateBlockEntity''),
     (0x0A, ''BlockAction''), (0x0B, ''BlockChange''), (0x0C, ''BossBar''),
     (0x0D, ''ServerDifficulty''), (0x0E, ''TabComplete''), (0x0F, ''ChatMessage''),
     (0x10, ''MultiBlockChange''), (0x11, ''ConfirmTransaction''), (0x12, ''CloseWindow''),
     (0x13, ''OpenWindow''), (0x14, ''WindowItems''), (0x15, ''WindowProperty''), (0x16, ''SetSlot''),
     (0x17, ''SetCooldown''), (0x18, ''PluginMessage''), (0x19, ''NamedSoundEffect''),
     (0x1A, ''Disconnect''), (0x1B, ''EntityStatus''), (0x1C, ''Explosion''), (0x1D, ''UnloadChunk''),
     (0x1E, ''ChangeGameState''), (0x1F, ''KeepAlive''), (0x20, ''ChunkData''), (0x21, ''Effect''),
     (0x22, ''Particle''), (0x23, ''JoinGame''), (0x24, ''Map''), (0x25, ''EntityRelativeMove''),
     (0x26, ''EntityLookAndRelativeMove''), (0x27, ''EntityLook''), (0x28, ''Entity''),
     (0x29, ''VehicleMove''), (0x2A, ''OpenSignEditor''), (0x2B, ''PlayerAbilities''),
     (0x2C, ''CombatEvent''), (0x2D, ''PlayerListItem''), (0x2E, ''PlayerPositionAndLook''),
     (0x2F, ''UseBed''), (0x30, ''DestroyEntities''), (0x31, ''RemoveEntityEffect''),
     (0x32, ''ResourcePackSend''), (0x33, ''Respawn''), (0x34, ''EntityHeadLook''),
     (0x35, ''WorldBorder''), (0x36, ''Camera''), (0x37, ''HeldItemChange''),
     (0x38, ''DisplayScoreboard''), (0x39, ''EntityMetadata''), (0x3A, ''AttachEntity''),
     (0x3B, ''EntityVelocity''), (0x3C, ''EntityEquipment''), (0x3D, ''SetExperience''),
     (0x3E, ''UpdateHealth''), (0x3F, ''ScoreboardObjective''), (0x40, ''SetPassengers''),
     (0x41, ''Teams''), (0x42, ''UpdateScore''), (0x43, ''SpawnPosition''), (0x44, ''TimeUpdate''),
     (0x45, ''Title''), (0x46, ''SoundEffect''), (0x47, ''PlayerListHeaderAndFooter''),
     (0x48, ''CollectItem''), (0x49, ''EntityTeleport''), (0x4A, ''EntityProperties''),
     (0x4B, ''EntityEffect'')]"

definition v110_play_serverbound :: packet_table where
  "v110_play_serverbound =
    [(0x00, ''TeleportConfirm''), (0x01, ''TabComplete''), (0x02, ''ChatMessage''),
     (0x03, ''ClientStatus''), (0x04, ''ClientSettings''), (0x05, ''ConfirmTransaction''),
     (0x06, ''EnchantItem''), (0x07, ''ClickWindow''), (0x08, ''CloseWindow''),
     (0x09, ''PluginMessage''), (0x0A, ''UseEntity''), (0x0B, ''KeepAlive''),
     (0x0C, ''PlayerPosition''), (0x0D, ''PlayerPositionAndLook''), (0x0E, ''PlayerLook''),
     (0x0F, ''Player''), (0x10, ''VehicleMove''), (0x11, ''SteerBoat''), (0x12, ''PlayerAbilities''),
     (0x13, ''PlayerDigging''), (0x14, ''EntityAction''), (0x15, ''SteerVehicle''),
     (0x16, ''ResourcePackStatus''), (0x17, ''HeldItemChange''), (0x18, ''CreativeInventoryAction''),
     (0x19, ''UpdateSign''), (0x1A, ''Animation''), (0x1B, ''Spectate''),
     (0x1C, ''PlayerBlockPlacement''), (0x1D, ''UseItem'')]"

definition v110 :: protocol where
  "v110 = build_protocol_pre_1_21_2 110 v110_status v110_login
     \<lparr>clientbound = v110_play_clientbound, serverbound = v110_play_serverbound\<rparr>"

lemma v110_ok: "protocol_ok v110"
  by (rule protocol_ok_check) code_simp

section \<open>Version 210 (\<open>v1_10_0\<close>, \<open>v210.rs\<close>)\<close>

definition v210_status :: tables where
  "v210_status = \<lparr>
   clientbound =
    [(0x00, ''Response''), (0x01, ''Pong'')],
   serverbound =
    [(0x00, ''Request''), (0x01, ''Ping'')]\<rparr>"

definition v210_login :: tables where
  "v210_login = \<lparr>
   clientbound =
    [(0x00, ''Disconnect''), (0x01, ''EncryptionRequest''), (0x02, ''LoginSuccess''),
     (0x03, ''SetCompression'')],
   serverbound =
    [(0x00, ''LoginStart''), (0x01, ''EncryptionResponse'')]\<rparr>"

definition v210_play_clientbound :: packet_table where
  "v210_play_clientbound =
    [(0x00, ''SpawnObject''), (0x01, ''SpawnExperienceOrb''), (0x02, ''SpawnGlobalEntity''),
     (0x03, ''SpawnMob''), (0x04, ''SpawnPainting''), (0x05, ''SpawnPlayer''), (0x06, ''Animation''),
     (0x07, ''Statistics''), (0x08, ''BlockBreakAnimation''), (0x09, ''UpdateBlockEntity''),
     (0x0A, ''BlockAction''), (0x0B, ''BlockChange''), (0x0C, ''BossBar''),
     (0x0D, ''ServerDifficulty''), (0x0E, ''TabComplete''), (0x0F, ''ChatMessage''),
     (0x10, ''MultiBlockChange''), (0x11, ''ConfirmTransaction''), (0x12, ''CloseWindow''),
     (0x13, ''OpenWindow''), (0x14, ''WindowItems''), (0x15, ''WindowProperty''), (0x16, ''SetSlot''),
     (0x17, ''SetCooldown''), (0x18, ''PluginMessage''), (0x19, ''NamedSoundEffect''),
     (0x1A, ''Disconnect''), (0x1B, ''EntityStatus''), (0x1C, ''Explosion''), (0x1D, ''UnloadChunk''),
     (0x1E, ''ChangeGameState''), (0x1F, ''KeepAlive''), (0x20, ''ChunkData''), (0x21, ''Effect''),
     (0x22, ''Particle''), (0x23, ''JoinGame''), (0x24, ''Map''), (0x25, ''EntityRelativeMove''),
     (0x26, ''EntityLookAndRelativeMove''), (0x27, ''EntityLook''), (0x28, ''Entity''),
     (0x29, ''VehicleMove''), (0x2A, ''OpenSignEditor''), (0x2B, ''PlayerAbilities''),
     (0x2C, ''CombatEvent''), (0x2D, ''PlayerListItem''), (0x2E, ''PlayerPositionAndLook''),
     (0x2F, ''UseBed''), (0x30, ''DestroyEntities''), (0x31, ''RemoveEntityEffect''),
     (0x32, ''ResourcePackSend''), (0x33, ''Respawn''), (0x34, ''EntityHeadLook''),
     (0x35, ''WorldBorder''), (0x36, ''Camera''), (0x37, ''HeldItemChange''),
     (0x38, ''DisplayScoreboard''), (0x39, ''EntityMetadata''), (0x3A, ''AttachEntity''),
     (0x3B, ''EntityVelocity''), (0x3C, ''EntityEquipment''), (0x3D, ''SetExperience''),
     (0x3E, ''UpdateHealth''), (0x3F, ''ScoreboardObjective''), (0x40, ''SetPassengers''),
     (0x41, ''Teams''), (0x42, ''UpdateScore''), (0x43, ''SpawnPosition''), (0x44, ''TimeUpdate''),
     (0x45, ''Title''), (0x46, ''SoundEffect''), (0x47, ''PlayerListHeaderAndFooter''),
     (0x48, ''CollectItem''), (0x49, ''EntityTeleport''), (0x4A, ''EntityProperties''),
     (0x4B, ''EntityEffect'')]"

definition v210_play_serverbound :: packet_table where
  "v210_play_serverbound =
    [(0x00, ''TeleportConfirm''), (0x01, ''TabComplete''), (0x02, ''ChatMessage''),
     (0x03, ''ClientStatus''), (0x04, ''ClientSettings''), (0x05, ''ConfirmTransaction''),
     (0x06, ''EnchantItem''), (0x07, ''ClickWindow''), (0x08, ''CloseWindow''),
     (0x09, ''PluginMessage''), (0x0A, ''UseEntity''), (0x0B, ''KeepAlive''),
     (0x0C, ''PlayerPosition''), (0x0D, ''PlayerPositionAndLook''), (0x0E, ''PlayerLook''),
     (0x0F, ''Player''), (0x10, ''VehicleMove''), (0x11, ''SteerBoat''), (0x12, ''PlayerAbilities''),
     (0x13, ''PlayerDigging''), (0x14, ''EntityAction''), (0x15, ''SteerVehicle''),
     (0x16, ''ResourcePackStatus''), (0x17, ''HeldItemChange''), (0x18, ''CreativeInventoryAction''),
     (0x19, ''UpdateSign''), (0x1A, ''Animation''), (0x1B, ''Spectate''),
     (0x1C, ''PlayerBlockPlacement''), (0x1D, ''UseItem'')]"

definition v210 :: protocol where
  "v210 = build_protocol_pre_1_21_2 210 v210_status v210_login
     \<lparr>clientbound = v210_play_clientbound, serverbound = v210_play_serverbound\<rparr>"

lemma v210_ok: "protocol_ok v210"
  by (rule protocol_ok_check) code_simp

section \<open>Version 315 (\<open>v1_11_0\<close>, \<open>v315.rs\<close>)\<close>

definition v315_status :: tables where
  "v315_status = \<lparr>
   clientbound =
    [(0x00, ''Response''), (0x01, ''Pong'')],
   serverbound =
    [(0x00, ''Request''), (0x01, ''Ping'')]\<rparr>"

definition v315_login :: tables where
  "v315_login = \<lparr>
   clientbound =
    [(0x00, ''Disconnect''), (0x01, ''EncryptionRequest''), (0x02, ''LoginSuccess''),
     (0x03, ''SetCompression'')],
   serverbound =
    [(0x00, ''LoginStart''), (0x01, ''EncryptionResponse'')]\<rparr>"

definition v315_play_clientbound :: packet_table where
  "v315_play_clientbound =
    [(0x00, ''SpawnObject''), (0x01, ''SpawnExperienceOrb''), (0x02, ''SpawnGlobalEntity''),
     (0x03, ''SpawnMob''), (0x04, ''SpawnPainting''), (0x05, ''SpawnPlayer''), (0x06, ''Animation''),
     (0x07, ''Statistics''), (0x08, ''BlockBreakAnimation''), (0x09, ''UpdateBlockEntity''),
     (0x0A, ''BlockAction''), (0x0B, ''BlockChange''), (0x0C, ''BossBar''),
     (0x0D, ''ServerDifficulty''), (0x0E, ''TabComplete''), (0x0F, ''ChatMessage''),
     (0x10, ''MultiBlockChange''), (0x11, ''ConfirmTransaction''), (0x12, ''CloseWindow''),
     (0x13, ''OpenWindow''), (0x14, ''WindowItems''), (0x15, ''WindowProperty''), (0x16, ''SetSlot''),
     (0x17, ''SetCooldown''), (0x18, ''PluginMessage''), (0x19, ''NamedSoundEffect''),
     (0x1A, ''Disconnect''), (0x1B, ''EntityStatus''), (0x1C, ''Explosion''), (0x1D, ''UnloadChunk''),
     (0x1E, ''ChangeGameState''), (0x1F, ''KeepAlive''), (0x20, ''ChunkData''), (0x21, ''Effect''),
     (0x22, ''Particle''), (0x23, ''JoinGame''), (0x24, ''Map''), (0x25, ''EntityRelativeMove''),
     (0x26, ''EntityLookAndRelativeMove''), (0x27, ''EntityLook''), (0x28, ''Entity''),
     (0x29, ''VehicleMove''), (0x2A, ''OpenSignEditor''), (0x2B, ''PlayerAbilities''),
     (0x2C, ''CombatEvent''), (0x2D, ''PlayerListItem''), (0x2E, ''PlayerPositionAndLook''),
     (0x2F, ''UseBed''), (0x30, ''DestroyEntities''), (0x31, ''RemoveEntityEffect''),
     (0x32, ''ResourcePackSend''), (0x33, ''Respawn''), (0x34, ''EntityHeadLook''),
     (0x35, ''WorldBorder''), (0x36, ''Camera''), (0x37, ''HeldItemChange''),
     (0x38, ''DisplayScoreboard''), (0x39, ''EntityMetadata''), (0x3A, ''AttachEntity''),
     (0x3B, ''EntityVelocity''), (0x3C, ''EntityEquipment''), (0x3D, ''SetExperience''),
     (0x3E, ''UpdateHealth''), (0x3F, ''ScoreboardObjective''), (0x40, ''SetPassengers''),
     (0x41, ''Teams''), (0x42, ''UpdateScore''), (0x43, ''SpawnPosition''), (0x44, ''TimeUpdate''),
     (0x45, ''Title''), (0x46, ''SoundEffect''), (0x47, ''PlayerListHeaderAndFooter''),
     (0x48, ''CollectItem''), (0x49, ''EntityTeleport''), (0x4A, ''EntityProperties''),
     (0x4B, ''EntityEffect'')]"

definition v315_play_serverbound :: packet_table where
  "v315_play_serverbound =
    [(0x00, ''TeleportConfirm''), (0x01, ''TabComplete''), (0x02, ''ChatMessage''),
     (0x03, ''ClientStatus''), (0x04, ''ClientSettings''), (0x05, ''ConfirmTransaction''),
     (0x06, ''EnchantItem''), (0x07, ''ClickWindow''), (0x08, ''CloseWindow''),
     (0x09, ''PluginMessage''), (0x0A, ''UseEntity''), (0x0B, ''KeepAlive''),
     (0x0C, ''PlayerPosition''), (0x0D, ''PlayerPositionAndLook''), (0x0E, ''PlayerLook''),
     (0x0F, ''Player''), (0x10, ''VehicleMove''), (0x11, ''SteerBoat''), (0x12, ''PlayerAbilities''),
     (0x13, ''PlayerDigging''), (0x14, ''EntityAction''), (0x15, ''SteerVehicle''),
     (0x16, ''ResourcePackStatus''), (0x17, ''HeldItemChange''), (0x18, ''CreativeInventoryAction''),
     (0x19, ''UpdateSign''), (0x1A, ''Animation''), (0x1B, ''Spectate''),
     (0x1C, ''PlayerBlockPlacement''), (0x1D, ''UseItem'')]"

definition v315 :: protocol where
  "v315 = build_protocol_pre_1_21_2 315 v315_status v315_login
     \<lparr>clientbound = v315_play_clientbound, serverbound = v315_play_serverbound\<rparr>"

lemma v315_ok: "protocol_ok v315"
  by (rule protocol_ok_check) code_simp

section \<open>Version 316 (\<open>v1_11_1\<close>, \<open>v316.rs\<close>)\<close>

definition v316_status :: tables where
  "v316_status = \<lparr>
   clientbound =
    [(0x00, ''Response''), (0x01, ''Pong'')],
   serverbound =
    [(0x00, ''Request''), (0x01, ''Ping'')]\<rparr>"

definition v316_login :: tables where
  "v316_login = \<lparr>
   clientbound =
    [(0x00, ''Disconnect''), (0x01, ''EncryptionRequest''), (0x02, ''LoginSuccess''),
     (0x03, ''SetCompression'')],
   serverbound =
    [(0x00, ''LoginStart''), (0x01, ''EncryptionResponse'')]\<rparr>"

definition v316_play_clientbound :: packet_table where
  "v316_play_clientbound =
    [(0x00, ''SpawnObject''), (0x01, ''SpawnExperienceOrb''), (0x02, ''SpawnGlobalEntity''),
     (0x03, ''SpawnMob''), (0x04, ''SpawnPainting''), (0x05, ''SpawnPlayer''), (0x06, ''Animation''),
     (0x07, ''Statistics''), (0x08, ''BlockBreakAnimation''), (0x09, ''UpdateBlockEntity''),
     (0x0A, ''BlockAction''), (0x0B, ''BlockChange''), (0x0C, ''BossBar''),
     (0x0D, ''ServerDifficulty''), (0x0E, ''TabComplete''), (0x0F, ''ChatMessage''),
     (0x10, ''MultiBlockChange''), (0x11, ''ConfirmTransaction''), (0x12, ''CloseWindow''),
     (0x13, ''OpenWindow''), (0x14, ''WindowItems''), (0x15, ''WindowProperty''), (0x16, ''SetSlot''),
     (0x17, ''SetCooldown''), (0x18, ''PluginMessage''), (0x19, ''NamedSoundEffect''),
     (0x1A, ''Disconnect''), (0x1B, ''EntityStatus''), (0x1C, ''Explosion''), (0x1D, ''UnloadChunk''),
     (0x1E, ''ChangeGameState''), (0x1F, ''KeepAlive''), (0x20, ''ChunkData''), (0x21, ''Effect''),
     (0x22, ''Particle''), (0x23, ''JoinGame''), (0x24, ''Map''), (0x25, ''EntityRelativeMove''),
     (0x26, ''EntityLookAndRelativeMove''), (0x27, ''EntityLook''), (0x28, ''Entity''),
     (0x29, ''VehicleMove''), (0x2A, ''OpenSignEditor''), (0x2B, ''PlayerAbilities''),
     (0x2C, ''CombatEvent''), (0x2D, ''PlayerListItem''), (0x2E, ''PlayerPositionAndLook''),
     (0x2F, ''UseBed''), (0x30, ''DestroyEntities''), (0x31, ''RemoveEntityEffect''),
     (0x32, ''ResourcePackSend''), (0x33, ''Respawn''), (0x34, ''EntityHeadLook''),
     (0x35, ''WorldBorder''), (0x36, ''Camera''), (0x37, ''HeldItemChange''),
     (0x38, ''DisplayScoreboard''), (0x39, ''EntityMetadata''), (0x3A, ''AttachEntity''),
     (0x3B, ''EntityVelocity''), (0x3C, ''EntityEquipment''), (0x3D, ''SetExperience''),
     (0x3E, ''UpdateHealth''), (0x3F, ''ScoreboardObjective''), (0x40, ''SetPassengers''),
     (0x41, ''Teams''), (0x42, ''UpdateScore''), (0x43, ''SpawnPosition''), (0x44, ''TimeUpdate''),
     (0x45, ''Title''), (0x46, ''SoundEffect''), (0x47, ''PlayerListHeaderAndFooter''),
     (0x48, ''CollectItem''), (0x49, ''EntityTeleport''), (0x4A, ''EntityProperties''),
     (0x4B, ''EntityEffect'')]"

definition v316_play_serverbound :: packet_table where
  "v316_play_serverbound =
    [(0x00, ''TeleportConfirm''), (0x01, ''TabComplete''), (0x02, ''ChatMessage''),
     (0x03, ''ClientStatus''), (0x04, ''ClientSettings''), (0x05, ''ConfirmTransaction''),
     (0x06, ''EnchantItem''), (0x07, ''ClickWindow''), (0x08, ''CloseWindow''),
     (0x09, ''PluginMessage''), (0x0A, ''UseEntity''), (0x0B, ''KeepAlive''),
     (0x0C, ''PlayerPosition''), (0x0D, ''PlayerPositionAndLook''), (0x0E, ''PlayerLook''),
     (0x0F, ''Player''), (0x10, ''VehicleMove''), (0x11, ''SteerBoat''), (0x12, ''PlayerAbilities''),
     (0x13, ''PlayerDigging''), (0x14, ''EntityAction''), (0x15, ''SteerVehicle''),
     (0x16, ''ResourcePackStatus''), (0x17, ''HeldItemChange''), (0x18, ''CreativeInventoryAction''),
     (0x19, ''UpdateSign''), (0x1A, ''Animation''), (0x1B, ''Spectate''),
     (0x1C, ''PlayerBlockPlacement''), (0x1D, ''UseItem'')]"

definition v316 :: protocol where
  "v316 = build_protocol_pre_1_21_2 316 v316_status v316_login
     \<lparr>clientbound = v316_play_clientbound, serverbound = v316_play_serverbound\<rparr>"

lemma v316_ok: "protocol_ok v316"
  by (rule protocol_ok_check) code_simp

end
