(* ===== verification/Versions_1_12.thy ===== *)
theory Versions_1_12
  imports Packet_Tables
begin

text \<open>
  The packet tables of Minecraft 1.12 to 1.15: one definition for each group of rows of
  \<open>src/protocol/versions/v*.rs\<close>, and the version the macro builds of them.  Every table is checked:
  its ids count up from zero and its names differ.
\<close>

section \<open>Version 335 (\<open>v1_12_0\<close>, \<open>v335.rs\<close>)\<close>

definition v335_status :: tables where
  "v335_status = \<lparr>
   clientbound =
    [(0x00, ''Response''), (0x01, ''Pong'')],
   serverbound =
    [(0x00, ''Request''), (0x01, ''Ping'')]\<rparr>"

definition v335_login :: tables where
  "v335_login = \<lparr>
   clientbound =
    [(0x00, ''Disconnect''), (0x01, ''EncryptionRequest''), (0x02, ''LoginSuccess''),
     (0x03, ''SetCompression'')],
   serverbound =
    [(0x00, ''LoginStart''), (0x01, ''EncryptionResponse'')]\<rparr>"

definition v335_play_clientbound :: packet_table where
  "v335_play_clientbound =
    [(0x00, ''SpawnObject''), (0x01, ''SpawnExperienceOrb''), (0x02, ''SpawnGlobalEntity''),
     (0x03, ''SpawnMob''), (0x04, ''SpawnPainting''), (0x05, ''SpawnPlayer''), (0x06, ''Animation''),
     (0x07, ''Statistics''), (0x08, ''BlockBreakAnimation''), (0x09, ''UpdateBlockEntity''),
     (0x0A, ''BlockAction''), (0x0B, ''BlockChange''), (0x0C, ''BossBar''),
     (0x0D, ''ServerDifficulty''), (0x0E, ''TabComplete''), (0x0F, ''ChatMessage''),
     (0x10, ''MultiBlockChange''), (0x11, ''ConfirmTransaction''), (0x12, ''CloseWindow''),
     (0x13, ''OpenWindow''), (0x14, ''WindowItems''), (0x15, ''WindowProperty''), (0x16, ''SetSlot''),
     (0x17, ''SetCooldown''), (0x18, ''PluginMessage''), (0x19, ''NamedSoundEffect''),
     (0x1A, ''Disconnect''), (0x1B, ''EntityStatus''), (0x1C, ''Explosion''), (0x1D, ''UnloadChunk''),
     (0x1E, ''ChangeGameState''), (0x1F, ''KeepAlive''), (0x20, ''ChunkData''), (0x21, ''Effect''),
     (0x22, ''Particle''), (0x23, ''JoinGame''), (0x24, ''Map''), (0x25, ''Entity''),
     (0x26, ''EntityRelativeMove''), (0x27, ''EntityLookAndRelativeMove''), (0x28, ''EntityLook''),
     (0x29, ''VehicleMove''), (0x2A, ''OpenSignEditor''), (0x2B, ''PlayerAbilities''),
     (0x2C, ''CombatEvent''), (0x2D, ''PlayerListItem''), (0x2E, ''PlayerPositionAndLook''),
     (0x2F, ''UseBed''), (0x30, ''UnlockRecipes''), (0x31, ''DestroyEntities''),
     (0x32, ''RemoveEntityEffect''), (0x33, ''ResourcePackSend''), (0x34, ''Respawn''),
     (0x35, ''EntityHeadLook''), (0x36, ''SelectAdvancementTab''), (0x37, ''WorldBorder''),
     (0x38, ''Camera''), (0x39, ''HeldItemChange''), (0x3A, ''DisplayScoreboard''),
     (0x3B, ''EntityMetadata''), (0x3C, ''AttachEntity''), (0x3D, ''EntityVelocity''),
     (0x3E, ''EntityEquipment''), (0x3F, ''SetExperience''), (0x40, ''UpdateHealth''),
     (0x41, ''ScoreboardObjective''), (0x42, ''SetPassengers''), (0x43, ''Teams''),
     (0x44, ''UpdateScore''), (0x45, ''SpawnPosition''), (0x46, ''TimeUpdate''), (0x47, ''Title''),
     (0x48, ''SoundEffect''), (0x49, ''PlayerListHeaderAndFooter''), (0x4A, ''CollectItem''),
     (0x4B, ''EntityTeleport''), (0x4C, ''Advancements''), (0x4D, ''EntityProperties''),
     (0x4E, ''EntityEffect'')]"

definition v335_play_serverbound :: packet_table where
  "v335_play_serverbound =
    [(0x00, ''TeleportConfirm''), (0x01, ''PrepareCraftingGrid''), (0x02, ''TabComplete''),
     (0x03, ''ChatMessage''), (0x04, ''ClientStatus''), (0x05, ''ClientSettings''),
     (0x06, ''ConfirmTransaction''), (0x07, ''EnchantItem''), (0x08, ''ClickWindow''),
     (0x09, ''CloseWindow''), (0x0A, ''PluginMessage''), (0x0B, ''UseEntity''), (0x0C, ''KeepAlive''),
     (0x0D, ''Player''), (0x0E, ''PlayerPosition''), (0x0F, ''PlayerPositionAndLook''),
     (0x10, ''PlayerLook''), (0x11, ''VehicleMove''), (0x12, ''SteerBoat''),
     (0x13, ''PlayerAbilities''), (0x14, ''PlayerDigging''), (0x15, ''EntityAction''),
     (0x16, ''SteerVehicle''), (0x17, ''CraftingBookData''), (0x18, ''ResourcePackStatus''),
     (0x19, ''AdvancementTab''), (0x1A, ''HeldItemChange''), (0x1B, ''CreativeInventoryAction''),
     (0x1C, ''UpdateSign''), (0x1D, ''Animation''), (0x1E, ''Spectate''),
     (0x1F, ''PlayerBlockPlacement''), (0x20, ''UseItem'')]"

definition v335 :: protocol where
  "v335 = build_protocol_pre_1_21_2 335 v335_status v335_login
     \<lparr>clientbound = v335_play_clientbound, serverbound = v335_play_serverbound\<rparr>"

lemma v335_ok: "protocol_ok v335"
  by (rule protocol_ok_check) code_simp

section \<open>Version 338 (\<open>v1_12_1\<close>, \<open>v338.rs\<close>)\<close>

definition v338_status :: tables where
  "v338_status = \<lparr>
   clientbound =
    [(0x00, ''Response''), (0x01, ''Pong'')],
   serverbound =
    [(0x00, ''Request''), (0x01, ''Ping'')]\<rparr>"

definition v338_login :: tables where
  "v338_login = \<lparr>
   clientbound =
    [(0x00, ''Disconnect''), (0x01, ''EncryptionRequest''), (0x02, ''LoginSuccess''),
     (0x03, ''SetCompression'')],
   serverbound =
    [(0x00, ''LoginStart''), (0x01, ''EncryptionResponse'')]\<rparr>"

definition v338_play_clientbound :: packet_table where
  "v338_play_clientbound =
    [(0x00, ''SpawnObject''), (0x01, ''SpawnExperienceOrb''), (0x02, ''SpawnGlobalEntity''),
     (0x03, ''SpawnMob''), (0x04, ''SpawnPainting''), (0x05, ''SpawnPlayer''), (0x06, ''Animation''),
     (0x07, ''Statistics''), (0x08, ''BlockBreakAnimation''), (0x09, ''UpdateBlockEntity''),
     (0x0A, ''BlockAction''), (0x0B, ''BlockChange''), (0x0C, ''BossBar''),
     (0x0D, ''ServerDifficulty''), (0x0E, ''TabComplete''), (0x0F, ''ChatMessage''),
     (0x10, ''MultiBlockChange''), (0x11, ''ConfirmTransaction''), (0x12, ''CloseWindow''),
     (0x13, ''OpenWindow''), (0x14, ''WindowItems''), (0x15, ''WindowProperty''), (0x16, ''SetSlot''),
     (0x17, ''SetCooldown''), (0x18, ''PluginMessage''), (0x19, ''NamedSoundEffect''),
     (0x1A, ''Disconnect''), (0x1B, ''EntityStatus''), (0x1C, ''Explosion''), (0x1D, ''UnloadChunk''),
     (0x1E, ''ChangeGameState''), (0x1F, ''KeepAlive''), (0x20, ''ChunkData''), (0x21, ''Effect''),
     (0x22, ''Particle''), (0x23, ''JoinGame''), (0x24, ''Map''), (0x25, ''Entity''),
     (0x26, ''EntityRelativeMove''), (0x27, ''EntityLookAndRelativeMove''), (0x28, ''EntityLook''),
     (0x29, ''VehicleMove''), (0x2A, ''OpenSignEditor''), (0x2B, ''CraftRecipeResponse''),
     (0x2C, ''PlayerAbilities''), (0x2D, ''CombatEvent''), (0x2E, ''PlayerListItem''),
     (0x2F, ''PlayerPositionAndLook''), (0x30, ''UseBed''), (0x31, ''UnlockRecipes''),
     (0x32, ''DestroyEntities''), (0x33, ''RemoveEntityEffect''), (0x34, ''ResourcePackSend''),
     (0x35, ''Respawn''), (0x36, ''EntityHeadLook''), (0x37, ''SelectAdvancementTab''),
     (0x38, ''WorldBorder''), (0x39, ''Camera''), (0x3A, ''HeldItemChange''),
     (0x3B, ''DisplayScoreboard''), (0x3C, ''EntityMetadata''), (0x3D, ''AttachEntity''),
     (0x3E, ''EntityVelocity''), (0x3F, ''EntityEquipment''), (0x40, ''SetExperience''),
     (0x41, ''UpdateHealth''), (0x42, ''ScoreboardObjective''), (0x43, ''SetPassengers''),
     (0x44, ''Teams''), (0x45, ''UpdateScore''), (0x46, ''SpawnPosition''), (0x47, ''TimeUpdate''),
     (0x48, ''Title''), (0x49, ''SoundEffect''), (0x4A, ''PlayerListHeaderAndFooter''),
     (0x4B, ''CollectItem''), (0x4C, ''EntityTeleport''), (0x4D, ''Advancements''),
     (0x4E, ''EntityProperties''), (0x4F, ''EntityEffect'')]"

definition v338_play_serverbound :: packet_table where
  "v338_play_serverbound =
    [(0x00, ''TeleportConfirm''), (0x01, ''TabComplete''), (0x02, ''ChatMessage''),
     (0x03, ''ClientStatus''), (0x04, ''ClientSettings''), (0x05, ''ConfirmTransaction''),
     (0x06, ''EnchantItem''), (0x07, ''ClickWindow''), (0x08, ''CloseWindow''),
     (0x09, ''PluginMessage''), (0x0A, ''UseEntity''), (0x0B, ''KeepAlive''), (0x0C, ''Player''),
     (0x0D, ''PlayerPosition''), (0x0E, ''PlayerPositionAndLook''), (0x0F, ''PlayerLook''),
     (0x10, ''VehicleMove''), (0x11, ''SteerBoat''), (0x12, ''CraftRecipeRequest''),
     (0x13, ''PlayerAbilities''), (0x14, ''PlayerDigging''), (0x15, ''EntityAction''),
     (0x16, ''SteerVehicle''), (0x17, ''CraftingBookData''), (0x18, ''ResourcePackStatus''),
     (0x19, ''AdvancementTab''), (0x1A, ''HeldItemChange''), (0x1B, ''CreativeInventoryAction''),
     (0x1C, ''UpdateSign''), (0x1D, ''Animation''), (0x1E, ''Spectate''),
     (0x1F, ''PlayerBlockPlacement''), (0x20, ''UseItem'')]"

definition v338 :: protocol where
  "v338 = build_protocol_pre_1_21_2 338 v338_status v338_login
     \<lparr>clientbound = v338_play_clientbound, serverbound = v338_play_serverbound\<rparr>"

lemma v338_ok: "protocol_ok v338"
  by (rule protocol_ok_check) code_simp

section \<open>Version 340 (\<open>v1_12_2\<close>, \<open>v340.rs\<close>)\<close>

definition v340_status :: tables where
  "v340_status = \<lparr>
   clientbound =
    [(0x00, ''Response''), (0x01, ''Pong'')],
   serverbound =
    [(0x00, ''Request''), (0x01, ''Ping'')]\<rparr>"

definition v340_login :: tables where
  "v340_login = \<lparr>
   clientbound =
    [(0x00, ''Disconnect''), (0x01, ''EncryptionRequest''), (0x02, ''LoginSuccess''),
     (0x03, ''SetCompression'')],
   serverbound =
    [(0x00, ''LoginStart''), (0x01, ''EncryptionResponse'')]\<rparr>"

definition v340_play_clientbound :: packet_table where
  "v340_play_clientbound =
    [(0x00, ''SpawnObject''), (0x01, ''SpawnExperienceOrb''), (0x02, ''SpawnGlobalEntity''),
     (0x03, ''SpawnMob''), (0x04, ''SpawnPainting''), (0x05, ''SpawnPlayer''), (0x06, ''Animation''),
     (0x07, ''Statistics''), (0x08, ''BlockBreakAnimation''), (0x09, ''UpdateBlockEntity''),
     (0x0A, ''BlockAction''), (0x0B, ''BlockChange''), (0x0C, ''BossBar''),
     (0x0D, ''ServerDifficulty''), (0x0E, ''TabComplete''), (0x0F, ''ChatMessage''),
     (0x10, ''MultiBlockChange''), (0x11, ''ConfirmTransaction''), (0x12, ''CloseWindow''),
     (0x13, ''OpenWindow''), (0x14, ''WindowItems''), (0x15, ''WindowProperty''), (0x16, ''SetSlot''),
     (0x17, ''SetCooldown''), (0x18, ''PluginMessage''), (0x19, ''NamedSoundEffect''),
     (0x1A, ''Disconnect''), (0x1B, ''EntityStatus''), (0x1C, ''Explosion''), (0x1D, ''UnloadChunk''),
     (0x1E, ''ChangeGameState''), (0x1F, ''KeepAlive''), (0x20, ''ChunkData''), (0x21, ''Effect''),
     (0x22, ''Particle''), (0x23, ''JoinGame''), (0x24, ''Map''), (0x25, ''Entity''),
     (0x26, ''EntityRelativeMove''), (0x27, ''EntityLookAndRelativeMove''), (0x28, ''EntityLook''),
     (0x29, ''VehicleMove''), (0x2A, ''OpenSignEditor''), (0x2B, ''CraftRecipeResponse''),
     (0x2C, ''PlayerAbilities''), (0x2D, ''CombatEvent''), (0x2E, ''PlayerListItem''),
     (0x2F, ''PlayerPositionAndLook''), (0x30, ''UseBed''), (0x31, ''UnlockRecipes''),
     (0x32, ''DestroyEntities''), (0x33, ''RemoveEntityEffect''), (0x34, ''ResourcePackSend''),
     (0x35, ''Respawn''), (0x36, ''EntityHeadLook''), (0x37, ''SelectAdvancementTab''),
     (0x38, ''WorldBorder''), (0x39, ''Camera''), (0x3A, ''HeldItemChange''),
     (0x3B, ''DisplayScoreboard''), (0x3C, ''EntityMetadata''), (0x3D, ''AttachEntity''),
     (0x3E, ''EntityVelocity''), (0x3F, ''EntityEquipment''), (0x40, ''SetExperience''),
     (0x41, ''UpdateHealth''), (0x42, ''ScoreboardObjective''), (0x43, ''SetPassengers''),
     (0x44, ''Teams''), (0x45, ''UpdateScore''), (0x46, ''SpawnPosition''), (0x47, ''TimeUpdate''),
     (0x48, ''Title''), (0x49, ''SoundEffect''), (0x4A, ''PlayerListHeaderAndFooter''),
     (0x4B, ''CollectItem''), (0x4C, ''EntityTeleport''), (0x4D, ''Advancements''),
     (0x4E, ''EntityProperties''), (0x4F, ''EntityEffect'')]"

definition v340_play_serverbound :: packet_table where
  "v340_play_serverbound =
    [(0x00, ''TeleportConfirm''), (0x01, ''TabComplete''), (0x02, ''ChatMessage''),
     (0x03, ''ClientStatus''), (0x04, ''ClientSettings''), (0x05, ''ConfirmTransaction''),
     (0x06, ''EnchantItem''), (0x07, ''ClickWindow''), (0x08, ''CloseWindow''),
     (0x09, ''PluginMessage''), (0x0A, ''UseEntity''), (0x0B, ''KeepAlive''), (0x0C, ''Player''),
     (0x0D, ''PlayerPosition''), (0x0E, ''PlayerPositionAndLook''), (0x0F, ''PlayerLook''),
     (0x10, ''VehicleMove''), (0x11, ''SteerBoat''), (0x12, ''CraftRecipeRequest''),
     (0x13, ''PlayerAbilities''), (0x14, ''PlayerDigging''), (0x15, ''EntityAction''),
     (0x16, ''SteerVehicle''), (0x17, ''CraftingBookData''), (0x18, ''ResourcePackStatus''),
     (0x19, ''AdvancementTab''), (0x1A, ''HeldItemChange''), (0x1B, ''CreativeInventoryAction''),
     (0x1C, ''UpdateSign''), (0x1D, ''Animation''), (0x1E, ''Spectate''),
     (0x1F, ''PlayerBlockPlacement''), (0x20, ''UseItem'')]"

definition v340 :: protocol where
  "v340 = build_protocol_pre_1_21_2 340 v340_status v340_login
     \<lparr>clientbound = v340_play_clientbound, serverbound = v340_play_serverbound\<rparr>"

lemma v340_ok: "protocol_ok v340"
  by (rule protocol_ok_check) code_simp

section \<open>Version 401 (\<open>v1_13_1\<close>, \<open>v401.rs\<close>)\<close>

definition v401_status :: tables where
  "v401_status = \<lparr>
   clientbound =
    [(0x00, ''Response''), (0x01, ''Pong'')],
   serverbound =
    [(0x00, ''Request''), (0x01, ''Ping'')]\<rparr>"

definition v401_login :: tables where
  "v401_login = \<lparr>
   clientbound =
    [(0x00, ''Disconnect''), (0x01, ''EncryptionRequest''), (0x02, ''LoginSuccess''),
     (0x03, ''SetCompression''), (0x04, ''LoginPluginRequest'')],
   serverbound =
    [(0x00, ''LoginStart''), (0x01, ''EncryptionResponse''), (0x02, ''LoginPluginResponse'')]\<rparr>"

definition v401_play_clientbound :: packet_table where
  "v401_play_clientbound =
    [(0x00, ''SpawnObject''), (0x01, ''SpawnExperienceOrb''), (0x02, ''SpawnGlobalEntity''),
     (0x03, ''SpawnMob''), (0x04, ''SpawnPainting''), (0x05, ''SpawnPlayer''), (0x06, ''Animation''),
     (0x07, ''Statistics''), (0x08, ''BlockBreakAnimation''), (0x09, ''UpdateBlockEntity''),
     (0x0A, ''BlockAction''), (0x0B, ''BlockChange''), (0x0C, ''BossBar''),
     (0x0D, ''ServerDifficulty''), (0x0E, ''ChatMessage''), (0x0F, ''MultiBlockChange''),
     (0x10, ''TabComplete''), (0x11, ''DeclareCommands''), (0x12, ''ConfirmTransaction''),
     (0x13, ''CloseWindow''), (0x14, ''OpenWindow''), (0x15, ''WindowItems''),
     (0x16, ''WindowProperty''), (0x17, ''SetSlot''), (0x18, ''SetCooldown''),
     (0x19, ''PluginMessage''), (0x1A, ''NamedSoundEffect''), (0x1B, ''Disconnect''),
     (0x1C, ''EntityStatus''), (0x1D, ''NBTQueryResponse''), (0x1E, ''Explosion''),
     (0x1F, ''UnloadChunk''), (0x20, ''ChangeGameState''), (0x21, ''KeepAlive''),
     (0x22, ''ChunkData''), (0x23, ''Effect''), (0x24, ''Particle''), (0x25, ''JoinGame''),
     (0x26, ''Map''), (0x27, ''Entity''), (0x28, ''EntityRelativeMove''),
     (0x29, ''EntityLookAndRelativeMove''), (0x2A, ''EntityLook''), (0x2B, ''VehicleMove''),
     (0x2C, ''OpenSignEditor''), (0x2D, ''CraftRecipeResponse''), (0x2E, ''PlayerAbilities''),
     (0x2F, ''CombatEvent''), (0x30, ''PlayerListItem''), (0x31, ''FacePlayer''),
     (0x32, ''PlayerPositionAndLook''), (0x33, ''UseBed''), (0x34, ''UnlockRecipes''),
     (0x35, ''DestroyEntities''), (0x36, ''RemoveEntityEffect''), (0x37, ''ResourcePackSend''),
     (0x38, ''Respawn''), (0x39, ''EntityHeadLook''), (0x3A, ''SelectAdvancementTab''),
     (0x3B, ''WorldBorder''), (0x3C, ''Camera''), (0x3D, ''HeldItemChange''),
     (0x3E, ''DisplayScoreboard''), (0x3F, ''EntityMetadata''), (0x40, ''AttachEntity''),
     (0x41, ''EntityVelocity''), (0x42, ''EntityEquipment''), (0x43, ''SetExperience''),
     (0x44, ''UpdateHealth''), (0x45, ''ScoreboardObjective''), (0x46, ''SetPassengers''),
     (0x47, ''Teams''), (0x48, ''UpdateScore''), (0x49, ''SpawnPosition''), (0x4A, ''TimeUpdate''),
     (0x4B, ''Title''), (0x4C, ''StopSound''), (0x4D, ''SoundEffect''),
     (0x4E, ''PlayerListHeaderAndFooter''), (0x4F, ''CollectItem''), (0x50, ''EntityTeleport''),
     (0x51, ''Advancements''), (0x52, ''EntityProperties''), (0x53, ''EntityEffect''),
     (0x54, ''DeclareRecipes''), (0x55, ''Tags'')]"

definition v401_play_serverbound :: packet_table where
  "v401_play_serverbound =
    [(0x00, ''TeleportConfirm''), (0x01, ''QueryBlockNBT''), (0x02, ''ChatMessage''),
     (0x03, ''ClientStatus''), (0x04, ''ClientSettings''), (0x05, ''TabComplete''),
     (0x06, ''ConfirmTransaction''), (0x07, ''EnchantItem''), (0x08, ''ClickWindow''),
     (0x09, ''CloseWindow''), (0x0A, ''PluginMessage''), (0x0B, ''EditBook''),
     (0x0C, ''QueryEntityNBT''), (0x0D, ''UseEntity''), (0x0E, ''KeepAlive''), (0x0F, ''Player''),
     (0x10, ''PlayerPosition''), (0x11, ''PlayerPositionAndLook''), (0x12, ''PlayerLook''),
     (0x13, ''VehicleMove''), (0x14, ''SteerBoat''), (0x15, ''PickItem''),
     (0x16, ''CraftRecipeRequest''), (0x17, ''PlayerAbilities''), (0x18, ''PlayerDigging''),
     (0x19, ''EntityAction''), (0x1A, ''SteerVehicle''), (0x1B, ''RecipeBookData''),
     (0x1C, ''NameItem''), (0x1D, ''ResourcePackStatus''), (0x1E, ''AdvancementTab''),
     (0x1F, ''SelectTrade''), (0x20, ''SetBeaconEffect''), (0x21, ''HeldItemChange''),
     (0x22, ''UpdateCommandBlock''), (0x23, ''UpdateCommandBlockMinecart''),
     (0x24, ''CreativeInventoryAction''), (0x25, ''UpdateStructureBlock''), (0x26, ''UpdateSign''),
     (0x27, ''Animation''), (0x28, ''Spectate''), (0x29, ''PlayerBlockPlacement''),
     (0x2A, ''UseItem'')]"

definition v401 :: protocol where
  "v401 = build_protocol_pre_1_21_2 401 v401_status v401_login
     \<lparr>clientbound = v401_play_clientbound, serverbound = v401_play_serverbound\<rparr>"

lemma v401_ok: "protocol_ok v401"
  by (rule protocol_ok_check) code_simp

section \<open>Version 404 (\<open>v1_13_2\<close>, \<open>v404.rs\<close>)\<close>

definition v404_status :: tables where
  "v404_status = \<lparr>
   clientbound =
    [(0x00, ''Response''), (0x01, ''Pong'')],
   serverbound =
    [(0x00, ''Request''), (0x01, ''Ping'')]\<rparr>"

definition v404_login :: tables where
  "v404_login = \<lparr>
   clientbound =
    [(0x00, ''Disconnect''), (0x01, ''EncryptionRequest''), (0x02, ''LoginSuccess''),
     (0x03, ''SetCompression''), (0x04, ''LoginPluginRequest'')],
   serverbound =
    [(0x00, ''LoginStart''), (0x01, ''EncryptionResponse''), (0x02, ''LoginPluginResponse'')]\<rparr>"

definition v404_play_clientbound :: packet_table where
  "v404_play_clientbound =
    [(0x00, ''SpawnObject''), (0x01, ''SpawnExperienceOrb''), (0x02, ''SpawnGlobalEntity''),
     (0x03, ''SpawnMob''), (0x04, ''SpawnPainting''), (0x05, ''SpawnPlayer''), (0x06, ''Animation''),
     (0x07, ''Statistics''), (0x08, ''BlockBreakAnimation''), (0x09, ''UpdateBlockEntity''),
     (0x0A, ''BlockAction''), (0x0B, ''BlockChange''), (0x0C, ''BossBar''),
     (0x0D, ''ServerDifficulty''), (0x0E, ''ChatMessage''), (0x0F, ''MultiBlockChange''),
     (0x10, ''TabComplete''), (0x11, ''DeclareCommands''), (0x12, ''ConfirmTransaction''),
     (0x13, ''CloseWindow''), (0x14, ''OpenWindow''), (0x15, ''WindowItems''),
     (0x16, ''WindowProperty''), (0x17, ''SetSlot''), (0x18, ''SetCooldown''),
     (0x19, ''PluginMessage''), (0x1A, ''NamedSoundEffect''), (0x1B, ''Disconnect''),
     (0x1C, ''EntityStatus''), (0x1D, ''NBTQueryResponse''), (0x1E, ''Explosion''),
     (0x1F, ''UnloadChunk''), (0x20, ''ChangeGameState''), (0x21, ''KeepAlive''),
     (0x22, ''ChunkData''), (0x23, ''Effect''), (0x24, ''Particle''), (0x25, ''JoinGame''),
     (0x26, ''MapData''), (0x27, ''Entity''), (0x28, ''EntityRelativeMove''),
     (0x29, ''EntityLookAndRelativeMove''), (0x2A, ''EntityLook''), (0x2B, ''VehicleMove''),
     (0x2C, ''OpenSignEditor''), (0x2D, ''CraftRecipeResponse''), (0x2E, ''PlayerAbilities''),
     (0x2F, ''CombatEvent''), (0x30, ''PlayerInfo''), (0x31, ''FacePlayer''),
     (0x32, ''PlayerPositionAndLook''), (0x33, ''UseBed''), (0x34, ''UnlockRecipes''),
     (0x35, ''DestroyEntities''), (0x36, ''RemoveEntityEffect''), (0x37, ''ResourcePackSend''),
     (0x38, ''Respawn''), (0x39, ''EntityHeadLook''), (0x3A, ''SelectAdvancementTab''),
     (0x3B, ''WorldBorder''), (0x3C, ''Camera''), (0x3D, ''HeldItemChange''),
     (0x3E, ''DisplayScoreboard''), (0x3F, ''EntityMetadata''), (0x40, ''AttachEntity''),
     (0x41, ''EntityVelocity''), (0x42, ''EntityEquipment''), (0x43, ''SetExperience''),
     (0x44, ''UpdateHealth''), (0x45, ''ScoreboardObjective''), (0x46, ''SetPassengers''),
     (0x47, ''Teams''), (0x48, ''UpdateScore''), (0x49, ''SpawnPosition''), (0x4A, ''TimeUpdate''),
     (0x4B, ''Title''), (0x4C, ''StopSound''), (0x4D, ''SoundEffect''),
     (0x4E, ''PlayerListHeaderAndFooter''), (0x4F, ''CollectItem''), (0x50, ''EntityTeleport''),
     (0x51, ''Advancements''), (0x52, ''EntityProperties''), (0x53, ''EntityEffect''),
     (0x54, ''DeclareRecipes''), (0x55, ''Tags'')]"

definition v404_play_serverbound :: packet_table where
  "v404_play_serverbound =
    [(0x00, ''TeleportConfirm''), (0x01, ''QueryBlockNBT''), (0x02, ''ChatMessage''),
     (0x03, ''ClientStatus''), (0x04, ''ClientSettings''), (0x05, ''TabComplete''),
     (0x06, ''ConfirmTransaction''), (0x07, ''EnchantItem''), (0x08, ''ClickWindow''),
     (0x09, ''CloseWindow''), (0x0A, ''PluginMessage''), (0x0B, ''EditBook''),
     (0x0C, ''QueryEntityNBT''), (0x0D, ''UseEntity''), (0x0E, ''KeepAlive''), (0x0F, ''Player''),
     (0x10, ''PlayerPosition''), (0x11, ''PlayerPositionAndLook''), (0x12, ''PlayerLook''),
     (0x13, ''VehicleMove''), (0x14, ''SteerBoat''), (0x15, ''PickItem''),
     (0x16, ''CraftRecipeRequest''), (0x17, ''PlayerAbilities''), (0x18, ''PlayerDigging''),
     (0x19, ''EntityAction''), (0x1A, ''SteerVehicle''), (0x1B, ''RecipeBookData''),
     (0x1C, ''NameItem''), (0x1D, ''ResourcePackStatus''), (0x1E, ''AdvancementTab''),
     (0x1F, ''SelectTrade''), (0x20, ''SetBeaconEffect''), (0x21, ''HeldItemChange''),
     (0x22, ''UpdateCommandBlock''), (0x23, ''UpdateCommandBlockMinecart''),
     (0x24, ''CreativeInventoryAction''), (0x25, ''UpdateStructureBlock''), (0x26, ''UpdateSign''),
     (0x27, ''Animation''), (0x28, ''Spectate''), (0x29, ''PlayerBlockPlacement''),
     (0x2A, ''UseItem'')]"

definition v404 :: protocol where
  "v404 = build_protocol_pre_1_21_2 404 v404_status v404_login
     \<lparr>clientbound = v404_play_clientbound, serverbound = v404_play_serverbound\<rparr>"

lemma v404_ok: "protocol_ok v404"
  by (rule protocol_ok_check) code_simp

section \<open>Version 498 (\<open>v1_14_4\<close>, \<open>v498.rs\<close>)\<close>

definition v498_status :: tables where
  "v498_status = \<lparr>
   clientbound =
    [(0x00, ''Response''), (0x01, ''Pong'')],
   serverbound =
    [(0x00, ''Request''), (0x01, ''Ping'')]\<rparr>"

definition v498_login :: tables where
  "v498_login = \<lparr>
   clientbound =
    [(0x00, ''Disconnect''), (0x01, ''EncryptionRequest''), (0x02, ''LoginSuccess''),
     (0x03, ''SetCompression''), (0x04, ''LoginPluginRequest'')],
   serverbound =
    [(0x00, ''LoginStart''), (0x01, ''EncryptionResponse''), (0x02, ''LoginPluginResponse'')]\<rparr>"

definition v498_play_clientbound :: packet_table where
  "v498_play_clientbound =
    [(0x00, ''SpawnObject''), (0x01, ''SpawnExperienceOrb''), (0x02, ''SpawnGlobalEntity''),
     (0x03, ''SpawnMob''), (0x04, ''SpawnPainting''), (0x05, ''SpawnPlayer''),
     (0x06, ''EntityAnimation''), (0x07, ''Statistics''), (0x08, ''BlockBreakAnimation''),
     (0x09, ''UpdateBlockEntity''), (0x0A, ''BlockAction''), (0x0B, ''BlockChange''),
     (0x0C, ''BossBar''), (0x0D, ''ServerDifficulty''), (0x0E, ''ChatMessage''),
     (0x0F, ''MultiBlockChange''), (0x10, ''TabComplete''), (0x11, ''DeclareCommands''),
     (0x12, ''WindowConfirmation''), (0x13, ''CloseWindow''), (0x14, ''WindowItems''),
     (0x15, ''WindowProperty''), (0x16, ''SetSlot''), (0x17, ''SetCooldown''),
     (0x18, ''PluginMessage''), (0x19, ''NamedSoundEffect''), (0x1A, ''Disconnect''),
     (0x1B, ''EntityStatus''), (0x1C, ''Explosion''), (0x1D, ''UnloadChunk''),
     (0x1E, ''ChangeGameState''), (0x1F, ''OpenHorseWindow''), (0x20, ''KeepAlive''),
     (0x21, ''ChunkData''), (0x22, ''Effect''), (0x23, ''Particle''), (0x24, ''UpdateLight''),
     (0x25, ''JoinGame''), (0x26, ''MapData''), (0x27, ''TradeList''), (0x28, ''EntityPosition''),
     (0x29, ''EntityPositionandRotation''), (0x2A, ''EntityRotation''), (0x2B, ''EntityMovement''),
     (0x2C, ''VehicleMove''), (0x2D, ''OpenBook''), (0x2E, ''OpenWindow''), (0x2F, ''OpenSignEditor''),
     (0x30, ''CraftRecipeResponse''), (0x31, ''PlayerAbilities''), (0x32, ''CombatEvent''),
     (0x33, ''PlayerInfo''), (0x34, ''FacePlayer''), (0x35, ''PlayerPositionAndLook''),
     (0x36, ''UnlockRecipes''), (0x37, ''DestroyEntities''), (0x38, ''RemoveEntityEffect''),
     (0x39, ''ResourcePackSend''), (0x3A, ''Respawn''), (0x3B, ''EntityHeadLook''),
     (0x3C, ''SelectAdvancementTab''), (0x3D, ''WorldBorder''), (0x3E, ''Camera''),
     (0x3F, ''HeldItemChange''), (0x40, ''UpdateViewPosition''), (0x41, ''UpdateViewDistance''),
     (0x42, ''DisplayScoreboard''), (0x43, ''EntityMetadata''), (0x44, ''AttachEntity''),
     (0x45, ''EntityVelocity''), (0x46, ''EntityEquipment''), (0x47, ''SetExperience''),
     (0x48, ''UpdateHealth''), (0x49, ''ScoreboardObjective''), (0x4A, ''SetPassengers''),
     (0x4B, ''Teams''), (0x4C, ''UpdateScore''), (0x4D, ''SpawnPosition''), (0x4E, ''TimeUpdate''),
     (0x4F, ''Title''), (0x50, ''EntitySoundEffect''), (0x51, ''SoundEffect''), (0x52, ''StopSound''),
     (0x53, ''PlayerListHeaderAndFooter''), (0x54, ''NBTQueryResponse''), (0x55, ''CollectItem''),
     (0x56, ''EntityTeleport''), (0x57, ''Advancements''), (0x58, ''EntityProperties''),
     (0x59, ''EntityEffect''), (0x5A, ''DeclareRecipes''), (0x5B, ''Tags''),
     (0x5C, ''AcknowledgePlayerDigging'')]"

definition v498_play_serverbound :: packet_table where
  "v498_play_serverbound =
    [(0x00, ''TeleportConfirm''), (0x01, ''QueryBlockNBT''), (0x02, ''SetDifficulty''),
     (0x03, ''ChatMessage''), (0x04, ''ClientStatus''), (0x05, ''ClientSettings''),
     (0x06, ''TabComplete''), (0x07, ''WindowConfirmation''), (0x08, ''ClickWindowButton''),
     (0x09, ''ClickWindow''), (0x0A, ''CloseWindow''), (0x0B, ''PluginMessage''), (0x0C, ''EditBook''),
     (0x0D, ''EntityNBTRequest''), (0x0E, ''InteractEntity''), (0x0F, ''KeepAlive''),
     (0x10, ''LockDifficulty''), (0x11, ''PlayerPosition''), (0x12, ''PlayerPositionAndRotation''),
     (0x13, ''PlayerRotation''), (0x14, ''PlayerMovement''), (0x15, ''VehicleMove''),
     (0x16, ''SteerBoat''), (0x17, ''PickItem''), (0x18, ''CraftRecipeRequest''),
     (0x19, ''PlayerAbilities''), (0x1A, ''PlayerDigging''), (0x1B, ''EntityAction''),
     (0x1C, ''SteerVehicle''), (0x1D, ''RecipeBookData''), (0x1E, ''NameItem''),
     (0x1F, ''ResourcePackStatus''), (0x20, ''AdvancementTab''), (0x21, ''SelectTrade''),
     (0x22, ''SetBeaconEffect''), (0x23, ''HeldItemChange''), (0x24, ''UpdateCommandBlock''),
     (0x25, ''UpdateCommandBlockMinecart''), (0x26, ''CreativeInventoryAction''),
     (0x27, ''UpdateJigsawBlock''), (0x28, ''UpdateStructureBlock''), (0x29, ''UpdateSign''),
     (0x2A, ''Animation''), (0x2B, ''Spectate''), (0x2C, ''PlayerBlockPlacement''),
     (0x2D, ''UseItem'')]"

definition v498 :: protocol where
  "v498 = build_protocol_pre_1_21_2 498 v498_status v498_login
     \<lparr>clientbound = v498_play_clientbound, serverbound = v498_play_serverbound\<rparr>"

lemma v498_ok: "protocol_ok v498"
  by (rule protocol_ok_check) code_simp

section \<open>Version 578 (\<open>v1_15_2\<close>, \<open>v578.rs\<close>)\<close>

definition v578_status :: tables where
  "v578_status = \<lparr>
   clientbound =
    [(0x00, ''Response''), (0x01, ''Pong'')],
   serverbound =
    [(0x00, ''Request''), (0x01, ''Ping'')]\<rparr>"

definition v578_login :: tables where
  "v578_login = \<lparr>
   clientbound =
    [(0x00, ''Disconnect''), (0x01, ''EncryptionRequest''), (0x02, ''LoginSuccess''),
     (0x03, ''SetCompression''), (0x04, ''LoginPluginRequest'')],
   serverbound =
    [(0x00, ''LoginStart''), (0x01, ''EncryptionResponse''), (0x02, ''LoginPluginResponse'')]\<rparr>"

definition v578_play_clientbound :: packet_table where
  "v578_play_clientbound =
    [(0x00, ''SpawnEntity''), (0x01, ''SpawnExperienceOrb''), (0x02, ''SpawnWeatherEntity''),
     (0x03, ''SpawnLivingEntity''), (0x04, ''SpawnPainting''), (0x05, ''SpawnPlayer''),
     (0x06, ''EntityAnimation''), (0x07, ''Statistics''), (0x08, ''AcknowledgePlayerDigging''),
     (0x09, ''BlockBreakAnimation''), (0x0A, ''BlockEntityData''), (0x0B, ''BlockAction''),
     (0x0C, ''BlockChange''), (0x0D, ''BossBar''), (0x0E, ''ServerDifficulty''),
     (0x0F, ''ChatMessage''), (0x10, ''MultiBlockChange''), (0x11, ''TabComplete''),
     (0x12, ''DeclareCommands''), (0x13, ''WindowConfirmation''), (0x14, ''CloseWindow''),
     (0x15, ''WindowItems''), (0x16, ''WindowProperty''), (0x17, ''SetSlot''), (0x18, ''SetCooldown''),
     (0x19, ''PluginMessage''), (0x1A, ''NamedSoundEffect''), (0x1B, ''Disconnect''),
     (0x1C, ''EntityStatus''), (0x1D, ''Explosion''), (0x1E, ''UnloadChunk''),
     (0x1F, ''ChangeGameState''), (0x20, ''OpenHorseWindow''), (0x21, ''KeepAlive''),
     (0x22, ''ChunkData''), (0x23, ''Effect''), (0x24, ''Particle''), (0x25, ''UpdateLight''),
     (0x26, ''JoinGame''), (0x27, ''MapData''), (0x28, ''TradeList''), (0x29, ''EntityPosition''),
     (0x2A, ''EntityPositionandRotation''), (0x2B, ''EntityRotation''), (0x2C, ''EntityMovement''),
     (0x2D, ''VehicleMove''), (0x2E, ''OpenBook''), (0x2F, ''OpenWindow''), (0x30, ''OpenSignEditor''),
     (0x31, ''CraftRecipeResponse''), (0x32, ''PlayerAbilities''), (0x33, ''CombatEvent''),
     (0x34, ''PlayerInfo''), (0x35, ''FacePlayer''), (0x36, ''PlayerPositionAndLook''),
     (0x37, ''UnlockRecipes''), (0x38, ''DestroyEntities''), (0x39, ''RemoveEntityEffect''),
     (0x3A, ''ResourcePackSend''), (0x3B, ''Respawn''), (0x3C, ''EntityHeadLook''),
     (0x3D, ''SelectAdvancementTab''), (0x3E, ''WorldBorder''), (0x3F, ''Camera''),
     (0x40, ''HeldItemChange''), (0x41, ''UpdateViewPosition''), (0x42, ''UpdateViewDistance''),
     (0x43, ''DisplayScoreboard''), (0x44, ''EntityMetadata''), (0x45, ''AttachEntity''),
     (0x46, ''EntityVelocity''), (0x47, ''EntityEquipment''), (0x48, ''SetExperience''),
     (0x49, ''UpdateHealth''), (0x4A, ''ScoreboardObjective''), (0x4B, ''SetPassengers''),
     (0x4C, ''Teams''), (0x4D, ''UpdateScore''), (0x4E, ''SpawnPosition''), (0x4F, ''TimeUpdate''),
     (0x50, ''Title''), (0x51, ''EntitySoundEffect''), (0x52, ''SoundEffect''), (0x53, ''StopSound''),
     (0x54, ''PlayerListHeaderAndFooter''), (0x55, ''NBTQueryResponse''), (0x56, ''CollectItem''),
     (0x57, ''EntityTeleport''), (0x58, ''Advancements''), (0x59, ''EntityProperties''),
     (0x5A, ''EntityEffect''), (0x5B, ''DeclareRecipes''), (0x5C, ''Tags'')]"

definition v578_play_serverbound :: packet_table where
  "v578_play_serverbound =
    [(0x00, ''TeleportConfirm''), (0x01, ''QueryBlockNBT''), (0x02, ''QueryEntityNBT''),
     (0x03, ''SetDifficulty''), (0x04, ''ChatMessage''), (0x05, ''ClientStatus''),
     (0x06, ''ClientSettings''), (0x07, ''TabComplete''), (0x08, ''WindowConfirmation''),
     (0x09, ''ClickWindowButton''), (0x0A, ''ClickWindow''), (0x0B, ''CloseWindow''),
     (0x0C, ''PluginMessage''), (0x0D, ''EditBook''), (0x0E, ''InteractEntity''),
     (0x0F, ''KeepAlive''), (0x10, ''LockDifficulty''), (0x11, ''PlayerPosition''),
     (0x12, ''PlayerPositionAndRotation''), (0x13, ''PlayerRotation''), (0x14, ''PlayerMovement''),
     (0x15, ''VehicleMove''), (0x16, ''SteerBoat''), (0x17, ''PickItem''),
     (0x18, ''CraftRecipeRequest''), (0x19, ''PlayerAbilities''), (0x1A, ''PlayerDigging''),
     (0x1B, ''EntityAction''), (0x1C, ''SteerVehicle''), (0x1D, ''RecipeBookData''),
     (0x1E, ''NameItem''), (0x1F, ''ResourcePackStatus''), (0x20, ''AdvancementTab''),
     (0x21, ''SelectTrade''), (0x22, ''SetBeaconEffect''), (0x23, ''HeldItemChange''),
     (0x24, ''UpdateCommandBlock''), (0x25, ''UpdateCommandBlockMinecart''),
     (0x26, ''CreativeInventoryAction''), (0x27, ''UpdateJigsawBlock''),
     (0x28, ''UpdateStructureBlock''), (0x29, ''UpdateSign''), (0x2A, ''Animation''),
     (0x2B, ''Spectate''), (0x2C, ''PlayerBlockPlacement''), (0x2D, ''UseItem'')]"

definition v578 :: protocol where
  "v578 = build_protocol_pre_1_21_2 578 v578_status v578_login
     \<lparr>clientbound = v578_play_clientbound, serverbound = v578_play_serverbound\<rparr>"

lemma v578_ok: "protocol_ok v578"
  by (rule protocol_ok_check) code_simp

end
