(* ===== verification/Versions_1_16.thy ===== *)
theory Versions_1_16
  imports Packet_Tables
begin

text \<open>
  The packet tables of Minecraft 1.16 to 1.20.1: one definition for each group of rows of
  \<open>src/protocol/versions/v*.rs\<close>, and the version the macro builds of them.  Every table is checked:
  its ids count up from zero and its names differ.
\<close>

section \<open>Version 753 (\<open>v1_16_3\<close>, \<open>v753.rs\<close>)\<close>

definition v753_status :: tables where
  "v753_status = \<lparr>
   clientbound =
    [(0x00, ''Response''), (0x01, ''Pong'')],
   serverbound =
    [(0x00, ''Request''), (0x01, ''Ping'')]\<rparr>"

definition v753_login :: tables where
  "v753_login = \<lparr>
   clientbound =
    [(0x00, ''Disconnect''), (0x01, ''EncryptionRequest''), (0x02, ''LoginSuccess''),
     (0x03, ''SetCompression''), (0x04, ''LoginPluginRequest'')],
   serverbound =
    [(0x00, ''LoginStart''), (0x01, ''EncryptionResponse''), (0x02, ''LoginPluginResponse'')]\<rparr>"

definition v753_play_clientbound :: packet_table where
  "v753_play_clientbound =
    [(0x00, ''SpawnEntity''), (0x01, ''SpawnExperienceOrb''), (0x02, ''SpawnLivingEntity''),
     (0x03, ''SpawnPainting''), (0x04, ''SpawnPlayer''), (0x05, ''EntityAnimation''),
     (0x06, ''Statistics''), (0x07, ''AcknowledgePlayerDigging''), (0x08, ''BlockBreakAnimation''),
     (0x09, ''BlockEntityData''), (0x0A, ''BlockAction''), (0x0B, ''BlockChange''),
     (0x0C, ''BossBar''), (0x0D, ''ServerDifficulty''), (0x0E, ''ChatMessage''),
     (0x0F, ''TabComplete''), (0x10, ''DeclareCommands''), (0x11, ''WindowConfirmation''),
     (0x12, ''CloseWindow''), (0x13, ''WindowItems''), (0x14, ''WindowProperty''), (0x15, ''SetSlot''),
     (0x16, ''SetCooldown''), (0x17, ''PluginMessage''), (0x18, ''NamedSoundEffect''),
     (0x19, ''Disconnect''), (0x1A, ''EntityStatus''), (0x1B, ''Explosion''), (0x1C, ''UnloadChunk''),
     (0x1D, ''ChangeGameState''), (0x1E, ''OpenHorseWindow''), (0x1F, ''KeepAlive''),
     (0x20, ''ChunkData''), (0x21, ''Effect''), (0x22, ''Particle''), (0x23, ''UpdateLight''),
     (0x24, ''JoinGame''), (0x25, ''MapData''), (0x26, ''TradeList''), (0x27, ''EntityPosition''),
     (0x28, ''EntityPositionandRotation''), (0x29, ''EntityRotation''), (0x2A, ''EntityMovement''),
     (0x2B, ''VehicleMove''), (0x2C, ''OpenBook''), (0x2D, ''OpenWindow''), (0x2E, ''OpenSignEditor''),
     (0x2F, ''CraftRecipeResponse''), (0x30, ''PlayerAbilities''), (0x31, ''CombatEvent''),
     (0x32, ''PlayerInfo''), (0x33, ''FacePlayer''), (0x34, ''PlayerPositionAndLook''),
     (0x35, ''UnlockRecipes''), (0x36, ''DestroyEntities''), (0x37, ''RemoveEntityEffect''),
     (0x38, ''ResourcePackSend''), (0x39, ''Respawn''), (0x3A, ''EntityHeadLook''),
     (0x3B, ''MultiBlockChange''), (0x3C, ''SelectAdvancementTab''), (0x3D, ''WorldBorder''),
     (0x3E, ''Camera''), (0x3F, ''HeldItemChange''), (0x40, ''UpdateViewPosition''),
     (0x41, ''UpdateViewDistance''), (0x42, ''SpawnPosition''), (0x43, ''DisplayScoreboard''),
     (0x44, ''EntityMetadata''), (0x45, ''AttachEntity''), (0x46, ''EntityVelocity''),
     (0x47, ''EntityEquipment''), (0x48, ''SetExperience''), (0x49, ''UpdateHealth''),
     (0x4A, ''ScoreboardObjective''), (0x4B, ''SetPassengers''), (0x4C, ''Teams''),
     (0x4D, ''UpdateScore''), (0x4E, ''TimeUpdate''), (0x4F, ''Title''), (0x50, ''EntitySoundEffect''),
     (0x51, ''SoundEffect''), (0x52, ''StopSound''), (0x53, ''PlayerListHeaderAndFooter''),
     (0x54, ''NBTQueryResponse''), (0x55, ''CollectItem''), (0x56, ''EntityTeleport''),
     (0x57, ''Advancements''), (0x58, ''EntityProperties''), (0x59, ''EntityEffect''),
     (0x5A, ''DeclareRecipes''), (0x5B, ''Tags'')]"

definition v753_play_serverbound :: packet_table where
  "v753_play_serverbound =
    [(0x00, ''TeleportConfirm''), (0x01, ''QueryBlockNBT''), (0x02, ''QueryEntityNBT''),
     (0x03, ''SetDifficulty''), (0x04, ''ChatMessage''), (0x05, ''ClientStatus''),
     (0x06, ''ClientSettings''), (0x07, ''TabComplete''), (0x08, ''WindowConfirmation''),
     (0x09, ''ClickWindowButton''), (0x0A, ''ClickWindow''), (0x0B, ''CloseWindow''),
     (0x0C, ''PluginMessage''), (0x0D, ''EditBook''), (0x0E, ''InteractEntity''),
     (0x0F, ''GenerateStructure''), (0x10, ''KeepAlive''), (0x11, ''LockDifficulty''),
     (0x12, ''PlayerPosition''), (0x13, ''PlayerPositionAndRotation''), (0x14, ''PlayerRotation''),
     (0x15, ''PlayerMovement''), (0x16, ''VehicleMove''), (0x17, ''SteerBoat''), (0x18, ''PickItem''),
     (0x19, ''CraftRecipeRequest''), (0x1A, ''PlayerAbilities''), (0x1B, ''PlayerDigging''),
     (0x1C, ''EntityAction''), (0x1D, ''SteerVehicle''), (0x1E, ''SetDisplayedRecipe''),
     (0x1F, ''SetRecipeBookState''), (0x20, ''NameItem''), (0x21, ''ResourcePackStatus''),
     (0x22, ''AdvancementTab''), (0x23, ''SelectTrade''), (0x24, ''SetBeaconEffect''),
     (0x25, ''HeldItemChange''), (0x26, ''UpdateCommandBlock''),
     (0x27, ''UpdateCommandBlockMinecart''), (0x28, ''CreativeInventoryAction''),
     (0x29, ''UpdateJigsawBlock''), (0x2A, ''UpdateStructureBlock''), (0x2B, ''UpdateSign''),
     (0x2C, ''Animation''), (0x2D, ''Spectate''), (0x2E, ''PlayerBlockPlacement''),
     (0x2F, ''UseItem'')]"

definition v753 :: protocol where
  "v753 = build_protocol_pre_1_21_2 753 v753_status v753_login
     \<lparr>clientbound = v753_play_clientbound, serverbound = v753_play_serverbound\<rparr>"

lemma v753_ok: "protocol_ok v753"
  by (rule protocol_ok_check) code_simp

section \<open>Version 754 (\<open>v1_16_4\<close>, \<open>v754.rs\<close>)\<close>

definition v754_status :: tables where
  "v754_status = \<lparr>
   clientbound =
    [(0x00, ''Response''), (0x01, ''Pong'')],
   serverbound =
    [(0x00, ''Request''), (0x01, ''Ping'')]\<rparr>"

definition v754_login :: tables where
  "v754_login = \<lparr>
   clientbound =
    [(0x00, ''Disconnect''), (0x01, ''EncryptionRequest''), (0x02, ''LoginSuccess''),
     (0x03, ''SetCompression''), (0x04, ''LoginPluginRequest'')],
   serverbound =
    [(0x00, ''LoginStart''), (0x01, ''EncryptionResponse''), (0x02, ''LoginPluginResponse'')]\<rparr>"

definition v754_play_clientbound :: packet_table where
  "v754_play_clientbound =
    [(0x00, ''SpawnEntity''), (0x01, ''SpawnExperienceOrb''), (0x02, ''SpawnLivingEntity''),
     (0x03, ''SpawnPainting''), (0x04, ''SpawnPlayer''), (0x05, ''EntityAnimation''),
     (0x06, ''Statistics''), (0x07, ''AcknowledgePlayerDigging''), (0x08, ''BlockBreakAnimation''),
     (0x09, ''BlockEntityData''), (0x0A, ''BlockAction''), (0x0B, ''BlockChange''),
     (0x0C, ''BossBar''), (0x0D, ''ServerDifficulty''), (0x0E, ''ChatMessage''),
     (0x0F, ''TabComplete''), (0x10, ''DeclareCommands''), (0x11, ''WindowConfirmation''),
     (0x12, ''CloseWindow''), (0x13, ''WindowItems''), (0x14, ''WindowProperty''), (0x15, ''SetSlot''),
     (0x16, ''SetCooldown''), (0x17, ''PluginMessage''), (0x18, ''NamedSoundEffect''),
     (0x19, ''Disconnect''), (0x1A, ''EntityStatus''), (0x1B, ''Explosion''), (0x1C, ''UnloadChunk''),
     (0x1D, ''ChangeGameState''), (0x1E, ''OpenHorseWindow''), (0x1F, ''KeepAlive''),
     (0x20, ''ChunkData''), (0x21, ''Effect''), (0x22, ''Particle''), (0x23, ''UpdateLight''),
     (0x24, ''JoinGame''), (0x25, ''MapData''), (0x26, ''TradeList''), (0x27, ''EntityPosition''),
     (0x28, ''EntityPositionandRotation''), (0x29, ''EntityRotation''), (0x2A, ''EntityMovement''),
     (0x2B, ''VehicleMove''), (0x2C, ''OpenBook''), (0x2D, ''OpenWindow''), (0x2E, ''OpenSignEditor''),
     (0x2F, ''CraftRecipeResponse''), (0x30, ''PlayerAbilities''), (0x31, ''CombatEvent''),
     (0x32, ''PlayerInfo''), (0x33, ''FacePlayer''), (0x34, ''PlayerPositionAndLook''),
     (0x35, ''UnlockRecipes''), (0x36, ''DestroyEntities''), (0x37, ''RemoveEntityEffect''),
     (0x38, ''ResourcePackSend''), (0x39, ''Respawn''), (0x3A, ''EntityHeadLook''),
     (0x3B, ''MultiBlockChange''), (0x3C, ''SelectAdvancementTab''), (0x3D, ''WorldBorder''),
     (0x3E, ''Camera''), (0x3F, ''HeldItemChange''), (0x40, ''UpdateViewPosition''),
     (0x41, ''UpdateViewDistance''), (0x42, ''SpawnPosition''), (0x43, ''DisplayScoreboard''),
     (0x44, ''EntityMetadata''), (0x45, ''AttachEntity''), (0x46, ''EntityVelocity''),
     (0x47, ''EntityEquipment''), (0x48, ''SetExperience''), (0x49, ''UpdateHealth''),
     (0x4A, ''ScoreboardObjective''), (0x4B, ''SetPassengers''), (0x4C, ''Teams''),
     (0x4D, ''UpdateScore''), (0x4E, ''TimeUpdate''), (0x4F, ''Title''), (0x50, ''EntitySoundEffect''),
     (0x51, ''SoundEffect''), (0x52, ''StopSound''), (0x53, ''PlayerListHeaderAndFooter''),
     (0x54, ''NBTQueryResponse''), (0x55, ''CollectItem''), (0x56, ''EntityTeleport''),
     (0x57, ''Advancements''), (0x58, ''EntityProperties''), (0x59, ''EntityEffect''),
     (0x5A, ''DeclareRecipes''), (0x5B, ''Tags'')]"

definition v754_play_serverbound :: packet_table where
  "v754_play_serverbound =
    [(0x00, ''TeleportConfirm''), (0x01, ''QueryBlockNBT''), (0x02, ''QueryEntityNBT''),
     (0x03, ''SetDifficulty''), (0x04, ''ChatMessage''), (0x05, ''ClientStatus''),
     (0x06, ''ClientSettings''), (0x07, ''TabComplete''), (0x08, ''WindowConfirmation''),
     (0x09, ''ClickWindowButton''), (0x0A, ''ClickWindow''), (0x0B, ''CloseWindow''),
     (0x0C, ''PluginMessage''), (0x0D, ''EditBook''), (0x0E, ''InteractEntity''),
     (0x0F, ''GenerateStructure''), (0x10, ''KeepAlive''), (0x11, ''LockDifficulty''),
     (0x12, ''PlayerPosition''), (0x13, ''PlayerPositionAndRotation''), (0x14, ''PlayerRotation''),
     (0x15, ''PlayerMovement''), (0x16, ''VehicleMove''), (0x17, ''SteerBoat''), (0x18, ''PickItem''),
     (0x19, ''CraftRecipeRequest''), (0x1A, ''PlayerAbilities''), (0x1B, ''PlayerDigging''),
     (0x1C, ''EntityAction''), (0x1D, ''SteerVehicle''), (0x1E, ''SetDisplayedRecipe''),
     (0x1F, ''SetRecipeBookState''), (0x20, ''NameItem''), (0x21, ''ResourcePackStatus''),
     (0x22, ''AdvancementTab''), (0x23, ''SelectTrade''), (0x24, ''SetBeaconEffect''),
     (0x25, ''HeldItemChange''), (0x26, ''UpdateCommandBlock''),
     (0x27, ''UpdateCommandBlockMinecart''), (0x28, ''CreativeInventoryAction''),
     (0x29, ''UpdateJigsawBlock''), (0x2A, ''UpdateStructureBlock''), (0x2B, ''UpdateSign''),
     (0x2C, ''Animation''), (0x2D, ''Spectate''), (0x2E, ''PlayerBlockPlacement''),
     (0x2F, ''UseItem'')]"

definition v754 :: protocol where
  "v754 = build_protocol_pre_1_21_2 754 v754_status v754_login
     \<lparr>clientbound = v754_play_clientbound, serverbound = v754_play_serverbound\<rparr>"

lemma v754_ok: "protocol_ok v754"
  by (rule protocol_ok_check) code_simp

section \<open>Version 755 (\<open>v1_17_0\<close>, \<open>v755.rs\<close>)\<close>

definition v755_status :: tables where
  "v755_status = \<lparr>
   clientbound =
    [(0x00, ''Response''), (0x01, ''Pong'')],
   serverbound =
    [(0x00, ''Request''), (0x01, ''Ping'')]\<rparr>"

definition v755_login :: tables where
  "v755_login = \<lparr>
   clientbound =
    [(0x00, ''Disconnect''), (0x01, ''EncryptionRequest''), (0x02, ''LoginSuccess''),
     (0x03, ''SetCompression''), (0x04, ''LoginPluginRequest'')],
   serverbound =
    [(0x00, ''LoginStart''), (0x01, ''EncryptionResponse''), (0x02, ''LoginPluginResponse'')]\<rparr>"

definition v755_play_clientbound :: packet_table where
  "v755_play_clientbound =
    [(0x00, ''SpawnEntity''), (0x01, ''SpawnExperienceOrb''), (0x02, ''SpawnLivingEntity''),
     (0x03, ''SpawnPainting''), (0x04, ''SpawnPlayer''), (0x05, ''SculkVibrationSignal''),
     (0x06, ''EntityAnimation''), (0x07, ''Statistics''), (0x08, ''AcknowledgePlayerDigging''),
     (0x09, ''BlockBreakAnimation''), (0x0A, ''BlockEntityData''), (0x0B, ''BlockAction''),
     (0x0C, ''BlockChange''), (0x0D, ''BossBar''), (0x0E, ''ServerDifficulty''),
     (0x0F, ''ChatMessage''), (0x10, ''ClearTitles''), (0x11, ''TabComplete''),
     (0x12, ''DeclareCommands''), (0x13, ''CloseWindow''), (0x14, ''WindowItems''),
     (0x15, ''WindowProperty''), (0x16, ''SetSlot''), (0x17, ''SetCooldown''),
     (0x18, ''PluginMessage''), (0x19, ''NamedSoundEffect''), (0x1A, ''Disconnect''),
     (0x1B, ''EntityStatus''), (0x1C, ''Explosion''), (0x1D, ''UnloadChunk''),
     (0x1E, ''ChangeGameState''), (0x1F, ''OpenHorseWindow''), (0x20, ''InitializeWorldBorder''),
     (0x21, ''KeepAlive''), (0x22, ''ChunkData''), (0x23, ''Effect''), (0x24, ''Particle''),
     (0x25, ''UpdateLight''), (0x26, ''JoinGame''), (0x27, ''MapData''), (0x28, ''TradeList''),
     (0x29, ''EntityPosition''), (0x2A, ''EntityPositionandRotation''), (0x2B, ''EntityRotation''),
     (0x2C, ''VehicleMove''), (0x2D, ''OpenBook''), (0x2E, ''OpenWindow''), (0x2F, ''OpenSignEditor''),
     (0x30, ''Ping''), (0x31, ''CraftRecipeResponse''), (0x32, ''PlayerAbilities''),
     (0x33, ''EndCombatEvent''), (0x34, ''EnterCombatEvent''), (0x35, ''DeathCombatEvent''),
     (0x36, ''PlayerInfo''), (0x37, ''FacePlayer''), (0x38, ''PlayerPositionAndLook''),
     (0x39, ''UnlockRecipes''), (0x3A, ''DestroyEntity''), (0x3B, ''RemoveEntityEffect''),
     (0x3C, ''ResourcePackSend''), (0x3D, ''Respawn''), (0x3E, ''EntityHeadLook''),
     (0x3F, ''MultiBlockChange''), (0x40, ''SelectAdvancementTab''), (0x41, ''ActionBar''),
     (0x42, ''WorldBorderCenter''), (0x43, ''WorldBorderLerpSize''), (0x44, ''WorldBorderSize''),
     (0x45, ''WorldBorderWarningDelay''), (0x46, ''WorldBorderWarningReach''), (0x47, ''Camera''),
     (0x48, ''HeldItemChange''), (0x49, ''UpdateViewPosition''), (0x4A, ''UpdateViewDistance''),
     (0x4B, ''SpawnPosition''), (0x4C, ''DisplayScoreboard''), (0x4D, ''EntityMetadata''),
     (0x4E, ''AttachEntity''), (0x4F, ''EntityVelocity''), (0x50, ''EntityEquipment''),
     (0x51, ''SetExperience''), (0x52, ''UpdateHealth''), (0x53, ''ScoreboardObjective''),
     (0x54, ''SetPassengers''), (0x55, ''Teams''), (0x56, ''UpdateScore''),
     (0x57, ''SetTitleSubTitle''), (0x58, ''TimeUpdate''), (0x59, ''SetTitleText''),
     (0x5A, ''SetTitleTimes''), (0x5B, ''EntitySoundEffect''), (0x5C, ''SoundEffect''),
     (0x5D, ''StopSound''), (0x5E, ''PlayerListHeaderAndFooter''), (0x5F, ''NBTQueryResponse''),
     (0x60, ''CollectItem''), (0x61, ''EntityTeleport''), (0x62, ''Advancements''),
     (0x63, ''EntityProperties''), (0x64, ''EntityEffect''), (0x65, ''DeclareRecipes''),
     (0x66, ''Tags'')]"

definition v755_play_serverbound :: packet_table where
  "v755_play_serverbound =
    [(0x00, ''TeleportConfirm''), (0x01, ''QueryBlockNBT''), (0x02, ''SetDifficulty''),
     (0x03, ''ChatMessage''), (0x04, ''ClientStatus''), (0x05, ''ClientSettings''),
     (0x06, ''TabComplete''), (0x07, ''ClickWindowButton''), (0x08, ''ClickWindow''),
     (0x09, ''CloseWindow''), (0x0A, ''PluginMessage''), (0x0B, ''EditBook''),
     (0x0C, ''QueryEntityNBT''), (0x0D, ''InteractEntity''), (0x0E, ''GenerateStructure''),
     (0x0F, ''KeepAlive''), (0x10, ''LockDifficulty''), (0x11, ''PlayerPosition''),
     (0x12, ''PlayerPositionAndRotation''), (0x13, ''PlayerRotation''), (0x14, ''PlayerMovement''),
     (0x15, ''VehicleMove''), (0x16, ''SteerBoat''), (0x17, ''PickItem''),
     (0x18, ''CraftRecipeRequest''), (0x19, ''PlayerAbilities''), (0x1A, ''PlayerDigging''),
     (0x1B, ''EntityAction''), (0x1C, ''SteerVehicle''), (0x1D, ''Pong''),
     (0x1E, ''SetRecipeBookState''), (0x1F, ''SetDisplayedRecipe''), (0x20, ''NameItem''),
     (0x21, ''ResourcePackStatus''), (0x22, ''AdvancementTab''), (0x23, ''SelectTrade''),
     (0x24, ''SetBeaconEffect''), (0x25, ''HeldItemChange''), (0x26, ''UpdateCommandBlock''),
     (0x27, ''UpdateCommandBlockMinecart''), (0x28, ''CreativeInventoryAction''),
     (0x29, ''UpdateJigsawBlock''), (0x2A, ''UpdateStructureBlock''), (0x2B, ''UpdateSign''),
     (0x2C, ''Animation''), (0x2D, ''Spectate''), (0x2E, ''PlayerBlockPlacement''),
     (0x2F, ''UseItem'')]"

definition v755 :: protocol where
  "v755 = build_protocol_pre_1_21_2 755 v755_status v755_login
     \<lparr>clientbound = v755_play_clientbound, serverbound = v755_play_serverbound\<rparr>"

lemma v755_ok: "protocol_ok v755"
  by (rule protocol_ok_check) code_simp

section \<open>Version 756 (\<open>v1_17_1\<close>, \<open>v756.rs\<close>)\<close>

definition v756_status :: tables where
  "v756_status = \<lparr>
   clientbound =
    [(0x00, ''Response''), (0x01, ''Pong'')],
   serverbound =
    [(0x00, ''Request''), (0x01, ''Ping'')]\<rparr>"

definition v756_login :: tables where
  "v756_login = \<lparr>
   clientbound =
    [(0x00, ''Disconnect''), (0x01, ''EncryptionRequest''), (0x02, ''LoginSuccess''),
     (0x03, ''SetCompression''), (0x04, ''LoginPluginRequest'')],
   serverbound =
    [(0x00, ''LoginStart''), (0x01, ''EncryptionResponse''), (0x02, ''LoginPluginResponse'')]\<rparr>"

definition v756_play_clientbound :: packet_table where
  "v756_play_clientbound =
    [(0x00, ''SpawnEntity''), (0x01, ''SpawnExperienceOrb''), (0x02, ''SpawnLivingEntity''),
     (0x03, ''SpawnPainting''), (0x04, ''SpawnPlayer''), (0x05, ''SculkVibrationSignal''),
     (0x06, ''EntityAnimation''), (0x07, ''Statistics''), (0x08, ''AcknowledgePlayerDigging''),
     (0x09, ''BlockBreakAnimation''), (0x0A, ''BlockEntityData''), (0x0B, ''BlockAction''),
     (0x0C, ''BlockChange''), (0x0D, ''BossBar''), (0x0E, ''ServerDifficulty''),
     (0x0F, ''ChatMessage''), (0x10, ''ClearTitles''), (0x11, ''TabComplete''),
     (0x12, ''DeclareCommands''), (0x13, ''CloseWindow''), (0x14, ''WindowItems''),
     (0x15, ''WindowProperty''), (0x16, ''SetSlot''), (0x17, ''SetCooldown''),
     (0x18, ''PluginMessage''), (0x19, ''NamedSoundEffect''), (0x1A, ''Disconnect''),
     (0x1B, ''EntityStatus''), (0x1C, ''Explosion''), (0x1D, ''UnloadChunk''),
     (0x1E, ''ChangeGameState''), (0x1F, ''OpenHorseWindow''), (0x20, ''InitializeWorldBorder''),
     (0x21, ''KeepAlive''), (0x22, ''ChunkData''), (0x23, ''Effect''), (0x24, ''Particle''),
     (0x25, ''UpdateLight''), (0x26, ''JoinGame''), (0x27, ''MapData''), (0x28, ''TradeList''),
     (0x29, ''EntityPosition''), (0x2A, ''EntityPositionandRotation''), (0x2B, ''EntityRotation''),
     (0x2C, ''VehicleMove''), (0x2D, ''OpenBook''), (0x2E, ''OpenWindow''), (0x2F, ''OpenSignEditor''),
     (0x30, ''Ping''), (0x31, ''CraftRecipeResponse''), (0x32, ''PlayerAbilities''),
     (0x33, ''EndCombatEvent''), (0x34, ''EnterCombatEvent''), (0x35, ''DeathCombatEvent''),
     (0x36, ''PlayerInfo''), (0x37, ''FacePlayer''), (0x38, ''PlayerPositionAndLook''),
     (0x39, ''UnlockRecipes''), (0x3A, ''DestroyEntities''), (0x3B, ''RemoveEntityEffect''),
     (0x3C, ''ResourcePackSend''), (0x3D, ''Respawn''), (0x3E, ''EntityHeadLook''),
     (0x3F, ''MultiBlockChange''), (0x40, ''SelectAdvancementTab''), (0x41, ''ActionBar''),
     (0x42, ''WorldBorderCenter''), (0x43, ''WorldBorderLerpSize''), (0x44, ''WorldBorderSize''),
     (0x45, ''WorldBorderWarningDelay''), (0x46, ''WorldBorderWarningReach''), (0x47, ''Camera''),
     (0x48, ''HeldItemChange''), (0x49, ''UpdateViewPosition''), (0x4A, ''UpdateViewDistance''),
     (0x4B, ''SpawnPosition''), (0x4C, ''DisplayScoreboard''), (0x4D, ''EntityMetadata''),
     (0x4E, ''AttachEntity''), (0x4F, ''EntityVelocity''), (0x50, ''EntityEquipment''),
     (0x51, ''SetExperience''), (0x52, ''UpdateHealth''), (0x53, ''ScoreboardObjective''),
     (0x54, ''SetPassengers''), (0x55, ''Teams''), (0x56, ''UpdateScore''),
     (0x57, ''SetTitleSubTitle''), (0x58, ''TimeUpdate''), (0x59, ''SetTitleText''),
     (0x5A, ''SetTitleTimes''), (0x5B, ''EntitySoundEffect''), (0x5C, ''SoundEffect''),
     (0x5D, ''StopSound''), (0x5E, ''PlayerListHeaderAndFooter''), (0x5F, ''NBTQueryResponse''),
     (0x60, ''CollectItem''), (0x61, ''EntityTeleport''), (0x62, ''Advancements''),
     (0x63, ''EntityProperties''), (0x64, ''EntityEffect''), (0x65, ''DeclareRecipes''),
     (0x66, ''Tags'')]"

definition v756_play_serverbound :: packet_table where
  "v756_play_serverbound =
    [(0x00, ''TeleportConfirm''), (0x01, ''QueryBlockNBT''), (0x02, ''SetDifficulty''),
     (0x03, ''ChatMessage''), (0x04, ''ClientStatus''), (0x05, ''ClientSettings''),
     (0x06, ''TabComplete''), (0x07, ''ClickWindowButton''), (0x08, ''ClickWindow''),
     (0x09, ''CloseWindow''), (0x0A, ''PluginMessage''), (0x0B, ''EditBook''),
     (0x0C, ''QueryEntityNBT''), (0x0D, ''InteractEntity''), (0x0E, ''GenerateStructure''),
     (0x0F, ''KeepAlive''), (0x10, ''LockDifficulty''), (0x11, ''PlayerPosition''),
     (0x12, ''PlayerPositionAndRotation''), (0x13, ''PlayerRotation''), (0x14, ''PlayerMovement''),
     (0x15, ''VehicleMove''), (0x16, ''SteerBoat''), (0x17, ''PickItem''),
     (0x18, ''CraftRecipeRequest''), (0x19, ''PlayerAbilities''), (0x1A, ''PlayerDigging''),
     (0x1B, ''EntityAction''), (0x1C, ''SteerVehicle''), (0x1D, ''Pong''),
     (0x1E, ''SetRecipeBookState''), (0x1F, ''SetDisplayedRecipe''), (0x20, ''NameItem''),
     (0x21, ''ResourcePackStatus''), (0x22, ''AdvancementTab''), (0x23, ''SelectTrade''),
     (0x24, ''SetBeaconEffect''), (0x25, ''HeldItemChange''), (0x26, ''UpdateCommandBlock''),
     (0x27, ''UpdateCommandBlockMinecart''), (0x28, ''CreativeInventoryAction''),
     (0x29, ''UpdateJigsawBlock''), (0x2A, ''UpdateStructureBlock''), (0x2B, ''UpdateSign''),
     (0x2C, ''Animation''), (0x2D, ''Spectate''), (0x2E, ''PlayerBlockPlacement''),
     (0x2F, ''UseItem'')]"

definition v756 :: protocol where
  "v756 = build_protocol_pre_1_21_2 756 v756_status v756_login
     \<lparr>clientbound = v756_play_clientbound, serverbound = v756_play_serverbound\<rparr>"

lemma v756_ok: "protocol_ok v756"
  by (rule protocol_ok_check) code_simp

section \<open>Version 757 (\<open>v1_18_0\<close>, \<open>v757.rs\<close>)\<close>

definition v757_status :: tables where
  "v757_status = \<lparr>
   clientbound =
    [(0x00, ''Response''), (0x01, ''Pong'')],
   serverbound =
    [(0x00, ''Request''), (0x01, ''Ping'')]\<rparr>"

definition v757_login :: tables where
  "v757_login = \<lparr>
   clientbound =
    [(0x00, ''Disconnect''), (0x01, ''EncryptionRequest''), (0x02, ''LoginSuccess''),
     (0x03, ''SetCompression''), (0x04, ''LoginPluginRequest'')],
   serverbound =
    [(0x00, ''LoginStart''), (0x01, ''EncryptionResponse''), (0x02, ''LoginPluginResponse'')]\<rparr>"

definition v757_play_clientbound :: packet_table where
  "v757_play_clientbound =
    [(0x00, ''SpawnEntity''), (0x01, ''SpawnExperienceOrb''), (0x02, ''SpawnLivingEntity''),
     (0x03, ''SpawnPainting''), (0x04, ''SpawnPlayer''), (0x05, ''SculkVibrationSignal''),
     (0x06, ''EntityAnimation''), (0x07, ''Statistics''), (0x08, ''AcknowledgePlayerDigging''),
     (0x09, ''BlockBreakAnimation''), (0x0A, ''BlockEntityData''), (0x0B, ''BlockAction''),
     (0x0C, ''BlockChange''), (0x0D, ''BossBar''), (0x0E, ''ServerDifficulty''),
     (0x0F, ''ChatMessage''), (0x10, ''ClearTitles''), (0x11, ''TabComplete''),
     (0x12, ''DeclareCommands''), (0x13, ''CloseWindow''), (0x14, ''WindowItems''),
     (0x15, ''WindowProperty''), (0x16, ''SetSlot''), (0x17, ''SetCooldown''),
     (0x18, ''PluginMessage''), (0x19, ''NamedSoundEffect''), (0x1A, ''Disconnect''),
     (0x1B, ''EntityStatus''), (0x1C, ''Explosion''), (0x1D, ''UnloadChunk''),
     (0x1E, ''ChangeGameState''), (0x1F, ''OpenHorseWindow''), (0x20, ''InitializeWorldBorder''),
     (0x21, ''KeepAlive''), (0x22, ''ChunkDataAndUpdateLight''), (0x23, ''Effect''),
     (0x24, ''Particle''), (0x25, ''UpdateLight''), (0x26, ''JoinGame''), (0x27, ''MapData''),
     (0x28, ''TradeList''), (0x29, ''EntityPosition''), (0x2A, ''EntityPositionandRotation''),
     (0x2B, ''EntityRotation''), (0x2C, ''VehicleMove''), (0x2D, ''OpenBook''), (0x2E, ''OpenWindow''),
     (0x2F, ''OpenSignEditor''), (0x30, ''Ping''), (0x31, ''CraftRecipeResponse''),
     (0x32, ''PlayerAbilities''), (0x33, ''EndCombatEvent''), (0x34, ''EnterCombatEvent''),
     (0x35, ''DeathCombatEvent''), (0x36, ''PlayerInfo''), (0x37, ''FacePlayer''),
     (0x38, ''PlayerPositionAndLook''), (0x39, ''UnlockRecipes''), (0x3A, ''DestroyEntities''),
     (0x3B, ''RemoveEntityEffect''), (0x3C, ''ResourcePackSend''), (0x3D, ''Respawn''),
     (0x3E, ''EntityHeadLook''), (0x3F, ''MultiBlockChange''), (0x40, ''SelectAdvancementTab''),
     (0x41, ''ActionBar''), (0x42, ''WorldBorderCenter''), (0x43, ''WorldBorderLerpSize''),
     (0x44, ''WorldBorderSize''), (0x45, ''WorldBorderWarningDelay''),
     (0x46, ''WorldBorderWarningReach''), (0x47, ''Camera''), (0x48, ''HeldItemChange''),
     (0x49, ''UpdateViewPosition''), (0x4A, ''UpdateViewDistance''), (0x4B, ''SpawnPosition''),
     (0x4C, ''DisplayScoreboard''), (0x4D, ''EntityMetadata''), (0x4E, ''AttachEntity''),
     (0x4F, ''EntityVelocity''), (0x50, ''EntityEquipment''), (0x51, ''SetExperience''),
     (0x52, ''UpdateHealth''), (0x53, ''ScoreboardObjective''), (0x54, ''SetPassengers''),
     (0x55, ''Teams''), (0x56, ''UpdateScore''), (0x57, ''UpdateSimulationDistance''),
     (0x58, ''SetTitleSubTitle''), (0x59, ''TimeUpdate''), (0x5A, ''SetTitleText''),
     (0x5B, ''SetTitleTimes''), (0x5C, ''EntitySoundEffect''), (0x5D, ''SoundEffect''),
     (0x5E, ''StopSound''), (0x5F, ''PlayerListHeaderAndFooter''), (0x60, ''NBTQueryResponse''),
     (0x61, ''CollectItem''), (0x62, ''EntityTeleport''), (0x63, ''Advancements''),
     (0x64, ''EntityProperties''), (0x65, ''EntityEffect''), (0x66, ''DeclareRecipes''),
     (0x67, ''Tags'')]"

definition v757_play_serverbound :: packet_table where
  "v757_play_serverbound =
    [(0x00, ''TeleportConfirm''), (0x01, ''QueryBlockNBT''), (0x02, ''SetDifficulty''),
     (0x03, ''ChatMessage''), (0x04, ''ClientStatus''), (0x05, ''ClientSettings''),
     (0x06, ''TabComplete''), (0x07, ''ClickWindowButton''), (0x08, ''ClickWindow''),
     (0x09, ''CloseWindow''), (0x0A, ''PluginMessage''), (0x0B, ''EditBook''),
     (0x0C, ''QueryEntityNBT''), (0x0D, ''InteractEntity''), (0x0E, ''GenerateStructure''),
     (0x0F, ''KeepAlive''), (0x10, ''LockDifficulty''), (0x11, ''PlayerPosition''),
     (0x12, ''PlayerPositionAndRotation''), (0x13, ''PlayerRotation''), (0x14, ''PlayerMovement''),
     (0x15, ''VehicleMove''), (0x16, ''SteerBoat''), (0x17, ''PickItem''),
     (0x18, ''CraftRecipeRequest''), (0x19, ''PlayerAbilities''), (0x1A, ''PlayerDigging''),
     (0x1B, ''EntityAction''), (0x1C, ''SteerVehicle''), (0x1D, ''Pong''),
     (0x1E, ''SetRecipeBookState''), (0x1F, ''SetDisplayedRecipe''), (0x20, ''NameItem''),
     (0x21, ''ResourcePackStatus''), (0x22, ''AdvancementTab''), (0x23, ''SelectTrade''),
     (0x24, ''SetBeaconEffect''), (0x25, ''HeldItemChange''), (0x26, ''UpdateCommandBlock''),
     (0x27, ''UpdateCommandBlockMinecart''), (0x28, ''CreativeInventoryAction''),
     (0x29, ''UpdateJigsawBlock''), (0x2A, ''UpdateStructureBlock''), (0x2B, ''UpdateSign''),
     (0x2C, ''Animation''), (0x2D, ''Spectate''), (0x2E, ''PlayerBlockPlacement''),
     (0x2F, ''UseItem'')]"

definition v757 :: protocol where
  "v757 = build_protocol_pre_1_21_2 757 v757_status v757_login
     \<lparr>clientbound = v757_play_clientbound, serverbound = v757_play_serverbound\<rparr>"

lemma v757_ok: "protocol_ok v757"
  by (rule protocol_ok_check) code_simp

section \<open>Version 758 (\<open>v1_18_2\<close>, \<open>v758.rs\<close>)\<close>

definition v758_status :: tables where
  "v758_status = \<lparr>
   clientbound =
    [(0x00, ''Response''), (0x01, ''Pong'')],
   serverbound =
    [(0x00, ''Request''), (0x01, ''Ping'')]\<rparr>"

definition v758_login :: tables where
  "v758_login = \<lparr>
   clientbound =
    [(0x00, ''Disconnect''), (0x01, ''EncryptionRequest''), (0x02, ''LoginSuccess''),
     (0x03, ''SetCompression''), (0x04, ''LoginPluginRequest'')],
   serverbound =
    [(0x00, ''LoginStart''), (0x01, ''EncryptionResponse''), (0x02, ''LoginPluginResponse'')]\<rparr>"

definition v758_play_clientbound :: packet_table where
  "v758_play_clientbound =
    [(0x00, ''SpawnEntity''), (0x01, ''SpawnExperienceOrb''), (0x02, ''SpawnLivingEntity''),
     (0x03, ''SpawnPainting''), (0x04, ''SpawnPlayer''), (0x05, ''SculkVibrationSignal''),
     (0x06, ''EntityAnimation''), (0x07, ''Statistics''), (0x08, ''AcknowledgePlayerDigging''),
     (0x09, ''BlockBreakAnimation''), (0x0A, ''BlockEntityData''), (0x0B, ''BlockAction''),
     (0x0C, ''BlockChange''), (0x0D, ''BossBar''), (0x0E, ''ServerDifficulty''),
     (0x0F, ''ChatMessage''), (0x10, ''ClearTitles''), (0x11, ''TabComplete''),
     (0x12, ''DeclareCommands''), (0x13, ''CloseWindow''), (0x14, ''WindowItems''),
     (0x15, ''WindowProperty''), (0x16, ''SetSlot''), (0x17, ''SetCooldown''),
     (0x18, ''PluginMessage''), (0x19, ''NamedSoundEffect''), (0x1A, ''Disconnect''),
     (0x1B, ''EntityStatus''), (0x1C, ''Explosion''), (0x1D, ''UnloadChunk''),
     (0x1E, ''ChangeGameState''), (0x1F, ''OpenHorseWindow''), (0x20, ''InitializeWorldBorder''),
     (0x21, ''KeepAlive''), (0x22, ''ChunkDataAndUpdateLight''), (0x23, ''Effect''),
     (0x24, ''Particle''), (0x25, ''UpdateLight''), (0x26, ''JoinGame''), (0x27, ''MapData''),
     (0x28, ''TradeList''), (0x29, ''EntityPosition''), (0x2A, ''EntityPositionandRotation''),
     (0x2B, ''EntityRotation''), (0x2C, ''VehicleMove''), (0x2D, ''OpenBook''), (0x2E, ''OpenWindow''),
     (0x2F, ''OpenSignEditor''), (0x30, ''Ping''), (0x31, ''CraftRecipeResponse''),
     (0x32, ''PlayerAbilities''), (0x33, ''EndCombatEvent''), (0x34, ''EnterCombatEvent''),
     (0x35, ''DeathCombatEvent''), (0x36, ''PlayerInfo''), (0x37, ''Face''),
     (0x38, ''PlayerPositionAndLook''), (0x39, ''UnlockRecipes''), (0x3A, ''DestroyEntities''),
     (0x3B, ''RemoveEntityEffect''), (0x3C, ''ResourcePackSend''), (0x3D, ''Respawn''),
     (0x3E, ''EntityHeadLook''), (0x3F, ''MultiBlockChange''), (0x40, ''SelectAdvancementTab''),
     (0x41, ''ActionBar''), (0x42, ''WorldBorderCenter''), (0x43, ''WorldBorderLerpSize''),
     (0x44, ''WorldBorderSize''), (0x45, ''WorldBorderWarningDelay''),
     (0x46, ''WorldBorderWarningReach''), (0x47, ''Camera''), (0x48, ''HeldItemChange''),
     (0x49, ''UpdateViewPosition''), (0x4A, ''UpdateViewDistance''), (0x4B, ''SpawnPosition''),
     (0x4C, ''DisplayScoreboard''), (0x4D, ''EntityMetadata''), (0x4E, ''AttachEntity''),
     (0x4F, ''EntityVelocity''), (0x50, ''EntityEquipment''), (0x51, ''SetExperience''),
     (0x52, ''UpdateHealth''), (0x53, ''ScoreboardObjective''), (0x54, ''SetPassengers''),
     (0x55, ''Teams''), (0x56, ''UpdateScore''), (0x57, ''UpdateSimulationDistance''),
     (0x58, ''SetTitleSubTitle''), (0x59, ''TimeUpdate''), (0x5A, ''SetTitleText''),
     (0x5B, ''SetTitleTimes''), (0x5C, ''EntitySoundEffect''), (0x5D, ''SoundEffect''),
     (0x5E, ''StopSound''), (0x5F, ''PlayerListHeaderAndFooter''), (0x60, ''NBTQueryResponse''),
     (0x61, ''CollectItem''), (0x62, ''EntityTeleport''), (0x63, ''Advancements''),
     (0x64, ''EntityProperties''), (0x65, ''EntityEffect''), (0x66, ''DeclareRecipes''),
     (0x67, ''Tags'')]"

definition v758_play_serverbound :: packet_table where
  "v758_play_serverbound =
    [(0x00, ''TeleportConfirm''), (0x01, ''QueryBlockNBT''), (0x02, ''SetDifficulty''),
     (0x03, ''ChatMessage''), (0x04, ''ClientStatus''), (0x05, ''ClientSettings''),
     (0x06, ''TabComplete''), (0x07, ''ClickWindowButton''), (0x08, ''ClickWindow''),
     (0x09, ''CloseWindow''), (0x0A, ''PluginMessage''), (0x0B, ''EditBook''),
     (0x0C, ''QueryEntityNBT''), (0x0D, ''InteractEntity''), (0x0E, ''GenerateStructure''),
     (0x0F, ''KeepAlive''), (0x10, ''LockDifficulty''), (0x11, ''PlayerPosition''),
     (0x12, ''PlayerPositionAndRotation''), (0x13, ''PlayerRotation''), (0x14, ''PlayerMovement''),
     (0x15, ''VehicleMove''), (0x16, ''SteerBoat''), (0x17, ''PickItem''),
     (0x18, ''CraftRecipeRequest''), (0x19, ''PlayerAbilities''), (0x1A, ''PlayerDigging''),
     (0x1B, ''EntityAction''), (0x1C, ''SteerVehicle''), (0x1D, ''Pong''),
     (0x1E, ''SetRecipeBookState''), (0x1F, ''SetDisplayedRecipe''), (0x20, ''NameItem''),
     (0x21, ''ResourcePackStatus''), (0x22, ''AdvancementTab''), (0x23, ''SelectTrade''),
     (0x24, ''SetBeaconEffect''), (0x25, ''HeldItemChange''), (0x26, ''UpdateCommandBlock''),
     (0x27, ''UpdateCommandBlockMinecart''), (0x28, ''CreativeInventoryAction''),
     (0x29, ''UpdateJigsawBlock''), (0x2A, ''UpdateStructureBlock''), (0x2B, ''UpdateSign''),
     (0x2C, ''Animation''), (0x2D, ''Spectate''), (0x2E, ''PlayerBlockPlacement''),
     (0x2F, ''UseItem'')]"

definition v758 :: protocol where
  "v758 = build_protocol_pre_1_21_2 758 v758_status v758_login
     \<lparr>clientbound = v758_play_clientbound, serverbound = v758_play_serverbound\<rparr>"

lemma v758_ok: "protocol_ok v758"
  by (rule protocol_ok_check) code_simp

section \<open>Version 759 (\<open>v1_19_0\<close>, \<open>v759.rs\<close>)\<close>

definition v759_status :: tables where
  "v759_status = \<lparr>
   clientbound =
    [(0x00, ''StatusResponse''), (0x01, ''PingResponse'')],
   serverbound =
    [(0x00, ''StatusRequest''), (0x01, ''PingRequest'')]\<rparr>"

definition v759_login :: tables where
  "v759_login = \<lparr>
   clientbound =
    [(0x00, ''Disconnect''), (0x01, ''EncryptionRequest''), (0x02, ''LoginSuccess''),
     (0x03, ''SetCompression''), (0x04, ''LoginPluginRequest'')],
   serverbound =
    [(0x00, ''LoginStart''), (0x01, ''EncryptionResponse''), (0x02, ''LoginPluginResponse'')]\<rparr>"

definition v759_play_clientbound :: packet_table where
  "v759_play_clientbound =
    [(0x00, ''SpawnEntity''), (0x01, ''SpawnExperienceOrb''), (0x02, ''SpawnPlayer''),
     (0x03, ''EntityAnimation''), (0x04, ''AwardStatistics''), (0x05, ''AcknowledgeBlockChange''),
     (0x06, ''SetBlockDestroyStage''), (0x07, ''BlockEntityData''), (0x08, ''BlockAction''),
     (0x09, ''BlockUpdate''), (0x0A, ''BossBar''), (0x0B, ''ChangeDifficulty''),
     (0x0C, ''ChatPreview''), (0x0D, ''ClearTitles''), (0x0E, ''CommandSuggestionsResponse''),
     (0x0F, ''Commands''), (0x10, ''CloseContainer''), (0x11, ''SetContainerContent''),
     (0x12, ''SetContainerProperty''), (0x13, ''SetContainerSlot''), (0x14, ''SetCooldown''),
     (0x15, ''PluginMessage''), (0x16, ''CustomSoundEffect''), (0x17, ''Disconnect''),
     (0x18, ''EntityEvent''), (0x19, ''Explosion''), (0x1A, ''UnloadChunk''), (0x1B, ''GameEvent''),
     (0x1C, ''OpenHorseScreen''), (0x1D, ''InitializeWorldBorder''), (0x1E, ''KeepAlive''),
     (0x1F, ''ChunkDataandUpdateLight''), (0x20, ''WorldEvent''), (0x21, ''Particle''),
     (0x22, ''UpdateLight''), (0x23, ''Login''), (0x24, ''MapData''), (0x25, ''MerchantOffers''),
     (0x26, ''UpdateEntityPosition''), (0x27, ''UpdateEntityPositionandRotation''),
     (0x28, ''UpdateEntityRotation''), (0x29, ''MoveVehicle''), (0x2A, ''OpenBook''),
     (0x2B, ''OpenScreen''), (0x2C, ''OpenSignEditor''), (0x2D, ''Ping''),
     (0x2E, ''PlaceGhostRecipe''), (0x2F, ''PlayerAbilities''), (0x30, ''PlayerChatMessage''),
     (0x31, ''EndCombat''), (0x32, ''EnterCombat''), (0x33, ''CombatDeath''), (0x34, ''PlayerInfo''),
     (0x35, ''LookAt''), (0x36, ''SynchronizePlayerPosition''), (0x37, ''UpdateRecipeBook''),
     (0x38, ''RemoveEntities''), (0x39, ''RemoveEntityEffect''), (0x3A, ''ResourcePack''),
     (0x3B, ''Respawn''), (0x3C, ''SetHeadRotation''), (0x3D, ''UpdateSectionBlocks''),
     (0x3E, ''SelectAdvancementsTab''), (0x3F, ''ServerData''), (0x40, ''SetActionBarText''),
     (0x41, ''SetBorderCenter''), (0x42, ''SetBorderLerpSize''), (0x43, ''SetBorderSize''),
     (0x44, ''SetBorderWarningDelay''), (0x45, ''SetBorderWarningDistance''), (0x46, ''SetCamera''),
     (0x47, ''SetHeldItem''), (0x48, ''SetCenterChunk''), (0x49, ''SetRenderDistance''),
     (0x4A, ''SetDefaultSpawnPosition''), (0x4B, ''SetDisplayChatPreview''),
     (0x4C, ''DisplayObjective''), (0x4D, ''SetEntityMetadata''), (0x4E, ''LinkEntities''),
     (0x4F, ''SetEntityVelocity''), (0x50, ''SetEquipment''), (0x51, ''SetExperience''),
     (0x52, ''SetHealth''), (0x53, ''UpdateObjectives''), (0x54, ''SetPassengers''),
     (0x55, ''UpdateTeams''), (0x56, ''UpdateScore''), (0x57, ''SetSimulationDistance''),
     (0x58, ''SetSubtitleText''), (0x59, ''UpdateTime''), (0x5A, ''SetTitleText''),
     (0x5B, ''SetTitleAnimationTimes''), (0x5C, ''EntitySoundEffect''), (0x5D, ''SoundEffect''),
     (0x5E, ''StopSound''), (0x5F, ''SystemChatMessage''), (0x60, ''SetTabListHeaderAndFooter''),
     (0x61, ''TagQueryResponse''), (0x62, ''PickupItem''), (0x63, ''TeleportEntity''),
     (0x64, ''UpdateAdvancements''), (0x65, ''UpdateAttributes''), (0x66, ''EntityEffect''),
     (0x67, ''UpdateRecipes''), (0x68, ''UpdateTags'')]"

definition v759_play_serverbound :: packet_table where
  "v759_play_serverbound =
    [(0x00, ''ConfirmTeleportation''), (0x01, ''QueryBlockEntityTag''), (0x02, ''ChangeDifficulty''),
     (0x03, ''ChatCommand''), (0x04, ''ChatMessage''), (0x05, ''ChatPreview''),
     (0x06, ''ClientCommand''), (0x07, ''ClientInformation''), (0x08, ''CommandSuggestionsRequest''),
     (0x09, ''ClickContainerButton''), (0x0A, ''ClickContainer''), (0x0B, ''CloseContainer''),
     (0x0C, ''PluginMessage''), (0x0D, ''EditBook''), (0x0E, ''QueryEntityTag''), (0x0F, ''Interact''),
     (0x10, ''JigsawGenerate''), (0x11, ''KeepAlive''), (0x12, ''LockDifficulty''),
     (0x13, ''SetPlayerPosition''), (0x14, ''SetPlayerPositionandRotation''),
     (0x15, ''SetPlayerRotation''), (0x16, ''SetPlayerOnGround''), (0x17, ''MoveVehicle''),
     (0x18, ''PaddleBoat''), (0x19, ''PickItem''), (0x1A, ''PlaceRecipe''),
     (0x1B, ''PlayerAbilities''), (0x1C, ''PlayerAction''), (0x1D, ''PlayerCommand''),
     (0x1E, ''PlayerInput''), (0x1F, ''Pong''), (0x20, ''ChangeRecipeBookSettings''),
     (0x21, ''SetSeenRecipe''), (0x22, ''RenameItem''), (0x23, ''ResourcePack''),
     (0x24, ''SeenAdvancements''), (0x25, ''SelectTrade''), (0x26, ''SetBeaconEffect''),
     (0x27, ''SetHeldItem''), (0x28, ''ProgramCommandBlock''), (0x29, ''ProgramCommandBlockMinecart''),
     (0x2A, ''SetCreativeModeSlot''), (0x2B, ''ProgramJigsawBlock''),
     (0x2C, ''ProgramStructureBlock''), (0x2D, ''UpdateSign''), (0x2E, ''SwingArm''),
     (0x2F, ''TeleportToEntity''), (0x30, ''UseItemOn''), (0x31, ''UseItem'')]"

definition v759 :: protocol where
  "v759 = build_protocol_pre_1_21_2 759 v759_status v759_login
     \<lparr>clientbound = v759_play_clientbound, serverbound = v759_play_serverbound\<rparr>"

lemma v759_ok: "protocol_ok v759"
  by (rule protocol_ok_check) code_simp

section \<open>Version 760 (\<open>v1_19_1\<close>, \<open>v760.rs\<close>)\<close>

definition v760_status :: tables where
  "v760_status = \<lparr>
   clientbound =
    [(0x00, ''StatusResponse''), (0x01, ''PingResponse'')],
   serverbound =
    [(0x00, ''StatusRequest''), (0x01, ''PingRequest'')]\<rparr>"

definition v760_login :: tables where
  "v760_login = \<lparr>
   clientbound =
    [(0x00, ''Disconnect''), (0x01, ''EncryptionRequest''), (0x02, ''LoginSuccess''),
     (0x03, ''SetCompression''), (0x04, ''LoginPluginRequest'')],
   serverbound =
    [(0x00, ''LoginStart''), (0x01, ''EncryptionResponse''), (0x02, ''LoginPluginResponse'')]\<rparr>"

definition v760_play_clientbound :: packet_table where
  "v760_play_clientbound =
    [(0x00, ''SpawnEntity''), (0x01, ''SpawnExperienceOrb''), (0x02, ''SpawnPlayer''),
     (0x03, ''EntityAnimation''), (0x04, ''AwardStatistics''), (0x05, ''AcknowledgeBlockChange''),
     (0x06, ''SetBlockDestroyStage''), (0x07, ''BlockEntityData''), (0x08, ''BlockAction''),
     (0x09, ''BlockUpdate''), (0x0A, ''BossBar''), (0x0B, ''ChangeDifficulty''),
     (0x0C, ''ChatPreview''), (0x0D, ''ClearTitles''), (0x0E, ''CommandSuggestionsResponse''),
     (0x0F, ''Commands''), (0x10, ''CloseContainer''), (0x11, ''SetContainerContent''),
     (0x12, ''SetContainerProperty''), (0x13, ''SetContainerSlot''), (0x14, ''SetCooldown''),
     (0x15, ''ChatSuggestions''), (0x16, ''PluginMessage''), (0x17, ''CustomSoundEffect''),
     (0x18, ''HideMessage''), (0x19, ''Disconnect''), (0x1A, ''EntityEvent''), (0x1B, ''Explosion''),
     (0x1C, ''UnloadChunk''), (0x1D, ''GameEvent''), (0x1E, ''OpenHorseScreen''),
     (0x1F, ''InitializeWorldBorder''), (0x20, ''KeepAlive''), (0x21, ''ChunkDataandUpdateLight''),
     (0x22, ''WorldEvent''), (0x23, ''Particle''), (0x24, ''UpdateLight''), (0x25, ''Login''),
     (0x26, ''MapData''), (0x27, ''MerchantOffers''), (0x28, ''UpdateEntityPosition''),
     (0x29, ''UpdateEntityPositionandRotation''), (0x2A, ''UpdateEntityRotation''),
     (0x2B, ''MoveVehicle''), (0x2C, ''OpenBook''), (0x2D, ''OpenScreen''), (0x2E, ''OpenSignEditor''),
     (0x2F, ''Ping''), (0x30, ''PlaceGhostRecipe''), (0x31, ''PlayerAbilities''),
     (0x32, ''MessageHeader''), (0x33, ''PlayerChatMessage''), (0x34, ''EndCombat''),
     (0x35, ''EnterCombat''), (0x36, ''CombatDeath''), (0x37, ''PlayerInfo''), (0x38, ''LookAt''),
     (0x39, ''SynchronizePlayerPosition''), (0x3A, ''UpdateRecipeBook''), (0x3B, ''RemoveEntities''),
     (0x3C, ''RemoveEntityEffect''), (0x3D, ''ResourcePack''), (0x3E, ''Respawn''),
     (0x3F, ''SetHeadRotation''), (0x40, ''UpdateSectionBlocks''), (0x41, ''SelectAdvancementsTab''),
     (0x42, ''ServerData''), (0x43, ''SetActionBarText''), (0x44, ''SetBorderCenter''),
     (0x45, ''SetBorderLerpSize''), (0x46, ''SetBorderSize''), (0x47, ''SetBorderWarningDelay''),
     (0x48, ''SetBorderWarningDistance''), (0x49, ''SetCamera''), (0x4A, ''SetHeldItem''),
     (0x4B, ''SetCenterChunk''), (0x4C, ''SetRenderDistance''), (0x4D, ''SetDefaultSpawnPosition''),
     (0x4E, ''SetDisplayChatPreview''), (0x4F, ''DisplayObjective''), (0x50, ''SetEntityMetadata''),
     (0x51, ''LinkEntities''), (0x52, ''SetEntityVelocity''), (0x53, ''SetEquipment''),
     (0x54, ''SetExperience''), (0x55, ''SetHealth''), (0x56, ''UpdateObjectives''),
     (0x57, ''SetPassengers''), (0x58, ''UpdateTeams''), (0x59, ''UpdateScore''),
     (0x5A, ''SetSimulationDistance''), (0x5B, ''SetSubtitleText''), (0x5C, ''UpdateTime''),
     (0x5D, ''SetTitleText''), (0x5E, ''SetTitleAnimationTimes''), (0x5F, ''EntitySoundEffect''),
     (0x60, ''SoundEffect''), (0x61, ''StopSound''), (0x62, ''SystemChatMessage''),
     (0x63, ''SetTabListHeaderAndFooter''), (0x64, ''TagQueryResponse''), (0x65, ''PickupItem''),
     (0x66, ''TeleportEntity''), (0x67, ''UpdateAdvancements''), (0x68, ''UpdateAttributes''),
     (0x69, ''EntityEffect''), (0x6A, ''UpdateRecipes''), (0x6B, ''UpdateTags'')]"

definition v760_play_serverbound :: packet_table where
  "v760_play_serverbound =
    [(0x00, ''ConfirmTeleportation''), (0x01, ''QueryBlockEntityTag''), (0x02, ''ChangeDifficulty''),
     (0x03, ''MessageAcknowledgment''), (0x04, ''ChatCommand''), (0x05, ''ChatMessage''),
     (0x06, ''ChatPreview''), (0x07, ''ClientCommand''), (0x08, ''ClientInformation''),
     (0x09, ''CommandSuggestionsRequest''), (0x0A, ''ClickContainerButton''),
     (0x0B, ''ClickContainer''), (0x0C, ''CloseContainer''), (0x0D, ''PluginMessage''),
     (0x0E, ''EditBook''), (0x0F, ''QueryEntityTag''), (0x10, ''Interact''),
     (0x11, ''JigsawGenerate''), (0x12, ''KeepAlive''), (0x13, ''LockDifficulty''),
     (0x14, ''SetPlayerPosition''), (0x15, ''SetPlayerPositionandRotation''),
     (0x16, ''SetPlayerRotation''), (0x17, ''SetPlayerOnGround''), (0x18, ''MoveVehicle''),
     (0x19, ''PaddleBoat''), (0x1A, ''PickItem''), (0x1B, ''PlaceRecipe''),
     (0x1C, ''PlayerAbilities''), (0x1D, ''PlayerAction''), (0x1E, ''PlayerCommand''),
     (0x1F, ''PlayerInput''), (0x20, ''Pong''), (0x21, ''ChangeRecipeBookSettings''),
     (0x22, ''SetSeenRecipe''), (0x23, ''RenameItem''), (0x24, ''ResourcePack''),
     (0x25, ''SeenAdvancements''), (0x26, ''SelectTrade''), (0x27, ''SetBeaconEffect''),
     (0x28, ''SetHeldItem''), (0x29, ''ProgramCommandBlock''), (0x2A, ''ProgramCommandBlockMinecart''),
     (0x2B, ''SetCreativeModeSlot''), (0x2C, ''ProgramJigsawBlock''),
     (0x2D, ''ProgramStructureBlock''), (0x2E, ''UpdateSign''), (0x2F, ''SwingArm''),
     (0x30, ''TeleportToEntity''), (0x31, ''UseItemOn''), (0x32, ''UseItem'')]"

definition v760 :: protocol where
  "v760 = build_protocol_pre_1_21_2 760 v760_status v760_login
     \<lparr>clientbound = v760_play_clientbound, serverbound = v760_play_serverbound\<rparr>"

lemma v760_ok: "protocol_ok v760"
  by (rule protocol_ok_check) code_simp

section \<open>Version 761 (\<open>v1_19_3\<close>, \<open>v761.rs\<close>)\<close>

definition v761_status :: tables where
  "v761_status = \<lparr>
   clientbound =
    [(0x00, ''StatusResponse''), (0x01, ''PingResponse'')],
   serverbound =
    [(0x00, ''StatusRequest''), (0x01, ''PingRequest'')]\<rparr>"

definition v761_login :: tables where
  "v761_login = \<lparr>
   clientbound =
    [(0x00, ''Disconnect''), (0x01, ''EncryptionRequest''), (0x02, ''LoginSuccess''),
     (0x03, ''SetCompression''), (0x04, ''LoginPluginRequest'')],
   serverbound =
    [(0x00, ''LoginStart''), (0x01, ''EncryptionResponse''), (0x02, ''LoginPluginResponse'')]\<rparr>"

definition v761_play_clientbound :: packet_table where
  "v761_play_clientbound =
    [(0x00, ''SpawnEntity''), (0x01, ''SpawnExperienceOrb''), (0x02, ''SpawnPlayer''),
     (0x03, ''EntityAnimation''), (0x04, ''AwardStatistics''), (0x05, ''AcknowledgeBlockChange''),
     (0x06, ''SetBlockDestroyStage''), (0x07, ''BlockEntityData''), (0x08, ''BlockAction''),
     (0x09, ''BlockUpdate''), (0x0A, ''BossBar''), (0x0B, ''ChangeDifficulty''),
     (0x0C, ''ClearTitles''), (0x0D, ''CommandSuggestionsResponse''), (0x0E, ''Commands''),
     (0x0F, ''CloseContainer''), (0x10, ''SetContainerContent''), (0x11, ''SetContainerProperty''),
     (0x12, ''SetContainerSlot''), (0x13, ''SetCooldown''), (0x14, ''ChatSuggestions''),
     (0x15, ''PluginMessage''), (0x16, ''DeleteMessage''), (0x17, ''Disconnect''),
     (0x18, ''DisguisedChatMessage''), (0x19, ''EntityEvent''), (0x1A, ''Explosion''),
     (0x1B, ''UnloadChunk''), (0x1C, ''GameEvent''), (0x1D, ''OpenHorseScreen''),
     (0x1E, ''InitializeWorldBorder''), (0x1F, ''KeepAlive''), (0x20, ''ChunkDataandUpdateLight''),
     (0x21, ''WorldEvent''), (0x22, ''Particle''), (0x23, ''UpdateLight''), (0x24, ''Login''),
     (0x25, ''MapData''), (0x26, ''MerchantOffers''), (0x27, ''UpdateEntityPosition''),
     (0x28, ''UpdateEntityPositionandRotation''), (0x29, ''UpdateEntityRotation''),
     (0x2A, ''MoveVehicle''), (0x2B, ''OpenBook''), (0x2C, ''OpenScreen''), (0x2D, ''OpenSignEditor''),
     (0x2E, ''Ping''), (0x2F, ''PlaceGhostRecipe''), (0x30, ''PlayerAbilities''),
     (0x31, ''PlayerChatMessage''), (0x32, ''EndCombat''), (0x33, ''EnterCombat''),
     (0x34, ''CombatDeath''), (0x35, ''PlayerInfoRemove''), (0x36, ''PlayerInfoUpdate''),
     (0x37, ''LookAt''), (0x38, ''SynchronizePlayerPosition''), (0x39, ''UpdateRecipeBook''),
     (0x3A, ''RemoveEntities''), (0x3B, ''RemoveEntityEffect''), (0x3C, ''ResourcePack''),
     (0x3D, ''Respawn''), (0x3E, ''SetHeadRotation''), (0x3F, ''UpdateSectionBlocks''),
     (0x40, ''SelectAdvancementsTab''), (0x41, ''ServerData''), (0x42, ''SetActionBarText''),
     (0x43, ''SetBorderCenter''), (0x44, ''SetBorderLerpSize''), (0x45, ''SetBorderSize''),
     (0x46, ''SetBorderWarningDelay''), (0x47, ''SetBorderWarningDistance''), (0x48, ''SetCamera''),
     (0x49, ''SetHeldItem''), (0x4A, ''SetCenterChunk''), (0x4B, ''SetRenderDistance''),
     (0x4C, ''SetDefaultSpawnPosition''), (0x4D, ''DisplayObjective''), (0x4E, ''SetEntityMetadata''),
     (0x4F, ''LinkEntities''), (0x50, ''SetEntityVelocity''), (0x51, ''SetEquipment''),
     (0x52, ''SetExperience''), (0x53, ''SetHealth''), (0x54, ''UpdateObjectives''),
     (0x55, ''SetPassengers''), (0x56, ''UpdateTeams''), (0x57, ''UpdateScore''),
     (0x58, ''SetSimulationDistance''), (0x59, ''SetSubtitleText''), (0x5A, ''UpdateTime''),
     (0x5B, ''SetTitleText''), (0x5C, ''SetTitleAnimationTimes''), (0x5D, ''EntitySoundEffect''),
     (0x5E, ''SoundEffect''), (0x5F, ''StopSound''), (0x60, ''SystemChatMessage''),
     (0x61, ''SetTabListHeaderAndFooter''), (0x62, ''TagQueryResponse''), (0x63, ''PickupItem''),
     (0x64, ''TeleportEntity''), (0x65, ''UpdateAdvancements''), (0x66, ''UpdateAttributes''),
     (0x67, ''FeatureFlags''), (0x68, ''EntityEffect''), (0x69, ''UpdateRecipes''),
     (0x6A, ''UpdateTags'')]"

definition v761_play_serverbound :: packet_table where
  "v761_play_serverbound =
    [(0x00, ''ConfirmTeleportation''), (0x01, ''QueryBlockEntityTag''), (0x02, ''ChangeDifficulty''),
     (0x03, ''MessageAcknowledgment''), (0x04, ''ChatCommand''), (0x05, ''ChatMessage''),
     (0x06, ''ClientCommand''), (0x07, ''ClientInformation''), (0x08, ''CommandSuggestionsRequest''),
     (0x09, ''ClickContainerButton''), (0x0A, ''ClickContainer''), (0x0B, ''CloseContainer''),
     (0x0C, ''PluginMessage''), (0x0D, ''EditBook''), (0x0E, ''QueryEntityTag''), (0x0F, ''Interact''),
     (0x10, ''JigsawGenerate''), (0x11, ''KeepAlive''), (0x12, ''LockDifficulty''),
     (0x13, ''SetPlayerPosition''), (0x14, ''SetPlayerPositionandRotation''),
     (0x15, ''SetPlayerRotation''), (0x16, ''SetPlayerOnGround''), (0x17, ''MoveVehicle''),
     (0x18, ''PaddleBoat''), (0x19, ''PickItem''), (0x1A, ''PlaceRecipe''),
     (0x1B, ''PlayerAbilities''), (0x1C, ''PlayerAction''), (0x1D, ''PlayerCommand''),
     (0x1E, ''PlayerInput''), (0x1F, ''Pong''), (0x20, ''PlayerSession''),
     (0x21, ''ChangeRecipeBookSettings''), (0x22, ''SetSeenRecipe''), (0x23, ''RenameItem''),
     (0x24, ''ResourcePack''), (0x25, ''SeenAdvancements''), (0x26, ''SelectTrade''),
     (0x27, ''SetBeaconEffect''), (0x28, ''SetHeldItem''), (0x29, ''ProgramCommandBlock''),
     (0x2A, ''ProgramCommandBlockMinecart''), (0x2B, ''SetCreativeModeSlot''),
     (0x2C, ''ProgramJigsawBlock''), (0x2D, ''ProgramStructureBlock''), (0x2E, ''UpdateSign''),
     (0x2F, ''SwingArm''), (0x30, ''TeleportToEntity''), (0x31, ''UseItemOn''), (0x32, ''UseItem'')]"

definition v761 :: protocol where
  "v761 = build_protocol_pre_1_21_2 761 v761_status v761_login
     \<lparr>clientbound = v761_play_clientbound, serverbound = v761_play_serverbound\<rparr>"

lemma v761_ok: "protocol_ok v761"
  by (rule protocol_ok_check) code_simp

section \<open>Version 762 (\<open>v1_19_4\<close>, \<open>v762.rs\<close>)\<close>

definition v762_status :: tables where
  "v762_status = \<lparr>
   clientbound =
    [(0x00, ''StatusResponse''), (0x01, ''PingResponse'')],
   serverbound =
    [(0x00, ''StatusRequest''), (0x01, ''PingRequest'')]\<rparr>"

definition v762_login :: tables where
  "v762_login = \<lparr>
   clientbound =
    [(0x00, ''Disconnect''), (0x01, ''EncryptionRequest''), (0x02, ''LoginSuccess''),
     (0x03, ''SetCompression''), (0x04, ''LoginPluginRequest'')],
   serverbound =
    [(0x00, ''LoginStart''), (0x01, ''EncryptionResponse''), (0x02, ''LoginPluginResponse'')]\<rparr>"

definition v762_play_clientbound :: packet_table where
  "v762_play_clientbound =
    [(0x00, ''BundleDelimiter''), (0x01, ''SpawnEntity''), (0x02, ''SpawnExperienceOrb''),
     (0x03, ''SpawnPlayer''), (0x04, ''EntityAnimation''), (0x05, ''AwardStatistics''),
     (0x06, ''AcknowledgeBlockChange''), (0x07, ''SetBlockDestroyStage''), (0x08, ''BlockEntityData''),
     (0x09, ''BlockAction''), (0x0A, ''BlockUpdate''), (0x0B, ''BossBar''),
     (0x0C, ''ChangeDifficulty''), (0x0D, ''ChunkBiomes''), (0x0E, ''ClearTitles''),
     (0x0F, ''CommandSuggestionsResponse''), (0x10, ''Commands''), (0x11, ''CloseContainer''),
     (0x12, ''SetContainerContent''), (0x13, ''SetContainerProperty''), (0x14, ''SetContainerSlot''),
     (0x15, ''SetCooldown''), (0x16, ''ChatSuggestions''), (0x17, ''PluginMessage''),
     (0x18, ''DamageEvent''), (0x19, ''DeleteMessage''), (0x1A, ''Disconnect''),
     (0x1B, ''DisguisedChatMessage''), (0x1C, ''EntityEvent''), (0x1D, ''Explosion''),
     (0x1E, ''UnloadChunk''), (0x1F, ''GameEvent''), (0x20, ''OpenHorseScreen''),
     (0x21, ''HurtAnimation''), (0x22, ''InitializeWorldBorder''), (0x23, ''KeepAlive''),
     (0x24, ''ChunkDataandUpdateLight''), (0x25, ''WorldEvent''), (0x26, ''Particle''),
     (0x27, ''UpdateLight''), (0x28, ''Login''), (0x29, ''MapData''), (0x2A, ''MerchantOffers''),
     (0x2B, ''UpdateEntityPosition''), (0x2C, ''UpdateEntityPositionandRotation''),
     (0x2D, ''UpdateEntityRotation''), (0x2E, ''MoveVehicle''), (0x2F, ''OpenBook''),
     (0x30, ''OpenScreen''), (0x31, ''OpenSignEditor''), (0x32, ''Ping''),
     (0x33, ''PlaceGhostRecipe''), (0x34, ''PlayerAbilities''), (0x35, ''PlayerChatMessage''),
     (0x36, ''EndCombat''), (0x37, ''EnterCombat''), (0x38, ''CombatDeath''),
     (0x39, ''PlayerInfoRemove''), (0x3A, ''PlayerInfoUpdate''), (0x3B, ''LookAt''),
     (0x3C, ''SynchronizePlayerPosition''), (0x3D, ''UpdateRecipeBook''), (0x3E, ''RemoveEntities''),
     (0x3F, ''RemoveEntityEffect''), (0x40, ''ResourcePack''), (0x41, ''Respawn''),
     (0x42, ''SetHeadRotation''), (0x43, ''UpdateSectionBlocks''), (0x44, ''SelectAdvancementsTab''),
     (0x45, ''ServerData''), (0x46, ''SetActionBarText''), (0x47, ''SetBorderCenter''),
     (0x48, ''SetBorderLerpSize''), (0x49, ''SetBorderSize''), (0x4A, ''SetBorderWarningDelay''),
     (0x4B, ''SetBorderWarningDistance''), (0x4C, ''SetCamera''), (0x4D, ''SetHeldItem''),
     (0x4E, ''SetCenterChunk''), (0x4F, ''SetRenderDistance''), (0x50, ''SetDefaultSpawnPosition''),
     (0x51, ''DisplayObjective''), (0x52, ''SetEntityMetadata''), (0x53, ''LinkEntities''),
     (0x54, ''SetEntityVelocity''), (0x55, ''SetEquipment''), (0x56, ''SetExperience''),
     (0x57, ''SetHealth''), (0x58, ''UpdateObjectives''), (0x59, ''SetPassengers''),
     (0x5A, ''UpdateTeams''), (0x5B, ''UpdateScore''), (0x5C, ''SetSimulationDistance''),
     (0x5D, ''SetSubtitleText''), (0x5E, ''UpdateTime''), (0x5F, ''SetTitleText''),
     (0x60, ''SetTitleAnimationTimes''), (0x61, ''EntitySoundEffect''), (0x62, ''SoundEffect''),
     (0x63, ''StopSound''), (0x64, ''SystemChatMessage''), (0x65, ''SetTabListHeaderAndFooter''),
     (0x66, ''TagQueryResponse''), (0x67, ''PickupItem''), (0x68, ''TeleportEntity''),
     (0x69, ''UpdateAdvancements''), (0x6A, ''UpdateAttributes''), (0x6B, ''FeatureFlags''),
     (0x6C, ''EntityEffect''), (0x6D, ''UpdateRecipes''), (0x6E, ''UpdateTags'')]"

definition v762_play_serverbound :: packet_table where
  "v762_play_serverbound =
    [(0x00, ''ConfirmTeleportation''), (0x01, ''QueryBlockEntityTag''), (0x02, ''ChangeDifficulty''),
     (0x03, ''MessageAcknowledgment''), (0x04, ''ChatCommand''), (0x05, ''ChatMessage''),
     (0x06, ''PlayerSession''), (0x07, ''ClientCommand''), (0x08, ''ClientInformation''),
     (0x09, ''CommandSuggestionsRequest''), (0x0A, ''ClickContainerButton''),
     (0x0B, ''ClickContainer''), (0x0C, ''CloseContainer''), (0x0D, ''PluginMessage''),
     (0x0E, ''EditBook''), (0x0F, ''QueryEntityTag''), (0x10, ''Interact''),
     (0x11, ''JigsawGenerate''), (0x12, ''KeepAlive''), (0x13, ''LockDifficulty''),
     (0x14, ''SetPlayerPosition''), (0x15, ''SetPlayerPositionandRotation''),
     (0x16, ''SetPlayerRotation''), (0x17, ''SetPlayerOnGround''), (0x18, ''MoveVehicle''),
     (0x19, ''PaddleBoat''), (0x1A, ''PickItem''), (0x1B, ''PlaceRecipe''),
     (0x1C, ''PlayerAbilities''), (0x1D, ''PlayerAction''), (0x1E, ''PlayerCommand''),
     (0x1F, ''PlayerInput''), (0x20, ''Pong''), (0x21, ''ChangeRecipeBookSettings''),
     (0x22, ''SetSeenRecipe''), (0x23, ''RenameItem''), (0x24, ''ResourcePack''),
     (0x25, ''SeenAdvancements''), (0x26, ''SelectTrade''), (0x27, ''SetBeaconEffect''),
     (0x28, ''SetHeldItem''), (0x29, ''ProgramCommandBlock''), (0x2A, ''ProgramCommandBlockMinecart''),
     (0x2B, ''SetCreativeModeSlot''), (0x2C, ''ProgramJigsawBlock''),
     (0x2D, ''ProgramStructureBlock''), (0x2E, ''UpdateSign''), (0x2F, ''SwingArm''),
     (0x30, ''TeleportToEntity''), (0x31, ''UseItemOn''), (0x32, ''UseItem'')]"

definition v762 :: protocol where
  "v762 = build_protocol_pre_1_21_2 762 v762_status v762_login
     \<lparr>clientbound = v762_play_clientbound, serverbound = v762_play_serverbound\<rparr>"

lemma v762_ok: "protocol_ok v762"
  by (rule protocol_ok_check) code_simp

section \<open>Version 763 (\<open>v1_20_0\<close>, \<open>v763.rs\<close>)\<close>

definition v763_status :: tables where
  "v763_status = \<lparr>
   clientbound =
    [(0x00, ''StatusResponse''), (0x01, ''PingResponse'')],
   serverbound =
    [(0x00, ''StatusRequest''), (0x01, ''PingRequest'')]\<rparr>"

definition v763_login :: tables where
  "v763_login = \<lparr>
   clientbound =
    [(0x00, ''Disconnect''), (0x01, ''EncryptionRequest''), (0x02, ''LoginSuccess''),
     (0x03, ''SetCompression''), (0x04, ''LoginPluginRequest'')],
   serverbound =
    [(0x00, ''LoginStart''), (0x01, ''EncryptionResponse''), (0x02, ''LoginPluginResponse'')]\<rparr>"

definition v763_play_clientbound :: packet_table where
  "v763_play_clientbound =
    [(0x00, ''BundleDelimiter''), (0x01, ''SpawnEntity''), (0x02, ''SpawnExperienceOrb''),
     (0x03, ''SpawnPlayer''), (0x04, ''EntityAnimation''), (0x05, ''AwardStatistics''),
     (0x06, ''AcknowledgeBlockChange''), (0x07, ''SetBlockDestroyStage''), (0x08, ''BlockEntityData''),
     (0x09, ''BlockAction''), (0x0A, ''BlockUpdate''), (0x0B, ''BossBar''),
     (0x0C, ''ChangeDifficulty''), (0x0D, ''ChunkBiomes''), (0x0E, ''ClearTitles''),
     (0x0F, ''CommandSuggestionsResponse''), (0x10, ''Commands''), (0x11, ''CloseContainer''),
     (0x12, ''SetContainerContent''), (0x13, ''SetContainerProperty''), (0x14, ''SetContainerSlot''),
     (0x15, ''SetCooldown''), (0x16, ''ChatSuggestions''), (0x17, ''PluginMessage''),
     (0x18, ''DamageEvent''), (0x19, ''DeleteMessage''), (0x1A, ''Disconnect''),
     (0x1B, ''DisguisedChatMessage''), (0x1C, ''EntityEvent''), (0x1D, ''Explosion''),
     (0x1E, ''UnloadChunk''), (0x1F, ''GameEvent''), (0x20, ''OpenHorseScreen''),
     (0x21, ''HurtAnimation''), (0x22, ''InitializeWorldBorder''), (0x23, ''KeepAlive''),
     (0x24, ''ChunkDataandUpdateLight''), (0x25, ''WorldEvent''), (0x26, ''Particle''),
     (0x27, ''UpdateLight''), (0x28, ''Login''), (0x29, ''MapData''), (0x2A, ''MerchantOffers''),
     (0x2B, ''UpdateEntityPosition''), (0x2C, ''UpdateEntityPositionandRotation''),
     (0x2D, ''UpdateEntityRotation''), (0x2E, ''MoveVehicle''), (0x2F, ''OpenBook''),
     (0x30, ''OpenScreen''), (0x31, ''OpenSignEditor''), (0x32, ''Ping''),
     (0x33, ''PlaceGhostRecipe''), (0x34, ''PlayerAbilities''), (0x35, ''PlayerChatMessage''),
     (0x36, ''EndCombat''), (0x37, ''EnterCombat''), (0x38, ''CombatDeath''),
     (0x39, ''PlayerInfoRemove''), (0x3A, ''PlayerInfoUpdate''), (0x3B, ''LookAt''),
     (0x3C, ''SynchronizePlayerPosition''), (0x3D, ''UpdateRecipeBook''), (0x3E, ''RemoveEntities''),
     (0x3F, ''RemoveEntityEffect''), (0x40, ''ResourcePack''), (0x41, ''Respawn''),
     (0x42, ''SetHeadRotation''), (0x43, ''UpdateSectionBlocks''), (0x44, ''SelectAdvancementsTab''),
     (0x45, ''ServerData''), (0x46, ''SetActionBarText''), (0x47, ''SetBorderCenter''),
     (0x48, ''SetBorderLerpSize''), (0x49, ''SetBorderSize''), (0x4A, ''SetBorderWarningDelay''),
     (0x4B, ''SetBorderWarningDistance''), (0x4C, ''SetCamera''), (0x4D, ''SetHeldItem''),
     (0x4E, ''SetCenterChunk''), (0x4F, ''SetRenderDistance''), (0x50, ''SetDefaultSpawnPosition''),
     (0x51, ''DisplayObjective''), (0x52, ''SetEntityMetadata''), (0x53, ''LinkEntities''),
     (0x54, ''SetEntityVelocity''), (0x55, ''SetEquipment''), (0x56, ''SetExperience''),
     (0x57, ''SetHealth''), (0x58, ''UpdateObjectives''), (0x59, ''SetPassengers''),
     (0x5A, ''UpdateTeams''), (0x5B, ''UpdateScore''), (0x5C, ''SetSimulationDistance''),
     (0x5D, ''SetSubtitleText''), (0x5E, ''UpdateTime''), (0x5F, ''SetTitleText''),
     (0x60, ''SetTitleAnimationTimes''), (0x61, ''EntitySoundEffect''), (0x62, ''SoundEffect''),
     (0x63, ''StopSound''), (0x64, ''SystemChatMessage''), (0x65, ''SetTabListHeaderAndFooter''),
     (0x66, ''TagQueryResponse''), (0x67, ''PickupItem''), (0x68, ''TeleportEntity''),
     (0x69, ''UpdateAdvancements''), (0x6A, ''UpdateAttributes''), (0x6B, ''FeatureFlags''),
     (0x6C, ''EntityEffect''), (0x6D, ''UpdateRecipes''), (0x6E, ''UpdateTags'')]"

definition v763_play_serverbound :: packet_table where
  "v763_play_serverbound =
    [(0x00, ''ConfirmTeleportation''), (0x01, ''QueryBlockEntityTag''), (0x02, ''ChangeDifficulty''),
     (0x03, ''MessageAcknowledgment''), (0x04, ''ChatCommand''), (0x05, ''ChatMessage''),
     (0x06, ''PlayerSession''), (0x07, ''ClientCommand''), (0x08, ''ClientInformation''),
     (0x09, ''CommandSuggestionsRequest''), (0x0A, ''ClickContainerButton''),
     (0x0B, ''ClickContainer''), (0x0C, ''CloseContainer''), (0x0D, ''PluginMessage''),
     (0x0E, ''EditBook''), (0x0F, ''QueryEntityTag''), (0x10, ''Interact''),
     (0x11, ''JigsawGenerate''), (0x12, ''KeepAlive''), (0x13, ''LockDifficulty''),
     (0x14, ''SetPlayerPosition''), (0x15, ''SetPlayerPositionandRotation''),
     (0x16, ''SetPlayerRotation''), (0x17, ''SetPlayerOnGround''), (0x18, ''MoveVehicle''),
     (0x19, ''PaddleBoat''), (0x1A, ''PickItem''), (0x1B, ''PlaceRecipe''),
     (0x1C, ''PlayerAbilities''), (0x1D, ''PlayerAction''), (0x1E, ''PlayerCommand''),
     (0x1F, ''PlayerInput''), (0x20, ''Pong''), (0x21, ''ChangeRecipeBookSettings''),
     (0x22, ''SetSeenRecipe''), (0x23, ''RenameItem''), (0x24, ''ResourcePack''),
     (0x25, ''SeenAdvancements''), (0x26, ''SelectTrade''), (0x27, ''SetBeaconEffect''),
     (0x28, ''SetHeldItem''), (0x29, ''ProgramCommandBlock''), (0x2A, ''ProgramCommandBlockMinecart''),
     (0x2B, ''SetCreativeModeSlot''), (0x2C, ''ProgramJigsawBlock''),
     (0x2D, ''ProgramStructureBlock''), (0x2E, ''UpdateSign''), (0x2F, ''SwingArm''),
     (0x30, ''TeleportToEntity''), (0x31, ''UseItemOn''), (0x32, ''UseItem'')]"

definition v763 :: protocol where
  "v763 = build_protocol_pre_1_21_2 763 v763_status v763_login
     \<lparr>clientbound = v763_play_clientbound, serverbound = v763_play_serverbound\<rparr>"

lemma v763_ok: "protocol_ok v763"
  by (rule protocol_ok_check) code_simp

end
