(* ===== verification/Versions_1_20.thy ===== *)
theory Versions_1_20
  imports Packet_Tables
begin

text \<open>
  The packet tables of Minecraft 1.20.2 to 1.21.11, the versions with a configuration state: one definition for each group of rows of
  \<open>src/protocol/versions/v*.rs\<close>, and the version the macro builds of them.  Every table is checked:
  its ids count up from zero and its names differ.
\<close>

section \<open>Version 764 (\<open>v1_20_2\<close>, \<open>v764.rs\<close>)\<close>

definition v764_status :: tables where
  "v764_status = \<lparr>
   clientbound =
    [(0x00, ''StatusResponse''), (0x01, ''PingResponse'')],
   serverbound =
    [(0x00, ''StatusRequest''), (0x01, ''PingRequest'')]\<rparr>"

definition v764_login :: tables where
  "v764_login = \<lparr>
   clientbound =
    [(0x00, ''Disconnect''), (0x01, ''EncryptionRequest''), (0x02, ''LoginSuccess''),
     (0x03, ''SetCompression''), (0x04, ''LoginPluginRequest'')],
   serverbound =
    [(0x00, ''LoginStart''), (0x01, ''EncryptionResponse''), (0x02, ''LoginPluginResponse''),
     (0x03, ''LoginAcknowledged'')]\<rparr>"

definition v764_config :: tables where
  "v764_config = \<lparr>
   clientbound =
    [(0x00, ''PluginMessage''), (0x01, ''Disconnect''), (0x02, ''FinishConfiguration''),
     (0x03, ''KeepAlive''), (0x04, ''Ping''), (0x05, ''RegistryData''), (0x06, ''ResourcePack''),
     (0x07, ''FeatureFlags''), (0x08, ''UpdateTags'')],
   serverbound =
    [(0x00, ''ClientInformation''), (0x01, ''PluginMessage''), (0x02, ''FinishConfiguration''),
     (0x03, ''KeepAlive''), (0x04, ''Pong''), (0x05, ''ResourcePackResponse'')]\<rparr>"

definition v764_play_clientbound :: packet_table where
  "v764_play_clientbound =
    [(0x00, ''BundleDelimiter''), (0x01, ''SpawnEntity''), (0x02, ''SpawnExperienceOrb''),
     (0x03, ''EntityAnimation''), (0x04, ''AwardStatistics''), (0x05, ''AcknowledgeBlockChange''),
     (0x06, ''SetBlockDestroyStage''), (0x07, ''BlockEntityData''), (0x08, ''BlockAction''),
     (0x09, ''BlockUpdate''), (0x0A, ''BossBar''), (0x0B, ''ChangeDifficulty''),
     (0x0C, ''ChunkBatchFinished''), (0x0D, ''ChunkBatchStart''), (0x0E, ''ChunkBiomes''),
     (0x0F, ''ClearTitles''), (0x10, ''CommandSuggestionsResponse''), (0x11, ''Commands''),
     (0x12, ''CloseContainer''), (0x13, ''SetContainerContent''), (0x14, ''SetContainerProperty''),
     (0x15, ''SetContainerSlot''), (0x16, ''SetCooldown''), (0x17, ''ChatSuggestions''),
     (0x18, ''PluginMessage''), (0x19, ''DamageEvent''), (0x1A, ''DeleteMessage''),
     (0x1B, ''Disconnect''), (0x1C, ''DisguisedChatMessage''), (0x1D, ''EntityEvent''),
     (0x1E, ''Explosion''), (0x1F, ''UnloadChunk''), (0x20, ''GameEvent''),
     (0x21, ''OpenHorseScreen''), (0x22, ''HurtAnimation''), (0x23, ''InitializeWorldBorder''),
     (0x24, ''KeepAlive''), (0x25, ''ChunkDataandUpdateLight''), (0x26, ''WorldEvent''),
     (0x27, ''Particle''), (0x28, ''UpdateLight''), (0x29, ''Login''), (0x2A, ''MapData''),
     (0x2B, ''MerchantOffers''), (0x2C, ''UpdateEntityPosition''),
     (0x2D, ''UpdateEntityPositionandRotation''), (0x2E, ''UpdateEntityRotation''),
     (0x2F, ''MoveVehicle''), (0x30, ''OpenBook''), (0x31, ''OpenScreen''), (0x32, ''OpenSignEditor''),
     (0x33, ''Ping''), (0x34, ''PingResponse''), (0x35, ''PlaceGhostRecipe''),
     (0x36, ''PlayerAbilities''), (0x37, ''PlayerChatMessage''), (0x38, ''EndCombat''),
     (0x39, ''EnterCombat''), (0x3A, ''CombatDeath''), (0x3B, ''PlayerInfoRemove''),
     (0x3C, ''PlayerInfoUpdate''), (0x3D, ''LookAt''), (0x3E, ''SynchronizePlayerPosition''),
     (0x3F, ''UpdateRecipeBook''), (0x40, ''RemoveEntities''), (0x41, ''RemoveEntityEffect''),
     (0x42, ''ResourcePack''), (0x43, ''Respawn''), (0x44, ''SetHeadRotation''),
     (0x45, ''UpdateSectionBlocks''), (0x46, ''SelectAdvancementsTab''), (0x47, ''ServerData''),
     (0x48, ''SetActionBarText''), (0x49, ''SetBorderCenter''), (0x4A, ''SetBorderLerpSize''),
     (0x4B, ''SetBorderSize''), (0x4C, ''SetBorderWarningDelay''),
     (0x4D, ''SetBorderWarningDistance''), (0x4E, ''SetCamera''), (0x4F, ''SetHeldItem''),
     (0x50, ''SetCenterChunk''), (0x51, ''SetRenderDistance''), (0x52, ''SetDefaultSpawnPosition''),
     (0x53, ''DisplayObjective''), (0x54, ''SetEntityMetadata''), (0x55, ''LinkEntities''),
     (0x56, ''SetEntityVelocity''), (0x57, ''SetEquipment''), (0x58, ''SetExperience''),
     (0x59, ''SetHealth''), (0x5A, ''UpdateObjectives''), (0x5B, ''SetPassengers''),
     (0x5C, ''UpdateTeams''), (0x5D, ''UpdateScore''), (0x5E, ''SetSimulationDistance''),
     (0x5F, ''SetSubtitleText''), (0x60, ''UpdateTime''), (0x61, ''SetTitleText''),
     (0x62, ''SetTitleAnimationTimes''), (0x63, ''EntitySoundEffect''), (0x64, ''SoundEffect''),
     (0x65, ''StartConfiguration''), (0x66, ''StopSound''), (0x67, ''SystemChatMessage''),
     (0x68, ''SetTabListHeaderAndFooter''), (0x69, ''TagQueryResponse''), (0x6A, ''PickupItem''),
     (0x6B, ''TeleportEntity''), (0x6C, ''UpdateAdvancements''), (0x6D, ''UpdateAttributes''),
     (0x6E, ''EntityEffect''), (0x6F, ''UpdateRecipes''), (0x70, ''UpdateTags'')]"

definition v764_play_serverbound :: packet_table where
  "v764_play_serverbound =
    [(0x00, ''ConfirmTeleportation''), (0x01, ''QueryBlockEntityTag''), (0x02, ''ChangeDifficulty''),
     (0x03, ''AcknowledgeMessage''), (0x04, ''ChatCommand''), (0x05, ''ChatMessage''),
     (0x06, ''PlayerSession''), (0x07, ''ChunkBatchReceived''), (0x08, ''ClientStatus''),
     (0x09, ''ClientInformation''), (0x0A, ''CommandSuggestionsRequest''),
     (0x0B, ''AcknowledgeConfiguration''), (0x0C, ''ClickContainerButton''),
     (0x0D, ''ClickContainer''), (0x0E, ''CloseContainer''), (0x0F, ''PluginMessage''),
     (0x10, ''EditBook''), (0x11, ''QueryEntityTag''), (0x12, ''Interact''),
     (0x13, ''JigsawGenerate''), (0x14, ''KeepAlive''), (0x15, ''LockDifficulty''),
     (0x16, ''SetPlayerPosition''), (0x17, ''SetPlayerPositionandRotation''),
     (0x18, ''SetPlayerRotation''), (0x19, ''SetPlayerOnGround''), (0x1A, ''MoveVehicle''),
     (0x1B, ''PaddleBoat''), (0x1C, ''PickItem''), (0x1D, ''PingRequest''), (0x1E, ''PlaceRecipe''),
     (0x1F, ''PlayerAbilities''), (0x20, ''PlayerAction''), (0x21, ''PlayerCommand''),
     (0x22, ''PlayerInput''), (0x23, ''Pong''), (0x24, ''ChangeRecipeBookSettings''),
     (0x25, ''SetSeenRecipe''), (0x26, ''RenameItem''), (0x27, ''ResourcePackResponse''),
     (0x28, ''SeenAdvancements''), (0x29, ''SelectTrade''), (0x2A, ''SetBeaconEffect''),
     (0x2B, ''SetHeldItem''), (0x2C, ''ProgramCommandBlock''), (0x2D, ''ProgramCommandBlockMinecart''),
     (0x2E, ''SetCreativeModeSlot''), (0x2F, ''ProgramJigsawBlock''),
     (0x30, ''ProgramStructureBlock''), (0x31, ''UpdateSign''), (0x32, ''SwingArm''),
     (0x33, ''TeleportToEntity''), (0x34, ''UseItemOn''), (0x35, ''UseItem'')]"

definition v764 :: protocol where
  "v764 = build_protocol 764 v764_status v764_login v764_config
     \<lparr>clientbound = v764_play_clientbound, serverbound = v764_play_serverbound\<rparr>"

lemma v764_ok: "protocol_ok v764"
  by (rule protocol_ok_check) code_simp

section \<open>Version 765 (\<open>v1_20_3\<close>, \<open>v765.rs\<close>)\<close>

definition v765_status :: tables where
  "v765_status = \<lparr>
   clientbound =
    [(0x00, ''StatusResponse''), (0x01, ''PingResponse'')],
   serverbound =
    [(0x00, ''StatusRequest''), (0x01, ''PingRequest'')]\<rparr>"

definition v765_login :: tables where
  "v765_login = \<lparr>
   clientbound =
    [(0x00, ''Disconnect''), (0x01, ''EncryptionRequest''), (0x02, ''LoginSuccess''),
     (0x03, ''SetCompression''), (0x04, ''LoginPluginRequest'')],
   serverbound =
    [(0x00, ''LoginStart''), (0x01, ''EncryptionResponse''), (0x02, ''LoginPluginResponse''),
     (0x03, ''LoginAcknowledged'')]\<rparr>"

definition v765_config :: tables where
  "v765_config = \<lparr>
   clientbound =
    [(0x00, ''PluginMessage''), (0x01, ''Disconnect''), (0x02, ''FinishConfiguration''),
     (0x03, ''KeepAlive''), (0x04, ''Ping''), (0x05, ''RegistryData''), (0x06, ''RemoveResourcePack''),
     (0x07, ''AddResourcePack''), (0x08, ''FeatureFlags''), (0x09, ''UpdateTags'')],
   serverbound =
    [(0x00, ''ClientInformation''), (0x01, ''PluginMessage''), (0x02, ''FinishConfiguration''),
     (0x03, ''KeepAlive''), (0x04, ''Pong''), (0x05, ''ResourcePackResponse'')]\<rparr>"

definition v765_play_clientbound :: packet_table where
  "v765_play_clientbound =
    [(0x00, ''BundleDelimiter''), (0x01, ''SpawnEntity''), (0x02, ''SpawnExperienceOrb''),
     (0x03, ''EntityAnimation''), (0x04, ''AwardStatistics''), (0x05, ''AcknowledgeBlockChange''),
     (0x06, ''SetBlockDestroyStage''), (0x07, ''BlockEntityData''), (0x08, ''BlockAction''),
     (0x09, ''BlockUpdate''), (0x0A, ''BossBar''), (0x0B, ''ChangeDifficulty''),
     (0x0C, ''ChunkBatchFinished''), (0x0D, ''ChunkBatchStart''), (0x0E, ''ChunkBiomes''),
     (0x0F, ''ClearTitles''), (0x10, ''CommandSuggestionsResponse''), (0x11, ''Commands''),
     (0x12, ''CloseContainer''), (0x13, ''SetContainerContent''), (0x14, ''SetContainerProperty''),
     (0x15, ''SetContainerSlot''), (0x16, ''SetCooldown''), (0x17, ''ChatSuggestions''),
     (0x18, ''PluginMessage''), (0x19, ''DamageEvent''), (0x1A, ''DeleteMessage''),
     (0x1B, ''Disconnect''), (0x1C, ''DisguisedChatMessage''), (0x1D, ''EntityEvent''),
     (0x1E, ''Explosion''), (0x1F, ''UnloadChunk''), (0x20, ''GameEvent''),
     (0x21, ''OpenHorseScreen''), (0x22, ''HurtAnimation''), (0x23, ''InitializeWorldBorder''),
     (0x24, ''KeepAlive''), (0x25, ''ChunkDataandUpdateLight''), (0x26, ''WorldEvent''),
     (0x27, ''Particle''), (0x28, ''UpdateLight''), (0x29, ''Login''), (0x2A, ''MapData''),
     (0x2B, ''MerchantOffers''), (0x2C, ''UpdateEntityPosition''),
     (0x2D, ''UpdateEntityPositionandRotation''), (0x2E, ''UpdateEntityRotation''),
     (0x2F, ''MoveVehicle''), (0x30, ''OpenBook''), (0x31, ''OpenScreen''), (0x32, ''OpenSignEditor''),
     (0x33, ''Ping''), (0x34, ''PingResponse''), (0x35, ''PlaceGhostRecipe''),
     (0x36, ''PlayerAbilities''), (0x37, ''PlayerChatMessage''), (0x38, ''EndCombat''),
     (0x39, ''EnterCombat''), (0x3A, ''CombatDeath''), (0x3B, ''PlayerInfoRemove''),
     (0x3C, ''PlayerInfoUpdate''), (0x3D, ''LookAt''), (0x3E, ''SynchronizePlayerPosition''),
     (0x3F, ''UpdateRecipeBook''), (0x40, ''RemoveEntities''), (0x41, ''RemoveEntityEffect''),
     (0x42, ''ResetScore''), (0x43, ''RemoveResourcePack''), (0x44, ''AddResourcePack''),
     (0x45, ''Respawn''), (0x46, ''SetHeadRotation''), (0x47, ''UpdateSectionBlocks''),
     (0x48, ''SelectAdvancementsTab''), (0x49, ''ServerData''), (0x4A, ''SetActionBarText''),
     (0x4B, ''SetBorderCenter''), (0x4C, ''SetBorderLerpSize''), (0x4D, ''SetBorderSize''),
     (0x4E, ''SetBorderWarningDelay''), (0x4F, ''SetBorderWarningDistance''), (0x50, ''SetCamera''),
     (0x51, ''SetHeldItem''), (0x52, ''SetCenterChunk''), (0x53, ''SetRenderDistance''),
     (0x54, ''SetDefaultSpawnPosition''), (0x55, ''DisplayObjective''), (0x56, ''SetEntityMetadata''),
     (0x57, ''LinkEntities''), (0x58, ''SetEntityVelocity''), (0x59, ''SetEquipment''),
     (0x5A, ''SetExperience''), (0x5B, ''SetHealth''), (0x5C, ''UpdateObjectives''),
     (0x5D, ''SetPassengers''), (0x5E, ''UpdateTeams''), (0x5F, ''UpdateScore''),
     (0x60, ''SetSimulationDistance''), (0x61, ''SetSubtitleText''), (0x62, ''UpdateTime''),
     (0x63, ''SetTitleText''), (0x64, ''SetTitleAnimationTimes''), (0x65, ''EntitySoundEffect''),
     (0x66, ''SoundEffect''), (0x67, ''StartConfiguration''), (0x68, ''StopSound''),
     (0x69, ''SystemChatMessage''), (0x6A, ''SetTabListHeaderAndFooter''),
     (0x6B, ''TagQueryResponse''), (0x6C, ''PickupItem''), (0x6D, ''TeleportEntity''),
     (0x6E, ''SetTickingState''), (0x6F, ''StepTick''), (0x70, ''UpdateAdvancements''),
     (0x71, ''UpdateAttributes''), (0x72, ''EntityEffect''), (0x73, ''UpdateRecipes''),
     (0x74, ''UpdateTags'')]"

definition v765_play_serverbound :: packet_table where
  "v765_play_serverbound =
    [(0x00, ''ConfirmTeleportation''), (0x01, ''QueryBlockEntityTag''), (0x02, ''ChangeDifficulty''),
     (0x03, ''AcknowledgeMessage''), (0x04, ''ChatCommand''), (0x05, ''ChatMessage''),
     (0x06, ''PlayerSession''), (0x07, ''ChunkBatchReceived''), (0x08, ''ClientStatus''),
     (0x09, ''ClientInformation''), (0x0A, ''CommandSuggestionsRequest''),
     (0x0B, ''AcknowledgeConfiguration''), (0x0C, ''ClickContainerButton''),
     (0x0D, ''ClickContainer''), (0x0E, ''CloseContainer''), (0x0F, ''ChangeContainerSlotState''),
     (0x10, ''PluginMessage''), (0x11, ''EditBook''), (0x12, ''QueryEntityTag''), (0x13, ''Interact''),
     (0x14, ''JigsawGenerate''), (0x15, ''KeepAlive''), (0x16, ''LockDifficulty''),
     (0x17, ''SetPlayerPosition''), (0x18, ''SetPlayerPositionandRotation''),
     (0x19, ''SetPlayerRotation''), (0x1A, ''SetPlayerOnGround''), (0x1B, ''MoveVehicle''),
     (0x1C, ''PaddleBoat''), (0x1D, ''PickItem''), (0x1E, ''PingRequest''), (0x1F, ''PlaceRecipe''),
     (0x20, ''PlayerAbilities''), (0x21, ''PlayerAction''), (0x22, ''PlayerCommand''),
     (0x23, ''PlayerInput''), (0x24, ''Pong''), (0x25, ''ChangeRecipeBookSettings''),
     (0x26, ''SetSeenRecipe''), (0x27, ''RenameItem''), (0x28, ''ResourcePackResponse''),
     (0x29, ''SeenAdvancements''), (0x2A, ''SelectTrade''), (0x2B, ''SetBeaconEffect''),
     (0x2C, ''SetHeldItem''), (0x2D, ''ProgramCommandBlock''), (0x2E, ''ProgramCommandBlockMinecart''),
     (0x2F, ''SetCreativeModeSlot''), (0x30, ''ProgramJigsawBlock''),
     (0x31, ''ProgramStructureBlock''), (0x32, ''UpdateSign''), (0x33, ''SwingArm''),
     (0x34, ''TeleportToEntity''), (0x35, ''UseItemOn''), (0x36, ''UseItem'')]"

definition v765 :: protocol where
  "v765 = build_protocol 765 v765_status v765_login v765_config
     \<lparr>clientbound = v765_play_clientbound, serverbound = v765_play_serverbound\<rparr>"

lemma v765_ok: "protocol_ok v765"
  by (rule protocol_ok_check) code_simp

section \<open>Version 766 (\<open>v1_20_5\<close>, \<open>v766.rs\<close>)\<close>

definition v766_status :: tables where
  "v766_status = \<lparr>
   clientbound =
    [(0x00, ''StatusResponse''), (0x01, ''PingResponse'')],
   serverbound =
    [(0x00, ''StatusRequest''), (0x01, ''PingRequest'')]\<rparr>"

definition v766_login :: tables where
  "v766_login = \<lparr>
   clientbound =
    [(0x00, ''Disconnect''), (0x01, ''EncryptionRequest''), (0x02, ''LoginSuccess''),
     (0x03, ''SetCompression''), (0x04, ''LoginPluginRequest''), (0x05, ''CookieRequest'')],
   serverbound =
    [(0x00, ''LoginStart''), (0x01, ''EncryptionResponse''), (0x02, ''LoginPluginResponse''),
     (0x03, ''LoginAcknowledged''), (0x04, ''CookieResponse'')]\<rparr>"

definition v766_config :: tables where
  "v766_config = \<lparr>
   clientbound =
    [(0x00, ''CookieRequest''), (0x01, ''PluginMessage''), (0x02, ''Disconnect''),
     (0x03, ''FinishConfiguration''), (0x04, ''KeepAlive''), (0x05, ''Ping''), (0x06, ''ResetChat''),
     (0x07, ''RegistryData''), (0x08, ''RemoveResourcePack''), (0x09, ''AddResourcePack''),
     (0x0A, ''StoreCookie''), (0x0B, ''Transfer''), (0x0C, ''FeatureFlags''), (0x0D, ''UpdateTags''),
     (0x0E, ''KnownPacks'')],
   serverbound =
    [(0x00, ''ClientInformation''), (0x01, ''CookieResponse''), (0x02, ''PluginMessage''),
     (0x03, ''AcknowledgeFinishConfiguration''), (0x04, ''KeepAlive''), (0x05, ''Pong''),
     (0x06, ''ResourcePackResponse''), (0x07, ''KnownPacks'')]\<rparr>"

definition v766_play_clientbound :: packet_table where
  "v766_play_clientbound =
    [(0x00, ''BundleDelimiter''), (0x01, ''SpawnEntity''), (0x02, ''SpawnExperienceOrb''),
     (0x03, ''EntityAnimation''), (0x04, ''AwardStatistics''), (0x05, ''AcknowledgeBlockChange''),
     (0x06, ''SetBlockDestroyStage''), (0x07, ''BlockEntityData''), (0x08, ''BlockAction''),
     (0x09, ''BlockUpdate''), (0x0A, ''BossBar''), (0x0B, ''ChangeDifficulty''),
     (0x0C, ''ChunkBatchFinished''), (0x0D, ''ChunkBatchStart''), (0x0E, ''ChunkBiomes''),
     (0x0F, ''ClearTitles''), (0x10, ''CommandSuggestionsResponse''), (0x11, ''Commands''),
     (0x12, ''CloseContainer''), (0x13, ''SetContainerContent''), (0x14, ''SetContainerProperty''),
     (0x15, ''SetContainerSlot''), (0x16, ''CookieRequest''), (0x17, ''SetCooldown''),
     (0x18, ''ChatSuggestions''), (0x19, ''PluginMessage''), (0x1A, ''DamageEvent''),
     (0x1B, ''DebugSample''), (0x1C, ''DeleteMessage''), (0x1D, ''Disconnect''),
     (0x1E, ''DisguisedChatMessage''), (0x1F, ''EntityEvent''), (0x20, ''Explosion''),
     (0x21, ''UnloadChunk''), (0x22, ''GameEvent''), (0x23, ''OpenHorseScreen''),
     (0x24, ''HurtAnimation''), (0x25, ''InitializeWorldBorder''), (0x26, ''KeepAlive''),
     (0x27, ''ChunkDataandUpdateLight''), (0x28, ''WorldEvent''), (0x29, ''Particle''),
     (0x2A, ''UpdateLight''), (0x2B, ''Login''), (0x2C, ''MapData''), (0x2D, ''MerchantOffers''),
     (0x2E, ''UpdateEntityPosition''), (0x2F, ''UpdateEntityPositionandRotation''),
     (0x30, ''UpdateEntityRotation''), (0x31, ''MoveVehicle''), (0x32, ''OpenBook''),
     (0x33, ''OpenScreen''), (0x34, ''OpenSignEditor''), (0x35, ''Ping''), (0x36, ''PingResponse''),
     (0x37, ''PlaceGhostRecipe''), (0x38, ''PlayerAbilities''), (0x39, ''PlayerChatMessage''),
     (0x3A, ''EndCombat''), (0x3B, ''EnterCombat''), (0x3C, ''CombatDeath''),
     (0x3D, ''PlayerInfoRemove''), (0x3E, ''PlayerInfoUpdate''), (0x3F, ''LookAt''),
     (0x40, ''SynchronizePlayerPosition''), (0x41, ''UpdateRecipeBook''), (0x42, ''RemoveEntities''),
     (0x43, ''RemoveEntityEffect''), (0x44, ''ResetScore''), (0x45, ''RemoveResourcePack''),
     (0x46, ''AddResourcePack''), (0x47, ''Respawn''), (0x48, ''SetHeadRotation''),
     (0x49, ''UpdateSectionBlocks''), (0x4A, ''SelectAdvancementsTab''), (0x4B, ''ServerData''),
     (0x4C, ''SetActionBarText''), (0x4D, ''SetBorderCenter''), (0x4E, ''SetBorderLerpSize''),
     (0x4F, ''SetBorderSize''), (0x50, ''SetBorderWarningDelay''),
     (0x51, ''SetBorderWarningDistance''), (0x52, ''SetCamera''), (0x53, ''SetHeldItem''),
     (0x54, ''SetCenterChunk''), (0x55, ''SetRenderDistance''), (0x56, ''SetDefaultSpawnPosition''),
     (0x57, ''DisplayObjective''), (0x58, ''SetEntityMetadata''), (0x59, ''LinkEntities''),
     (0x5A, ''SetEntityVelocity''), (0x5B, ''SetEquipment''), (0x5C, ''SetExperience''),
     (0x5D, ''SetHealth''), (0x5E, ''UpdateObjectives''), (0x5F, ''SetPassengers''),
     (0x60, ''UpdateTeams''), (0x61, ''UpdateScore''), (0x62, ''SetSimulationDistance''),
     (0x63, ''SetSubtitleText''), (0x64, ''UpdateTime''), (0x65, ''SetTitleText''),
     (0x66, ''SetTitleAnimationTimes''), (0x67, ''EntitySoundEffect''), (0x68, ''SoundEffect''),
     (0x69, ''StartConfiguration''), (0x6A, ''StopSound''), (0x6B, ''StoreCookie''),
     (0x6C, ''SystemChatMessage''), (0x6D, ''SetTabListHeaderAndFooter''),
     (0x6E, ''TagQueryResponse''), (0x6F, ''PickupItem''), (0x70, ''TeleportEntity''),
     (0x71, ''SetTickingState''), (0x72, ''StepTick''), (0x73, ''Transfer''),
     (0x74, ''UpdateAdvancements''), (0x75, ''UpdateAttributes''), (0x76, ''EntityEffect''),
     (0x77, ''UpdateRecipes''), (0x78, ''UpdateTags''), (0x79, ''ProjectilePower'')]"

definition v766_play_serverbound :: packet_table where
  "v766_play_serverbound =
    [(0x00, ''ConfirmTeleportation''), (0x01, ''QueryBlockEntityTag''), (0x02, ''ChangeDifficulty''),
     (0x03, ''AcknowledgeMessage''), (0x04, ''ChatCommand''), (0x05, ''SignedChatCommand''),
     (0x06, ''ChatMessage''), (0x07, ''PlayerSession''), (0x08, ''ChunkBatchReceived''),
     (0x09, ''ClientStatus''), (0x0A, ''ClientInformation''), (0x0B, ''CommandSuggestionsRequest''),
     (0x0C, ''AcknowledgeConfiguration''), (0x0D, ''ClickContainerButton''),
     (0x0E, ''ClickContainer''), (0x0F, ''CloseContainer''), (0x10, ''ChangeContainerSlotState''),
     (0x11, ''CookieResponse''), (0x12, ''PluginMessage''), (0x13, ''DebugSampleSubscription''),
     (0x14, ''EditBook''), (0x15, ''QueryEntityTag''), (0x16, ''Interact''),
     (0x17, ''JigsawGenerate''), (0x18, ''KeepAlive''), (0x19, ''LockDifficulty''),
     (0x1A, ''SetPlayerPosition''), (0x1B, ''SetPlayerPositionandRotation''),
     (0x1C, ''SetPlayerRotation''), (0x1D, ''SetPlayerOnGround''), (0x1E, ''MoveVehicle''),
     (0x1F, ''PaddleBoat''), (0x20, ''PickItem''), (0x21, ''PingRequest''), (0x22, ''PlaceRecipe''),
     (0x23, ''PlayerAbilities''), (0x24, ''PlayerAction''), (0x25, ''PlayerCommand''),
     (0x26, ''PlayerInput''), (0x27, ''Pong''), (0x28, ''ChangeRecipeBookSettings''),
     (0x29, ''SetSeenRecipe''), (0x2A, ''RenameItem''), (0x2B, ''ResourcePackResponse''),
     (0x2C, ''SeenAdvancements''), (0x2D, ''SelectTrade''), (0x2E, ''SetBeaconEffect''),
     (0x2F, ''SetHeldItem''), (0x30, ''ProgramCommandBlock''), (0x31, ''ProgramCommandBlockMinecart''),
     (0x32, ''SetCreativeModeSlot''), (0x33, ''ProgramJigsawBlock''),
     (0x34, ''ProgramStructureBlock''), (0x35, ''UpdateSign''), (0x36, ''SwingArm''),
     (0x37, ''TeleportToEntity''), (0x38, ''UseItemOn''), (0x39, ''UseItem'')]"

definition v766 :: protocol where
  "v766 = build_protocol 766 v766_status v766_login v766_config
     \<lparr>clientbound = v766_play_clientbound, serverbound = v766_play_serverbound\<rparr>"

lemma v766_ok: "protocol_ok v766"
  by (rule protocol_ok_check) code_simp

section \<open>Version 767 (\<open>v1_21_0\<close>, \<open>v767.rs\<close>)\<close>

definition v767_status :: tables where
  "v767_status = \<lparr>
   clientbound =
    [(0x00, ''StatusResponse''), (0x01, ''PongResponse'')],
   serverbound =
    [(0x00, ''StatusRequest''), (0x01, ''PingRequest'')]\<rparr>"

definition v767_login :: tables where
  "v767_login = \<lparr>
   clientbound =
    [(0x00, ''Disconnect''), (0x01, ''EncryptionRequest''), (0x02, ''LoginSuccess''),
     (0x03, ''SetCompression''), (0x04, ''LoginPluginRequest''), (0x05, ''CookieRequest'')],
   serverbound =
    [(0x00, ''LoginStart''), (0x01, ''EncryptionResponse''), (0x02, ''LoginPluginResponse''),
     (0x03, ''LoginAcknowledged''), (0x04, ''CookieResponse'')]\<rparr>"

definition v767_config :: tables where
  "v767_config = \<lparr>
   clientbound =
    [(0x00, ''CookieRequest''), (0x01, ''PluginMessage''), (0x02, ''Disconnect''),
     (0x03, ''FinishConfiguration''), (0x04, ''KeepAlive''), (0x05, ''Ping''), (0x06, ''ResetChat''),
     (0x07, ''RegistryData''), (0x08, ''RemoveResourcePack''), (0x09, ''AddResourcePack''),
     (0x0A, ''StoreCookie''), (0x0B, ''Transfer''), (0x0C, ''FeatureFlags''), (0x0D, ''UpdateTags''),
     (0x0E, ''KnownPacks''), (0x0F, ''CustomReportDetails''), (0x10, ''ServerLinks'')],
   serverbound =
    [(0x00, ''ClientInformation''), (0x01, ''CookieResponse''), (0x02, ''PluginMessage''),
     (0x03, ''AcknowledgeFinishConfiguration''), (0x04, ''KeepAlive''), (0x05, ''Pong''),
     (0x06, ''ResourcePackResponse''), (0x07, ''KnownPacks'')]\<rparr>"

definition v767_play_clientbound :: packet_table where
  "v767_play_clientbound =
    [(0x00, ''BundleDelimiter''), (0x01, ''SpawnEntity''), (0x02, ''SpawnExperienceOrb''),
     (0x03, ''EntityAnimation''), (0x04, ''AwardStatistics''), (0x05, ''AcknowledgeBlockChange''),
     (0x06, ''SetBlockDestroyStage''), (0x07, ''BlockEntityData''), (0x08, ''BlockAction''),
     (0x09, ''BlockUpdate''), (0x0A, ''BossBar''), (0x0B, ''ChangeDifficulty''),
     (0x0C, ''ChunkBatchFinished''), (0x0D, ''ChunkBatchStart''), (0x0E, ''ChunkBiomes''),
     (0x0F, ''ClearTitles''), (0x10, ''CommandSuggestionsResponse''), (0x11, ''Commands''),
     (0x12, ''CloseContainer''), (0x13, ''SetContainerContent''), (0x14, ''SetContainerProperty''),
     (0x15, ''SetContainerSlot''), (0x16, ''CookieRequest''), (0x17, ''SetCooldown''),
     (0x18, ''ChatSuggestions''), (0x19, ''PluginMessage''), (0x1A, ''DamageEvent''),
     (0x1B, ''DebugSample''), (0x1C, ''DeleteMessage''), (0x1D, ''Disconnect''),
     (0x1E, ''DisguisedChatMessage''), (0x1F, ''EntityEvent''), (0x20, ''Explosion''),
     (0x21, ''UnloadChunk''), (0x22, ''GameEvent''), (0x23, ''OpenHorseScreen''),
     (0x24, ''HurtAnimation''), (0x25, ''InitializeWorldBorder''), (0x26, ''KeepAlive''),
     (0x27, ''ChunkDataandUpdateLight''), (0x28, ''WorldEvent''), (0x29, ''Particle''),
     (0x2A, ''UpdateLight''), (0x2B, ''Login''), (0x2C, ''MapData''), (0x2D, ''MerchantOffers''),
     (0x2E, ''UpdateEntityPosition''), (0x2F, ''UpdateEntityPositionandRotation''),
     (0x30, ''UpdateEntityRotation''), (0x31, ''MoveVehicle''), (0x32, ''OpenBook''),
     (0x33, ''OpenScreen''), (0x34, ''OpenSignEditor''), (0x35, ''Ping''), (0x36, ''PingResponse''),
     (0x37, ''PlaceGhostRecipe''), (0x38, ''PlayerAbilities''), (0x39, ''PlayerChatMessage''),
     (0x3A, ''EndCombat''), (0x3B, ''EnterCombat''), (0x3C, ''CombatDeath''),
     (0x3D, ''PlayerInfoRemove''), (0x3E, ''PlayerInfoUpdate''), (0x3F, ''LookAt''),
     (0x40, ''SynchronizePlayerPosition''), (0x41, ''UpdateRecipeBook''), (0x42, ''RemoveEntities''),
     (0x43, ''RemoveEntityEffect''), (0x44, ''ResetScore''), (0x45, ''RemoveResourcePack''),
     (0x46, ''AddResourcePack''), (0x47, ''Respawn''), (0x48, ''SetHeadRotation''),
     (0x49, ''UpdateSectionBlocks''), (0x4A, ''SelectAdvancementsTab''), (0x4B, ''ServerData''),
     (0x4C, ''SetActionBarText''), (0x4D, ''SetBorderCenter''), (0x4E, ''SetBorderLerpSize''),
     (0x4F, ''SetBorderSize''), (0x50, ''SetBorderWarningDelay''),
     (0x51, ''SetBorderWarningDistance''), (0x52, ''SetCamera''), (0x53, ''SetHeldItem''),
     (0x54, ''SetCenterChunk''), (0x55, ''SetRenderDistance''), (0x56, ''SetDefaultSpawnPosition''),
     (0x57, ''DisplayObjective''), (0x58, ''SetEntityMetadata''), (0x59, ''LinkEntities''),
     (0x5A, ''SetEntityVelocity''), (0x5B, ''SetEquipment''), (0x5C, ''SetExperience''),
     (0x5D, ''SetHealth''), (0x5E, ''UpdateObjectives''), (0x5F, ''SetPassengers''),
     (0x60, ''UpdateTeams''), (0x61, ''UpdateScore''), (0x62, ''SetSimulationDistance''),
     (0x63, ''SetSubtitleText''), (0x64, ''UpdateTime''), (0x65, ''SetTitleText''),
     (0x66, ''SetTitleAnimationTimes''), (0x67, ''EntitySoundEffect''), (0x68, ''SoundEffect''),
     (0x69, ''StartConfiguration''), (0x6A, ''StopSound''), (0x6B, ''StoreCookie''),
     (0x6C, ''SystemChatMessage''), (0x6D, ''SetTabListHeaderAndFooter''),
     (0x6E, ''TagQueryResponse''), (0x6F, ''PickupItem''), (0x70, ''TeleportEntity''),
     (0x71, ''SetTickingState''), (0x72, ''StepTick''), (0x73, ''Transfer''),
     (0x74, ''UpdateAdvancements''), (0x75, ''UpdateAttributes''), (0x76, ''EntityEffect''),
     (0x77, ''UpdateRecipes''), (0x78, ''UpdateTags''), (0x79, ''ProjectilePower''),
     (0x7A, ''CustomReportDetails''), (0x7B, ''ServerLinks'')]"

definition v767_play_serverbound :: packet_table where
  "v767_play_serverbound =
    [(0x00, ''ConfirmTeleportation''), (0x01, ''QueryBlockEntityTag''), (0x02, ''ChangeDifficulty''),
     (0x03, ''AcknowledgeMessage''), (0x04, ''ChatCommand''), (0x05, ''SignedChatCommand''),
     (0x06, ''ChatMessage''), (0x07, ''PlayerSession''), (0x08, ''ChunkBatchReceived''),
     (0x09, ''ClientStatus''), (0x0A, ''ClientInformation''), (0x0B, ''CommandSuggestionsRequest''),
     (0x0C, ''AcknowledgeConfiguration''), (0x0D, ''ClickContainerButton''),
     (0x0E, ''ClickContainer''), (0x0F, ''CloseContainer''), (0x10, ''ChangeContainerSlotState''),
     (0x11, ''CookieResponse''), (0x12, ''PluginMessage''), (0x13, ''DebugSampleSubscription''),
     (0x14, ''EditBook''), (0x15, ''QueryEntityTag''), (0x16, ''Interact''),
     (0x17, ''JigsawGenerate''), (0x18, ''KeepAlive''), (0x19, ''LockDifficulty''),
     (0x1A, ''SetPlayerPosition''), (0x1B, ''SetPlayerPositionandRotation''),
     (0x1C, ''SetPlayerRotation''), (0x1D, ''SetPlayerOnGround''), (0x1E, ''MoveVehicle''),
     (0x1F, ''PaddleBoat''), (0x20, ''PickItem''), (0x21, ''PingRequest''), (0x22, ''PlaceRecipe''),
     (0x23, ''PlayerAbilities''), (0x24, ''PlayerAction''), (0x25, ''PlayerCommand''),
     (0x26, ''PlayerInput''), (0x27, ''Pong''), (0x28, ''ChangeRecipeBookSettings''),
     (0x29, ''SetSeenRecipe''), (0x2A, ''RenameItem''), (0x2B, ''ResourcePackResponse''),
     (0x2C, ''SeenAdvancements''), (0x2D, ''SelectTrade''), (0x2E, ''SetBeaconEffect''),
     (0x2F, ''SetHeldItem''), (0x30, ''ProgramCommandBlock''), (0x31, ''ProgramCommandBlockMinecart''),
     (0x32, ''SetCreativeModeSlot''), (0x33, ''ProgramJigsawBlock''),
     (0x34, ''ProgramStructureBlock''), (0x35, ''UpdateSign''), (0x36, ''SwingArm''),
     (0x37, ''TeleportToEntity''), (0x38, ''UseItemOn''), (0x39, ''UseItem'')]"

definition v767 :: protocol where
  "v767 = build_protocol 767 v767_status v767_login v767_config
     \<lparr>clientbound = v767_play_clientbound, serverbound = v767_play_serverbound\<rparr>"

lemma v767_ok: "protocol_ok v767"
  by (rule protocol_ok_check) code_simp

section \<open>Version 769 (\<open>v1_21_4\<close>, \<open>v769.rs\<close>)\<close>

definition v769_status :: tables where
  "v769_status = \<lparr>
   clientbound =
    [(0x00, ''StatusResponse''), (0x01, ''PongResponse'')],
   serverbound =
    [(0x00, ''StatusRequest''), (0x01, ''PingRequest'')]\<rparr>"

definition v769_login :: tables where
  "v769_login = \<lparr>
   clientbound =
    [(0x00, ''Disconnect''), (0x01, ''EncryptionRequest''), (0x02, ''LoginSuccess''),
     (0x03, ''SetCompression''), (0x04, ''LoginPluginRequest''), (0x05, ''CookieRequest'')],
   serverbound =
    [(0x00, ''LoginStart''), (0x01, ''EncryptionResponse''), (0x02, ''LoginPluginResponse''),
     (0x03, ''LoginAcknowledged''), (0x04, ''CookieResponse'')]\<rparr>"

definition v769_config :: tables where
  "v769_config = \<lparr>
   clientbound =
    [(0x00, ''CookieRequest''), (0x01, ''PluginMessage''), (0x02, ''Disconnect''),
     (0x03, ''FinishConfiguration''), (0x04, ''KeepAlive''), (0x05, ''Ping''), (0x06, ''ResetChat''),
     (0x07, ''RegistryData''), (0x08, ''RemoveResourcePack''), (0x09, ''AddResourcePack''),
     (0x0A, ''StoreCookie''), (0x0B, ''Transfer''), (0x0C, ''FeatureFlags''), (0x0D, ''UpdateTags''),
     (0x0E, ''KnownPacks''), (0x0F, ''CustomReportDetails''), (0x10, ''ServerLinks'')],
   serverbound =
    [(0x00, ''ClientInformation''), (0x01, ''CookieResponse''), (0x02, ''PluginMessage''),
     (0x03, ''AcknowledgeFinishConfiguration''), (0x04, ''KeepAlive''), (0x05, ''Pong''),
     (0x06, ''ResourcePackResponse''), (0x07, ''KnownPacks'')]\<rparr>"

definition v769_play_clientbound :: packet_table where
  "v769_play_clientbound =
    [(0x00, ''BundleDelimiter''), (0x01, ''SpawnEntity''), (0x02, ''SpawnExperienceOrb''),
     (0x03, ''EntityAnimation''), (0x04, ''AwardStatistics''), (0x05, ''AcknowledgeBlockChange''),
     (0x06, ''SetBlockDestroyStage''), (0x07, ''BlockEntityData''), (0x08, ''BlockAction''),
     (0x09, ''BlockUpdate''), (0x0A, ''BossBar''), (0x0B, ''ChangeDifficulty''),
     (0x0C, ''ChunkBatchFinished''), (0x0D, ''ChunkBatchStart''), (0x0E, ''ChunkBiomes''),
     (0x0F, ''ClearTitles''), (0x10, ''CommandSuggestionsResponse''), (0x11, ''Commands''),
     (0x12, ''CloseContainer''), (0x13, ''SetContainerContent''), (0x14, ''SetContainerProperty''),
     (0x15, ''SetContainerSlot''), (0x16, ''CookieRequest''), (0x17, ''SetCooldown''),
     (0x18, ''ChatSuggestions''), (0x19, ''PluginMessage''), (0x1A, ''DamageEvent''),
     (0x1B, ''DebugSample''), (0x1C, ''DeleteMessage''), (0x1D, ''Disconnect''),
     (0x1E, ''DisguisedChatMessage''), (0x1F, ''EntityEvent''), (0x20, ''TeleportEntity''),
     (0x21, ''Explosion''), (0x22, ''UnloadChunk''), (0x23, ''GameEvent''),
     (0x24, ''OpenHorseScreen''), (0x25, ''HurtAnimation''), (0x26, ''InitializeWorldBorder''),
     (0x27, ''KeepAlive''), (0x28, ''ChunkDataandUpdateLight''), (0x29, ''WorldEvent''),
     (0x2A, ''Particle''), (0x2B, ''UpdateLight''), (0x2C, ''Login''), (0x2D, ''MapData''),
     (0x2E, ''MerchantOffers''), (0x2F, ''UpdateEntityPosition''),
     (0x30, ''UpdateEntityPositionandRotation''), (0x31, ''MoveMinecartAlongTrack''),
     (0x32, ''UpdateEntityRotation''), (0x33, ''MoveVehicle''), (0x34, ''OpenBook''),
     (0x35, ''OpenScreen''), (0x36, ''OpenSignEditor''), (0x37, ''Ping''), (0x38, ''PingResponse''),
     (0x39, ''PlaceGhostRecipe''), (0x3A, ''PlayerAbilities''), (0x3B, ''PlayerChatMessage''),
     (0x3C, ''EndCombat''), (0x3D, ''EnterCombat''), (0x3E, ''CombatDeath''),
     (0x3F, ''PlayerInfoRemove''), (0x40, ''PlayerInfoUpdate''), (0x41, ''LookAt''),
     (0x42, ''SynchronizePlayerPosition''), (0x43, ''PlayerRotation''), (0x44, ''RecipeBookAdd''),
     (0x45, ''RecipeBookRemove''), (0x46, ''RecipeBookSettings''), (0x47, ''RemoveEntities''),
     (0x48, ''RemoveEntityEffect''), (0x49, ''ResetScore''), (0x4A, ''RemoveResourcePack''),
     (0x4B, ''AddResourcePack''), (0x4C, ''Respawn''), (0x4D, ''SetHeadRotation''),
     (0x4E, ''UpdateSectionBlocks''), (0x4F, ''SelectAdvancementsTab''), (0x50, ''ServerData''),
     (0x51, ''SetActionBarText''), (0x52, ''SetBorderCenter''), (0x53, ''SetBorderLerpSize''),
     (0x54, ''SetBorderSize''), (0x55, ''SetBorderWarningDelay''),
     (0x56, ''SetBorderWarningDistance''), (0x57, ''SetCamera''), (0x58, ''SetCenterChunk''),
     (0x59, ''SetRenderDistance''), (0x5A, ''SetCursorItem''), (0x5B, ''SetDefaultSpawnPosition''),
     (0x5C, ''DisplayObjective''), (0x5D, ''SetEntityMetadata''), (0x5E, ''LinkEntities''),
     (0x5F, ''SetEntityVelocity''), (0x60, ''SetEquipment''), (0x61, ''SetExperience''),
     (0x62, ''SetHealth''), (0x63, ''SetHeldItem''), (0x64, ''UpdateObjectives''),
     (0x65, ''SetPassengers''), (0x66, ''SetPlayerInventorySlot''), (0x67, ''UpdateTeams''),
     (0x68, ''UpdateScore''), (0x69, ''SetSimulationDistance''), (0x6A, ''SetSubtitleText''),
     (0x6B, ''UpdateTime''), (0x6C, ''SetTitleText''), (0x6D, ''SetTitleAnimationTimes''),
     (0x6E, ''EntitySoundEffect''), (0x6F, ''SoundEffect''), (0x70, ''StartConfiguration''),
     (0x71, ''StopSound''), (0x72, ''StoreCookie''), (0x73, ''SystemChatMessage''),
     (0x74, ''SetTabListHeaderAndFooter''), (0x75, ''TagQueryResponse''), (0x76, ''PickupItem''),
     (0x77, ''SynchronizeVehiclePosition''), (0x78, ''SetTickingState''), (0x79, ''StepTick''),
     (0x7A, ''Transfer''), (0x7B, ''UpdateAdvancements''), (0x7C, ''UpdateAttributes''),
     (0x7D, ''EntityEffect''), (0x7E, ''UpdateRecipes''), (0x7F, ''UpdateTags''),
     (0x80, ''ProjectilePower''), (0x81, ''CustomReportDetails''), (0x82, ''ServerLinks'')]"

definition v769_play_serverbound :: packet_table where
  "v769_play_serverbound =
    [(0x00, ''ConfirmTeleportation''), (0x01, ''QueryBlockEntityTag''), (0x02, ''BundleItemSelected''),
     (0x03, ''ChangeDifficulty''), (0x04, ''AcknowledgeMessage''), (0x05, ''ChatCommand''),
     (0x06, ''SignedChatCommand''), (0x07, ''ChatMessage''), (0x08, ''PlayerSession''),
     (0x09, ''ChunkBatchReceived''), (0x0A, ''ClientStatus''), (0x0B, ''ClientTickEnd''),
     (0x0C, ''ClientInformation''), (0x0D, ''CommandSuggestionsRequest''),
     (0x0E, ''AcknowledgeConfiguration''), (0x0F, ''ClickContainerButton''),
     (0x10, ''ClickContainer''), (0x11, ''CloseContainer''), (0x12, ''ChangeContainerSlotState''),
     (0x13, ''CookieResponse''), (0x14, ''PluginMessage''), (0x15, ''DebugSampleSubscription''),
     (0x16, ''EditBook''), (0x17, ''QueryEntityTag''), (0x18, ''Interact''),
     (0x19, ''JigsawGenerate''), (0x1A, ''KeepAlive''), (0x1B, ''LockDifficulty''),
     (0x1C, ''SetPlayerPosition''), (0x1D, ''SetPlayerPositionandRotation''),
     (0x1E, ''SetPlayerRotation''), (0x1F, ''SetPlayerMovementFlags''), (0x20, ''MoveVehicle''),
     (0x21, ''PaddleBoat''), (0x22, ''PickItemFromBlock''), (0x23, ''PickItemFromEntity''),
     (0x24, ''PingRequest''), (0x25, ''PlaceRecipe''), (0x26, ''PlayerAbilities''),
     (0x27, ''PlayerAction''), (0x28, ''PlayerCommand''), (0x29, ''PlayerInput''),
     (0x2A, ''PlayerLoaded''), (0x2B, ''Pong''), (0x2C, ''ChangeRecipeBookSettings''),
     (0x2D, ''SetSeenRecipe''), (0x2E, ''RenameItem''), (0x2F, ''ResourcePackResponse''),
     (0x30, ''SeenAdvancements''), (0x31, ''SelectTrade''), (0x32, ''SetBeaconEffect''),
     (0x33, ''SetHeldItem''), (0x34, ''ProgramCommandBlock''), (0x35, ''ProgramCommandBlockMinecart''),
     (0x36, ''SetCreativeModeSlot''), (0x37, ''ProgramJigsawBlock''),
     (0x38, ''ProgramStructureBlock''), (0x39, ''UpdateSign''), (0x3A, ''SwingArm''),
     (0x3B, ''TeleportToEntity''), (0x3C, ''UseItemOn''), (0x3D, ''UseItem'')]"

definition v769 :: protocol where
  "v769 = build_protocol 769 v769_status v769_login v769_config
     \<lparr>clientbound = v769_play_clientbound, serverbound = v769_play_serverbound\<rparr>"

lemma v769_ok: "protocol_ok v769"
  by (rule protocol_ok_check) code_simp

section \<open>Version 770 (\<open>v1_21_5\<close>, \<open>v770.rs\<close>)\<close>

definition v770_status :: tables where
  "v770_status = \<lparr>
   clientbound =
    [(0x00, ''StatusResponse''), (0x01, ''PongResponse'')],
   serverbound =
    [(0x00, ''StatusRequest''), (0x01, ''PingRequest'')]\<rparr>"

definition v770_login :: tables where
  "v770_login = \<lparr>
   clientbound =
    [(0x00, ''Disconnect''), (0x01, ''EncryptionRequest''), (0x02, ''LoginSuccess''),
     (0x03, ''SetCompression''), (0x04, ''LoginPluginRequest''), (0x05, ''CookieRequest'')],
   serverbound =
    [(0x00, ''LoginStart''), (0x01, ''EncryptionResponse''), (0x02, ''LoginPluginResponse''),
     (0x03, ''LoginAcknowledged''), (0x04, ''CookieResponse'')]\<rparr>"

definition v770_config :: tables where
  "v770_config = \<lparr>
   clientbound =
    [(0x00, ''CookieRequest''), (0x01, ''PluginMessage''), (0x02, ''Disconnect''),
     (0x03, ''FinishConfiguration''), (0x04, ''KeepAlive''), (0x05, ''Ping''), (0x06, ''ResetChat''),
     (0x07, ''RegistryData''), (0x08, ''RemoveResourcePack''), (0x09, ''AddResourcePack''),
     (0x0A, ''StoreCookie''), (0x0B, ''Transfer''), (0x0C, ''FeatureFlags''), (0x0D, ''UpdateTags''),
     (0x0E, ''KnownPacks''), (0x0F, ''CustomReportDetails''), (0x10, ''ServerLinks'')],
   serverbound =
    [(0x00, ''ClientInformation''), (0x01, ''CookieResponse''), (0x02, ''PluginMessage''),
     (0x03, ''AcknowledgeFinishConfiguration''), (0x04, ''KeepAlive''), (0x05, ''Pong''),
     (0x06, ''ResourcePackResponse''), (0x07, ''KnownPacks'')]\<rparr>"

definition v770_play_clientbound :: packet_table where
  "v770_play_clientbound =
    [(0x00, ''BundleDelimiter''), (0x01, ''SpawnEntity''), (0x02, ''EntityAnimation''),
     (0x03, ''AwardStatistics''), (0x04, ''AcknowledgeBlockChange''), (0x05, ''SetBlockDestroyStage''),
     (0x06, ''BlockEntityData''), (0x07, ''BlockAction''), (0x08, ''BlockUpdate''),
     (0x09, ''BossBar''), (0x0A, ''ChangeDifficulty''), (0x0B, ''ChunkBatchFinished''),
     (0x0C, ''ChunkBatchStart''), (0x0D, ''ChunkBiomes''), (0x0E, ''ClearTitles''),
     (0x0F, ''CommandSuggestionsResponse''), (0x10, ''Commands''), (0x11, ''CloseContainer''),
     (0x12, ''SetContainerContent''), (0x13, ''SetContainerProperty''), (0x14, ''SetContainerSlot''),
     (0x15, ''CookieRequest''), (0x16, ''SetCooldown''), (0x17, ''ChatSuggestions''),
     (0x18, ''PluginMessage''), (0x19, ''DamageEvent''), (0x1A, ''DebugSample''),
     (0x1B, ''DeleteMessage''), (0x1C, ''Disconnect''), (0x1D, ''DisguisedChatMessage''),
     (0x1E, ''EntityEvent''), (0x1F, ''TeleportEntity''), (0x20, ''Explosion''),
     (0x21, ''UnloadChunk''), (0x22, ''GameEvent''), (0x23, ''OpenHorseScreen''),
     (0x24, ''HurtAnimation''), (0x25, ''InitializeWorldBorder''), (0x26, ''KeepAlive''),
     (0x27, ''ChunkDataandUpdateLight''), (0x28, ''WorldEvent''), (0x29, ''Particle''),
     (0x2A, ''UpdateLight''), (0x2B, ''Login''), (0x2C, ''MapData''), (0x2D, ''MerchantOffers''),
     (0x2E, ''UpdateEntityPosition''), (0x2F, ''UpdateEntityPositionandRotation''),
     (0x30, ''MoveMinecartAlongTrack''), (0x31, ''UpdateEntityRotation''), (0x32, ''MoveVehicle''),
     (0x33, ''OpenBook''), (0x34, ''OpenScreen''), (0x35, ''OpenSignEditor''), (0x36, ''Ping''),
     (0x37, ''PingResponse''), (0x38, ''PlaceGhostRecipe''), (0x39, ''PlayerAbilities''),
     (0x3A, ''PlayerChatMessage''), (0x3B, ''EndCombat''), (0x3C, ''EnterCombat''),
     (0x3D, ''CombatDeath''), (0x3E, ''PlayerInfoRemove''), (0x3F, ''PlayerInfoUpdate''),
     (0x40, ''LookAt''), (0x41, ''SynchronizePlayerPosition''), (0x42, ''PlayerRotation''),
     (0x43, ''RecipeBookAdd''), (0x44, ''RecipeBookRemove''), (0x45, ''RecipeBookSettings''),
     (0x46, ''RemoveEntities''), (0x47, ''RemoveEntityEffect''), (0x48, ''ResetScore''),
     (0x49, ''RemoveResourcePack''), (0x4A, ''AddResourcePack''), (0x4B, ''Respawn''),
     (0x4C, ''SetHeadRotation''), (0x4D, ''UpdateSectionBlocks''), (0x4E, ''SelectAdvancementsTab''),
     (0x4F, ''ServerData''), (0x50, ''SetActionBarText''), (0x51, ''SetBorderCenter''),
     (0x52, ''SetBorderLerpSize''), (0x53, ''SetBorderSize''), (0x54, ''SetBorderWarningDelay''),
     (0x55, ''SetBorderWarningDistance''), (0x56, ''SetCamera''), (0x57, ''SetCenterChunk''),
     (0x58, ''SetRenderDistance''), (0x59, ''SetCursorItem''), (0x5A, ''SetDefaultSpawnPosition''),
     (0x5B, ''DisplayObjective''), (0x5C, ''SetEntityMetadata''), (0x5D, ''LinkEntities''),
     (0x5E, ''SetEntityVelocity''), (0x5F, ''SetEquipment''), (0x60, ''SetExperience''),
     (0x61, ''SetHealth''), (0x62, ''SetHeldItem''), (0x63, ''UpdateObjectives''),
     (0x64, ''SetPassengers''), (0x65, ''SetPlayerInventorySlot''), (0x66, ''UpdateTeams''),
     (0x67, ''UpdateScore''), (0x68, ''SetSimulationDistance''), (0x69, ''SetSubtitleText''),
     (0x6A, ''UpdateTime''), (0x6B, ''SetTitleText''), (0x6C, ''SetTitleAnimationTimes''),
     (0x6D, ''EntitySoundEffect''), (0x6E, ''SoundEffect''), (0x6F, ''StartConfiguration''),
     (0x70, ''StopSound''), (0x71, ''StoreCookie''), (0x72, ''SystemChatMessage''),
     (0x73, ''SetTabListHeaderAndFooter''), (0x74, ''TagQueryResponse''), (0x75, ''PickupItem''),
     (0x76, ''SynchronizeVehiclePosition''), (0x77, ''TestInstanceBlockStatus''),
     (0x78, ''SetTickingState''), (0x79, ''StepTick''), (0x7A, ''Transfer''),
     (0x7B, ''UpdateAdvancements''), (0x7C, ''UpdateAttributes''), (0x7D, ''EntityEffect''),
     (0x7E, ''UpdateRecipes''), (0x7F, ''UpdateTags''), (0x80, ''ProjectilePower''),
     (0x81, ''CustomReportDetails''), (0x82, ''ServerLinks'')]"

definition v770_play_serverbound :: packet_table where
  "v770_play_serverbound =
    [(0x00, ''ConfirmTeleportation''), (0x01, ''QueryBlockEntityTag''), (0x02, ''BundleItemSelected''),
     (0x03, ''ChangeDifficulty''), (0x04, ''AcknowledgeMessage''), (0x05, ''ChatCommand''),
     (0x06, ''SignedChatCommand''), (0x07, ''ChatMessage''), (0x08, ''PlayerSession''),
     (0x09, ''ChunkBatchReceived''), (0x0A, ''ClientStatus''), (0x0B, ''ClientTickEnd''),
     (0x0C, ''ClientInformation''), (0x0D, ''CommandSuggestionsRequest''),
     (0x0E, ''AcknowledgeConfiguration''), (0x0F, ''ClickContainerButton''),
     (0x10, ''ClickContainer''), (0x11, ''CloseContainer''), (0x12, ''ChangeContainerSlotState''),
     (0x13, ''CookieResponse''), (0x14, ''PluginMessage''), (0x15, ''DebugSampleSubscription''),
     (0x16, ''EditBook''), (0x17, ''QueryEntityTag''), (0x18, ''Interact''),
     (0x19, ''JigsawGenerate''), (0x1A, ''KeepAlive''), (0x1B, ''LockDifficulty''),
     (0x1C, ''SetPlayerPosition''), (0x1D, ''SetPlayerPositionandRotation''),
     (0x1E, ''SetPlayerRotation''), (0x1F, ''SetPlayerMovementFlags''), (0x20, ''MoveVehicle''),
     (0x21, ''PaddleBoat''), (0x22, ''PickItemFromBlock''), (0x23, ''PickItemFromEntity''),
     (0x24, ''PingRequest''), (0x25, ''PlaceRecipe''), (0x26, ''PlayerAbilities''),
     (0x27, ''PlayerAction''), (0x28, ''PlayerCommand''), (0x29, ''PlayerInput''),
     (0x2A, ''PlayerLoaded''), (0x2B, ''Pong''), (0x2C, ''ChangeRecipeBookSettings''),
     (0x2D, ''SetSeenRecipe''), (0x2E, ''RenameItem''), (0x2F, ''ResourcePackResponse''),
     (0x30, ''SeenAdvancements''), (0x31, ''SelectTrade''), (0x32, ''SetBeaconEffect''),
     (0x33, ''SetHeldItem''), (0x34, ''ProgramCommandBlock''), (0x35, ''ProgramCommandBlockMinecart''),
     (0x36, ''SetCreativeModeSlot''), (0x37, ''ProgramJigsawBlock''),
     (0x38, ''ProgramStructureBlock''), (0x39, ''SetTestBlock''), (0x3A, ''UpdateSign''),
     (0x3B, ''SwingArm''), (0x3C, ''TeleportToEntity''), (0x3D, ''TestInstanceBlockAction''),
     (0x3E, ''UseItemOn''), (0x3F, ''UseItem'')]"

definition v770 :: protocol where
  "v770 = build_protocol 770 v770_status v770_login v770_config
     \<lparr>clientbound = v770_play_clientbound, serverbound = v770_play_serverbound\<rparr>"

lemma v770_ok: "protocol_ok v770"
  by (rule protocol_ok_check) code_simp

section \<open>Version 771 (\<open>v1_21_6\<close>, \<open>v771.rs\<close>)\<close>

definition v771_status :: tables where
  "v771_status = \<lparr>
   clientbound =
    [(0x00, ''StatusResponse''), (0x01, ''PongResponse'')],
   serverbound =
    [(0x00, ''StatusRequest''), (0x01, ''PingRequest'')]\<rparr>"

definition v771_login :: tables where
  "v771_login = \<lparr>
   clientbound =
    [(0x00, ''Disconnect''), (0x01, ''EncryptionRequest''), (0x02, ''LoginSuccess''),
     (0x03, ''SetCompression''), (0x04, ''LoginPluginRequest''), (0x05, ''CookieRequest'')],
   serverbound =
    [(0x00, ''LoginStart''), (0x01, ''EncryptionResponse''), (0x02, ''LoginPluginResponse''),
     (0x03, ''LoginAcknowledged''), (0x04, ''CookieResponse'')]\<rparr>"

definition v771_config :: tables where
  "v771_config = \<lparr>
   clientbound =
    [(0x00, ''CookieRequest''), (0x01, ''PluginMessage''), (0x02, ''Disconnect''),
     (0x03, ''FinishConfiguration''), (0x04, ''KeepAlive''), (0x05, ''Ping''), (0x06, ''ResetChat''),
     (0x07, ''RegistryData''), (0x08, ''RemoveResourcePack''), (0x09, ''AddResourcePack''),
     (0x0A, ''StoreCookie''), (0x0B, ''Transfer''), (0x0C, ''FeatureFlags''), (0x0D, ''UpdateTags''),
     (0x0E, ''KnownPacks''), (0x0F, ''CustomReportDetails''), (0x10, ''ServerLinks''),
     (0x11, ''ClearDialog''), (0x12, ''ShowDialog'')],
   serverbound =
    [(0x00, ''ClientInformation''), (0x01, ''CookieResponse''), (0x02, ''PluginMessage''),
     (0x03, ''AcknowledgeFinishConfiguration''), (0x04, ''KeepAlive''), (0x05, ''Pong''),
     (0x06, ''ResourcePackResponse''), (0x07, ''KnownPacks''), (0x08, ''CustomClickAction'')]\<rparr>"

definition v771_play_clientbound :: packet_table where
  "v771_play_clientbound =
    [(0x00, ''BundleDelimiter''), (0x01, ''SpawnEntity''), (0x02, ''EntityAnimation''),
     (0x03, ''AwardStatistics''), (0x04, ''AcknowledgeBlockChange''), (0x05, ''SetBlockDestroyStage''),
     (0x06, ''BlockEntityData''), (0x07, ''BlockAction''), (0x08, ''BlockUpdate''),
     (0x09, ''BossBar''), (0x0A, ''ChangeDifficulty''), (0x0B, ''ChunkBatchFinished''),
     (0x0C, ''ChunkBatchStart''), (0x0D, ''ChunkBiomes''), (0x0E, ''ClearTitles''),
     (0x0F, ''CommandSuggestionsResponse''), (0x10, ''Commands''), (0x11, ''CloseContainer''),
     (0x12, ''SetContainerContent''), (0x13, ''SetContainerProperty''), (0x14, ''SetContainerSlot''),
     (0x15, ''CookieRequest''), (0x16, ''SetCooldown''), (0x17, ''ChatSuggestions''),
     (0x18, ''PluginMessage''), (0x19, ''DamageEvent''), (0x1A, ''DebugSample''),
     (0x1B, ''DeleteMessage''), (0x1C, ''Disconnect''), (0x1D, ''DisguisedChatMessage''),
     (0x1E, ''EntityEvent''), (0x1F, ''TeleportEntity''), (0x20, ''Explosion''),
     (0x21, ''UnloadChunk''), (0x22, ''GameEvent''), (0x23, ''OpenHorseScreen''),
     (0x24, ''HurtAnimation''), (0x25, ''InitializeWorldBorder''), (0x26, ''KeepAlive''),
     (0x27, ''ChunkDataandUpdateLight''), (0x28, ''WorldEvent''), (0x29, ''Particle''),
     (0x2A, ''UpdateLight''), (0x2B, ''Login''), (0x2C, ''MapData''), (0x2D, ''MerchantOffers''),
     (0x2E, ''UpdateEntityPosition''), (0x2F, ''UpdateEntityPositionandRotation''),
     (0x30, ''MoveMinecartAlongTrack''), (0x31, ''UpdateEntityRotation''), (0x32, ''MoveVehicle''),
     (0x33, ''OpenBook''), (0x34, ''OpenScreen''), (0x35, ''OpenSignEditor''), (0x36, ''Ping''),
     (0x37, ''PingResponse''), (0x38, ''PlaceGhostRecipe''), (0x39, ''PlayerAbilities''),
     (0x3A, ''PlayerChatMessage''), (0x3B, ''EndCombat''), (0x3C, ''EnterCombat''),
     (0x3D, ''CombatDeath''), (0x3E, ''PlayerInfoRemove''), (0x3F, ''PlayerInfoUpdate''),
     (0x40, ''LookAt''), (0x41, ''SynchronizePlayerPosition''), (0x42, ''PlayerRotation''),
     (0x43, ''RecipeBookAdd''), (0x44, ''RecipeBookRemove''), (0x45, ''RecipeBookSettings''),
     (0x46, ''RemoveEntities''), (0x47, ''RemoveEntityEffect''), (0x48, ''ResetScore''),
     (0x49, ''RemoveResourcePack''), (0x4A, ''AddResourcePack''), (0x4B, ''Respawn''),
     (0x4C, ''SetHeadRotation''), (0x4D, ''UpdateSectionBlocks''), (0x4E, ''SelectAdvancementsTab''),
     (0x4F, ''ServerData''), (0x50, ''SetActionBarText''), (0x51, ''SetBorderCenter''),
     (0x52, ''SetBorderLerpSize''), (0x53, ''SetBorderSize''), (0x54, ''SetBorderWarningDelay''),
     (0x55, ''SetBorderWarningDistance''), (0x56, ''SetCamera''), (0x57, ''SetCenterChunk''),
     (0x58, ''SetRenderDistance''), (0x59, ''SetCursorItem''), (0x5A, ''SetDefaultSpawnPosition''),
     (0x5B, ''DisplayObjective''), (0x5C, ''SetEntityMetadata''), (0x5D, ''LinkEntities''),
     (0x5E, ''SetEntityVelocity''), (0x5F, ''SetEquipment''), (0x60, ''SetExperience''),
     (0x61, ''SetHealth''), (0x62, ''SetHeldItem''), (0x63, ''UpdateObjectives''),
     (0x64, ''SetPassengers''), (0x65, ''SetPlayerInventorySlot''), (0x66, ''UpdateTeams''),
     (0x67, ''UpdateScore''), (0x68, ''SetSimulationDistance''), (0x69, ''SetSubtitleText''),
     (0x6A, ''UpdateTime''), (0x6B, ''SetTitleText''), (0x6C, ''SetTitleAnimationTimes''),
     (0x6D, ''EntitySoundEffect''), (0x6E, ''SoundEffect''), (0x6F, ''StartConfiguration''),
     (0x70, ''StopSound''), (0x71, ''StoreCookie''), (0x72, ''SystemChatMessage''),
     (0x73, ''SetTabListHeaderAndFooter''), (0x74, ''TagQueryResponse''), (0x75, ''PickupItem''),
     (0x76, ''SynchronizeVehiclePosition''), (0x77, ''TestInstanceBlockStatus''),
     (0x78, ''SetTickingState''), (0x79, ''StepTick''), (0x7A, ''Transfer''),
     (0x7B, ''UpdateAdvancements''), (0x7C, ''UpdateAttributes''), (0x7D, ''EntityEffect''),
     (0x7E, ''UpdateRecipes''), (0x7F, ''UpdateTags''), (0x80, ''ProjectilePower''),
     (0x81, ''CustomReportDetails''), (0x82, ''ServerLinks''), (0x83, ''Waypoint''),
     (0x84, ''ClearDialog''), (0x85, ''ShowDialog'')]"

definition v771_play_serverbound :: packet_table where
  "v771_play_serverbound =
    [(0x00, ''ConfirmTeleportation''), (0x01, ''QueryBlockEntityTag''), (0x02, ''BundleItemSelected''),
     (0x03, ''ChangeDifficulty''), (0x04, ''ChangeGameMode''), (0x05, ''AcknowledgeMessage''),
     (0x06, ''ChatCommand''), (0x07, ''SignedChatCommand''), (0x08, ''ChatMessage''),
     (0x09, ''PlayerSession''), (0x0A, ''ChunkBatchReceived''), (0x0B, ''ClientStatus''),
     (0x0C, ''ClientTickEnd''), (0x0D, ''ClientInformation''), (0x0E, ''CommandSuggestionsRequest''),
     (0x0F, ''AcknowledgeConfiguration''), (0x10, ''ClickContainerButton''),
     (0x11, ''ClickContainer''), (0x12, ''CloseContainer''), (0x13, ''ChangeContainerSlotState''),
     (0x14, ''CookieResponse''), (0x15, ''PluginMessage''), (0x16, ''DebugSampleSubscription''),
     (0x17, ''EditBook''), (0x18, ''QueryEntityTag''), (0x19, ''Interact''),
     (0x1A, ''JigsawGenerate''), (0x1B, ''KeepAlive''), (0x1C, ''LockDifficulty''),
     (0x1D, ''SetPlayerPosition''), (0x1E, ''SetPlayerPositionandRotation''),
     (0x1F, ''SetPlayerRotation''), (0x20, ''SetPlayerMovementFlags''), (0x21, ''MoveVehicle''),
     (0x22, ''PaddleBoat''), (0x23, ''PickItemFromBlock''), (0x24, ''PickItemFromEntity''),
     (0x25, ''PingRequest''), (0x26, ''PlaceRecipe''), (0x27, ''PlayerAbilities''),
     (0x28, ''PlayerAction''), (0x29, ''PlayerCommand''), (0x2A, ''PlayerInput''),
     (0x2B, ''PlayerLoaded''), (0x2C, ''Pong''), (0x2D, ''ChangeRecipeBookSettings''),
     (0x2E, ''SetSeenRecipe''), (0x2F, ''RenameItem''), (0x30, ''ResourcePackResponse''),
     (0x31, ''SeenAdvancements''), (0x32, ''SelectTrade''), (0x33, ''SetBeaconEffect''),
     (0x34, ''SetHeldItem''), (0x35, ''ProgramCommandBlock''), (0x36, ''ProgramCommandBlockMinecart''),
     (0x37, ''SetCreativeModeSlot''), (0x38, ''ProgramJigsawBlock''),
     (0x39, ''ProgramStructureBlock''), (0x3A, ''SetTestBlock''), (0x3B, ''UpdateSign''),
     (0x3C, ''SwingArm''), (0x3D, ''TeleportToEntity''), (0x3E, ''TestInstanceBlockAction''),
     (0x3F, ''UseItemOn''), (0x40, ''UseItem''), (0x41, ''CustomClickAction'')]"

definition v771 :: protocol where
  "v771 = build_protocol 771 v771_status v771_login v771_config
     \<lparr>clientbound = v771_play_clientbound, serverbound = v771_play_serverbound\<rparr>"

lemma v771_ok: "protocol_ok v771"
  by (rule protocol_ok_check) code_simp

section \<open>Version 772 (\<open>v1_21_7\<close>, \<open>v772.rs\<close>)\<close>

definition v772_status :: tables where
  "v772_status = \<lparr>
   clientbound =
    [(0x00, ''StatusResponse''), (0x01, ''PongResponse'')],
   serverbound =
    [(0x00, ''StatusRequest''), (0x01, ''PingRequest'')]\<rparr>"

definition v772_login :: tables where
  "v772_login = \<lparr>
   clientbound =
    [(0x00, ''Disconnect''), (0x01, ''EncryptionRequest''), (0x02, ''LoginSuccess''),
     (0x03, ''SetCompression''), (0x04, ''LoginPluginRequest''), (0x05, ''CookieRequest'')],
   serverbound =
    [(0x00, ''LoginStart''), (0x01, ''EncryptionResponse''), (0x02, ''LoginPluginResponse''),
     (0x03, ''LoginAcknowledged''), (0x04, ''CookieResponse'')]\<rparr>"

definition v772_config :: tables where
  "v772_config = \<lparr>
   clientbound =
    [(0x00, ''CookieRequest''), (0x01, ''PluginMessage''), (0x02, ''Disconnect''),
     (0x03, ''FinishConfiguration''), (0x04, ''KeepAlive''), (0x05, ''Ping''), (0x06, ''ResetChat''),
     (0x07, ''RegistryData''), (0x08, ''RemoveResourcePack''), (0x09, ''AddResourcePack''),
     (0x0A, ''StoreCookie''), (0x0B, ''Transfer''), (0x0C, ''FeatureFlags''), (0x0D, ''UpdateTags''),
     (0x0E, ''KnownPacks''), (0x0F, ''CustomReportDetails''), (0x10, ''ServerLinks''),
     (0x11, ''ClearDialog''), (0x12, ''ShowDialog'')],
   serverbound =
    [(0x00, ''ClientInformation''), (0x01, ''CookieResponse''), (0x02, ''PluginMessage''),
     (0x03, ''AcknowledgeFinishConfiguration''), (0x04, ''KeepAlive''), (0x05, ''Pong''),
     (0x06, ''ResourcePackResponse''), (0x07, ''KnownPacks''), (0x08, ''CustomClickAction'')]\<rparr>"

definition v772_play_clientbound :: packet_table where
  "v772_play_clientbound =
    [(0x00, ''BundleDelimiter''), (0x01, ''SpawnEntity''), (0x02, ''EntityAnimation''),
     (0x03, ''AwardStatistics''), (0x04, ''AcknowledgeBlockChange''), (0x05, ''SetBlockDestroyStage''),
     (0x06, ''BlockEntityData''), (0x07, ''BlockAction''), (0x08, ''BlockUpdate''),
     (0x09, ''BossBar''), (0x0A, ''ChangeDifficulty''), (0x0B, ''ChunkBatchFinished''),
     (0x0C, ''ChunkBatchStart''), (0x0D, ''ChunkBiomes''), (0x0E, ''ClearTitles''),
     (0x0F, ''CommandSuggestionsResponse''), (0x10, ''Commands''), (0x11, ''CloseContainer''),
     (0x12, ''SetContainerContent''), (0x13, ''SetContainerProperty''), (0x14, ''SetContainerSlot''),
     (0x15, ''CookieRequest''), (0x16, ''SetCooldown''), (0x17, ''ChatSuggestions''),
     (0x18, ''PluginMessage''), (0x19, ''DamageEvent''), (0x1A, ''DebugSample''),
     (0x1B, ''DeleteMessage''), (0x1C, ''Disconnect''), (0x1D, ''DisguisedChatMessage''),
     (0x1E, ''EntityEvent''), (0x1F, ''TeleportEntity''), (0x20, ''Explosion''),
     (0x21, ''UnloadChunk''), (0x22, ''GameEvent''), (0x23, ''OpenHorseScreen''),
     (0x24, ''HurtAnimation''), (0x25, ''InitializeWorldBorder''), (0x26, ''KeepAlive''),
     (0x27, ''ChunkDataandUpdateLight''), (0x28, ''WorldEvent''), (0x29, ''Particle''),
     (0x2A, ''UpdateLight''), (0x2B, ''Login''), (0x2C, ''MapData''), (0x2D, ''MerchantOffers''),
     (0x2E, ''UpdateEntityPosition''), (0x2F, ''UpdateEntityPositionandRotation''),
     (0x30, ''MoveMinecartAlongTrack''), (0x31, ''UpdateEntityRotation''), (0x32, ''MoveVehicle''),
     (0x33, ''OpenBook''), (0x34, ''OpenScreen''), (0x35, ''OpenSignEditor''), (0x36, ''Ping''),
     (0x37, ''PingResponse''), (0x38, ''PlaceGhostRecipe''), (0x39, ''PlayerAbilities''),
     (0x3A, ''PlayerChatMessage''), (0x3B, ''EndCombat''), (0x3C, ''EnterCombat''),
     (0x3D, ''CombatDeath''), (0x3E, ''PlayerInfoRemove''), (0x3F, ''PlayerInfoUpdate''),
     (0x40, ''LookAt''), (0x41, ''SynchronizePlayerPosition''), (0x42, ''PlayerRotation''),
     (0x43, ''RecipeBookAdd''), (0x44, ''RecipeBookRemove''), (0x45, ''RecipeBookSettings''),
     (0x46, ''RemoveEntities''), (0x47, ''RemoveEntityEffect''), (0x48, ''ResetScore''),
     (0x49, ''RemoveResourcePack''), (0x4A, ''AddResourcePack''), (0x4B, ''Respawn''),
     (0x4C, ''SetHeadRotation''), (0x4D, ''UpdateSectionBlocks''), (0x4E, ''SelectAdvancementsTab''),
     (0x4F, ''ServerData''), (0x50, ''SetActionBarText''), (0x51, ''SetBorderCenter''),
     (0x52, ''SetBorderLerpSize''), (0x53, ''SetBorderSize''), (0x54, ''SetBorderWarningDelay''),
     (0x55, ''SetBorderWarningDistance''), (0x56, ''SetCamera''), (0x57, ''SetCenterChunk''),
     (0x58, ''SetRenderDistance''), (0x59, ''SetCursorItem''), (0x5A, ''SetDefaultSpawnPosition''),
     (0x5B, ''DisplayObjective''), (0x5C, ''SetEntityMetadata''), (0x5D, ''LinkEntities''),
     (0x5E, ''SetEntityVelocity''), (0x5F, ''SetEquipment''), (0x60, ''SetExperience''),
     (0x61, ''SetHealth''), (0x62, ''SetHeldItem''), (0x63, ''UpdateObjectives''),
     (0x64, ''SetPassengers''), (0x65, ''SetPlayerInventorySlot''), (0x66, ''UpdateTeams''),
     (0x67, ''UpdateScore''), (0x68, ''SetSimulationDistance''), (0x69, ''SetSubtitleText''),
     (0x6A, ''UpdateTime''), (0x6B, ''SetTitleText''), (0x6C, ''SetTitleAnimationTimes''),
     (0x6D, ''EntitySoundEffect''), (0x6E, ''SoundEffect''), (0x6F, ''StartConfiguration''),
     (0x70, ''StopSound''), (0x71, ''StoreCookie''), (0x72, ''SystemChatMessage''),
     (0x73, ''SetTabListHeaderAndFooter''), (0x74, ''TagQueryResponse''), (0x75, ''PickupItem''),
     (0x76, ''SynchronizeVehiclePosition''), (0x77, ''TestInstanceBlockStatus''),
     (0x78, ''SetTickingState''), (0x79, ''StepTick''), (0x7A, ''Transfer''),
     (0x7B, ''UpdateAdvancements''), (0x7C, ''UpdateAttributes''), (0x7D, ''EntityEffect''),
     (0x7E, ''UpdateRecipes''), (0x7F, ''UpdateTags''), (0x80, ''ProjectilePower''),
     (0x81, ''CustomReportDetails''), (0x82, ''ServerLinks''), (0x83, ''Waypoint''),
     (0x84, ''ClearDialog''), (0x85, ''ShowDialog'')]"

definition v772_play_serverbound :: packet_table where
  "v772_play_serverbound =
    [(0x00, ''ConfirmTeleportation''), (0x01, ''QueryBlockEntityTag''), (0x02, ''BundleItemSelected''),
     (0x03, ''ChangeDifficulty''), (0x04, ''ChangeGameMode''), (0x05, ''AcknowledgeMessage''),
     (0x06, ''ChatCommand''), (0x07, ''SignedChatCommand''), (0x08, ''ChatMessage''),
     (0x09, ''PlayerSession''), (0x0A, ''ChunkBatchReceived''), (0x0B, ''ClientStatus''),
     (0x0C, ''ClientTickEnd''), (0x0D, ''ClientInformation''), (0x0E, ''CommandSuggestionsRequest''),
     (0x0F, ''AcknowledgeConfiguration''), (0x10, ''ClickContainerButton''),
     (0x11, ''ClickContainer''), (0x12, ''CloseContainer''), (0x13, ''ChangeContainerSlotState''),
     (0x14, ''CookieResponse''), (0x15, ''PluginMessage''), (0x16, ''DebugSampleSubscription''),
     (0x17, ''EditBook''), (0x18, ''QueryEntityTag''), (0x19, ''Interact''),
     (0x1A, ''JigsawGenerate''), (0x1B, ''KeepAlive''), (0x1C, ''LockDifficulty''),
     (0x1D, ''SetPlayerPosition''), (0x1E, ''SetPlayerPositionandRotation''),
     (0x1F, ''SetPlayerRotation''), (0x20, ''SetPlayerMovementFlags''), (0x21, ''MoveVehicle''),
     (0x22, ''PaddleBoat''), (0x23, ''PickItemFromBlock''), (0x24, ''PickItemFromEntity''),
     (0x25, ''PingRequest''), (0x26, ''PlaceRecipe''), (0x27, ''PlayerAbilities''),
     (0x28, ''PlayerAction''), (0x29, ''PlayerCommand''), (0x2A, ''PlayerInput''),
     (0x2B, ''PlayerLoaded''), (0x2C, ''Pong''), (0x2D, ''ChangeRecipeBookSettings''),
     (0x2E, ''SetSeenRecipe''), (0x2F, ''RenameItem''), (0x30, ''ResourcePackResponse''),
     (0x31, ''SeenAdvancements''), (0x32, ''SelectTrade''), (0x33, ''SetBeaconEffect''),
     (0x34, ''SetHeldItem''), (0x35, ''ProgramCommandBlock''), (0x36, ''ProgramCommandBlockMinecart''),
     (0x37, ''SetCreativeModeSlot''), (0x38, ''ProgramJigsawBlock''),
     (0x39, ''ProgramStructureBlock''), (0x3A, ''SetTestBlock''), (0x3B, ''UpdateSign''),
     (0x3C, ''SwingArm''), (0x3D, ''TeleportToEntity''), (0x3E, ''TestInstanceBlockAction''),
     (0x3F, ''UseItemOn''), (0x40, ''UseItem''), (0x41, ''CustomClickAction'')]"

definition v772 :: protocol where
  "v772 = build_protocol 772 v772_status v772_login v772_config
     \<lparr>clientbound = v772_play_clientbound, serverbound = v772_play_serverbound\<rparr>"

lemma v772_ok: "protocol_ok v772"
  by (rule protocol_ok_check) code_simp

section \<open>Version 773 (\<open>v1_21_9\<close>, \<open>v773.rs\<close>)\<close>

definition v773_status :: tables where
  "v773_status = \<lparr>
   clientbound =
    [(0, ''StatusResponse''), (1, ''Pong'')],
   serverbound =
    [(0, ''StatusRequest''), (1, ''Ping'')]\<rparr>"

definition v773_login :: tables where
  "v773_login = \<lparr>
   clientbound =
    [(0, ''Disconnect''), (1, ''EncryptionRequest''), (2, ''LoginSuccess''), (3, ''SetCompression''),
     (4, ''PluginRequest''), (5, ''CookieRequest'')],
   serverbound =
    [(0, ''LoginStart''), (1, ''EncryptionResponse''), (2, ''PluginResponse''),
     (3, ''LoginAcknowledge''), (4, ''CookieResponse'')]\<rparr>"

definition v773_config :: tables where
  "v773_config = \<lparr>
   clientbound =
    [(0x00, ''CookieRequest''), (0x01, ''Plugin''), (0x02, ''Disconnect''), (0x03, ''Finish''),
     (0x04, ''KeepAlive''), (0x05, ''Ping''), (0x06, ''ResetChat''), (0x07, ''RegistryData''),
     (0x08, ''RemoveResourcePack''), (0x09, ''AddResourcePack''), (0x0A, ''StoreCookie''),
     (0x0B, ''Transfer''), (0x0C, ''FeatureFlags''), (0x0D, ''UpdateTags''), (0x0E, ''KnownPacks''),
     (0x0F, ''CustomReport''), (0x10, ''ServerLinks''), (0x11, ''ClearDialog''),
     (0x12, ''ShowDialog''), (0x13, ''CodeOfConduct'')],
   serverbound =
    [(0, ''ClientInformation''), (1, ''CookieResponse''), (2, ''Plugin''), (3, ''FinishAcknowledge''),
     (4, ''KeepAlive''), (5, ''Pong''), (6, ''ResourcePackResponse''), (7, ''KnownPacks''),
     (8, ''CustomClick'')]\<rparr>"

definition v773_play_clientbound :: packet_table where
  "v773_play_clientbound =
    [(0x00, ''BundleDelimiter''), (0x01, ''SpawnEntity''), (0x02, ''EntityAnimation''),
     (0x03, ''AwardStatistics''), (0x04, ''AcknowledgeBlockChange''), (0x05, ''SetBlockDestroyStage''),
     (0x06, ''BlockEntityData''), (0x07, ''BlockAction''), (0x08, ''BlockUpdate''),
     (0x09, ''BossBar''), (0x0A, ''ChangeDifficulty''), (0x0B, ''ChunkBatchFinished''),
     (0x0C, ''ChunkBatchStart''), (0x0D, ''ChunkBiomes''), (0x0E, ''ClearTitles''),
     (0x0F, ''CommandSuggestionsResponse''), (0x10, ''Commands''), (0x11, ''CloseContainer''),
     (0x12, ''SetContainerContent''), (0x13, ''SetContainerProperty''), (0x14, ''SetContainerSlot''),
     (0x15, ''CookieRequest''), (0x16, ''SetCooldown''), (0x17, ''ChatSuggestions''),
     (0x18, ''PluginMessage''), (0x19, ''DamageEvent''), (0x1A, ''DebugBlockValue''),
     (0x1B, ''DebugChunkValue''), (0x1C, ''DebugEntityValue''), (0x1D, ''DebugEvent''),
     (0x1E, ''DebugSample''), (0x1F, ''DeleteMessage''), (0x20, ''Disconnect''),
     (0x21, ''DisguisedChatMessage''), (0x22, ''EntityEvent''), (0x23, ''TeleportEntity''),
     (0x24, ''Explosion''), (0x25, ''UnloadChunk''), (0x26, ''GameEvent''),
     (0x27, ''GameTestHighlightPosition''), (0x28, ''OpenHorseScreen''), (0x29, ''HurtAnimation''),
     (0x2A, ''InitializeWorldBorder''), (0x2B, ''KeepAlive''), (0x2C, ''ChunkDataandUpdateLight''),
     (0x2D, ''WorldEvent''), (0x2E, ''Particle''), (0x2F, ''UpdateLight''), (0x30, ''Login''),
     (0x31, ''MapData''), (0x32, ''MerchantOffers''), (0x33, ''UpdateEntityPosition''),
     (0x34, ''UpdateEntityPositionandRotation''), (0x35, ''MoveMinecartAlongTrack''),
     (0x36, ''UpdateEntityRotation''), (0x37, ''MoveVehicle''), (0x38, ''OpenBook''),
     (0x39, ''OpenScreen''), (0x3A, ''OpenSignEditor''), (0x3B, ''Ping''), (0x3C, ''PingResponse''),
     (0x3D, ''PlaceGhostRecipe''), (0x3E, ''PlayerAbilities''), (0x3F, ''PlayerChatMessage''),
     (0x40, ''EndCombat''), (0x41, ''EnterCombat''), (0x42, ''CombatDeath''),
     (0x43, ''PlayerInfoRemove''), (0x44, ''PlayerInfoUpdate''), (0x45, ''LookAt''),
     (0x46, ''SynchronizePlayerPosition''), (0x47, ''PlayerRotation''), (0x48, ''RecipeBookAdd''),
     (0x49, ''RecipeBookRemove''), (0x4A, ''RecipeBookSettings''), (0x4B, ''RemoveEntities''),
     (0x4C, ''RemoveEntityEffect''), (0x4D, ''ResetScore''), (0x4E, ''RemoveResourcePack''),
     (0x4F, ''AddResourcePack''), (0x50, ''Respawn''), (0x51, ''SetHeadRotation''),
     (0x52, ''UpdateSectionBlocks''), (0x53, ''SelectAdvancementsTab''), (0x54, ''ServerData''),
     (0x55, ''SetActionBarText''), (0x56, ''SetBorderCenter''), (0x57, ''SetBorderLerpSize''),
     (0x58, ''SetBorderSize''), (0x59, ''SetBorderWarningDelay''),
     (0x5A, ''SetBorderWarningDistance''), (0x5B, ''SetCamera''), (0x5C, ''SetCenterChunk''),
     (0x5D, ''SetRenderDistance''), (0x5E, ''SetCursorItem''), (0x5F, ''SetDefaultSpawnPosition''),
     (0x60, ''DisplayObjective''), (0x61, ''SetEntityMetadata''), (0x62, ''LinkEntities''),
     (0x63, ''SetEntityVelocity''), (0x64, ''SetEquipment''), (0x65, ''SetExperience''),
     (0x66, ''SetHealth''), (0x67, ''SetHeldItem''), (0x68, ''UpdateObjectives''),
     (0x69, ''SetPassengers''), (0x6A, ''SetPlayerInventorySlot''), (0x6B, ''UpdateTeams''),
     (0x6C, ''UpdateScore''), (0x6D, ''SetSimulationDistance''), (0x6E, ''SetSubtitleText''),
     (0x6F, ''UpdateTime''), (0x70, ''SetTitleText''), (0x71, ''SetTitleAnimationTimes''),
     (0x72, ''EntitySoundEffect''), (0x73, ''SoundEffect''), (0x74, ''StartConfiguration''),
     (0x75, ''StopSound''), (0x76, ''StoreCookie''), (0x77, ''SystemChatMessage''),
     (0x78, ''SetTabListHeaderAndFooter''), (0x79, ''TagQueryResponse''), (0x7A, ''PickupItem''),
     (0x7B, ''SynchronizeVehiclePosition''), (0x7C, ''TestInstanceBlockStatus''),
     (0x7D, ''SetTickingState''), (0x7E, ''StepTick''), (0x7F, ''Transfer''),
     (0x80, ''UpdateAdvancements''), (0x81, ''UpdateAttributes''), (0x82, ''EntityEffect''),
     (0x83, ''UpdateRecipes''), (0x84, ''UpdateTags''), (0x85, ''ProjectilePower''),
     (0x86, ''CustomReportDetails''), (0x87, ''ServerLinks''), (0x88, ''Waypoint''),
     (0x89, ''ClearDialog''), (0x8A, ''ShowDialog'')]"

definition v773_play_serverbound :: packet_table where
  "v773_play_serverbound =
    [(0x00, ''ConfirmTeleportation''), (0x01, ''QueryBlockEntityTag''), (0x02, ''BundleItemSelected''),
     (0x03, ''ChangeDifficulty2''), (0x04, ''ChangeGameMode''), (0x05, ''AcknowledgeMessage''),
     (0x06, ''ChatCommand''), (0x07, ''SignedChatCommand''), (0x08, ''ChatMessage''),
     (0x09, ''PlayerSession''), (0x0A, ''ChunkBatchReceived''), (0x0B, ''ClientStatus''),
     (0x0C, ''ClientTickEnd''), (0x0D, ''ClientInformation''), (0x0E, ''CommandSuggestionsRequest''),
     (0x0F, ''AcknowledgeConfiguration''), (0x10, ''ClickContainerButton''),
     (0x11, ''ClickContainer''), (0x12, ''CloseContainer2''), (0x13, ''ChangeContainerSlotState''),
     (0x14, ''CookieResponse''), (0x15, ''PluginMessage''), (0x16, ''DebugSubscriptionRequest''),
     (0x17, ''EditBook''), (0x18, ''QueryEntityTag''), (0x19, ''Interact''),
     (0x1A, ''JigsawGenerate''), (0x1B, ''KeepAlive''), (0x1C, ''LockDifficulty''),
     (0x1D, ''SetPlayerPosition''), (0x1E, ''SetPlayerPositionandRotation''),
     (0x1F, ''SetPlayerRotation''), (0x20, ''SetPlayerMovementFlags''), (0x21, ''MoveVehicle''),
     (0x22, ''PaddleBoat''), (0x23, ''PickItemFromBlock''), (0x24, ''PickItemFromEntity''),
     (0x25, ''PingRequest''), (0x26, ''PlaceRecipe''), (0x27, ''PlayerAbilities''),
     (0x28, ''PlayerAction''), (0x29, ''PlayerCommand''), (0x2A, ''PlayerInput''),
     (0x2B, ''PlayerLoaded''), (0x2C, ''Pong''), (0x2D, ''ChangeRecipeBookSettings''),
     (0x2E, ''SetSeenRecipe''), (0x2F, ''RenameItem''), (0x30, ''ResourcePackResponse''),
     (0x31, ''SeenAdvancements''), (0x32, ''SelectTrade''), (0x33, ''SetBeaconEffect''),
     (0x34, ''SetHeldItem''), (0x35, ''ProgramCommandBlock''), (0x36, ''ProgramCommandBlockMinecart''),
     (0x37, ''SetCreativeModeSlot''), (0x38, ''ProgramJigsawBlock''),
     (0x39, ''ProgramStructureBlock''), (0x3A, ''SetTestBlock''), (0x3B, ''UpdateSign''),
     (0x3C, ''SwingArm''), (0x3D, ''TeleportToEntity''), (0x3E, ''TestInstanceBlockAction''),
     (0x3F, ''UseItemOn''), (0x40, ''UseItem''), (0x41, ''CustomClickAction'')]"

definition v773 :: protocol where
  "v773 = build_protocol 773 v773_status v773_login v773_config
     \<lparr>clientbound = v773_play_clientbound, serverbound = v773_play_serverbound\<rparr>"

lemma v773_ok: "protocol_ok v773"
  by (rule protocol_ok_check) code_simp

section \<open>Version 774 (\<open>v1_21_11\<close>, \<open>v774.rs\<close>)\<close>

definition v774_status :: tables where
  "v774_status = \<lparr>
   clientbound =
    [(0, ''StatusResponse''), (1, ''Pong'')],
   serverbound =
    [(0, ''StatusRequest''), (1, ''Ping'')]\<rparr>"

definition v774_login :: tables where
  "v774_login = \<lparr>
   clientbound =
    [(0, ''Disconnect''), (1, ''EncryptionRequest''), (2, ''LoginSuccess''), (3, ''SetCompression''),
     (4, ''PluginRequest''), (5, ''CookieRequest'')],
   serverbound =
    [(0, ''LoginStart''), (1, ''EncryptionResponse''), (2, ''PluginResponse''),
     (3, ''LoginAcknowledge''), (4, ''CookieResponse'')]\<rparr>"

definition v774_config :: tables where
  "v774_config = \<lparr>
   clientbound =
    [(0x00, ''CookieRequest''), (0x01, ''Plugin''), (0x02, ''Disconnect''), (0x03, ''Finish''),
     (0x04, ''KeepAlive''), (0x05, ''Ping''), (0x06, ''ResetChat''), (0x07, ''RegistryData''),
     (0x08, ''RemoveResourcePack''), (0x09, ''AddResourcePack''), (0x0A, ''StoreCookie''),
     (0x0B, ''Transfer''), (0x0C, ''FeatureFlags''), (0x0D, ''UpdateTags''), (0x0E, ''KnownPacks''),
     (0x0F, ''CustomReport''), (0x10, ''ServerLinks''), (0x11, ''ClearDialog''),
     (0x12, ''ShowDialog''), (0x13, ''CodeOfConduct'')],
   serverbound =
    [(0, ''ClientInformation''), (1, ''CookieResponse''), (2, ''Plugin''), (3, ''FinishAcknowledge''),
     (4, ''KeepAlive''), (5, ''Pong''), (6, ''ResourcePackResponse''), (7, ''KnownPacks''),
     (8, ''CustomClick'')]\<rparr>"

definition v774_play_clientbound :: packet_table where
  "v774_play_clientbound =
    [(0x00, ''BundleDelimiter''), (0x01, ''SpawnEntity''), (0x02, ''EntityAnimation''),
     (0x03, ''AwardStatistics''), (0x04, ''AcknowledgeBlockChange''), (0x05, ''SetBlockDestroyStage''),
     (0x06, ''BlockEntityData''), (0x07, ''BlockAction''), (0x08, ''BlockUpdate''),
     (0x09, ''BossBar''), (0x0A, ''ChangeDifficulty''), (0x0B, ''ChunkBatchFinished''),
     (0x0C, ''ChunkBatchStart''), (0x0D, ''ChunkBiomes''), (0x0E, ''ClearTitles''),
     (0x0F, ''CommandSuggestionsResponse''), (0x10, ''Commands''), (0x11, ''CloseContainer''),
     (0x12, ''SetContainerContent''), (0x13, ''SetContainerProperty''), (0x14, ''SetContainerSlot''),
     (0x15, ''CookieRequest''), (0x16, ''SetCooldown''), (0x17, ''ChatSuggestions''),
     (0x18, ''PluginMessage''), (0x19, ''DamageEvent''), (0x1A, ''DebugBlockValue''),
     (0x1B, ''DebugChunkValue''), (0x1C, ''DebugEntityValue''), (0x1D, ''DebugEvent''),
     (0x1E, ''DebugSample''), (0x1F, ''DeleteMessage''), (0x20, ''Disconnect''),
     (0x21, ''DisguisedChatMessage''), (0x22, ''EntityEvent''), (0x23, ''TeleportEntity''),
     (0x24, ''Explosion''), (0x25, ''UnloadChunk''), (0x26, ''GameEvent''),
     (0x27, ''GameTestHighlightPosition''), (0x28, ''OpenHorseScreen''), (0x29, ''HurtAnimation''),
     (0x2A, ''InitializeWorldBorder''), (0x2B, ''KeepAlive''), (0x2C, ''ChunkDataandUpdateLight''),
     (0x2D, ''WorldEvent''), (0x2E, ''Particle''), (0x2F, ''UpdateLight''), (0x30, ''Login''),
     (0x31, ''MapData''), (0x32, ''MerchantOffers''), (0x33, ''UpdateEntityPosition''),
     (0x34, ''UpdateEntityPositionandRotation''), (0x35, ''MoveMinecartAlongTrack''),
     (0x36, ''UpdateEntityRotation''), (0x37, ''MoveVehicle''), (0x38, ''OpenBook''),
     (0x39, ''OpenScreen''), (0x3A, ''OpenSignEditor''), (0x3B, ''Ping''), (0x3C, ''PingResponse''),
     (0x3D, ''PlaceGhostRecipe''), (0x3E, ''PlayerAbilities''), (0x3F, ''PlayerChatMessage''),
     (0x40, ''EndCombat''), (0x41, ''EnterCombat''), (0x42, ''CombatDeath''),
     (0x43, ''PlayerInfoRemove''), (0x44, ''PlayerInfoUpdate''), (0x45, ''LookAt''),
     (0x46, ''SynchronizePlayerPosition''), (0x47, ''PlayerRotation''), (0x48, ''RecipeBookAdd''),
     (0x49, ''RecipeBookRemove''), (0x4A, ''RecipeBookSettings''), (0x4B, ''RemoveEntities''),
     (0x4C, ''RemoveEntityEffect''), (0x4D, ''ResetScore''), (0x4E, ''RemoveResourcePack''),
     (0x4F, ''AddResourcePack''), (0x50, ''Respawn''), (0x51, ''SetHeadRotation''),
     (0x52, ''UpdateSectionBlocks''), (0x53, ''SelectAdvancementsTab''), (0x54, ''ServerData''),
     (0x55, ''SetActionBarText''), (0x56, ''SetBorderCenter''), (0x57, ''SetBorderLerpSize''),
     (0x58, ''SetBorderSize''), (0x59, ''SetBorderWarningDelay''),
     (0x5A, ''SetBorderWarningDistance''), (0x5B, ''SetCamera''), (0x5C, ''SetCenterChunk''),
     (0x5D, ''SetRenderDistance''), (0x5E, ''SetCursorItem''), (0x5F, ''SetDefaultSpawnPosition''),
     (0x60, ''DisplayObjective''), (0x61, ''SetEntityMetadata''), (0x62, ''LinkEntities''),
     (0x63, ''SetEntityVelocity''), (0x64, ''SetEquipment''), (0x65, ''SetExperience''),
     (0x66, ''SetHealth''), (0x67, ''SetHeldItem''), (0x68, ''UpdateObjectives''),
     (0x69, ''SetPassengers''), (0x6A, ''SetPlayerInventorySlot''), (0x6B, ''UpdateTeams''),
     (0x6C, ''UpdateScore''), (0x6D, ''SetSimulationDistance''), (0x6E, ''SetSubtitleText''),
     (0x6F, ''UpdateTime''), (0x70, ''SetTitleText''), (0x71, ''SetTitleAnimationTimes''),
     (0x72, ''EntitySoundEffect''), (0x73, ''SoundEffect''), (0x74, ''StartConfiguration''),
     (0x75, ''StopSound''), (0x76, ''StoreCookie''), (0x77, ''SystemChatMessage''),
     (0x78, ''SetTabListHeaderAndFooter''), (0x79, ''TagQueryResponse''), (0x7A, ''PickupItem''),
     (0x7B, ''SynchronizeVehiclePosition''), (0x7C, ''TestInstanceBlockStatus''),
     (0x7D, ''SetTickingState''), (0x7E, ''StepTick''), (0x7F, ''Transfer''),
     (0x80, ''UpdateAdvancements''), (0x81, ''UpdateAttributes''), (0x82, ''EntityEffect''),
     (0x83, ''UpdateRecipes''), (0x84, ''UpdateTags''), (0x85, ''ProjectilePower''),
     (0x86, ''CustomReportDetails''), (0x87, ''ServerLinks''), (0x88, ''Waypoint''),
     (0x89, ''ClearDialog''), (0x8A, ''ShowDialog'')]"

definition v774_play_serverbound :: packet_table where
  "v774_play_serverbound =
    [(0x00, ''ConfirmTeleportation''), (0x01, ''QueryBlockEntityTag''), (0x02, ''BundleItemSelected''),
     (0x03, ''ChangeDifficulty2''), (0x04, ''ChangeGameMode''), (0x05, ''AcknowledgeMessage''),
     (0x06, ''ChatCommand''), (0x07, ''SignedChatCommand''), (0x08, ''ChatMessage''),
     (0x09, ''PlayerSession''), (0x0A, ''ChunkBatchReceived''), (0x0B, ''ClientStatus''),
     (0x0C, ''ClientTickEnd''), (0x0D, ''ClientInformation''), (0x0E, ''CommandSuggestionsRequest''),
     (0x0F, ''AcknowledgeConfiguration''), (0x10, ''ClickContainerButton''),
     (0x11, ''ClickContainer''), (0x12, ''CloseContainer2''), (0x13, ''ChangeContainerSlotState''),
     (0x14, ''CookieResponse''), (0x15, ''PluginMessage''), (0x16, ''DebugSubscriptionRequest''),
     (0x17, ''EditBook''), (0x18, ''QueryEntityTag''), (0x19, ''Interact''),
     (0x1A, ''JigsawGenerate''), (0x1B, ''KeepAlive''), (0x1C, ''LockDifficulty''),
     (0x1D, ''SetPlayerPosition''), (0x1E, ''SetPlayerPositionandRotation''),
     (0x1F, ''SetPlayerRotation''), (0x20, ''SetPlayerMovementFlags''), (0x21, ''MoveVehicle''),
     (0x22, ''PaddleBoat''), (0x23, ''PickItemFromBlock''), (0x24, ''PickItemFromEntity''),
     (0x25, ''PingRequest''), (0x26, ''PlaceRecipe''), (0x27, ''PlayerAbilities''),
     (0x28, ''PlayerAction''), (0x29, ''PlayerCommand''), (0x2A, ''PlayerInput''),
     (0x2B, ''PlayerLoaded''), (0x2C, ''Pong''), (0x2D, ''ChangeRecipeBookSettings''),
     (0x2E, ''SetSeenRecipe''), (0x2F, ''RenameItem''), (0x30, ''ResourcePackResponse''),
     (0x31, ''SeenAdvancements''), (0x32, ''SelectTrade''), (0x33, ''SetBeaconEffect''),
     (0x34, ''SetHeldItem''), (0x35, ''ProgramCommandBlock''), (0x36, ''ProgramCommandBlockMinecart''),
     (0x37, ''SetCreativeModeSlot''), (0x38, ''ProgramJigsawBlock''),
     (0x39, ''ProgramStructureBlock''), (0x3A, ''SetTestBlock''), (0x3B, ''UpdateSign''),
     (0x3C, ''SwingArm''), (0x3D, ''TeleportToEntity''), (0x3E, ''TestInstanceBlockAction''),
     (0x3F, ''UseItemOn''), (0x40, ''UseItem''), (0x41, ''CustomClickAction'')]"

definition v774 :: protocol where
  "v774 = build_protocol 774 v774_status v774_login v774_config
     \<lparr>clientbound = v774_play_clientbound, serverbound = v774_play_serverbound\<rparr>"

lemma v774_ok: "protocol_ok v774"
  by (rule protocol_ok_check) code_simp

text \<open>An identifier in use.\<close>

lemma v774_login_success: "writer_packet_id v774 (Serverbound, LoginPhase) ''LoginSuccess'' = Some 2"
  by (simp add: v774_def v774_login_def build_protocol_def id_of_designator_def)

end
