(* ===== verification/Versions.thy ===== *)
theory Versions
  imports Versions_1_7 Versions_1_12 Versions_1_16 Versions_1_20
begin

text \<open>
  The releases the crate exports, each with the version it speaks, in the order of
  \<open>src/protocol/versions/mod.rs\<close> (an alias of a version file is the module it renames).
\<close>

definition releases_from_1_16 :: "(string \<times> protocol) list" where
  "releases_from_1_16 =
    [(''v1_21_11'', v774), (''v1_21_9'', v773), (''v1_21_10'', v773), (''v1_21_7'', v772),
     (''v1_21_8'', v772), (''v1_21_6'', v771), (''v1_21_5'', v770), (''v1_21_4'', v769),
     (''v1_21_0'', v767), (''v1_21_1'', v767), (''v1_20_5'', v766), (''v1_20_6'', v766),
     (''v1_20_3'', v765), (''v1_20_4'', v765), (''v1_20_2'', v764), (''v1_20_0'', v763),
     (''v1_20_1'', v763), (''v1_19_4'', v762), (''v1_19_3'', v761), (''v1_19_1'', v760),
     (''v1_19_2'', v760), (''v1_19_0'', v759), (''v1_18_2'', v758), (''v1_18_0'', v757),
     (''v1_18_1'', v757), (''v1_17_1'', v756), (''v1_17_0'', v755), (''v1_16_4'', v754),
     (''v1_16_5'', v754), (''v1_16_3'', v753)]"

definition releases_to_1_15 :: "(string \<times> protocol) list" where
  "releases_to_1_15 =
    [(''v1_15_2'', v578), (''v1_14_4'', v498), (''v1_13_2'', v404), (''v1_13_1'', v401),
     (''v1_12_2'', v340), (''v1_12_1'', v338), (''v1_12_0'', v335), (''v1_11_1'', v316),
     (''v1_11_2'', v316), (''v1_11_0'', v315), (''v1_10_0'', v210), (''v1_10_1'', v210),
     (''v1_10_2'', v210), (''v1_9_3'', v110), (''v1_9_4'', v110), (''v1_9_2'', v109),
     (''v1_9_1'', v108), (''v1_9_0'', v107), (''v1_8_0'', v47), (''v1_8_1'', v47), (''v1_8_2'', v47),
     (''v1_8_3'', v47), (''v1_8_4'', v47), (''v1_8_5'', v47), (''v1_8_6'', v47), (''v1_8_7'', v47),
     (''v1_8_8'', v47), (''v1_8_9'', v47), (''v1_7_6'', v5), (''v1_7_7'', v5), (''v1_7_8'', v5),
     (''v1_7_9'', v5), (''v1_7_10'', v5), (''v1_7_2'', v4), (''v1_7_3'', v4), (''v1_7_4'', v4),
     (''v1_7_5'', v4)]"

definition releases :: "(string \<times> protocol) list" where
  "releases = releases_from_1_16 @ releases_to_1_15"

lemmas versions_ok =
  v4_ok v5_ok v47_ok v107_ok v108_ok v109_ok v110_ok v210_ok v315_ok
  v316_ok v335_ok v338_ok v340_ok v401_ok v404_ok v498_ok v578_ok v753_ok
  v754_ok v755_ok v756_ok v757_ok v758_ok v759_ok v760_ok v761_ok v762_ok
  v763_ok v764_ok v765_ok v766_ok v767_ok v769_ok v770_ok v771_ok v772_ok
  v773_ok v774_ok

lemma releases_ok: "p \<in> snd ` set releases \<Longrightarrow> protocol_ok p"
  by (auto simp: releases_def releases_from_1_16_def releases_to_1_15_def versions_ok)

end
