(* ===== verification/Protocol_Properties.thy ===== *)
theory Protocol_Properties
  imports Versions
begin

text \<open>
  The properties of the packet tables and of the states a handler goes through, for all released
  versions.
\<close>

section \<open>Identifiers\<close>

text \<open>
  C15: in every state of every release the known packet identifiers are the numbers from zero up to the
  number of packets, and a packet and its identifier determine each other.
\<close>

theorem release_identifiers:
  assumes "p \<in> snd ` set releases" and "state_table p s = Some t"
  shows "(designator_of_id t i \<noteq> None \<longleftrightarrow> 0 \<le> i \<and> i < int (length t)) \<and>
    (id_of_designator t name = Some i \<longleftrightarrow> designator_of_id t i = Some name)"
proof -
  have "table_ok t" by (rule state_table_ok [OF releases_ok [OF assms(1)] assms(2)])
  then show ?thesis by (simp only: designator_known designator_id_inverse simp_thms)
qed

lemma v774_release: "v774 \<in> snd ` set releases"
  by (simp add: releases_def releases_from_1_16_def)

lemma release_identifiers_witness:
  "designator_of_id (serverbound v774_login) 0 \<noteq> None \<and> designator_of_id (serverbound v774_login) 9 = None"
  using release_identifiers [OF v774_release, of "(Serverbound, LoginPhase)" "serverbound v774_login" 0]
    release_identifiers [OF v774_release, of "(Serverbound, LoginPhase)" "serverbound v774_login" 9]
  by (simp add: v774_def v774_login_def build_protocol_def)

text \<open>
  C14: in every release, what a handler writes in a state under an identifier is what the peer's handler in
  the same phase reads under it, and it can write nothing else.
\<close>

theorem release_peers_agree:
  assumes "p \<in> snd ` set releases" and "phase \<noteq> HandshakePhase"
  shows "writer_packet_id p (side, phase) name = Some i \<longleftrightarrow>
    designator_from_id p (reciprocal side, phase) i = Some (Packet name)"
  by (rule writer_reader_agree [OF releases_ok [OF assms(1)] assms(2)])

lemma release_peers_agree_witness:
  "designator_from_id v774 (Clientbound, LoginPhase) 2 = Some (Packet ''LoginSuccess'')"
  using release_peers_agree [OF v774_release, of LoginPhase Serverbound "''LoginSuccess''" 2]
  by (simp add: v774_def v774_login_def build_protocol_def id_of_designator_def)

lemmas version_defs =
  v4_def v5_def v47_def v107_def v108_def v109_def v110_def v210_def v315_def v316_def v335_def v338_def v340_def
  v401_def v404_def v498_def v578_def v753_def v754_def v755_def v756_def v757_def v758_def v759_def v760_def v761_def
  v762_def v763_def v764_def v765_def v766_def v767_def v769_def v770_def v771_def v772_def v773_def v774_def

lemma config_since_764:
  "list_all (\<lambda>(name, p). config_tables p \<noteq> None \<longleftrightarrow> 764 \<le> unat (VERSION p)) releases"
  by (simp add: releases_def releases_from_1_16_def releases_to_1_15_def version_defs build_protocol_def
      build_protocol_pre_1_21_2_def)

text \<open>The releases with a configuration phase are those that speak version 764 or later.\<close>

theorem release_config_phase:
  assumes "p \<in> snd ` set releases"
  shows "has_state p (side, ConfigPhase) \<longleftrightarrow> 764 \<le> unat (VERSION p)"
  using assms config_since_764 by (auto simp: list_all_iff)

lemma release_config_phase_witness: "has_state v774 (Clientbound, ConfigPhase)"
  using release_config_phase [OF v774_release] by (simp add: v774_def build_protocol_def)

section \<open>Transitions\<close>

text \<open>
  C13: from a new handler of either side exactly the states of the version on its side are reached, each
  with the stream provider the handler was made of.
\<close>

theorem handler_states:
  "(reachable p (new_serverside x) h \<longleftrightarrow>
     (\<exists>phase. h = \<lparr>provider = x, handler_state = (Serverbound, phase)\<rparr> \<and> has_state p (Serverbound, phase))) \<and>
   (reachable p (new_clientside x) h \<longleftrightarrow>
     (\<exists>phase. h = \<lparr>provider = x, handler_state = (Clientbound, phase)\<rparr> \<and> has_state p (Clientbound, phase)))"
  by (intro conjI reachable_from_handshake) (simp_all add: new_serverside_def new_clientside_def)

lemma steps_rank:
  "(step p ^^ n) h h' \<Longrightarrow> phase_rank (snd (handler_state h)) + n \<le> phase_rank (snd (handler_state h'))"
proof (induction n arbitrary: h')
  case (Suc n)
  then obtain h1 where "(step p ^^ n) h h1" "step p h1 h'" by auto
  with Suc.IH [of h1] step_rank [of p h1 h'] show ?case by linarith
qed simp

text \<open>A handler makes at most three transitions, so no sequence of transitions is endless.\<close>

theorem transitions_end:
  "((step p ^^ n) h h' \<longrightarrow> n \<le> 3) \<and> \<not> (\<exists>hs. \<forall>i. step p (hs i) (hs (Suc i)))"
proof -
  have rank: "phase_rank ph \<le> 3" for ph by (cases ph) simp_all
  have bound: "n \<le> 3" if "(step p ^^ n) h h'" for n h h'
    using steps_rank [OF that] rank [of "snd (handler_state h')"] by linarith
  moreover have "(step p ^^ n) (hs 0) (hs n)" if "\<forall>i. step p (hs i) (hs (Suc i))" for hs n
    using that by (induction n) auto
  ultimately show ?thesis by (metis not_numeral_le_zero nat_le_iff_add numeral_le_iff not_less_eq_eq order_refl)
qed

lemma transitions_end_witness:
  "\<not> (\<exists>h. (step v774 ^^ 4) (new_serverside (0 :: nat)) h)"
  using transitions_end [of 4 v774 "new_serverside 0"] by auto

text \<open>
  C19: the play state is entered only from the configuration state, in a version without one only from the
  login state; neither the play state nor the status state is left, every other state is.
\<close>

theorem play_and_status:
  assumes "has_state p (handler_state h)"
  shows "(step p h h' \<and> snd (handler_state h') = PlayPhase \<longrightarrow>
      snd (handler_state h) = (if config_tables p = None then LoginPhase else ConfigPhase)) \<and>
    ((\<exists>h'. step p h h') \<longleftrightarrow> snd (handler_state h) \<notin> {StatusPhase, PlayPhase})"
proof (intro conjI impI)
  assume "step p h h' \<and> snd (handler_state h') = PlayPhase"
  then show "snd (handler_state h) = (if config_tables p = None then LoginPhase else ConfigPhase)"
    using enter_play by blast
next
  obtain side phase where s: "handler_state h = (side, phase)" by fastforce
  have "\<exists>h'. step p h h'" if "phase \<notin> {StatusPhase, PlayPhase}"
    using that assms s
    by (cases phase) (auto simp: step_simps into_status_state_def into_next_state_def)
  with terminal_phases [of h p] s show "(\<exists>h'. step p h h') \<longleftrightarrow> snd (handler_state h) \<notin> {StatusPhase, PlayPhase}"
    by auto
qed

lemma play_and_status_witness: "\<exists>h'. step v774 (new_serverside ()) h'"
  using play_and_status [of v774 "new_serverside ()"] by (simp add: new_serverside_def)

end
