(* ===== verification/Sync_Inflate.thy ===== *)
theory Sync_Inflate
  imports Sync_Read
begin

text \<open>
  The decompressing side of the default read stream.  Three facts: whatever \<open>inflate\<close> does, the
  stream keeps every byte behind the packet; where the packet is in the buffer as a whole,
  decompression is lawful; where \<open>inflate\<close> takes its input without giving output, the read ends in an
  error that is none of the stream's.
\<close>

section \<open>What every call keeps, every loop keeps\<close>

definition read_keeps :: "('r \<Rightarrow> bool) \<Rightarrow> ('r, 'x) std_read_scheme \<Rightarrow> bool" where
  "read_keeps G R \<longleftrightarrow> (\<forall>n r. G r \<longrightarrow> G (snd (read_some R n r)))"

lemma read_keepsD: "read_keeps G R \<Longrightarrow> G r \<Longrightarrow> read_some R n r = (res, r') \<Longrightarrow> G r'"
  by (metis read_keeps_def snd_conv)

lemma read_exact_loop_keeps:
  assumes "read_exact_loop R n buf r = Some res"
  shows "read_keeps G R \<longrightarrow> G r \<longrightarrow> G (snd res)"
proof (induction rule: read_exact_loop.raw_induct [OF _ assms])
  case (1 loop R n buf r res)
  show ?case
  proof (intro impI)
    assume R: "read_keeps G R" and r: "G r"
    obtain a r' where run: "read_some R n r = (a, r')" by fastforce
    with R r have r': "G r'" by (blast dest: read_keepsD)
    have step: "G (snd res)" if "loop R m buf' r' = Some res" for m buf'
      using 1(1) [OF that] R r' by blast
    show "G (snd res)"
      using 1(2) r r' step by (cases a) (auto simp: run split: if_splits)
  qed
qed

lemma copy_loop_keeps:
  assumes "copy_loop R count r = Some res"
  shows "read_keeps G R \<longrightarrow> G r \<longrightarrow> G (snd res)"
proof (induction rule: copy_loop.raw_induct [OF _ assms])
  case (1 loop R count r res)
  show ?case
  proof (intro impI)
    assume R: "read_keeps G R" and r: "G r"
    obtain a r' where run: "read_some R copy_buffer r = (a, r')" by fastforce
    with R r have r': "G r'" by (blast dest: read_keepsD)
    have step: "G (snd res)" if "loop R m r' = Some res" for m
      using 1(1) [OF that] R r' by blast
    show "G (snd res)"
      using 1(2) r r' step by (cases a) (auto simp: run split: if_splits)
  qed
qed

lemma std_read_exact_keeps: "read_keeps G R \<Longrightarrow> G r \<Longrightarrow> G (snd (std_read_exact R n r))"
  using read_exact_loop_keeps [of R n "[]" r _ G] by (auto simp: std_read_exact_def io_total_def split: option.split)

lemma copy_to_sink_keeps: "read_keeps G R \<Longrightarrow> G r \<Longrightarrow> G (snd (copy_to_sink R r))"
  using copy_loop_keeps [of R 0 r _ G] by (auto simp: copy_to_sink_def io_total_def split: option.split)

lemma std_take_keeps: "read_keeps G R \<Longrightarrow> read_keeps (\<lambda>t. G (inner t)) (std_take R)"
  unfolding read_keeps_def [of "\<lambda>t. G (inner t)"]
proof (intro allI impI)
  fix n and t :: "'a taken"
  assume R: "read_keeps G R" and t: "G (inner t)"
  obtain a r where run: "read_some R (min n (limit t)) (inner t) = (a, r)" by fastforce
  with R t have "G r" by (blast dest: read_keepsD)
  with t run show "G (inner (snd (read_some (std_take R) n t)))"
    by (cases "limit t = 0"; cases a) (simp_all add: std_take_def take_read_within, simp_all add: take_read_def)
qed

lemma std_discard_keeps: "read_keeps G R \<Longrightarrow> G r \<Longrightarrow> G (snd (std_discard R n r))"
proof -
  assume R: "read_keeps G R" and r: "G r"
  obtain a and t :: "'a taken" where run: "copy_to_sink (std_take R) \<lparr>inner = r, limit = n\<rparr> = (a, t)" by fastforce
  have "G (inner t)"
    using copy_to_sink_keeps [OF std_take_keeps [OF R], of "\<lparr>inner = r, limit = n\<rparr>"] r run by simp
  with r run show "G (snd (std_discard R n r))"
    by (cases a) (auto simp: std_discard_def io_bind_def io_within_def io_ret_def io_err_def)
qed

section \<open>The contract of BufRead\<close>

text \<open>
  \<open>fill_buf\<close> shows some of the next bytes, at least one unless the stream ends, and takes none;
  \<open>consume\<close> takes some of those shown.
\<close>

locale lawful_buf_read = lawful_read R V patience
  for R :: "('r, 'x) std_buf_read_scheme" and V :: "'r \<Rightarrow> byte list \<Rightarrow> bool" and patience :: "'r \<Rightarrow> nat" +
  assumes fill: "V r bs \<Longrightarrow>
      (\<exists>k r'. fill_buf R r = (Ok (take k bs), r') \<and> k \<le> length bs \<and> (bs \<noteq> [] \<longrightarrow> 0 < k) \<and>
         V r' bs \<and> (\<forall>j \<le> k. V (consume R j r') (drop j bs))) \<or>
      (\<exists>r'. fill_buf R r = (Err Interrupted, r') \<and> V r' bs)"
    and consume_nothing: "consume R 0 r = r"

lemma lawful_buf_reader_fill:
  assumes R: "lawful_read R V patience"
  shows "lawful_buf_read (buf_read R) (buf_view V) (\<lambda>b. patience (source b))"
proof (rule lawful_buf_read.intro [OF lawful_buf_reader [OF R]], rule lawful_buf_read_axioms.intro)
  show "consume (buf_read R) 0 b = b" for b
    by (simp add: buf_read_def buf_reader_consume_def)
  fix b bs
  assume "buf_view V b bs"
  then obtain cs where cap: "0 < buf_capacity b" and cs: "V (source b) cs" "bs = buffered b @ cs"
    by (auto simp: buf_view_def)
  show "(\<exists>k r'. fill_buf (buf_read R) b = (Ok (take k bs), r') \<and> k \<le> length bs \<and> (bs \<noteq> [] \<longrightarrow> 0 < k) \<and>
         buf_view V r' bs \<and> (\<forall>j \<le> k. buf_view V (consume (buf_read R) j r') (drop j bs))) \<or>
      (\<exists>r'. fill_buf (buf_read R) b = (Err Interrupted, r') \<and> buf_view V r' bs)"
  proof (cases "buffered b = []")
    case True
    from lawful_read.read_some [OF R cs(1), of "buf_capacity b"] show ?thesis
    proof (cases rule: read_answers_cases)
      case (some k r')
      let ?b = "b\<lparr>source := r', buffered := take k cs\<rparr>"
      have fill: "fill_buf (buf_read R) b = (Ok (take k bs), ?b)"
        using True cs(2) some(1) by (simp add: buf_read_def buf_reader_fill_buf_def)
      have "buf_view V (consume (buf_read R) j ?b) (drop j bs)" if "j \<le> k" for j
        using drop_append [of j "take k cs" "drop k cs"] some(2,4) that True cs(2) cap
        by (auto simp: buf_view_def buf_read_def buf_reader_consume_def)
      moreover have "buf_view V ?b bs"
        using some(2) True cs(2) cap by (auto simp: buf_view_def)
      ultimately show ?thesis
        using fill some(4,5) True cs(2) cap
        by (intro disjI1 exI [of _ k] exI [of _ ?b]) auto
    next
      case (interrupted r')
      with True cs cap show ?thesis
        by (auto simp: buf_read_def buf_reader_fill_buf_def buf_view_def)
    qed
  next
    case False
    with cs cap show ?thesis
      by (intro disjI1 exI [of _ "length (buffered b)"] exI [of _ b])
         (auto simp: buf_read_def buf_reader_fill_buf_def buf_view_def buf_reader_consume_def)
  qed
qed

lemma take_fill_answers:
  assumes R: "lawful_buf_read R V patience" and t: "bounded_view V t lim bs"
  shows "\<exists>buf t'. bounded_view V t' lim bs \<and>
    (fill_buf (std_buf_take R) t = (Ok buf, t') \<and>
       (\<exists>k. k \<le> lim \<and> k \<le> length bs \<and> buf = take k bs \<and> (lim \<noteq> 0 \<and> bs \<noteq> [] \<longrightarrow> 0 < k)) \<and>
       (\<forall>j \<le> length buf. bounded_view V (consume (std_buf_take R) j t') (lim - j) (drop j bs)) \<or>
     fill_buf (std_buf_take R) t = (Err Interrupted, t'))"
proof (cases "limit t = 0")
  case True
  then have "fill_buf (std_buf_take R) t = (Ok [], t)"
    by (simp add: std_buf_take_def std_read.defs take_fill_buf_def)
  moreover have "consume (std_buf_take R) 0 t = t"
    by (simp add: std_buf_take_def std_read.defs take_consume_def lawful_buf_read.consume_nothing [OF R])
  ultimately show ?thesis
    using t True by (intro exI [of _ "[]"] exI [of _ t]) (auto simp: bounded_view_def)
next
  case False
  have r: "V (inner t) bs" and lim: "limit t = lim" using t by (simp_all add: bounded_view_def)
  from lawful_buf_read.fill [OF R r] show ?thesis
  proof (elim disjE exE conjE)
    fix k r'
    assume fill: "fill_buf R (inner t) = (Ok (take k bs), r')" and k: "k \<le> length bs" "bs \<noteq> [] \<longrightarrow> 0 < k"
      and r': "V r' bs" and consume: "\<forall>j \<le> k. V (consume R j r') (drop j bs)"
    let ?k = "min lim k" and ?t = "t\<lparr>inner := r'\<rparr>"
    have "fill_buf (std_buf_take R) t = (Ok (take ?k bs), ?t)"
      using False lim fill
      by (simp add: std_buf_take_def std_read.defs take_fill_buf_def io_bind_def on_inner_def io_within_def io_ret_def)
    moreover have "bounded_view V (consume (std_buf_take R) j ?t) (lim - j) (drop j bs)" if "j \<le> length (take ?k bs)" for j
      using that consume lim by (auto simp: std_buf_take_def std_read.defs take_consume_def bounded_view_def min_absorb1)
    ultimately show ?thesis
      using r' lim k False
      by (intro exI [of _ "take ?k bs"] exI [of _ ?t]) (auto simp: bounded_view_def intro!: exI [of _ ?k])
  next
    fix r'
    assume fill: "fill_buf R (inner t) = (Err Interrupted, r')" and r': "V r' bs"
    then have "fill_buf (std_buf_take R) t = (Err Interrupted, t\<lparr>inner := r'\<rparr>)"
      using False
      by (simp add: std_buf_take_def std_read.defs take_fill_buf_def io_bind_def on_inner_def io_within_def)
    with r' lim show ?thesis
      by (intro exI [of _ "[]"] exI [of _ "t\<lparr>inner := r'\<rparr>"]) (auto simp: bounded_view_def)
  qed
qed

section \<open>No byte behind the packet\<close>

text \<open>All that is asked of \<open>inflate\<close>: it does not consume more than it was given.\<close>

definition inflate_bounded :: "'z inflater \<Rightarrow> bool" where
  "inflate_bounded I \<longleftrightarrow> (\<forall>z buf n. fst (snd (inflate I z buf n)) \<le> length buf)"

definition taken_some :: "('r \<Rightarrow> byte list \<Rightarrow> bool) \<Rightarrow> nat \<Rightarrow> byte list \<Rightarrow> 'r taken \<Rightarrow> bool" where
  "taken_some V lim zs t \<longleftrightarrow> (\<exists>k. k \<le> lim \<and> k \<le> length zs \<and> bounded_view V t (lim - k) (drop k zs))"

definition packet_kept :: "('r \<Rightarrow> byte list \<Rightarrow> bool) \<Rightarrow> nat \<Rightarrow> byte list \<Rightarrow> ('z, 'r taken) decompression_reader taken \<Rightarrow> bool" where
  "packet_kept V lim zs c \<longleftrightarrow> taken_some V lim zs (reader (inner c))"

lemma taken_some_step:
  assumes "k \<le> lim" "k \<le> length zs" "bounded_view V t (lim - k - j) (drop j (drop k zs))"
    and "j \<le> lim - k" "j \<le> length (drop k zs)"
  shows "taken_some V lim zs t"
  using assms unfolding taken_some_def by (intro exI [of _ "k + j"]) (auto simp: add.commute)

lemma decompression_keeps:
  fixes I :: "'z inflater" and R :: "('r, 'x) std_buf_read_scheme"
  assumes R: "lawful_buf_read R V patience" and I: "inflate_bounded I"
  shows "read_keeps (\<lambda>d. taken_some V lim zs (reader d)) (decompression_read I (std_buf_take R))"
  unfolding read_keeps_def
proof (intro allI impI)
  fix n and d :: "('z, 'r taken) decompression_reader"
  assume "taken_some V lim zs (reader d)"
  then obtain k where k: "k \<le> lim" "k \<le> length zs" "bounded_view V (reader d) (lim - k) (drop k zs)"
    by (auto simp: taken_some_def)
  have same: "taken_some V lim zs t" if "bounded_view V t (lim - k) (drop k zs)" for t
    using taken_some_step [of k lim zs V t 0] k that by simp
  obtain buf t' where t': "bounded_view V t' (lim - k) (drop k zs)" and
    fill: "fill_buf (std_buf_take R) (reader d) = (Ok buf, t') \<and>
         (\<exists>i. i \<le> lim - k \<and> i \<le> length (drop k zs) \<and> buf = take i (drop k zs) \<and> (lim - k \<noteq> 0 \<and> drop k zs \<noteq> [] \<longrightarrow> 0 < i)) \<and>
         (\<forall>j \<le> length buf. bounded_view V (consume (std_buf_take R) j t') (lim - k - j) (drop j (drop k zs))) \<or>
       fill_buf (std_buf_take R) (reader d) = (Err Interrupted, t')"
    using take_fill_answers [OF R k(3)] by blast
  show "taken_some V lim zs (reader (snd (read_some (decompression_read I (std_buf_take R)) n d)))"
    using fill
  proof (elim disjE conjE exE)
    fix i
    assume ok: "fill_buf (std_buf_take R) (reader d) = (Ok buf, t')"
      and i: "i \<le> lim - k" "i \<le> length (drop k zs)" "buf = take i (drop k zs)"
      and consume: "\<forall>j \<le> length buf. bounded_view V (consume (std_buf_take R) j t') (lim - k - j) (drop j (drop k zs))"
    obtain z j out where inflate: "inflate I (state d) buf n = (z, j, out)" by (metis prod_cases3)
    have j: "j \<le> length buf" using I inflate unfolding inflate_bounded_def by (metis fst_conv snd_conv)
    have "taken_some V lim zs (consume (std_buf_take R) j t')"
      using consume j i k by (intro taken_some_step [of k lim zs V _ j]) auto
    with same [OF t'] show ?thesis
      by (cases out) (simp_all add: decompression_read_def decompression_read_some_def ok inflate)
  next
    assume "fill_buf (std_buf_take R) (reader d) = (Err Interrupted, t')"
    with same [OF t'] show ?thesis
      by (simp add: decompression_read_def decompression_read_some_def)
  qed
qed

lemma contained_default_stream:
  assumes R: "lawful_buf_read R V patience" and I: "inflate_bounded I"
  shows "contained_stream (default_read_stream I R) (wrapped_view V) (wrapped_bound V) (packet_kept V)"
proof (rule contained_stream.intro [OF lawful_default_stream [OF lawful_buf_read.axioms(1) [OF R]]], rule contained_stream_axioms.intro)
  fix lim zs n
  let ?S = "default_read_stream I R" and ?D = "decompression_read I (std_buf_take R)"
  have keeps: "read_keeps (packet_kept V lim zs) (std_take ?D)"
    using std_take_keeps [OF decompression_keeps [OF R I]] by (simp add: packet_kept_def [abs_def])
  show "ops_contained (kept_view (packet_kept V lim zs)) (inner_bounded ?S)"
    using std_read_exact_keeps [OF keeps] std_discard_keeps [OF keeps]
    by (simp add: ops_contained_def well_behaved_def kept_view_def default_read_stream_def
        std_bounded_reader_def reader.defs std_reader_def)
  show "packet_kept V lim zs (inner_with_bound ?S (with_decompression ?S b) n)" if "wrapped_bound V b lim zs" for b
    using that by (auto simp: packet_kept_def taken_some_def default_read_stream_def wrapped_bound_def intro: exI [of _ 0])
  show "\<exists>k. k \<le> lim \<and> k \<le> length zs \<and>
      wrapped_bound V (end_decompression ?S (inner_end_bound ?S c)) (lim - k) (drop k zs)" if "packet_kept V lim zs c" for c
    using that by (simp add: packet_kept_def taken_some_def default_read_stream_def wrapped_bound_def)
qed

section \<open>A packet that is in the buffer as a whole\<close>

text \<open>
  \<open>Z z zs out\<close>: in the state \<open>z\<close>, with \<open>zs\<close> left of the compressed data, \<open>out\<close> is left of the
  decompressed.  Given all that is left of the input, \<open>inflate\<close> writes the next bytes of \<open>out\<close>, at
  least one if there is room and one to write.
\<close>

definition inflates_whole :: "'z inflater \<Rightarrow> ('z \<Rightarrow> byte list \<Rightarrow> byte list \<Rightarrow> bool) \<Rightarrow> bool" where
  "inflates_whole I Z \<longleftrightarrow> (\<forall>z zs out n. Z z zs out \<longrightarrow>
     (\<exists>z' k j. inflate I z zs n = (z', k, Ok (take j out)) \<and> k \<le> length zs \<and> j \<le> n \<and> j \<le> length out \<and>
        Z z' (drop k zs) (drop j out) \<and> (0 < n \<and> out \<noteq> [] \<longrightarrow> 0 < j)))"

text \<open>All the bytes that will come are in the buffer.\<close>

definition whole_view :: "('r, 'x) std_read_scheme \<Rightarrow> 'r buf_reader \<Rightarrow> byte list \<Rightarrow> bool" where
  "whole_view R b bs \<longleftrightarrow> 0 < buf_capacity b \<and> buffered b = bs \<and> (\<forall>n. read_some R n (source b) = (Ok [], source b))"

lemma whole_fill:
  "whole_view R b bs \<Longrightarrow> fill_buf (buf_read R) b = (Ok bs, b)"
  by (auto simp: whole_view_def buf_read_def buf_reader_fill_buf_def)

lemma whole_consume:
  "whole_view R b bs \<Longrightarrow> whole_view R (consume (buf_read R) k b) (drop k bs)"
  by (auto simp: whole_view_def buf_read_def buf_reader_consume_def)

lemma lawful_whole: "lawful_read (buf_read R) (whole_view R) (\<lambda>_. 0)"
proof (rule lawful_read.intro)
  fix b bs n
  assume b: "whole_view R b bs"
  let ?k = "min n (length bs)"
  have "read_some (buf_read R) n b = (Ok (take ?k bs), buf_reader_consume ?k b)"
    using b whole_fill [OF b]
    by (auto simp: whole_view_def buf_read_def buf_reader_read_def io_bind_def io_within_def buf_reader_consume_def min_def)
  moreover have "whole_view R (buf_reader_consume ?k b) (drop ?k bs)"
    using whole_consume [OF b] by (simp add: buf_read_def)
  ultimately show "read_answers (whole_view R) (\<lambda>_. 0) n bs b (read_some (buf_read R) n b)"
    unfolding read_answers_def by (intro disjI1 exI [of _ ?k]) auto
qed

definition inflating_view ::
  "('r, 'x) std_read_scheme \<Rightarrow> ('z \<Rightarrow> byte list \<Rightarrow> byte list \<Rightarrow> bool) \<Rightarrow> nat \<Rightarrow> byte list \<Rightarrow>
   ('z, 'r buf_reader taken) decompression_reader \<Rightarrow> byte list \<Rightarrow> bool" where
  "inflating_view R Z lim zs d out \<longleftrightarrow> (\<exists>k. k \<le> lim \<and> k \<le> length zs \<and>
     bounded_view (whole_view R) (reader d) (lim - k) (drop k zs) \<and> Z (state d) (drop k (take lim zs)) out)"

lemma take_whole_fill:
  assumes "bounded_view (whole_view R) t lim bs"
  shows "fill_buf (std_buf_take (buf_read R)) t = (Ok (take lim bs), t)"
    and "k \<le> length (take lim bs) \<Longrightarrow>
      bounded_view (whole_view R) (consume (std_buf_take (buf_read R)) k t) (lim - k) (drop k bs)"
  using assms whole_fill [of R "inner t" bs] whole_consume [of R "inner t" bs]
  by (auto simp: bounded_view_def std_buf_take_def std_read.defs take_fill_buf_def take_consume_def io_bind_def
      on_inner_def io_within_def io_ret_def min_absorb1)

lemma lawful_decompression:
  fixes R :: "('r, 'x) std_read_scheme" and I :: "'z inflater"
  assumes I: "inflates_whole I Z"
  shows "lawful_read (decompression_read I (std_buf_take (buf_read R))) (inflating_view R Z lim zs) (\<lambda>_. 0)"
proof (rule lawful_read.intro)
  fix d :: "('z, 'r buf_reader taken) decompression_reader" and out n
  let ?R = "decompression_read I (std_buf_take (buf_read R))"
  assume "inflating_view R Z lim zs d out"
  then obtain k where k: "k \<le> lim" "k \<le> length zs"
      and view: "bounded_view (whole_view R) (reader d) (lim - k) (drop k zs)"
      and z: "Z (state d) (drop k (take lim zs)) out"
    by (auto simp: inflating_view_def)
  have chunk: "take (lim - k) (drop k zs) = drop k (take lim zs)"
    by (simp add: drop_take)
  obtain z' i j where inflate: "inflate I (state d) (drop k (take lim zs)) n = (z', i, Ok (take j out))"
      "i \<le> length (drop k (take lim zs))" "j \<le> n" "j \<le> length out"
      "Z z' (drop i (drop k (take lim zs))) (drop j out)" "0 < n \<and> out \<noteq> [] \<longrightarrow> 0 < j"
    using I z unfolding inflates_whole_def by blast
  let ?d = "d\<lparr>state := z', reader := consume (std_buf_take (buf_read R)) i (reader d)\<rparr>"
  have "read_some ?R n d = (Ok (take j out), ?d)"
    by (simp add: decompression_read_def decompression_read_some_def take_whole_fill(1) [OF view] chunk inflate(1))
  moreover have "bounded_view (whole_view R) (reader ?d) (lim - (k + i)) (drop (k + i) zs)"
    using take_whole_fill(2) [OF view, of i] inflate(2) unfolding chunk by (simp add: add.commute)
  then have "inflating_view R Z lim zs ?d (drop j out)"
    unfolding inflating_view_def using k inflate(2,5)
    by (intro exI [of _ "k + i"]) (auto simp: add.commute)
  ultimately show "read_answers (inflating_view R Z lim zs) (\<lambda>_. 0) n out d (read_some ?R n d)"
    using inflate(3,4,6) unfolding read_answers_def by (intro disjI1 exI [of _ j]) auto
qed

definition inflating_bound ::
  "('r, 'x) std_read_scheme \<Rightarrow> ('z \<Rightarrow> byte list \<Rightarrow> byte list \<Rightarrow> bool) \<Rightarrow> nat \<Rightarrow> byte list \<Rightarrow>
   ('z, 'r buf_reader taken) decompression_reader taken \<Rightarrow> nat \<Rightarrow> byte list \<Rightarrow> bool" where
  "inflating_bound R Z lim zs = bounded_view (inflating_view R Z lim zs)"

lemma lawful_inflating_default:
  fixes I :: "'z inflater" and R :: "('r, 'x) std_read_scheme"
  assumes I: "inflates_whole I Z"
  shows "lawful_inflating (default_read_stream I (buf_read R)) (wrapped_view (whole_view R)) (wrapped_bound (whole_view R))
    (inflating_bound R Z) (\<lambda>zs out. \<forall>z. Z (reset I z) zs out)"
proof (rule lawful_inflating.intro [OF lawful_default_stream [OF lawful_whole]], rule lawful_inflating_axioms.intro)
  fix lim zs n
  let ?S = "default_read_stream I (buf_read R)"
  show "lawful_bounded (inner_bounded ?S) (inflating_bound R Z lim zs)"
    using lawful_read.bounded_lawful [OF lawful_decompression [OF I]]
    by (simp add: default_read_stream_def inflating_bound_def)
  show "inflating_bound R Z lim zs (inner_with_bound ?S (with_decompression ?S b) n) n out"
    if "wrapped_bound (whole_view R) b lim zs" "\<forall>z. Z (reset I z) (take lim zs) out" for b out
    using that
    by (auto simp: default_read_stream_def inflating_bound_def bounded_view_def inflating_view_def wrapped_bound_def
        intro!: exI [of _ 0])
  show "\<exists>k. k \<le> lim \<and> k \<le> length zs \<and>
      wrapped_bound (whole_view R) (end_decompression ?S (inner_end_bound ?S c)) (lim - k) (drop k zs)"
    if "inflating_bound R Z lim zs c n' out" for c n' out
    using that
    by (auto simp: default_read_stream_def inflating_bound_def bounded_view_def inflating_view_def wrapped_bound_def)
qed

text \<open>Where the last byte of the output goes with the last byte of the input, nothing is left over.\<close>

lemma drains_default:
  fixes I :: "'z inflater" and R :: "('r, 'x) std_read_scheme"
  assumes "\<And>z zs. Z z zs [] \<Longrightarrow> zs = []" and "lim = length zs" and "inflating_bound R Z lim (zs @ rest) c 0 []"
  shows "wrapped_view (whole_view R) (end_bound (default_read_stream I (buf_read R))
    (end_decompression (default_read_stream I (buf_read R)) (inner_end_bound (default_read_stream I (buf_read R)) c))) rest"
  using assms
  by (fastforce simp: default_read_stream_def inflating_bound_def bounded_view_def inflating_view_def wrapped_view_def)

section \<open>Input without output\<close>

text \<open>
  A call of \<open>inflate\<close> that consumes what is in the buffer and writes nothing is reported as zero
  bytes, which \<open>read_exact\<close> takes for the end of the stream: the read fails although the stream
  goes on.
\<close>

lemma decompression_read_nothing:
  assumes "fill_buf R (reader d) = (Ok buf, r)" and "inflate I (state d) buf n = (z, k, Ok [])" and "0 < n"
  shows "std_read_exact (decompression_read I R) n d = (Err UnexpectedEof, d\<lparr>state := z, reader := consume R k r\<rparr>)"
  using assms
  by (simp add: std_read_exact_def io_total_def read_exact_loop.simps [of _ n] decompression_read_def decompression_read_some_def)

section \<open>Interpretations\<close>

text \<open>A compressed format that is a header of two bytes and the data, as an instance of the parameter.\<close>

definition stored_inflater :: "nat inflater" where
  "stored_inflater =
     \<lparr>inflate = (\<lambda>z zs n. let h = min z (length zs); k = min n (length zs - h)
        in (z - h, h + k, Ok (take k (drop h zs)))),
      reset = (\<lambda>_. 2)\<rparr>"

definition stored :: "nat \<Rightarrow> byte list \<Rightarrow> byte list \<Rightarrow> bool" where
  "stored z zs out \<longleftrightarrow> z \<le> length zs \<and> out = drop z zs \<and> (out = [] \<longrightarrow> zs = [])"

lemma stored_whole: "inflates_whole stored_inflater stored"
  unfolding inflates_whole_def
proof (intro allI impI)
  fix z zs out n
  assume z: "stored z zs out"
  have out: "out = drop z zs" and len: "z \<le> length zs"
    using z unfolding stored_def by blast+
  let ?j = "min n (length out)"
  have run: "inflate stored_inflater z zs n = (0, z + ?j, Ok (take ?j out))"
    using len by (simp add: stored_inflater_def Let_def min_absorb1 out)
  have "drop (z + ?j) zs = drop ?j out" by (simp only: out drop_drop add.commute)
  then have "stored 0 (drop (z + ?j) zs) (drop ?j out)" by (simp add: stored_def)
  moreover have "z + ?j \<le> length zs" using len by (simp add: out)
  moreover have "0 < n \<and> out \<noteq> [] \<longrightarrow> 0 < ?j" by simp
  ultimately show "\<exists>z' k j. inflate stored_inflater z zs n = (z', k, Ok (take j out)) \<and> k \<le> length zs \<and> j \<le> n \<and>
      j \<le> length out \<and> stored z' (drop k zs) (drop j out) \<and> (0 < n \<and> out \<noteq> [] \<longrightarrow> 0 < j)"
    using run by (intro exI [of _ 0] exI [of _ "z + ?j"] exI [of _ ?j] conjI) simp_all
qed

lemma stored_bounded: "inflate_bounded stored_inflater"
  by (auto simp: inflate_bounded_def stored_inflater_def Let_def min_def)

lemma stored_drains: "stored z zs [] \<Longrightarrow> zs = []"
  by (simp add: stored_def)

definition socket_view :: "socket \<Rightarrow> byte list \<Rightarrow> bool" where
  "socket_view s bs \<longleftrightarrow> arrival_bytes (arrivals s) = bs \<and> \<not> nonblocking s"

lemma lawful_socket: "lawful_read socket_read socket_view (\<lambda>s. count_list (arrivals s) Signal)"
  using socket.lawful_read_axioms by (simp add: socket_view_def [abs_def])

interpretation socket_buf: lawful_buf_read "buf_read socket_read" "buf_view socket_view"
  "\<lambda>b. count_list (arrivals (source b)) Signal"
  by (rule lawful_buf_reader_fill [OF lawful_socket])

interpretation socket_stream: lawful_stream "default_read_stream I (buf_read socket_read)"
  "wrapped_view (buf_view socket_view)" "wrapped_bound (buf_view socket_view)" for I
  by (rule lawful_default_stream [OF lawful_buf_reader [OF lawful_socket]])

interpretation socket_contained: contained_stream "default_read_stream stored_inflater (buf_read socket_read)"
  "wrapped_view (buf_view socket_view)" "wrapped_bound (buf_view socket_view)" "packet_kept (buf_view socket_view)"
  by (rule contained_default_stream [OF socket_buf.lawful_buf_read_axioms stored_bounded])

interpretation socket_inflating: lawful_inflating "default_read_stream stored_inflater (buf_read socket_read)"
  "wrapped_view (whole_view socket_read)" "wrapped_bound (whole_view socket_read)" "inflating_bound socket_read stored"
  "\<lambda>zs out. \<forall>z. stored (reset stored_inflater z) zs out"
  by (rule lawful_inflating_default [OF stored_whole])

end
