(* ===== verification/Sync_Compress.thy ===== *)
theory Sync_Compress
  imports Sync_Write
begin

text \<open>
  The compressing side of \<open>src/defaults/sync.rs\<close>: a packet is compressed into a \<open>Vec\<close> first, whose
  length goes into the frame and whose bytes are then written.  \<open>deflate\<close> (\<open>miniz_oxide\<close>) is a
  parameter; the loops around it may not end, and an index or a subtraction may panic.
\<close>

section \<open>deflate\<close>

datatype mz_flush = NoFlush | SyncFlush | Finish
datatype mz_status = StatusOk | StreamEnd

text \<open>The state, the input and the room for output give the new state, the bytes consumed and written, the status.\<close>

record 'q deflater =
  deflate :: "'q \<Rightarrow> byte list \<Rightarrow> nat \<Rightarrow> mz_flush \<Rightarrow> 'q \<times> nat \<times> byte list \<times> (mz_status, string) outcome"
  reset_compressor :: "'q \<Rightarrow> 'q"

section \<open>CachedPreCompressionWriter\<close>

record 'q pre_writer =
  pre_state :: 'q
  pre_buffer :: "byte list"
  pre_written :: nat

text \<open>\<open>Vec::resize(n, 0)\<close>, and what a call of \<open>deflate\<close> leaves in \<open>buffer[written..]\<close>.\<close>

definition vec_resize :: "nat \<Rightarrow> byte list \<Rightarrow> byte list" where
  "vec_resize n v = take n v @ replicate (n - length v) 0"

definition overwrite :: "nat \<Rightarrow> byte list \<Rightarrow> byte list \<Rightarrow> byte list" where
  "overwrite at os v = take at v @ os @ drop (at + length os) v"

definition pre_room :: "'q pre_writer \<Rightarrow> nat" where
  "pre_room b = length (pre_buffer b) - pre_written b"

definition pre_deflated :: "'q \<Rightarrow> byte list \<Rightarrow> 'q pre_writer \<Rightarrow> 'q pre_writer" where
  "pre_deflated q os b = b\<lparr>pre_state := q, pre_buffer := overwrite (pre_written b) os (pre_buffer b)\<rparr>"

partial_function (option) pre_write_loop ::
  "'q deflater \<Rightarrow> byte list \<Rightarrow> nat \<Rightarrow> 'q pre_writer \<Rightarrow> ((unit, io_error) outcome \<times> 'q pre_writer) option" where
  "pre_write_loop D data consumed b =
     (case deflate D (pre_state b) (drop consumed data) (pre_room b) NoFlush of
        (q, bytes_consumed, os, status) \<Rightarrow>
          let b = pre_deflated q os b
          in case status of
               Ok _ \<Rightarrow>
                 let consumed = consumed + bytes_consumed; b = b\<lparr>pre_written := pre_written b + length os\<rparr>
                 in if consumed = length data then Some (Ok (), b)
                    else if length data - consumed < 2 then Some (Panic, b)
                    else let guess = max 2 ((length data - consumed) - 2)
                      in pre_write_loop D data consumed
                           (if pre_room b < guess
                            then b\<lparr>pre_buffer := vec_resize (length (pre_buffer b) + guess) (pre_buffer b)\<rparr>
                            else b)
             | Err e \<Rightarrow> Some (Err (OtherError ''Write compression error''), b)
             | Panic \<Rightarrow> Some (Panic, b)
             | Diverge \<Rightarrow> Some (Diverge, b))"

definition pre_write :: "'q deflater \<Rightarrow> byte list \<Rightarrow> ('q pre_writer, unit, io_error) io" where
  "pre_write D data = (\<lambda>b.
     io_total (pre_write_loop D data 0)
       (b\<lparr>pre_buffer := vec_resize (length (pre_buffer b) + max 2 (length data div 2)) (pre_buffer b)\<rparr>))"

partial_function (option) pre_flush_loop ::
  "'q deflater \<Rightarrow> 'q pre_writer \<Rightarrow> ((unit, io_error) outcome \<times> 'q pre_writer) option" where
  "pre_flush_loop D b =
     (case deflate D (pre_state b) [] (pre_room b) Finish of
        (q, bytes_consumed, os, status) \<Rightarrow>
          let b = pre_deflated q os b
          in case status of
               Ok status \<Rightarrow>
                 let b = b\<lparr>pre_written := pre_written b + length os\<rparr>
                 in if status = StreamEnd
                    then Some (Ok (), b\<lparr>pre_buffer := take (pre_written b) (pre_buffer b)\<rparr>)
                    else pre_flush_loop D
                      (b\<lparr>pre_buffer := vec_resize (length (pre_buffer b) * 2) (pre_buffer b)\<rparr>)
             | Err e \<Rightarrow> Some (Err (OtherError ''Flush compression error''), b)
             | Panic \<Rightarrow> Some (Panic, b)
             | Diverge \<Rightarrow> Some (Diverge, b))"

definition pre_flush :: "'q deflater \<Rightarrow> ('q pre_writer, unit, io_error) io" where
  "pre_flush D = (\<lambda>b.
     io_total (pre_flush_loop D)
       (if length (pre_buffer b) = pre_written b
        then b\<lparr>pre_buffer := vec_resize (max 2 (length (pre_buffer b) * 2)) (pre_buffer b)\<rparr>
        else b))"

definition pre_finish :: "('q pre_writer, nat \<times> byte list, io_error) io" where
  "pre_finish = (\<lambda>b. let payload = pre_buffer b in (Ok (length payload, payload), b))"

section \<open>The write stream\<close>

text \<open>
  The pre-compression writer borrows the compression state of the \<open>DefaultWriter\<close> it is made of;
  \<open>CachedCompressionWriter\<close> is that writer under another interface.
\<close>

definition on_pre :: "('q pre_writer, 'a, 'e) io \<Rightarrow> ('q pre_writer \<times> 'w, 'a, 'e) io" where
  "on_pre = io_within fst (\<lambda>(_, w) b. (b, w))"

definition default_write_stream ::
  "'q deflater \<Rightarrow> 'k cipher \<Rightarrow> ('w, 'x) std_write_scheme \<Rightarrow>
   (('q, 'k, 'w) default_writer, 'q pre_writer \<times> ('q, 'k, 'w) default_writer, ('q, 'k, 'w) default_writer,
    byte list, 'level, io_error) write_stream" where
  "default_write_stream D c W =
     \<lparr>base_writer = std_writer (default_write c W),
      pre_compression_writer = (\<lambda>w _.
        (\<lparr>pre_state = reset_compressor D (compression_state w), pre_buffer = [], pre_written = 0\<rparr>, w)),
      pre_writer = \<lparr>write_data = (\<lambda>data. on_pre (pre_write D data)), flush = on_pre (pre_flush D)\<rparr>,
      finish = on_pre pre_finish,
      end_pre = (\<lambda>(b, w). w\<lparr>compression_state := pre_state b\<rparr>),
      with_compression = (\<lambda>w _. w),
      comp_writer = \<lparr>write_data = (\<lambda>_. io_ret ()), flush = flush_std (default_write c W)\<rparr>,
      initialize = (\<lambda>payload. write_all (default_write c W) payload),
      end_compression = (\<lambda>w. w)\<rparr>"

section \<open>The contract of deflate\<close>

text \<open>
  \<open>K q bs os\<close>: since its reset the compressor \<open>q\<close> has taken \<open>bs\<close> and given \<open>os\<close>.  With room for two
  bytes it makes progress, \<open>pending q\<close> bounding how long it can go on without taking input; it takes
  all of it or leaves at least two bytes.  Asked to finish, it makes progress until the stream ends,
  and what it has given is then the compressed form.
\<close>

definition deflate_takes ::
  "'q deflater \<Rightarrow> ('q \<Rightarrow> byte list \<Rightarrow> byte list \<Rightarrow> bool) \<Rightarrow> ('q \<Rightarrow> nat) \<Rightarrow> bool" where
  "deflate_takes D K pending \<longleftrightarrow> (\<forall>q bs os data n. K q bs os \<longrightarrow> 2 \<le> n \<longrightarrow>
     (\<exists>q' c out st. deflate D q data n NoFlush = (q', c, out, Ok st) \<and> c \<le> length data \<and> length out \<le> n \<and>
        K q' (bs @ take c data) (os @ out) \<and>
        (c = length data \<or> 2 \<le> length data - c \<and> (0 < c \<or> pending q' < pending q))))"

definition deflate_finishes ::
  "'q deflater \<Rightarrow> ('q \<Rightarrow> byte list \<Rightarrow> byte list \<Rightarrow> bool) \<Rightarrow> (byte list \<Rightarrow> byte list \<Rightarrow> bool) \<Rightarrow> ('q \<Rightarrow> nat) \<Rightarrow> bool" where
  "deflate_finishes D K deflates pending \<longleftrightarrow> (\<forall>q bs os n. K q bs os \<longrightarrow> 0 < n \<longrightarrow>
     (\<exists>q' c out st. deflate D q [] n Finish = (q', c, out, Ok st) \<and> length out \<le> n \<and> K q' bs (os @ out) \<and>
        (if st = StreamEnd then deflates bs (os @ out) else pending q' < pending q)))"

definition deflate_resets :: "'q deflater \<Rightarrow> ('q \<Rightarrow> byte list \<Rightarrow> byte list \<Rightarrow> bool) \<Rightarrow> bool" where
  "deflate_resets D K \<longleftrightarrow> (\<forall>q. K (reset_compressor D q) [] [])"

definition pre_view :: "('q \<Rightarrow> byte list \<Rightarrow> byte list \<Rightarrow> bool) \<Rightarrow> 'q pre_writer \<Rightarrow> byte list \<Rightarrow> bool" where
  "pre_view K b bs \<longleftrightarrow> pre_written b \<le> length (pre_buffer b) \<and> K (pre_state b) bs (take (pre_written b) (pre_buffer b))"

lemma vec_resize_grow: "length v \<le> n \<Longrightarrow> vec_resize n v = v @ replicate (n - length v) 0"
  by (simp add: vec_resize_def)

lemma pre_view_resize:
  "pre_view K b bs \<Longrightarrow> length (pre_buffer b) \<le> n \<Longrightarrow> pre_view K (b\<lparr>pre_buffer := vec_resize n (pre_buffer b)\<rparr>) bs"
  by (simp add: pre_view_def vec_resize_grow)

text \<open>What a call of \<open>deflate\<close> within its room leaves behind.\<close>

lemma pre_deflated_written:
  fixes b :: "'q pre_writer" and q :: 'q
  assumes "pre_written b \<le> length (pre_buffer b)" and "length os \<le> pre_room b"
  defines "b' \<equiv> (pre_deflated q os b)\<lparr>pre_written := pre_written b + length os\<rparr>"
  shows "take (pre_written b') (pre_buffer b') = take (pre_written b) (pre_buffer b) @ os"
    and "pre_written b' \<le> length (pre_buffer b')" and "pre_state b' = q"
    and "length (pre_buffer b') = length (pre_buffer b)"
  using assms by (simp_all add: pre_deflated_def overwrite_def pre_room_def)

lemma pre_write_loop_view:
  assumes D: "deflate_takes D K pending"
  shows "pre_view K b (bs @ take consumed data) \<Longrightarrow> consumed \<le> length data \<Longrightarrow> 2 \<le> pre_room b \<Longrightarrow>
    \<exists>b'. pre_write_loop D data consumed b = Some (Ok (), b') \<and> pre_view K b' (bs @ data)"
proof (induction "(length data - consumed, pending (pre_state b))" arbitrary: consumed b
    rule: wf_induct [OF wf_lex_prod [OF wf_less_than wf_less_than]])
  case 1
  note IH = "1.hyps" [rule_format, OF _ refl]
  let ?os = "take (pre_written b) (pre_buffer b)"
  have K: "K (pre_state b) (bs @ take consumed data) ?os" and wb: "pre_written b \<le> length (pre_buffer b)"
    using "1.prems"(1) by (simp_all add: pre_view_def)
  obtain q c out st where run: "deflate D (pre_state b) (drop consumed data) (pre_room b) NoFlush = (q, c, out, Ok st)"
    and c: "c \<le> length (drop consumed data)" and out: "length out \<le> pre_room b"
    and q: "K q ((bs @ take consumed data) @ take c (drop consumed data)) (?os @ out)"
    and prog: "c = length (drop consumed data) \<or>
      2 \<le> length (drop consumed data) - c \<and> (0 < c \<or> pending q < pending (pre_state b))"
    using D K "1.prems"(3) unfolding deflate_takes_def by blast
  define b1 where "b1 = (pre_deflated q out b)\<lparr>pre_written := pre_written b + length out\<rparr>"
  note b1 = pre_deflated_written [OF wb out, of q, folded b1_def]
  have "(bs @ take consumed data) @ take c (drop consumed data) = bs @ take (consumed + c) data"
    by (simp add: take_add)
  with q b1 have view1: "pre_view K b1 (bs @ take (consumed + c) data)"
    by (simp add: pre_view_def)
  have written: "pre_written (pre_deflated q out b) = pre_written b" by (simp add: pre_deflated_def)
  show ?case
  proof (cases "consumed + c = length data")
    case True
    then have "pre_write_loop D data consumed b = Some (Ok (), b1)"
      by (subst pre_write_loop.simps) (simp add: run Let_def b1_def written)
    with view1 True show ?thesis by simp
  next
    case False
    let ?guess = "max 2 ((length data - (consumed + c)) - 2)"
    let ?b2 = "if pre_room b1 < ?guess then b1\<lparr>pre_buffer := vec_resize (length (pre_buffer b1) + ?guess) (pre_buffer b1)\<rparr> else b1"
    have left: "2 \<le> length data - (consumed + c)" using prog False c "1.prems"(2) by auto
    then have step: "pre_write_loop D data consumed b = pre_write_loop D data (consumed + c) ?b2"
      using False by (subst pre_write_loop.simps) (simp add: run Let_def b1_def [symmetric] written)
    have view2: "pre_view K ?b2 (bs @ take (consumed + c) data)"
      using view1 by (simp add: pre_view_resize)
    have room: "2 \<le> pre_room ?b2"
      using b1(2) by (auto simp: pre_room_def vec_resize_grow)
    have "pre_state ?b2 = q" using b1(3) by simp
    moreover have "0 < c \<Longrightarrow> length data - (consumed + c) < length data - consumed" using left by arith
    moreover have "0 < c \<or> pending q < pending (pre_state b)" using prog False "1.prems"(2) by auto
    ultimately have less: "((length data - (consumed + c), pending (pre_state ?b2)), (length data - consumed, pending (pre_state b)))
        \<in> less_than <*lex*> less_than"
      by (cases "c = 0") (simp_all only: in_lex_prod less_than_iff, simp_all)
    have "consumed + c \<le> length data" using c "1.prems"(2) by simp
    from IH [OF less view2 this room] show ?thesis unfolding step .
  qed
qed

lemma pre_write_view:
  assumes D: "deflate_takes D K pending" and b: "pre_view K b bs"
  shows "gives (pre_write D data) b () (\<lambda>b'. pre_view K b' (bs @ data))"
proof -
  let ?n = "length (pre_buffer b) + max 2 (length data div 2)"
  let ?b = "b\<lparr>pre_buffer := vec_resize ?n (pre_buffer b)\<rparr>"
  have "pre_view K ?b (bs @ take 0 data)" using pre_view_resize [OF b, of ?n] by simp
  moreover have "2 \<le> pre_room ?b" using b by (auto simp: pre_room_def vec_resize_grow pre_view_def)
  ultimately obtain b' where "pre_write_loop D data 0 ?b = Some (Ok (), b')" "pre_view K b' (bs @ data)"
    using pre_write_loop_view [OF D, of ?b bs 0 data] by auto
  then show ?thesis by (simp add: gives_def pre_write_def io_total_def)
qed

lemma pre_flush_loop_view:
  assumes D: "deflate_finishes D K deflates pending"
  shows "pre_view K b bs \<Longrightarrow> 0 < pre_room b \<Longrightarrow>
    \<exists>b'. pre_flush_loop D b = Some (Ok (), b') \<and> deflates bs (pre_buffer b')"
proof (induction "pending (pre_state b)" arbitrary: b rule: less_induct)
  case less
  let ?os = "take (pre_written b) (pre_buffer b)"
  have K: "K (pre_state b) bs ?os" and wb: "pre_written b \<le> length (pre_buffer b)"
    using less.prems(1) by (simp_all add: pre_view_def)
  obtain q c out st where run: "deflate D (pre_state b) [] (pre_room b) Finish = (q, c, out, Ok st)"
    and out: "length out \<le> pre_room b" and q: "K q bs (?os @ out)"
    and prog: "if st = StreamEnd then deflates bs (?os @ out) else pending q < pending (pre_state b)"
    using D K less.prems(2) unfolding deflate_finishes_def by blast
  define b1 where "b1 = (pre_deflated q out b)\<lparr>pre_written := pre_written b + length out\<rparr>"
  note b1 = pre_deflated_written [OF wb out, of q, folded b1_def]
  have written: "pre_written (pre_deflated q out b) = pre_written b" by (simp add: pre_deflated_def)
  show ?case
  proof (cases "st = StreamEnd")
    case True
    have "pre_flush_loop D b = Some (Ok (), b1\<lparr>pre_buffer := take (pre_written b1) (pre_buffer b1)\<rparr>)"
      using True by (subst pre_flush_loop.simps) (simp add: run Let_def b1_def written)
    with prog True b1(1) show ?thesis by simp
  next
    case False
    let ?b2 = "b1\<lparr>pre_buffer := vec_resize (length (pre_buffer b1) * 2) (pre_buffer b1)\<rparr>"
    have step: "pre_flush_loop D b = pre_flush_loop D ?b2"
      using False by (subst pre_flush_loop.simps) (simp add: run Let_def b1_def [symmetric] written)
    have "pre_view K b1 bs" using q b1 by (simp add: pre_view_def)
    then have "pre_view K ?b2 bs" by (rule pre_view_resize) simp
    moreover have "0 < pre_room ?b2"
      using less.prems(2) b1(2,4) by (auto simp: pre_room_def vec_resize_grow)
    moreover have "pending (pre_state ?b2) < pending (pre_state b)"
      using prog False b1(3) by simp
    ultimately show ?thesis using less.hyps by (simp only: step)
  qed
qed

lemma pre_flush_view:
  assumes D: "deflate_finishes D K deflates pending" and b: "pre_view K b bs"
  shows "gives (pre_flush D) b () (\<lambda>b'. deflates bs (pre_buffer b'))"
proof -
  let ?n = "max 2 (length (pre_buffer b) * 2)"
  let ?b = "if length (pre_buffer b) = pre_written b then b\<lparr>pre_buffer := vec_resize ?n (pre_buffer b)\<rparr> else b"
  have "pre_view K ?b bs" using b by (simp add: pre_view_resize)
  moreover have "0 < pre_room ?b"
    using b by (auto simp: pre_room_def vec_resize_grow pre_view_def)
  ultimately obtain b' where "pre_flush_loop D ?b = Some (Ok (), b')" "deflates bs (pre_buffer b')"
    using pre_flush_loop_view [OF D] by blast
  then show ?thesis by (simp add: gives_def pre_flush_def io_total_def)
qed

text \<open>
  Why \<open>deflate_takes\<close> asks for two bytes or none to be left: with one byte left, \<open>(1) - 2\<close> overflows.
\<close>

lemma pre_write_one_left:
  assumes "deflate D (pre_state b) data (length (pre_buffer b) + max 2 (length data div 2) - pre_written b) NoFlush
      = (q, length data - 1, out, Ok st)"
    and "data \<noteq> []"
  shows "\<exists>b'. pre_write D data b = (Panic, b')"
proof -
  have "length (vec_resize (length (pre_buffer b) + max 2 (length data div 2)) (pre_buffer b))
      = length (pre_buffer b) + max 2 (length data div 2)"
    by (simp add: vec_resize_grow)
  moreover have "length data - 1 \<noteq> length data" and "length data - (length data - 1) < 2"
    using assms(2) by (cases data; simp)+
  ultimately show ?thesis
    using assms(1) by (simp add: pre_write_def io_total_def pre_write_loop.simps [of D data 0] pre_room_def Let_def)
qed

section \<open>The write stream keeps its contract\<close>

text \<open>
  The pre-compression writer and the writer it was made of; the compression writer is the latter, and
  puts the compressed form on the stream as soon as it is initialised.
\<close>

definition compressing_view ::
  "('q \<Rightarrow> byte list \<Rightarrow> byte list \<Rightarrow> bool) \<Rightarrow> ('w \<Rightarrow> byte list \<Rightarrow> bool) \<Rightarrow> byte list \<Rightarrow> 'q pre_writer \<times> 'w \<Rightarrow>
   byte list \<Rightarrow> bool" where
  "compressing_view K U sent q bs \<longleftrightarrow> pre_view K (fst q) bs \<and> U (snd q) sent"

definition compressed_view ::
  "(byte list \<Rightarrow> byte list \<Rightarrow> bool) \<Rightarrow> ('w \<Rightarrow> byte list \<Rightarrow> bool) \<Rightarrow> byte list \<Rightarrow> 'q pre_writer \<times> 'w \<Rightarrow>
   byte list \<Rightarrow> bool" where
  "compressed_view deflates U sent q bs \<longleftrightarrow> deflates bs (pre_buffer (fst q)) \<and> U (snd q) sent"

definition carried :: "(byte list \<Rightarrow> byte list \<Rightarrow> bool) \<Rightarrow> byte list \<Rightarrow> byte list \<Rightarrow> byte list \<Rightarrow> bool" where
  "carried deflates pay bs zs \<longleftrightarrow> pay = zs \<and> deflates bs zs"

lemma gives_on_pre:
  "gives m (fst q) a Q \<Longrightarrow> gives (on_pre m) q a (\<lambda>q'. Q (fst q') \<and> snd q' = snd q)"
  by (cases q) (auto simp: gives_def on_pre_def io_within_def)

lemma default_writer_view_compression [simp]:
  "default_writer_view c V k0 sent0 (w\<lparr>compression_state := q\<rparr>) = default_writer_view c V k0 sent0 w"
  by (simp add: default_writer_view_def fun_eq_iff)

text \<open>In any view \<open>U\<close> of the writer that does not depend on the state of the compressor.\<close>

lemma lawful_deflating_view:
  fixes W :: "('w, 'x) std_write_scheme" and c :: "'k cipher" and D :: "'q deflater"
  assumes writes: "lawful_write (default_write c W) U patience" and U [simp]: "\<And>w q. U (w\<lparr>compression_state := q\<rparr>) = U w"
    and takes: "deflate_takes D K pending" and finishes: "deflate_finishes D K deflates pending'"
    and resets: "deflate_resets D K"
  shows "lawful_deflating (default_write_stream D c W) U (compressing_view K U) (compressed_view deflates U)
    (\<lambda>sent zs z bs. U z (sent @ zs)) (\<lambda>sent z. U z sent) (carried deflates) deflates"
proof -
  let ?S = "default_write_stream D c W"
  show ?thesis
  proof (rule lawful_deflating.intro)
    show "lawful_writer (base_writer ?S) U"
      using lawful_write.writer_lawful [OF writes] by (simp add: default_write_stream_def)
    show "compressing_view K U sent (pre_compression_writer ?S w level) []" if "U w sent" for w sent level
      using that resets
      by (simp add: default_write_stream_def compressing_view_def pre_view_def deflate_resets_def)
    show "gives (write_data (pre_writer ?S) cs) q () (\<lambda>q'. compressing_view K U sent q' (bs @ cs))"
      if "compressing_view K U sent q bs" for sent q bs cs
      using that gives_on_pre [OF pre_write_view [OF takes, of "fst q" bs cs]]
      by (auto simp: default_write_stream_def compressing_view_def elim!: gives_mono)
    show "gives (flush (pre_writer ?S)) q () (\<lambda>q'. compressed_view deflates U sent q' bs)"
      if "compressing_view K U sent q bs" for sent q bs
      using that gives_on_pre [OF pre_flush_view [OF finishes, of "fst q" bs]]
      by (auto simp: default_write_stream_def compressing_view_def compressed_view_def elim!: gives_mono)
    show "\<exists>zs pay. deflates bs zs \<and> carried deflates pay bs zs \<and>
        gives (finish ?S) q (length zs, pay) (\<lambda>q'. U (end_pre ?S q') sent)"
      if "compressed_view deflates U sent q bs" for sent q bs
      using that
      by (intro exI [of _ "pre_buffer (fst q)"])
         (auto simp: default_write_stream_def compressed_view_def carried_def gives_def on_pre_def io_within_def
           pre_finish_def Let_def split: prod.splits)
    show "U (with_compression ?S w level) sent" if "U w sent" for w sent level
      using that by (simp add: default_write_stream_def)
    show "gives (initialize ?S pay) z () (\<lambda>z'. U z' (sent @ zs))"
      if "U z sent" "carried deflates pay bs zs" for sent z pay bs zs
      using that lawful_write.write_all_ok [OF writes that(1), of zs]
      by (simp add: default_write_stream_def carried_def)
    show "gives (write_data (comp_writer ?S) cs) z () (\<lambda>z'. U z' (sent @ zs))"
      if "U z (sent @ zs)" for sent zs z cs
      using that by (simp add: default_write_stream_def gives_def io_ret_def)
    show "U (end_compression ?S z) (sent @ zs)" if "U z (sent @ zs)" for z sent zs
      using that by (simp add: default_write_stream_def)
  qed
qed

lemma lawful_deflating_default:
  fixes W :: "('w, 'x) std_write_scheme" and c :: "'k cipher" and D :: "'q deflater"
  assumes W: "lawful_write W V patience" and c: "stream_cipher c"
    and takes: "deflate_takes D K pending" and finishes: "deflate_finishes D K deflates pending'"
    and resets: "deflate_resets D K"
  shows "lawful_deflating (default_write_stream D c W) (default_writer_view c V k0 sent0)
    (compressing_view K (default_writer_view c V k0 sent0)) (compressed_view deflates (default_writer_view c V k0 sent0))
    (\<lambda>sent zs z bs. default_writer_view c V k0 sent0 z (sent @ zs)) (\<lambda>sent z. default_writer_view c V k0 sent0 z sent)
    (carried deflates) deflates"
  by (rule lawful_deflating_view [OF lawful_default_write [OF W c] default_writer_view_compression takes finishes resets])

end
