(* ===== verification/Sync_Provider.thy ===== *)
theory Sync_Provider
  imports Sync_Inflate Sync_Compress
begin

text \<open>
  \<open>Compression\<close> of \<open>src/defaults/mod.rs\<close>, and \<open>DefaultStreamProvider\<close> of \<open>src/defaults/sync.rs\<close>:
  the two ends of a connection, what \<open>ProtocolHandler\<close> reads packets from and writes them to.
\<close>

section \<open>Compression\<close>

datatype compression = Compression_None | SpeedOptimized | Variable byte

definition default_compression :: compression where
  "default_compression = Variable 4"

text \<open>\<open>Into<u8>\<close>: the addition on \<open>u8\<close> may overflow.\<close>

definition compression_into :: "compression \<Rightarrow> (byte, unit) outcome" where
  "compression_into l = (case l of
     Compression_None \<Rightarrow> Ok 0
   | SpeedOptimized \<Rightarrow> Ok 1
   | Variable x \<Rightarrow> if 2 + unat x > 255 then Panic else Ok (max 10 (2 + x)))"

section \<open>DefaultStreamProvider\<close>

record ('r, 'z, 'k, 'w, 'q, 'd) stream_provider =
  sp_reader :: "('d, 'r) default_reader buf_reader"
  sp_writer :: "('q, 'k, 'w) default_writer"
  compression_threshold :: "nat option"
  compression_level :: compression
  sp_decompression_state :: 'z

text \<open>
  \<open>new_compressor level\<close> is a \<open>CompressorOxide\<close> at the raw level; \<open>new_inflater\<close> is
  \<open>InflateState::new_boxed\<close>.  The level is converted before anything is built.
\<close>

definition new_provider ::
  "(byte \<Rightarrow> 'q) \<Rightarrow> 'z \<Rightarrow> 'r \<Rightarrow> 'w \<Rightarrow> compression \<Rightarrow> nat \<Rightarrow> (('r, 'z, 'k, 'w, 'q, 'd) stream_provider, unit) outcome" where
  "new_provider new_compressor new_inflater r w level buffer_size =
     (case compression_into level of
        Ok raw \<Rightarrow> Ok
          \<lparr>sp_reader = \<lparr>source = StandardReader r, buffered = [], buf_capacity = buffer_size\<rparr>,
           sp_writer = \<lparr>compression_state = new_compressor raw,
             writer_state = StandardWriter \<lparr>bw_writer = w, bw_buffer = [], bw_capacity = buffer_size\<rparr>\<rparr>,
           compression_threshold = None,
           compression_level = level,
           sp_decompression_state = new_inflater\<rparr>
      | Err e \<Rightarrow> Err e
      | Panic \<Rightarrow> Panic
      | Diverge \<Rightarrow> Diverge)"

definition set_compression_threshold ::
  "nat option \<Rightarrow> ('r, 'z, 'k, 'w, 'q, 'd) stream_provider \<Rightarrow> ('r, 'z, 'k, 'w, 'q, 'd) stream_provider" where
  "set_compression_threshold t pr = pr\<lparr>compression_threshold := t\<rparr>"

text \<open>The reader first: where it panics, the writer is left as it was.\<close>

definition with_encryption ::
  "'d cipher \<Rightarrow> 'k cipher \<Rightarrow> byte list \<Rightarrow> (('r, 'z, 'k, 'w, 'q, 'd) stream_provider, unit, 'e) io" where
  "with_encryption dec enc k =
     io_bind (io_within (\<lambda>pr. source (sp_reader pr)) (\<lambda>pr s. pr\<lparr>sp_reader := (sp_reader pr)\<lparr>source := s\<rparr>\<rparr>)
         (reader_with_encryption dec k)) (\<lambda>_.
       io_within (\<lambda>pr. writer_state (sp_writer pr)) (\<lambda>pr s. pr\<lparr>sp_writer := (sp_writer pr)\<lparr>writer_state := s\<rparr>\<rparr>)
         (writer_with_encryption enc k))"

text \<open>\<open>read_stream\<close> borrows the decompression state and the reader, \<open>write_stream\<close> the writer.\<close>

definition sp_read_stream :: "('r, 'z, 'k, 'w, 'q, 'd) stream_provider \<Rightarrow> ('z, ('d, 'r) default_reader buf_reader) state_wrapped" where
  "sp_read_stream pr = \<lparr>decompression_state = sp_decompression_state pr, wrapped = sp_reader pr\<rparr>"

definition on_read_stream ::
  "(('z, ('d, 'r) default_reader buf_reader) state_wrapped, 'a, 'e) io \<Rightarrow> (('r, 'z, 'k, 'w, 'q, 'd) stream_provider, 'a, 'e) io" where
  "on_read_stream = io_within sp_read_stream
     (\<lambda>pr w. pr\<lparr>sp_decompression_state := decompression_state w, sp_reader := wrapped w\<rparr>)"

definition on_write_stream ::
  "(('q, 'k, 'w) default_writer, 'a, 'e) io \<Rightarrow> (('r, 'z, 'k, 'w, 'q, 'd) stream_provider, 'a, 'e) io" where
  "on_write_stream = io_within sp_writer (\<lambda>pr w. pr\<lparr>sp_writer := w\<rparr>)"

section \<open>A handler over the provider\<close>

text \<open>
  \<open>ProtocolHandler::read_packet\<close> and \<open>write_packet\<close> at \<open>P = DefaultStreamProvider\<close>: the threshold and
  the level are the provider's, the state is the handler's.
\<close>

definition on_provider :: "('p, 'a, 'e) io \<Rightarrow> ('p protocol_handler, 'a, 'e) io" where
  "on_provider = io_within provider (\<lambda>h p. h\<lparr>provider := p\<rparr>)"

definition handler_read_packet ::
  "protocol \<Rightarrow> 'z inflater \<Rightarrow> 'd cipher \<Rightarrow> ('r, 'x) std_read_scheme \<Rightarrow>
   (('z, ('d, 'r) default_reader buf_reader taken) state_wrapped,
    ('z, ('d, 'r) default_reader buf_reader taken) decompression_reader taken, 'h, io_error) state_handler \<Rightarrow>
   (('r, 'z, 'k, 'w, 'q, 'd) stream_provider protocol_handler, 'h, io_error read_error) io" where
  "handler_read_packet p I dec R H = (\<lambda>h.
     on_provider (\<lambda>pr. on_read_stream
       (read_packet p (handler_state h) (compression_threshold pr) (default_read_stream I (buf_read (default_read dec R))) H) pr) h)"

text \<open>\<open>None\<close>: not a packet the state writes, which the source refuses to compile.\<close>

definition handler_write_packet ::
  "protocol \<Rightarrow> 'q deflater \<Rightarrow> 'k cipher \<Rightarrow> ('w, 'x) std_write_scheme \<Rightarrow>
   ('r, 'z, 'k, 'w, 'q, 'd) stream_provider protocol_handler \<Rightarrow> string \<Rightarrow>
   (('q, 'k, 'w) default_writer, 'q pre_writer \<times> ('q, 'k, 'w) default_writer, ('q, 'k, 'w) default_writer, io_error) packet \<Rightarrow>
   ((unit, io_error write_error) outcome \<times> ('r, 'z, 'k, 'w, 'q, 'd) stream_provider protocol_handler) option" where
  "handler_write_packet p D enc W h name pkt =
     map_option (\<lambda>m. on_provider (on_write_stream m) h)
       (write_packet p (handler_state h) (compression_threshold (provider h)) (compression_level (provider h))
         (default_write_stream D enc W) name pkt)"

section \<open>What is flushed is on the stream\<close>

fun unsent :: "('k, 'w) default_writer_state \<Rightarrow> byte list" where
  "unsent (StandardWriter b) = bw_buffer b"
| "unsent (EncryptWriter b) = bw_buffer b"
| "unsent PoisonedWriter = []"

text \<open>The bytes on the stream behind a writer that has accepted \<open>bs\<close> and has nothing unsent.\<close>

definition delivered ::
  "'k cipher \<Rightarrow> ('w \<Rightarrow> byte list \<Rightarrow> bool) \<Rightarrow> 'k \<Rightarrow> byte list \<Rightarrow> ('k, 'w) default_writer_state \<Rightarrow> byte list \<Rightarrow> bool" where
  "delivered c V k0 sent0 s bs \<longleftrightarrow> (case s of
     StandardWriter b \<Rightarrow> V (bw_writer b) bs
   | EncryptWriter b \<Rightarrow> V (bw_writer b) (sent0 @ fst (apply_blocks c k0 bs))
   | PoisonedWriter \<Rightarrow> False)"

lemma unsent_delivered:
  "writer_view c V k0 sent0 s bs \<Longrightarrow> unsent s = [] \<Longrightarrow> delivered c V k0 sent0 s bs"
  by (cases s) (auto simp: writer_view_def delivered_def buffered_view_def encryption_view_def)

lemma buffered_flush_empties: "buffered_flush W b = (Ok (), b') \<Longrightarrow> bw_buffer b' = []"
  by (auto simp: buffered_flush_def on_bw_writer_def io_within_def io_bind_def
      split: if_splits prod.splits outcome.splits)

lemma encryption_flush_empties: "encryption_flush c W b = (Ok (), b') \<Longrightarrow> bw_buffer b' = []"
  by (auto simp: encryption_flush_def on_ew_writer_def io_within_def io_bind_def Let_def
      split: if_splits prod.splits outcome.splits)

lemma default_flush_empties:
  assumes "flush_std (default_write c W) w = (Ok (), w')"
  shows "unsent (writer_state w') = []"
  using assms
  by (auto simp: default_write_def on_writer_state_def io_within_def writer_state_flush_def
      split: prod.splits default_writer_state.splits dest: buffered_flush_empties encryption_flush_empties)

lemma write_packet_internal_flushed:
  assumes "write_packet_internal t level (default_write_stream D c W) i pkt w = (Ok (), w')"
  shows "unsent (writer_state w') = []"
  using assms unfolding write_packet_internal_def
  by (auto simp: Let_def io_bind_def io_map_err_def default_write_stream_def std_writer_def
      split: prod.splits outcome.splits dest: default_flush_empties)

end
