(* ===== verification/Packet_Types.thy ===== *)
theory Packet_Types
  imports Packet_Write Containers
begin

text \<open>
  Packets of a serialized type: \<open>ToWriter\<close> and \<open>Serializable\<close> of a type make a packet of its value,
  \<open>FromReader\<close> makes a handler that returns the designator and the value.  What the packet model asks
  of a packet and of a handler follows from the contract of the type.
\<close>

definition typed_packet ::
  "('w, 'q, 'z, 'pay, 'level, 'e) write_stream \<Rightarrow> (('w, 'e) writer \<Rightarrow> 'a \<Rightarrow> ('w, unit, 'e write_error) io) \<Rightarrow>
   (('q, 'e) writer \<Rightarrow> 'a \<Rightarrow> ('q, unit, 'e write_error) io) \<Rightarrow> (('z, 'e) writer \<Rightarrow> 'a \<Rightarrow> ('z, unit, 'e write_error) io) \<Rightarrow>
   ('a \<Rightarrow> nat) \<Rightarrow> 'a \<Rightarrow> ('w, 'q, 'z, 'e) packet" where
  "typed_packet S to_b to_q to_z size_of x =
     \<lparr>packet_size = size_of x, to_base = to_b (base_writer S) x, to_pre = to_q (pre_writer S) x,
      to_comp = to_z (comp_writer S) x\<rparr>"

definition typed_handler ::
  "('r, 'b, 'd, 'c, 'e) read_stream \<Rightarrow> (('b, 'e) bounded_reader \<Rightarrow> ('b, 'a, 'e read_error) io) \<Rightarrow>
   (('c, 'e) bounded_reader \<Rightarrow> ('c, 'a, 'e read_error) io) \<Rightarrow> ('b, 'c, designator \<times> 'a, 'e) state_handler" where
  "typed_handler S from_b from_c =
     \<lparr>handle_bounded = \<lambda>d. io_bind (from_b (bounded S)) (\<lambda>x. io_ret (d, x)),
      handle_inner = \<lambda>d. io_bind (from_c (inner_bounded S)) (\<lambda>x. io_ret (d, x))\<rparr>"

lemma typed_packet_writes:
  assumes S: "lawful_deflating S V P F Z N carries deflates"
    and ser: "serializes to_b size_of enc valid" "serializes to_q size_of enc valid" "serializes to_z size_of enc valid"
    and x: "valid x"
  shows "packet_writes V (P sent) (Z sent zs) (typed_packet S to_b to_q to_z size_of x) (enc x)"
proof -
  have "lawful_sink (base_writer S) V"
    by (rule lawful_writer.axioms(1) [OF lawful_deflating.base_writes [OF S]])
  moreover have "lawful_sink (pre_writer S) (P sent)"
    by (rule lawful_sink.intro) (rule lawful_deflating.pre_writes [OF S])
  moreover have "lawful_sink (comp_writer S) (Z sent zs)"
    by (rule lawful_sink.intro) (rule lawful_deflating.comp_writes [OF S])
  ultimately show ?thesis
    using ser x by (simp add: packet_writes_def typed_packet_def serializes.size_enc serializes.writes_enc)
qed

lemma typed_answers:
  assumes R: "lawful_bounded R B" and des: "deserializes from_r enc valid" and x: "valid x"
  shows "answers B (io_bind (from_r R) (\<lambda>x. io_ret (d, x))) (enc x) (Ok (d, x))"
  unfolding answers_def
proof (intro allI impI)
  fix b rest
  assume "B b (length (enc x)) (enc x @ rest)"
  then have "frame_view B rest 0 b (enc x @ [])" by (simp add: frame_view_def)
  from decodesD [OF deserializes.reads_enc [OF des x lawful_bounded.frame_lawful [OF R]] this]
  show "fst (io_bind (from_r R) (\<lambda>x. io_ret (d, x)) b) = Ok (d, x)"
    by (auto simp: gives_def io_bind_def io_ret_def)
qed

lemma typed_handles:
  assumes S: "lawful_inflating S V B C inflates"
    and des: "deserializes from_b enc valid" "deserializes from_c enc valid" and x: "valid x"
    and kept: "\<And>R. ops_contained B R \<Longrightarrow> well_behaved B (from_b R)"
      "\<And>R lim zs. ops_contained (C lim zs) R \<Longrightarrow> well_behaved (C lim zs) (from_c R)"
  shows "handles S V B C (typed_handler S from_b from_c) d (enc x) (Ok (d, x))"
proof -
  note b = lawful_stream.bounded_lawful [OF lawful_inflating.axioms(1) [OF S]]
  note c = lawful_inflating.inner_lawful [OF S]
  show ?thesis
    unfolding handles_def typed_handler_def
    by (auto simp: returns_def intro!: typed_answers [OF b des(1) x] typed_answers [OF c des(2) x]
        well_behaved_bind well_behaved_ret kept lawful_ops_contained [OF b] lawful_ops_contained [OF c])
qed

section \<open>Between two peers\<close>

text \<open>A packet that a state writes has an identifier that the peer's state takes for the same packet.\<close>

lemma written_id:
  assumes "protocol_ok p" and "phase \<noteq> HandshakePhase" and "writer_packet_id p (side, phase) name = Some i"
  shows "0 \<le> i" and "designator_from_id p (reciprocal side, phase) i = Some (Packet name)"
proof -
  show known: "designator_from_id p (reciprocal side, phase) i = Some (Packet name)"
    using assms writer_reader_agree by blast
  then obtain t where t: "state_table p (reciprocal side, phase) = Some t" "designator_of_id t i = Some name"
    using assms(2) by (cases phase) (auto split: option.splits)
  then have "designator_of_id t i \<noteq> None" by simp
  then show "0 \<le> i" using designator_known [OF state_table_ok [OF assms(1) t(1)], of i] by simp
qed

lemma packet_body_bound: "length payload \<le> I32_MAX - 5 \<Longrightarrow> length (packet_body i payload) \<le> I32_MAX"
  using enc_varint_length [of "varint_from i"] by (simp add: packet_body_def I32_MAX_def)

lemma written_packet_read:
  assumes W: "lawful_deflating SW VW P F Z N carries deflates"
    and R: "lawful_inflating SR VR B C inflates" "drains SR VR C"
    and zlib: "\<And>bs zs. bs \<noteq> [] \<Longrightarrow> deflates bs zs \<Longrightarrow> inflates zs bs"
    and p: "protocol_ok p" "phase \<noteq> HandshakePhase"
    and i: "writer_packet_id p (side, phase) name = Some i" "i < 2 ^ 31"
    and pkt: "\<And>sent zs. packet_writes VW (P sent) (Z sent zs) pkt payload" "length payload \<le> I32_MAX - 5"
    and H: "handles SR VR B C H (Packet name) payload res"
    and w: "VW w sent"
  shows "\<exists>frame. frame_of deflates threshold (packet_body i payload) frame \<and>
    wire_written VW sent (oversized_name threshold (packet_body i payload)) frame
      (write_packet_internal threshold level SW i pkt) w \<and>
    (length frame \<le> MAX_PACKET_SIZE \<longrightarrow> (\<forall>r rest. VR r (wire_frame frame @ rest) \<longrightarrow>
      (\<exists>r'. read_packet p (reciprocal side, phase) threshold SR H r = (res, r') \<and> VR r' rest)))"
proof -
  note size = packet_body_bound [OF pkt(2)]
  obtain frame where frame: "frame_of deflates threshold (packet_body i payload) frame"
      "wire_written VW sent (oversized_name threshold (packet_body i payload)) frame
        (write_packet_internal threshold level SW i pkt) w"
    using write_packet_internal_frame [OF W pkt(1) size w] by blast
  note id = written_id [OF p i(1)]
  have low: "- (2 ^ 31) \<le> i" using id(1) by simp
  show ?thesis
    using frame read_packet_frame [OF R zlib low i(2) id(2) H frame(1) _ size] by blast
qed

end
