(* ===== verification/Sync_Instances.thy ===== *)
theory Sync_Instances
  imports Sync_Provider Packet_Types
begin

text \<open>
  Instances of what \<open>src/defaults/sync.rs\<close> takes from other crates, on which its contracts are
  interpreted: a cipher with feedback, and a compressor for the format of \<open>stored_inflater\<close>.
\<close>

section \<open>A cipher\<close>

text \<open>Each byte is masked with the byte of the ciphertext in front of it, the first with the key.\<close>

fun feedback_encrypt :: "byte \<Rightarrow> byte list \<Rightarrow> byte list \<times> byte" where
  "feedback_encrypt k [] = ([], k)"
| "feedback_encrypt k (b # bs) = (case feedback_encrypt (b XOR k) bs of (cs, k') \<Rightarrow> ((b XOR k) # cs, k'))"

fun feedback_decrypt :: "byte \<Rightarrow> byte list \<Rightarrow> byte list \<times> byte" where
  "feedback_decrypt k [] = ([], k)"
| "feedback_decrypt k (c # cs) = (case feedback_decrypt c cs of (bs, k') \<Rightarrow> ((c XOR k) # bs, k'))"

definition feedback_encryptor :: "byte cipher" where
  "feedback_encryptor = \<lparr>init = hd, apply_blocks = feedback_encrypt\<rparr>"

definition feedback_decryptor :: "byte cipher" where
  "feedback_decryptor = \<lparr>init = hd, apply_blocks = feedback_decrypt\<rparr>"

text \<open>\<open>deciphers dec kd enc ke\<close>: from the states \<open>kd\<close> and \<open>ke\<close> on, \<open>dec\<close> undoes what \<open>enc\<close> does.\<close>

definition deciphers :: "'d cipher \<Rightarrow> 'd \<Rightarrow> 'k cipher \<Rightarrow> 'k \<Rightarrow> bool" where
  "deciphers dec kd enc ke \<longleftrightarrow> (\<forall>bs. fst (apply_blocks dec kd (fst (apply_blocks enc ke bs))) = bs)"

lemma feedback_encrypt_append:
  "feedback_encrypt k (bs @ cs) =
     (let (ps, k') = feedback_encrypt k bs; (qs, k'') = feedback_encrypt k' cs in (ps @ qs, k''))"
  by (induction bs arbitrary: k) (simp_all split: prod.splits)

lemma feedback_decrypt_append:
  "feedback_decrypt k (bs @ cs) =
     (let (ps, k') = feedback_decrypt k bs; (qs, k'') = feedback_decrypt k' cs in (ps @ qs, k''))"
  by (induction bs arbitrary: k) (simp_all split: prod.splits)

lemma length_feedback_encrypt: "length (fst (feedback_encrypt k bs)) = length bs"
  by (induction bs arbitrary: k) (simp_all split: prod.splits, metis fst_conv)

lemma length_feedback_decrypt: "length (fst (feedback_decrypt k bs)) = length bs"
  by (induction bs arbitrary: k) (simp_all split: prod.splits, metis fst_conv)

lemma feedback_encryptor: "stream_cipher feedback_encryptor"
  by (simp add: stream_cipher_def feedback_encryptor_def feedback_encrypt_append length_feedback_encrypt)

lemma feedback_decryptor: "stream_cipher feedback_decryptor"
  by (simp add: stream_cipher_def feedback_decryptor_def feedback_decrypt_append length_feedback_decrypt)

lemma feedback_inverse: "fst (feedback_decrypt k (fst (feedback_encrypt k bs))) = bs"
  by (induction bs arbitrary: k) (simp_all add: xor.assoc split: prod.splits, metis fst_conv)

lemma feedback_deciphers: "deciphers feedback_decryptor k feedback_encryptor k"
  by (simp add: deciphers_def feedback_encryptor_def feedback_decryptor_def feedback_inverse)

section \<open>A compressor\<close>

text \<open>The state is what has not been written out yet; everything is written out at the end.\<close>

definition stored_header :: "byte list" where
  "stored_header = [0x78, 0x9C]"

definition stored_deflater :: "byte list deflater" where
  "stored_deflater =
     \<lparr>deflate = (\<lambda>q data n f. case f of
        NoFlush \<Rightarrow> (q @ data, length data, [], Ok StatusOk)
      | SyncFlush \<Rightarrow>
          (drop n q, min (length data) (n - length q), take n q @ take (n - length q) data, Ok StatusOk)
      | Finish \<Rightarrow> (drop n q, 0, take n q, Ok (if length q \<le> n then StreamEnd else StatusOk))),
      reset_compressor = (\<lambda>_. stored_header)\<rparr>"

definition stored_deflates :: "byte list \<Rightarrow> byte list \<Rightarrow> bool" where
  "stored_deflates bs zs \<longleftrightarrow> zs = stored_header @ bs"

definition stored_state :: "byte list \<Rightarrow> byte list \<Rightarrow> byte list \<Rightarrow> bool" where
  "stored_state q bs os \<longleftrightarrow> os @ q = stored_header @ bs"

lemma stored_takes: "deflate_takes stored_deflater stored_state length"
  by (simp add: deflate_takes_def stored_deflater_def stored_state_def flip: append_assoc)

lemma stored_finishes: "deflate_finishes stored_deflater stored_state stored_deflates length"
  by (auto simp: deflate_finishes_def stored_deflater_def stored_state_def stored_deflates_def not_le)

lemma stored_resets: "deflate_resets stored_deflater stored_state"
  by (simp add: deflate_resets_def stored_deflater_def stored_state_def)

text \<open>What the compressor makes, \<open>stored_inflater\<close> undoes.\<close>

lemma stored_inflates:
  "bs \<noteq> [] \<Longrightarrow> stored_deflates bs zs \<Longrightarrow> stored (reset stored_inflater z) zs bs"
  by (simp add: stored_deflates_def stored_header_def stored_def stored_inflater_def)

section \<open>Interpretations\<close>

interpretation vec_deflating: lawful_deflating "default_write_stream stored_deflater feedback_encryptor vec_write"
  "default_writer_view feedback_encryptor (=) k0 sent0"
  "compressing_view stored_state (default_writer_view feedback_encryptor (=) k0 sent0)"
  "compressed_view stored_deflates (default_writer_view feedback_encryptor (=) k0 sent0)"
  "\<lambda>sent zs z bs. default_writer_view feedback_encryptor (=) k0 sent0 z (sent @ zs)"
  "\<lambda>sent z. default_writer_view feedback_encryptor (=) k0 sent0 z sent"
  "carried stored_deflates" stored_deflates for k0 sent0
  by (rule lawful_deflating_default [OF vec.lawful_write_axioms feedback_encryptor stored_takes stored_finishes stored_resets])

lemma stored_drains_stream:
  fixes R :: "('r, 'x) std_read_scheme"
  shows "drains (default_read_stream stored_inflater (buf_read R)) (wrapped_view (whole_view R)) (inflating_bound R stored)"
  unfolding drains_def by (intro allI impI) (rule drains_default [OF stored_drains refl])

section \<open>A packet of one VarInt\<close>

definition varint_packet ::
  "('w, 'q, 'z, 'pay, 'level, 'e) write_stream \<Rightarrow> varint \<Rightarrow> ('w, 'q, 'z, 'e) packet" where
  "varint_packet S v = typed_packet S write_varint write_varint write_varint size_varint v"

definition varint_handler :: "('r, 'b, 'd, 'c, 'e) read_stream \<Rightarrow> ('b, 'c, designator \<times> varint, 'e) state_handler" where
  "varint_handler S = typed_handler S read_varint read_varint"

lemma varint_packet_writes:
  assumes "lawful_deflating S V P F Z N carries deflates"
  shows "packet_writes V (P sent) (Z sent zs) (varint_packet S v) (enc_varint v)"
  unfolding varint_packet_def
  by (rule typed_packet_writes [OF assms codec.axioms(1) [OF varint.codec_axioms] codec.axioms(1) [OF varint.codec_axioms]
      codec.axioms(1) [OF varint.codec_axioms] TrueI])

lemma varint_handles:
  assumes "lawful_inflating S V B C inflates"
  shows "handles S V B C (varint_handler S) d (enc_varint v) (Ok (d, v))"
  unfolding varint_handler_def
  by (rule typed_handles [OF assms codec.axioms(2) [OF varint.codec_axioms] codec.axioms(2) [OF varint.codec_axioms] TrueI])
     (rule well_behaved_read_varint, assumption)+

lemma varint_handler_bounded:
  assumes "lawful_stream S V B"
  shows "well_behaved B (handle_bounded (varint_handler S) d)"
    and "answers B (handle_bounded (varint_handler S) d) (enc_varint v) (Ok (d, v))"
proof -
  note R = lawful_stream.bounded_lawful [OF assms]
  show "well_behaved B (handle_bounded (varint_handler S) d)"
    by (simp add: varint_handler_def typed_handler_def) (intro contained lawful_ops_contained [OF R])
  show "answers B (handle_bounded (varint_handler S) d) (enc_varint v) (Ok (d, v))"
    using typed_answers [OF R codec.axioms(2) [OF varint.codec_axioms] TrueI]
    by (simp add: varint_handler_def typed_handler_def)
qed

lemma varint_handler_inner:
  "ops_contained G (inner_bounded S) \<Longrightarrow> well_behaved G (handle_inner (varint_handler S) d)"
  by (simp add: varint_handler_def typed_handler_def) (intro contained)

end
