(* ===== verification/Sync_Session.thy ===== *)
theory Sync_Session
  imports Sync_Instances
begin

text \<open>
  Two \<open>ProtocolHandler\<close>s over \<open>DefaultStreamProvider\<close>s: what one writes is put on its stream by the
  flush that ends the packet, encrypted if encryption is switched on, and is read by the other.
\<close>

section \<open>Writing through the provider\<close>

abbreviation handler_writer :: "('r, 'z, 'k, 'w, 'q, 'd) stream_provider protocol_handler \<Rightarrow> ('k, 'w) default_writer_state" where
  "handler_writer h \<equiv> writer_state (sp_writer (provider h))"

abbreviation handler_threshold :: "('r, 'z, 'k, 'w, 'q, 'd) stream_provider protocol_handler \<Rightarrow> nat option" where
  "handler_threshold h \<equiv> compression_threshold (provider h)"

text \<open>
  \<open>packet_sent\<close>: the packet is on the stream behind what was sent before; \<open>packet_refused\<close>: it is too
  large, and nothing of it was accepted.
\<close>

definition packet_sent ::
  "'k cipher \<Rightarrow> ('w \<Rightarrow> byte list \<Rightarrow> bool) \<Rightarrow> 'k \<Rightarrow> byte list \<Rightarrow> byte list \<Rightarrow>
   ((unit, io_error write_error) outcome \<times> ('r, 'z, 'k, 'w, 'q, 'd) stream_provider protocol_handler) option \<Rightarrow> bool" where
  "packet_sent enc V k0 sent0 sent run \<longleftrightarrow> (\<exists>h'. run = Some (Ok (), h') \<and> delivered enc V k0 sent0 (handler_writer h') sent \<and>
     writer_view enc V k0 sent0 (handler_writer h') sent)"

definition packet_refused ::
  "'k cipher \<Rightarrow> ('w \<Rightarrow> byte list \<Rightarrow> bool) \<Rightarrow> 'k \<Rightarrow> byte list \<Rightarrow> byte list \<Rightarrow> nat \<Rightarrow>
   ((unit, io_error write_error) outcome \<times> ('r, 'z, 'k, 'w, 'q, 'd) stream_provider protocol_handler) option \<Rightarrow> bool" where
  "packet_refused enc V k0 sent0 sent n run \<longleftrightarrow> (\<exists>h' name. run = Some (Err (WOverSized name MAX_PACKET_SIZE n), h') \<and>
     writer_view enc V k0 sent0 (handler_writer h') sent)"

lemma handler_writes:
  assumes frame: "wire_written (default_writer_view enc V k0 sent0) sent label frame
      (write_packet_internal (handler_threshold h) (compression_level (provider h)) (default_write_stream D enc W) i pkt)
      (sp_writer (provider h))"
    and i: "writer_packet_id p (handler_state h) name = Some i"
  shows "if length frame \<le> MAX_PACKET_SIZE
    then packet_sent enc V k0 sent0 (sent @ wire_frame frame) (handler_write_packet p D enc W h name pkt)
    else packet_refused enc V k0 sent0 sent (length frame) (handler_write_packet p D enc W h name pkt)"
proof -
  let ?m = "write_packet_internal (handler_threshold h) (compression_level (provider h)) (default_write_stream D enc W) i pkt"
  obtain res w' where run: "?m (sp_writer (provider h)) = (res, w')" by fastforce
  have "handler_write_packet p D enc W h name pkt = Some (res, h\<lparr>provider := (provider h)\<lparr>sp_writer := w'\<rparr>\<rparr>)"
    by (simp add: handler_write_packet_def write_packet_def i on_provider_def on_write_stream_def io_within_def run)
  moreover have "delivered enc V k0 sent0 (writer_state w') bs"
    if "res = Ok ()" "default_writer_view enc V k0 sent0 w' bs" for bs
    using that write_packet_internal_flushed [of _ _ D enc W i pkt "sp_writer (provider h)" w'] run
    by (auto simp: default_writer_view_def intro!: unsent_delivered)
  ultimately show ?thesis
    using frame
    by (auto simp: wire_written_def gives_def fails_def run packet_sent_def packet_refused_def default_writer_view_def
        split: if_splits)
qed

section \<open>Reading through the provider\<close>

lemma handler_reads:
  assumes "read_packet p (handler_state h) (handler_threshold h) (default_read_stream I (buf_read (default_read dec R))) H
      (sp_read_stream (provider h)) = (res, w)"
  shows "handler_read_packet p I dec R H h = (res, h\<lparr>provider := (provider h)
    \<lparr>sp_decompression_state := decompression_state w, sp_reader := wrapped w\<rparr>\<rparr>)"
  using assms by (simp add: handler_read_packet_def on_provider_def on_read_stream_def io_within_def)

text \<open>\<open>peer_holds\<close>: the bytes \<open>bs\<close> are what the reader of the peer will still be given, in the view \<open>U\<close>.\<close>

definition peer_holds ::
  "(('d, 'r) default_reader buf_reader \<Rightarrow> byte list \<Rightarrow> bool) \<Rightarrow> state \<Rightarrow> nat option \<Rightarrow>
   ('r, 'z, 'k, 'w, 'q, 'd) stream_provider protocol_handler \<Rightarrow> byte list \<Rightarrow> bool" where
  "peer_holds U s threshold h bs \<longleftrightarrow>
     handler_state h = s \<and> handler_threshold h = threshold \<and> U (sp_reader (provider h)) bs"

lemma handler_reads_packet:
  assumes "\<exists>w. read_packet p s threshold (default_read_stream I (buf_read (default_read dec R))) H (sp_read_stream (provider h)) = (res, w) \<and>
      wrapped_view U w rest"
    and "peer_holds U s threshold h bs"
  shows "\<exists>h'. handler_read_packet p I dec R H h = (res, h') \<and> peer_holds U s threshold h' rest"
  using assms handler_reads [of p h I dec R H res]
  by (fastforce simp: peer_holds_def wrapped_view_def)

lemma peer_holds_view: "peer_holds U s threshold h bs \<Longrightarrow> wrapped_view U (sp_read_stream (provider h)) bs"
  by (simp add: peer_holds_def wrapped_view_def sp_read_stream_def)

section \<open>Encryption between the two\<close>

text \<open>
  Both switch encryption on at the same place of the stream: the writer at \<open>sent0\<close>, the reader where it
  has taken \<open>sent0\<close> and has nothing in its buffer.  What the writer delivers from then on is what the
  reader will read.
\<close>

lemma encrypted_link:
  assumes "deciphers dec kd enc ke" and "delivered enc (=) ke sent0 (EncryptWriter b) bs"
    and "VR r (drop (length sent0) (bw_writer b))"
  shows "default_view dec VR (DecryptReader kd r) bs"
  using assms by (auto simp: default_view_def delivered_def deciphers_def intro!: exI [of _ "drop (length sent0) (bw_writer b)"])

text \<open>An invariant of the operations can be added to the view of a writer; the switched-on encryption is one.\<close>

lemma lawful_write_invariant:
  fixes W :: "('w, 'x) std_write_scheme"
  assumes W: "lawful_write W V patience"
    and keeps: "\<And>w buf. J w \<Longrightarrow> J (snd (write_some W buf w))" "\<And>w. J w \<Longrightarrow> J (snd (flush_std W w))"
  shows "lawful_write W (\<lambda>w bs. V w bs \<and> J w) patience"
proof (rule lawful_write.intro)
  fix w sent buf
  assume w: "V w sent \<and> J w"
  show "write_answers (\<lambda>w bs. V w bs \<and> J w) patience sent buf w (write_some W buf w)" if "buf \<noteq> []"
    using lawful_write.write_some [OF W _ that, of w sent] keeps(1) [of w buf] w by (auto simp: write_answers_def)
  show "gives (flush_std W) w () (\<lambda>w'. V w' sent \<and> J w')"
    using lawful_write.flush_some [OF W, of w sent] keeps(2) [of w] w by (auto simp: gives_def)
qed

fun encrypting :: "('k, 'w) default_writer_state \<Rightarrow> bool" where
  "encrypting (EncryptWriter b) = True"
| "encrypting s = False"

lemma lawful_encrypting:
  fixes W :: "('w, 'x) std_write_scheme" and c :: "'k cipher" and q :: 'q
  assumes "lawful_write W V patience" and "stream_cipher c"
  shows "lawful_write (default_write c W)
    (\<lambda>w bs. default_writer_view c V k0 sent0 w bs \<and> encrypting (writer_state w) \<and> compression_state w = q) (\<lambda>_. 0)"
proof (rule lawful_write_invariant [OF lawful_default_write [OF assms]])
  fix w :: "('q, 'k, 'w) default_writer" and buf
  assume w: "encrypting (writer_state w) \<and> compression_state w = q"
  let ?J = "\<lambda>w. encrypting (writer_state w) \<and> compression_state w = q"
  show "?J (snd (write_some (default_write c W) buf w))"
    using w by (cases "writer_state w")
      (simp_all add: default_write_def on_writer_state_def io_within_def writer_state_write_def split: prod.split)
  show "?J (snd (flush_std (default_write c W) w))"
    using w by (cases "writer_state w")
      (simp_all add: default_write_def on_writer_state_def io_within_def writer_state_flush_def split: prod.split)
qed

lemma encryptingE:
  assumes "encrypting s"
  obtains e where "s = EncryptWriter e"
  using assms by (cases s) auto

lemma with_encryption_OkD:
  assumes "with_encryption dec enc key pr = (Ok (), pr')"
  obtains r b where "source (sp_reader pr) = StandardReader r" and "writer_state (sp_writer pr) = StandardWriter b"
    and "sp_reader pr' = (sp_reader pr)\<lparr>source := DecryptReader (init dec key) r\<rparr>"
  using assms that
  by (cases "source (sp_reader pr)"; cases "writer_state (sp_writer pr)")
     (auto simp: with_encryption_def io_bind_def io_within_def reader_with_encryption_def writer_with_encryption_def)

end
