(* ===== verification/Sync_Properties.thy ===== *)
theory Sync_Properties
  imports Sync_Session
begin

text \<open>
  The properties of the default streams: the loops of \<open>std::io\<close> over any stream, the buffered and the
  encrypting writer, the decrypting reader, the switch to encryption, and the two compressing ends.
\<close>

section \<open>Reading\<close>

text \<open>
  C21: however the bytes of a stream arrive and whenever a call is interrupted, \<open>read_exact\<close> and
  \<open>discard\<close> return, with the next \<open>n\<close> bytes or behind them; at the end of the stream both return
  \<open>UnexpectedEof\<close> with nothing left.
\<close>

theorem stream_read_and_discard:
  assumes "lawful_read R V patience" and "V r bs"
  shows "\<exists>r1 r2. V r1 (drop n bs) \<and> V r2 (drop n bs) \<and>
    std_read_exact R n r = (if n \<le> length bs then Ok (take n bs) else Err UnexpectedEof, r1) \<and>
    std_discard R n r = (if n \<le> length bs then Ok () else Err UnexpectedEof, r2)"
  using lawful_read.std_read_exact [OF assms, of n] lawful_read.std_discard [OF assms, of n]
  by (cases "n \<le> length bs") (auto simp: not_le)

lemma stream_read_and_discard_witness:
  "\<exists>s'. std_read_exact socket_read 3 \<lparr>arrivals = [Data [1, 2], Signal, Pause, Data [3, 4]], nonblocking = False\<rparr> =
     (Ok [1, 2, 3], s') \<and> arrival_bytes (arrivals s') = [4]"
  using stream_read_and_discard [OF socket.lawful_read_axioms,
      of "\<lparr>arrivals = [Data [1, 2], Signal, Pause, Data [3, 4]], nonblocking = False\<rparr>" "[1, 2, 3, 4]" 3]
  by auto

text \<open>
  A read behind a \<open>BufReader\<close> and the decryption returns the decrypted bytes in order, as if the
  whole rest of the stream had been decrypted at once.
\<close>

theorem decrypted_read:
  assumes "lawful_read R V patience" and "stream_cipher c" and "V (r :: 'r) cs"
    and "n \<le> length cs" and "0 < capacity"
  shows "\<exists>b'. std_read_exact (buf_read (default_read c R)) n \<lparr>source = DecryptReader k r, buffered = [], buf_capacity = capacity\<rparr> =
      (Ok (take n (fst (apply_blocks c k cs))), b') \<and>
    buf_view (default_view c V) b' (drop n (fst (apply_blocks c k cs)))"
proof -
  let ?b = "\<lparr>source = DecryptReader k r, buffered = [], buf_capacity = capacity\<rparr>"
  have b: "buf_view (default_view c V) ?b (fst (apply_blocks c k cs))"
    using assms(3,5) by (auto simp: buf_view_def default_view_def)
  have "n \<le> length (fst (apply_blocks c k cs))"
    using assms(4) by (simp add: apply_blocks_append(3) [OF assms(2)])
  with lawful_read.std_read_exact [OF lawful_buf_reader [OF lawful_default_reader [OF assms(1,2)]] b, of n]
  show ?thesis by auto
qed

lemma decrypted_read_witness:
  "\<exists>b'. std_read_exact (buf_read (default_read feedback_decryptor socket_read)) 2
     \<lparr>source = DecryptReader 1 \<lparr>arrivals = [Data [3], Signal, Data [5, 6]], nonblocking = False\<rparr>, buffered = [], buf_capacity = 8\<rparr> =
     (Ok [2, 6], b')"
  using decrypted_read [OF lawful_socket feedback_decryptor,
      of "\<lparr>arrivals = [Data [3], Signal, Data [5, 6]], nonblocking = False\<rparr>" "[3, 5, 6]" 2 8 1]
  by (auto simp: socket_view_def feedback_decryptor_def numeral_2_eq_2)

section \<open>Writing\<close>

text \<open>
  C10: what is written to the default writer, in pieces of any size and with or without encryption, is on
  the stream after a flush, in order and encrypted as one sequence from where encryption was switched on.
\<close>

theorem written_and_flushed:
  fixes W :: "('w, 'x) std_write_scheme" and c :: "'k cipher" and w :: "('q, 'k, 'w) default_writer"
  assumes "lawful_write W V patience" and "stream_cipher c" and "writer_view c V k0 sent0 (writer_state w) sent"
  shows "\<exists>w'. io_bind (write_all (default_write c W) data1) (\<lambda>_. io_bind (write_all (default_write c W) data2)
      (\<lambda>_. flush_std (default_write c W))) w = (Ok (), w') \<and>
    delivered c V k0 sent0 (writer_state w') (sent @ data1 @ data2)"
proof -
  let ?U = "default_writer_view c V k0 sent0 :: ('q, 'k, 'w) default_writer \<Rightarrow> _"
  have writes: "lawful_write (default_write c W) ?U (\<lambda>_. 0)" by (rule lawful_default_write [OF assms(1,2)])
  have w: "?U w sent" using assms(3) by (simp add: default_writer_view_def)
  obtain w1 where w1: "write_all (default_write c W) data1 w = (Ok (), w1)" "?U w1 (sent @ data1)"
    using lawful_write.write_all_ok [OF writes w] by (auto simp: gives_def)
  obtain w2 where w2: "write_all (default_write c W) data2 w1 = (Ok (), w2)" "?U w2 (sent @ data1 @ data2)"
    using lawful_write.write_all_ok [OF writes w1(2)] by (auto simp: gives_def)
  obtain w3 where w3: "flush_std (default_write c W) w2 = (Ok (), w3)" "?U w3 (sent @ data1 @ data2)"
    using lawful_write.flush_some [OF writes w2(2)] by (auto simp: gives_def)
  show ?thesis
    using w3 default_flush_empties [OF w3(1)]
    by (auto simp: io_bind_def w1(1) w2(1) default_writer_view_def intro: unsent_delivered)
qed

lemma written_and_flushed_witness:
  "\<exists>w'. io_bind (write_all (default_write feedback_encryptor (socket_write 2)) [1, 2, 3]) (\<lambda>_.
       io_bind (write_all (default_write feedback_encryptor (socket_write 2)) [4])
         (\<lambda>_. flush_std (default_write feedback_encryptor (socket_write 2))))
     \<lparr>compression_state = (), writer_state = EncryptWriter \<lparr>bw_writer = [9], bw_buffer = [], bw_capacity = 2, encryptor = 7\<rparr>\<rparr> = (Ok (), w') \<and>
   delivered feedback_encryptor (=) 7 [9] (writer_state w') [1, 2, 3, 4]"
  using written_and_flushed [OF lawful_socket_write feedback_encryptor, of 2 7 "[9]"
      "\<lparr>compression_state = (), writer_state = EncryptWriter \<lparr>bw_writer = [9], bw_buffer = [], bw_capacity = 2, encryptor = 7\<rparr>\<rparr>"
      "[]" "[1, 2, 3]" "[4]"]
  by (simp add: writer_view_def encryption_view_def feedback_encryptor_def)



section \<open>Switching encryption on\<close>

text \<open>
  C32: switching encryption on drops what the writer has accepted and not yet sent: whatever is in the
  buffer, the encryption of what is written next follows what is already on the stream.
\<close>

theorem encryption_drops_unsent:
  fixes W :: "('w, 'x) std_write_scheme" and c :: "'k cipher" and q :: 'q
  assumes "lawful_write W V patience" and "stream_cipher c" and "V (bw_writer b) sent0" and "0 < bw_capacity b"
  shows "\<exists>e. io_bind (on_writer_state (writer_with_encryption c key)) (\<lambda>_. io_bind (write_all (default_write c W) data)
      (\<lambda>_. flush_std (default_write c W))) \<lparr>compression_state = q, writer_state = StandardWriter b\<rparr> =
      (Ok (), \<lparr>compression_state = q, writer_state = EncryptWriter e\<rparr>) \<and>
    bw_buffer e = [] \<and> V (bw_writer e) (sent0 @ fst (apply_blocks c (init c key) data))"
proof -
  let ?J = "\<lambda>w bs. default_writer_view c V (init c key) sent0 w bs \<and> encrypting (writer_state w) \<and> compression_state w = q"
  have writes: "lawful_write (default_write c W) ?J (\<lambda>_. 0)" by (rule lawful_encrypting [OF assms(1,2)])
  let ?e = "\<lparr>bw_writer = bw_writer b, bw_buffer = [], bw_capacity = bw_capacity b, encryptor = init c key\<rparr>"
  let ?w = "\<lparr>compression_state = q, writer_state = EncryptWriter ?e\<rparr>"
  have "?J ?w []"
    using assms(3,4) apply_blocks_append(4) [OF assms(2)]
    by (auto simp: default_writer_view_def writer_view_def encryption_view_def intro!: exI [of _ "[]"])
  then obtain w1 where w1: "write_all (default_write c W) data ?w = (Ok (), w1)" "?J w1 data"
    using lawful_write.write_all_ok [OF writes, of ?w "[]" data] by (auto simp: gives_def)
  obtain w2 where w2: "flush_std (default_write c W) w1 = (Ok (), w2)" "?J w2 data"
    using lawful_write.flush_some [OF writes w1(2)] by (auto simp: gives_def)
  obtain e where e: "writer_state w2 = EncryptWriter e" using w2(2) by (blast elim: encryptingE)
  then have "w2 = \<lparr>compression_state = q, writer_state = EncryptWriter e\<rparr>" using w2(2) by (cases w2) simp
  moreover have "bw_buffer e = []" using default_flush_empties [OF w2(1)] e by simp
  moreover from this have "V (bw_writer e) (sent0 @ fst (apply_blocks c (init c key) data))"
    using w2(2) e by (auto simp: default_writer_view_def writer_view_def encryption_view_def)
  moreover have "on_writer_state (writer_with_encryption c key) \<lparr>compression_state = q, writer_state = StandardWriter b\<rparr> =
      (Ok () :: (unit, io_error) outcome, ?w)"
    by (simp add: on_writer_state_def io_within_def writer_with_encryption_def)
  ultimately show ?thesis
    by (simp add: io_bind_def w1(1) w2(1))
qed

lemma encryption_drops_unsent_witness:
  "\<exists>e. io_bind (on_writer_state (writer_with_encryption feedback_encryptor [7]))
      (\<lambda>_. io_bind (write_all (default_write feedback_encryptor vec_write) [1])
      (\<lambda>_. flush_std (default_write feedback_encryptor vec_write)))
      \<lparr>compression_state = (), writer_state = StandardWriter \<lparr>bw_writer = [9], bw_buffer = [5, 5], bw_capacity = 4\<rparr>\<rparr> =
      (Ok (), \<lparr>compression_state = (), writer_state = EncryptWriter e\<rparr>) \<and> bw_writer e = [9, 6]"
  using encryption_drops_unsent [OF vec.lawful_write_axioms feedback_encryptor, of
      "\<lparr>bw_writer = [9], bw_buffer = [5, 5], bw_capacity = 4\<rparr>" "[9]" "[7]" "[1]" "()"]
  by (auto simp: feedback_encryptor_def)

text \<open>
  C33: what the reader has read ahead when encryption is switched on is never decrypted: it is handed out as
  it came.
\<close>

theorem encryption_keeps_read_ahead:
  assumes "sp_reader pr = \<lparr>source = StandardReader r, buffered = ahead, buf_capacity = capacity\<rparr>"
    and "with_encryption dec enc key pr = (Ok (), pr')" and "0 < n" and "n \<le> length ahead"
  shows "\<exists>b'. std_read_exact (buf_read (default_read dec R)) n (sp_reader pr') = (Ok (take n ahead), b')"
proof -
  have b: "sp_reader pr' = \<lparr>source = DecryptReader (init dec key) r, buffered = ahead, buf_capacity = capacity\<rparr>"
    using assms(1) by (rule_tac with_encryption_OkD [OF assms(2)]) simp
  have "ahead \<noteq> []" using assms(3,4) by auto
  then have "read_some (buf_read (default_read dec R)) n (sp_reader pr') =
      (Ok (take n ahead), (sp_reader pr')\<lparr>buffered := drop n ahead\<rparr>)"
    using assms(4)
    by (simp add: b buf_read_def buf_reader_read_def buf_reader_fill_buf_def io_bind_def buf_reader_consume_def min_absorb1)
  then show ?thesis
    using assms(3,4) \<open>ahead \<noteq> []\<close>
    by (simp add: std_read_exact_def io_total_def read_exact_loop.simps [of _ n] read_exact_loop.simps [of _ 0] min_absorb1)
qed

lemma encryption_keeps_read_ahead_witness:
  "\<exists>b'. std_read_exact (buf_read (default_read feedback_decryptor socket_read)) 1
     (sp_reader (snd (with_encryption feedback_decryptor feedback_encryptor [7]
       \<lparr>sp_reader = \<lparr>source = StandardReader \<lparr>arrivals = [], nonblocking = False\<rparr>, buffered = [200], buf_capacity = 8\<rparr>,
        sp_writer = \<lparr>compression_state = (), writer_state = StandardWriter \<lparr>bw_writer = (), bw_buffer = [], bw_capacity = 8\<rparr>\<rparr>,
        compression_threshold = None, compression_level = default_compression, sp_decompression_state = ()\<rparr>))) = (Ok [200], b')"
  using encryption_keeps_read_ahead [where n = 1 and r = "\<lparr>arrivals = [], nonblocking = False\<rparr>" and ahead = "[200]" and capacity = 8
      and dec = feedback_decryptor and enc = feedback_encryptor and key = "[7]" and R = socket_read and pr =
      "\<lparr>sp_reader = \<lparr>source = StandardReader \<lparr>arrivals = [], nonblocking = False\<rparr>, buffered = [200], buf_capacity = 8\<rparr>,
        sp_writer = \<lparr>compression_state = (), writer_state = StandardWriter \<lparr>bw_writer = (), bw_buffer = [], bw_capacity = 8\<rparr>\<rparr>,
        compression_threshold = None, compression_level = default_compression, sp_decompression_state = ()\<rparr>"]
  by (simp add: with_encryption_def io_bind_def io_within_def reader_with_encryption_def writer_with_encryption_def)

text \<open>
  Switching encryption on a second time panics; the reader is then poisoned, and every read that needs
  the stream panics.
\<close>

theorem encryption_twice:
  assumes "with_encryption dec enc key pr = (Ok (), pr1)"
  shows "\<exists>pr2. with_encryption dec enc key' pr1 = (Panic, pr2) \<and> source (sp_reader pr2) = PoisonedReader \<and>
    sp_writer pr2 = sp_writer pr1 \<and>
    (buffered (sp_reader pr2) = [] \<and> 0 < n \<longrightarrow>
      fst (std_read_exact (buf_read (default_read dec R)) n (sp_reader pr2)) = Panic)"
proof -
  obtain r where r: "source (sp_reader pr1) = DecryptReader (init dec key) r"
    by (rule with_encryption_OkD [OF assms]) simp
  let ?b = "(sp_reader pr1)\<lparr>source := PoisonedReader\<rparr>"
  have "with_encryption dec enc key' pr1 = (Panic, pr1\<lparr>sp_reader := ?b\<rparr>)"
    by (simp add: with_encryption_def io_bind_def io_within_def reader_with_encryption_def r)
  moreover have "fst (std_read_exact (buf_read (default_read dec R)) n ?b) = Panic" if "buffered ?b = []" "0 < n"
    using that
    by (cases "buf_capacity ?b \<le> n")
       (simp_all add: std_read_exact_def io_total_def read_exact_loop.simps [of _ n] buf_read_def buf_reader_read_def
         io_within_def io_bind_def buf_reader_fill_buf_def default_read_def default_reader_read_def)
  ultimately show ?thesis by (intro exI [of _ "pr1\<lparr>sp_reader := ?b\<rparr>"]) simp
qed

lemma encryption_twice_witness:
  "\<exists>pr2. with_encryption feedback_decryptor feedback_encryptor [8] (snd (with_encryption feedback_decryptor feedback_encryptor [7]
       \<lparr>sp_reader = \<lparr>source = StandardReader (), buffered = [], buf_capacity = 8\<rparr>,
        sp_writer = \<lparr>compression_state = (), writer_state = StandardWriter \<lparr>bw_writer = (), bw_buffer = [], bw_capacity = 8\<rparr>\<rparr>,
        compression_threshold = None, compression_level = default_compression, sp_decompression_state = ()\<rparr>)) = (Panic, pr2)"
proof -
  let ?pr = "\<lparr>sp_reader = \<lparr>source = StandardReader (), buffered = [], buf_capacity = 8\<rparr>,
        sp_writer = \<lparr>compression_state = (), writer_state = StandardWriter \<lparr>bw_writer = (), bw_buffer = [], bw_capacity = 8\<rparr>\<rparr>,
        compression_threshold = None, compression_level = default_compression, sp_decompression_state = ()\<rparr>"
  have "with_encryption feedback_decryptor feedback_encryptor [7] ?pr =
      (Ok (), snd (with_encryption feedback_decryptor feedback_encryptor [7] ?pr))"
    by (simp add: with_encryption_def io_bind_def io_within_def reader_with_encryption_def writer_with_encryption_def)
  from encryption_twice [OF this, of "[8]"] show ?thesis by blast
qed

section \<open>Compression\<close>



text \<open>C35: where the compressor leaves a single byte of its input, the packet is not written: the writer panics.\<close>

theorem compression_panics:
  assumes "deflate D (pre_state b) data (length (pre_buffer b) + max 2 (length data div 2) - pre_written b) NoFlush
      = (q, length data - 1, out, Ok st)"
    and "data \<noteq> []"
  shows "\<exists>b'. pre_write D data b = (Panic, b')"
  by (rule pre_write_one_left [OF assms])

text \<open>A compressor that takes all but the last byte, as one with a small window of output may.\<close>

definition reluctant_deflater :: "unit deflater" where
  "reluctant_deflater =
     \<lparr>deflate = (\<lambda>q data n f. (q, length data - 1, [], Ok StatusOk)), reset_compressor = (\<lambda>q. q)\<rparr>"

lemma compression_panics_witness:
  "\<exists>b'. pre_write reluctant_deflater [1, 2, 3] \<lparr>pre_state = (), pre_buffer = [], pre_written = 0\<rparr> = (Panic, b')"
  using compression_panics [of reluctant_deflater "\<lparr>pre_state = (), pre_buffer = [], pre_written = 0\<rparr>" "[1, 2, 3]"]
  by (simp add: reluctant_deflater_def)

text \<open>
  C34: where \<open>inflate\<close> consumes input and has no output yet, a read of the decompressed packet fails with
  \<open>UnexpectedEof\<close>, although the stream goes on.
\<close>

theorem decompression_spurious_end:
  assumes "fill_buf R (reader d) = (Ok buf, r)" and "inflate I (state d) buf n = (z, k, Ok [])" and "0 < n"
  shows "std_read_exact (decompression_read I R) n d = (Err UnexpectedEof, d\<lparr>state := z, reader := consume R k r\<rparr>)"
  by (rule decompression_read_nothing [OF assms])

lemma decompression_spurious_end_witness:
  "fst (std_read_exact (decompression_read stored_inflater (buf_read socket_read)) 1
     \<lparr>state = 2, reader = \<lparr>source = \<lparr>arrivals = [Data [0x78], Data [0x9C, 5]], nonblocking = False\<rparr>, buffered = [], buf_capacity = 8\<rparr>\<rparr>)
   = Err UnexpectedEof"
  using decompression_spurious_end [of "buf_read socket_read"
      "\<lparr>state = 2, reader = \<lparr>source = \<lparr>arrivals = [Data [0x78], Data [0x9C, 5]], nonblocking = False\<rparr>, buffered = [], buf_capacity = 8\<rparr>\<rparr>"
      "[0x78]" "\<lparr>source = \<lparr>arrivals = [Data [0x9C, 5]], nonblocking = False\<rparr>, buffered = [0x78], buf_capacity = 8\<rparr>"
      stored_inflater 1 1 1]
  by (simp add: buf_read_def buf_reader_fill_buf_def socket_read_def stored_inflater_def)

text \<open>
  Every level of \<open>Compression::Variable\<close> in the documented range from 0 to 8 is the raw level 10; no raw
  level from 2 to 9 is ever used, and \<open>Variable(254)\<close> and \<open>Variable(255)\<close> panic.
\<close>

theorem compression_levels:
  "(unat x \<le> 8 \<longrightarrow> compression_into (Variable x) = Ok 10) \<and>
   (\<forall>l raw. compression_into l = Ok raw \<longrightarrow> raw = 0 \<or> raw = 1 \<or> 10 \<le> unat raw) \<and>
   (254 \<le> unat x \<longleftrightarrow> compression_into (Variable x) = Panic)"
proof (intro conjI impI allI)
  show "compression_into (Variable x) = Ok 10" if "unat x \<le> 8"
  proof -
    have "x \<le> 8" using that by (simp add: word_le_nat_alt)
    moreover have "unat (2 + x) = 2 + unat x" using that by (simp add: unat_word_ariths)
    ultimately have "2 + x \<le> 10" using that by (simp add: word_le_nat_alt)
    then show ?thesis using that by (simp add: compression_into_def max_def)
  qed
  show "raw = 0 \<or> raw = 1 \<or> 10 \<le> unat raw" if "compression_into l = Ok raw" for l raw
    using that by (cases l) (auto simp: compression_into_def max_def word_le_nat_alt split: if_splits)
  show "254 \<le> unat x \<longleftrightarrow> compression_into (Variable x) = Panic"
    by (auto simp: compression_into_def)
qed

lemma compression_levels_witness: "compression_into (Variable 4) = Ok 10"
  using compression_levels [of 4] by simp

end
