(* ===== verification/Async_IO.thy ===== *)
theory Async_IO
  imports Packet_Write
begin

text \<open>
  The asynchronous streams: what a poll answers, the interfaces of the streams this crate polls
  (\<open>AsyncRead\<close>, \<open>AsyncBufRead\<close>, \<open>AsyncWrite\<close> of tokio and of futures), and the wrappers
  \<open>TokioIo\<close> and \<open>FuturesIo\<close> of \<open>src/asynchronous.rs\<close>.  A poll runs to its return; between two
  polls of a task its streams may change, which is why \<open>Pending\<close> returns a new state too.  What the
  crate calls of the two libraries (the futures of their extension traits) is a parameter.
\<close>

section \<open>Polls\<close>

text \<open>\<open>Poll<Result<A, E>>\<close> is an outcome: \<open>Ok Pending\<close>, \<open>Ok (Ready a)\<close>, and \<open>Err e\<close> for \<open>Ready(Err(e))\<close>.\<close>

datatype 'a poll = Pending | Ready 'a

text \<open>\<open>core::task::ready!(p)?\<close>\<close>

definition poll_bind :: "('s, 'a poll, 'e) io \<Rightarrow> ('a \<Rightarrow> ('s, 'b poll, 'e) io) \<Rightarrow> ('s, 'b poll, 'e) io" where
  "poll_bind m f = io_bind m (\<lambda>p. case p of Pending \<Rightarrow> io_ret Pending | Ready a \<Rightarrow> f a)"

text \<open>
  A task that is polled again each time it is woken.  A stream that stays pending for ever leaves it
  without an end.
\<close>

partial_function (option) await_loop ::
  "('s, 'a poll, 'e) io \<Rightarrow> 's \<Rightarrow> (('a, 'e) outcome \<times> 's) option" where
  "await_loop m s =
     (case m s of
        (Ok p, s') \<Rightarrow> (case p of Pending \<Rightarrow> await_loop m s' | Ready a \<Rightarrow> Some (Ok a, s'))
      | (Err e, s') \<Rightarrow> Some (Err e, s')
      | (Panic, s') \<Rightarrow> Some (Panic, s')
      | (Diverge, s') \<Rightarrow> Some (Diverge, s'))"

definition await :: "('s, 'a poll, 'e) io \<Rightarrow> ('s, 'a, 'e) io" where
  "await m = io_total (await_loop m)"

text \<open>\<open>polls m s Q P\<close>: a poll of \<open>m\<close> is ready with a result and a state in \<open>Q\<close>, or pending in a state in \<open>P\<close>.\<close>

definition polls :: "('s, 'a poll, 'e) io \<Rightarrow> 's \<Rightarrow> ('a \<Rightarrow> 's \<Rightarrow> bool) \<Rightarrow> ('s \<Rightarrow> bool) \<Rightarrow> bool" where
  "polls m s Q P \<longleftrightarrow> (\<exists>a s'. m s = (Ok (Ready a), s') \<and> Q a s') \<or> (\<exists>s'. m s = (Ok Pending, s') \<and> P s')"

lemma polls_cases:
  assumes "polls m s Q P"
  obtains (ready) a s' where "m s = (Ok (Ready a), s')" "Q a s'"
  | (pending) s' where "m s = (Ok Pending, s')" "P s'"
  using assms by (auto simp: polls_def)

lemma polls_mono:
  "polls m s Q P \<Longrightarrow> (\<And>a s'. Q a s' \<Longrightarrow> Q' a s') \<Longrightarrow> (\<And>s'. P s' \<Longrightarrow> P' s') \<Longrightarrow> polls m s Q' P'"
  by (auto simp: polls_def)

lemma polls_ready: "m s = (Ok (Ready a), s') \<Longrightarrow> Q a s' \<Longrightarrow> polls m s Q P"
  by (auto simp: polls_def)

lemma polls_pending: "m s = (Ok Pending, s') \<Longrightarrow> P s' \<Longrightarrow> polls m s Q P"
  by (auto simp: polls_def)

lemma polls_bind:
  assumes "polls m s Q P" and "\<And>a s'. Q a s' \<Longrightarrow> polls (f a) s' Q' P'" and "\<And>s'. P s' \<Longrightarrow> P' s'"
  shows "polls (poll_bind m f) s Q' P'"
  using assms(1)
proof (cases rule: polls_cases)
  case (ready a s')
  with assms(2) [OF ready(2)] show ?thesis
    by (auto simp: polls_def poll_bind_def io_bind_def)
next
  case (pending s')
  with assms(3) show ?thesis
    by (auto simp: polls_def poll_bind_def io_bind_def io_ret_def)
qed

text \<open>A task ends if its pending states decrease in a well-founded relation.\<close>

lemma await_ends:
  assumes wf: "wf waits" and s: "I s"
    and poll: "\<And>s. I s \<Longrightarrow> polls m s Q (\<lambda>s'. I s' \<and> (s', s) \<in> waits)"
  shows "\<exists>a s'. await m s = (Ok a, s') \<and> Q a s'"
proof -
  have "\<exists>a s'. await_loop m s = Some (Ok a, s') \<and> Q a s'"
    using wf s
  proof (induction s rule: wf_induct_rule)
    case (less s)
    from poll [OF less.prems] show ?case
    proof (cases rule: polls_cases)
      case (ready a s')
      then show ?thesis by (simp add: await_loop.simps)
    next
      case (pending s')
      with less.IH [of s'] show ?thesis by (simp add: await_loop.simps [of m s])
    qed
  qed
  then show ?thesis by (auto simp: await_def io_total_def)
qed

section \<open>The streams that are polled\<close>

text \<open>
  \<open>AsyncWrite\<close>.  \<open>poll_shutdown\<close> is \<open>poll_close\<close> in futures.  The future of \<open>AsyncWriteExt::write\<close>, which
  this crate makes and polls once, calls \<open>poll_write\<close>.
\<close>

record 'w async_write =
  poll_write :: "byte list \<Rightarrow> ('w, nat poll, io_error) io"
  poll_flush :: "('w, unit poll, io_error) io"
  poll_shutdown :: "('w, unit poll, io_error) io"

text \<open>
  \<open>AsyncRead\<close> of futures fills a slice of \<open>n\<close> bytes from its start; the bytes returned are those
  stored.  \<open>AsyncRead\<close> of tokio appends to a \<open>ReadBuf\<close> that may hold bytes already.
\<close>

type_synonym 'r futures_read = "nat \<Rightarrow> ('r, byte list poll, io_error) io"

record read_buf =
  rb_filled :: "byte list"
  rb_capacity :: nat

type_synonym 'r tokio_read = "('r \<times> read_buf, unit poll, io_error) io"

definition unfilled :: "read_buf \<Rightarrow> nat" where
  "unfilled buf = rb_capacity buf - length (rb_filled buf)"

text \<open>\<open>AsyncBufRead\<close>, the same in both.\<close>

record 'r async_buf_read =
  poll_fill_buf :: "('r, byte list poll, io_error) io"
  consume_buf :: "nat \<Rightarrow> 'r \<Rightarrow> 'r"

section \<open>The contracts\<close>

text \<open>
  \<open>V w sent\<close>: the writer has accepted the bytes \<open>sent\<close>.  A poll accepts some of the bytes, or it is
  pending and has accepted none; \<open>waits\<close> bounds how long it stays pending.
\<close>

locale lawful_poll_write =
  fixes W :: "('w, 'x) async_write_scheme"
    and V :: "'w \<Rightarrow> byte list \<Rightarrow> bool"
    and waits :: "('w \<times> 'w) set"
  assumes wf_waits: "wf waits"
    and polls_write: "V w sent \<Longrightarrow> polls (poll_write W buf) w
        (\<lambda>k w'. V w' (sent @ take k buf) \<and> k \<le> length buf \<and> (buf \<noteq> [] \<longrightarrow> 0 < k))
        (\<lambda>w'. V w' sent \<and> (w', w) \<in> waits)"
    and polls_flush: "V w sent \<Longrightarrow> polls (poll_flush W) w (\<lambda>_ w'. V w' sent) (\<lambda>w'. V w' sent \<and> (w', w) \<in> waits)"

text \<open>\<open>V r bs\<close>: the bytes \<open>bs\<close> will come from the stream.  A poll gives the next of them, or is pending.\<close>

locale lawful_poll_read =
  fixes F :: "'r futures_read"
    and V :: "'r \<Rightarrow> byte list \<Rightarrow> bool"
    and waits :: "('r \<times> 'r) set"
  assumes wf_read_waits: "wf waits"
    and polls_read: "V r bs \<Longrightarrow> polls (F n) r
        (\<lambda>os r'. \<exists>k. os = take k bs \<and> V r' (drop k bs) \<and> k \<le> n \<and> k \<le> length bs \<and> (0 < n \<and> bs \<noteq> [] \<longrightarrow> 0 < k))
        (\<lambda>r'. V r' bs \<and> (r', r) \<in> waits)"

text \<open>
  Documented behaviour of \<open>AsyncRead\<close> in tokio: what is read is appended to the buffer, and nothing
  else of it changes.  \<open>F\<close> is what the reader does with an empty buffer.
\<close>

definition appending :: "read_buf \<Rightarrow> (byte list poll, io_error) outcome \<times> 'r \<Rightarrow> (unit poll, io_error) outcome \<times> 'r \<times> read_buf" where
  "appending buf res = (case res of
     (Ok Pending, r) \<Rightarrow> (Ok Pending, (r, buf))
   | (Ok (Ready os), r) \<Rightarrow> (Ok (Ready ()), (r, buf\<lparr>rb_filled := rb_filled buf @ os\<rparr>))
   | (Err e, r) \<Rightarrow> (Err e, (r, buf))
   | (Panic, r) \<Rightarrow> (Panic, (r, buf))
   | (Diverge, r) \<Rightarrow> (Diverge, (r, buf)))"

definition appends :: "'r tokio_read \<Rightarrow> 'r futures_read \<Rightarrow> bool" where
  "appends T F \<longleftrightarrow> (\<forall>r buf. T (r, buf) = appending buf (F (unfilled buf) r))"

text \<open>A buffered reader shows some of the next bytes, and forgets those that are consumed.\<close>

locale lawful_poll_buf_read = lawful_poll_read F V waits
  for F :: "'r futures_read" and V :: "'r \<Rightarrow> byte list \<Rightarrow> bool" and waits :: "('r \<times> 'r) set" +
  fixes B :: "('r, 'x) async_buf_read_scheme"
  assumes polls_fill: "V r bs \<Longrightarrow> polls (poll_fill_buf B) r
        (\<lambda>buf r'. V r' bs \<and> (\<exists>k. buf = take k bs \<and> k \<le> length bs \<and> (bs \<noteq> [] \<longrightarrow> 0 < k)) \<and>
          (\<forall>j \<le> length buf. V (consume_buf B j r') (drop j bs)))
        (\<lambda>r'. V r' bs \<and> (r', r) \<in> waits)"

section \<open>TokioIo and FuturesIo\<close>

text \<open>
  What the wrappers call on the stream: \<open>read_exact(buf).await\<close>; one poll of the future of
  \<open>read_u8()\<close> (tokio) or of \<open>read_exact\<close> with a buffer of one byte (futures); and
  \<open>copy(&mut self.0.take(n), &mut sink()).await\<close>.
\<close>

record 'r read_ext =
  ext_read_exact :: "nat \<Rightarrow> ('r, byte list, io_error) io"
  ext_copy_take :: "nat \<Rightarrow> ('r, nat, io_error) io"

record 'r tokio_read_ext = "'r read_ext" +
  ext_poll_read_u8 :: "('r, byte poll, io_error) io"

record 'r futures_read_ext = "'r read_ext" +
  ext_poll_read_exact :: "nat \<Rightarrow> ('r, byte list poll, io_error) io"

definition tokio_try_read_byte :: "('r, 'x) tokio_read_ext_scheme \<Rightarrow> ('r, byte option, io_error) io" where
  "tokio_try_read_byte E = io_bind (ext_poll_read_u8 E)
     (\<lambda>p. case p of Pending \<Rightarrow> io_ret None | Ready b \<Rightarrow> io_ret (Some b))"

definition tokio_discard :: "('r, 'x) read_ext_scheme \<Rightarrow> nat \<Rightarrow> ('r, unit, io_error) io" where
  "tokio_discard E amount =
     (if amount \<noteq> 0
      then io_bind (ext_copy_take E amount) (\<lambda>amount_discarded.
        if amount_discarded \<noteq> amount then io_err UnexpectedEof else io_ret ())
      else io_ret ())"

definition tokio_io_reader :: "('r, 'x) tokio_read_ext_scheme \<Rightarrow> ('r, io_error) reader" where
  "tokio_io_reader E =
     \<lparr>read_exact = ext_read_exact E, try_read_byte = tokio_try_read_byte E, discard = tokio_discard E\<rparr>"

definition futures_try_read_byte :: "('r, 'x) futures_read_ext_scheme \<Rightarrow> ('r, byte option, io_error) io" where
  "futures_try_read_byte E = io_bind (ext_poll_read_exact E 1)
     (\<lambda>p. case p of Ready buf \<Rightarrow> io_ret (Some (buf ! 0)) | Pending \<Rightarrow> io_ret None)"

definition futures_discard :: "('r, 'x) read_ext_scheme \<Rightarrow> nat \<Rightarrow> ('r, unit, io_error) io" where
  "futures_discard E amount =
     (if amount \<noteq> 0
      then io_bind (ext_copy_take E amount) (\<lambda>amount_discarded.
        if amount_discarded \<noteq> amount then io_err UnexpectedEof else io_ret ())
      else io_ret ())"

definition futures_io_reader :: "('r, 'x) futures_read_ext_scheme \<Rightarrow> ('r, io_error) reader" where
  "futures_io_reader E =
     \<lparr>read_exact = ext_read_exact E, try_read_byte = futures_try_read_byte E, discard = futures_discard E\<rparr>"

text \<open>\<open>write_all(data).await\<close> and \<open>flush().await\<close>\<close>

record 'w write_ext =
  ext_write_all :: "byte list \<Rightarrow> ('w, unit, io_error) io"
  ext_flush :: "('w, unit, io_error) io"

definition tokio_io_writer :: "('w, 'x) write_ext_scheme \<Rightarrow> ('w, io_error) writer" where
  "tokio_io_writer E = \<lparr>write_data = ext_write_all E, flush = ext_flush E\<rparr>"

definition futures_io_writer :: "('w, 'x) write_ext_scheme \<Rightarrow> ('w, io_error) writer" where
  "futures_io_writer E = \<lparr>write_data = ext_write_all E, flush = ext_flush E\<rparr>"

section \<open>Documented behaviour of the extension traits\<close>

text \<open>
  On a stream that keeps the contract of a poll, \<open>read_exact\<close> gives the next \<open>n\<close> bytes or, where the
  stream ends before, \<open>UnexpectedEof\<close>; \<open>copy\<close> out of \<open>take(n)\<close> counts and drops the next \<open>n\<close> bytes, or
  those there are; \<open>write_all\<close> hands over all the bytes; \<open>flush\<close> polls \<open>poll_flush\<close> until it is ready.
\<close>

definition reads_exactly :: "('r, 'x) read_ext_scheme \<Rightarrow> ('r \<Rightarrow> byte list \<Rightarrow> bool) \<Rightarrow> bool" where
  "reads_exactly E V \<longleftrightarrow> (\<forall>r bs n. V r bs \<longrightarrow>
     (\<exists>r'. V r' (drop n bs) \<and>
        ext_read_exact E n r = (if n \<le> length bs then Ok (take n bs) else Err UnexpectedEof, r')) \<and>
     (\<exists>r'. V r' (drop n bs) \<and> ext_copy_take E n r = (Ok (min n (length bs)), r')))"

definition futures_ext_of :: "'r futures_read \<Rightarrow> ('r, 'x) read_ext_scheme \<Rightarrow> bool" where
  "futures_ext_of F E \<longleftrightarrow> (\<forall>V waits. lawful_poll_read F V waits \<longrightarrow> reads_exactly E V)"

definition tokio_ext_of :: "'r tokio_read \<Rightarrow> ('r, 'x) read_ext_scheme \<Rightarrow> bool" where
  "tokio_ext_of T E \<longleftrightarrow> (\<forall>F V waits. appends T F \<longrightarrow> lawful_poll_read F V waits \<longrightarrow> reads_exactly E V)"

definition write_ext_of :: "('w, 'y) async_write_scheme \<Rightarrow> ('w, 'x) write_ext_scheme \<Rightarrow> bool" where
  "write_ext_of A E \<longleftrightarrow> ext_flush E = await (poll_flush A) \<and>
     (\<forall>V waits w sent buf. lawful_poll_write A V waits \<longrightarrow> V w sent \<longrightarrow>
        gives (ext_write_all E buf) w () (\<lambda>w'. V w' (sent @ buf)))"

text \<open>The future of \<open>read_u8\<close> and that of \<open>read_exact\<close> on one byte poll the stream once.\<close>

definition polls_a_byte :: "'r futures_read \<Rightarrow> ('r, byte poll, io_error) io \<Rightarrow> bool" where
  "polls_a_byte F m \<longleftrightarrow> (\<forall>r. m r = poll_bind (F 1)
     (\<lambda>os. case os of [] \<Rightarrow> io_err UnexpectedEof | b # _ \<Rightarrow> io_ret (Ready b)) r)"

definition polls_one_byte :: "'r futures_read \<Rightarrow> ('r, byte list poll, io_error) io \<Rightarrow> bool" where
  "polls_one_byte F m \<longleftrightarrow> (\<forall>r. m r = poll_bind (F 1)
     (\<lambda>os. case os of [] \<Rightarrow> io_err UnexpectedEof | b # _ \<Rightarrow> io_ret (Ready [b])) r)"

lemma try_read_byte_agree:
  assumes E: "polls_a_byte F (ext_poll_read_u8 E)" and E': "polls_one_byte F (ext_poll_read_exact E' 1)"
  shows "futures_try_read_byte E' = tokio_try_read_byte E"
proof
  fix r
  have "ext_poll_read_exact E' 1 r = poll_bind (F 1) (\<lambda>os. case os of [] \<Rightarrow> io_err UnexpectedEof | b # _ \<Rightarrow> io_ret (Ready [b])) r"
    "ext_poll_read_u8 E r = poll_bind (F 1) (\<lambda>os. case os of [] \<Rightarrow> io_err UnexpectedEof | b # _ \<Rightarrow> io_ret (Ready b)) r"
    using assms by (simp_all only: polls_a_byte_def polls_one_byte_def)
  then show "futures_try_read_byte E' r = tokio_try_read_byte E r"
    unfolding futures_try_read_byte_def tokio_try_read_byte_def
    by (auto simp: io_defs poll_bind_def split: prod.splits outcome.splits poll.splits list.splits)
qed

section \<open>The wrappers keep the contracts\<close>

lemma tokio_discard_ok:
  assumes "reads_exactly E V" and "V r bs"
  shows "\<exists>r'. V r' (drop n bs) \<and> tokio_discard E n r = (if n \<le> length bs then Ok () else Err UnexpectedEof, r')"
proof (cases "n = 0")
  case True
  then show ?thesis using assms(2) by (simp add: tokio_discard_def io_ret_def)
next
  case False
  obtain r' where "V r' (drop n bs)" "ext_copy_take E n r = (Ok (min n (length bs)), r')"
    using assms unfolding reads_exactly_def by blast
  with False show ?thesis
    by (intro exI [of _ r']) (simp add: tokio_discard_def io_bind_def io_err_def io_ret_def min_def)
qed

lemma futures_discard_eq: "futures_discard E = tokio_discard E"
  by (simp add: fun_eq_iff futures_discard_def tokio_discard_def)

lemma ext_reader_lawful:
  assumes E: "reads_exactly E V" and R: "read_exact R = ext_read_exact E" "discard R = tokio_discard E"
  shows "lawful_reader R V"
proof (rule lawful_reader.intro)
  fix r bs n
  assume r: "V r bs"
  obtain r1 where r1: "V r1 (drop n bs)" "ext_read_exact E n r = (if n \<le> length bs then Ok (take n bs) else Err UnexpectedEof, r1)"
    using E r unfolding reads_exactly_def by blast
  obtain r2 where r2: "V r2 (drop n bs)" "tokio_discard E n r = (if n \<le> length bs then Ok () else Err UnexpectedEof, r2)"
    using tokio_discard_ok [OF E r] by blast
  show "gives (read_exact R n) r (take n bs) (\<lambda>r'. V r' (drop n bs))" if "n \<le> length bs"
    using r1 that by (simp add: R gives_def)
  show "fails (read_exact R n) r (\<lambda>_. True) (\<lambda>_. True)" if "length bs < n"
    using r1 that by (simp add: R fails_def)
  show "gives (discard R n) r () (\<lambda>r'. V r' (drop n bs))" if "n \<le> length bs"
    using r2 that by (simp add: R gives_def)
  show "fails (discard R n) r (\<lambda>_. True) (\<lambda>_. True)" if "length bs < n"
    using r2 that by (simp add: R fails_def)
qed

text \<open>A bounded reader: \<open>proj\<close> shows what is behind the \<open>Take\<close> and what is left of its limit.\<close>

lemma ext_bounded_lawful:
  assumes E: "\<And>tail slack. reads_exactly E (\<lambda>b. taken_view V tail slack (proj b))"
    and R: "read_exact R = ext_read_exact E" "discard R = tokio_discard E" "\<And>b. remaining R b = limit (proj b)"
  shows "lawful_bounded R (\<lambda>b. bounded_view V (proj b))"
proof (rule lawful_bounded.intro)
  fix b lim bs n
  assume b: "bounded_view V (proj b) lim bs"
  note view = bounded_taken_view [OF b]
  have "take n (take lim bs) = take n bs" if "n \<le> lim" using that by (simp add: min_absorb1)
  moreover have "\<exists>r'. taken_view V (drop lim bs) (lim - length bs) (proj r') (drop n (take lim bs)) \<and>
      ext_read_exact E n b = (if n \<le> length (take lim bs) then Ok (take n (take lim bs)) else Err UnexpectedEof, r')"
    using E view unfolding reads_exactly_def by blast
  ultimately have exact: "bounded_outcome (\<lambda>b. bounded_view V (proj b)) lim bs n (take n bs) (ext_read_exact E n b)"
    by (intro taken_outcome) (auto simp: not_le)
  have discards: "bounded_outcome (\<lambda>b. bounded_view V (proj b)) lim bs n () (tokio_discard E n b)"
    using tokio_discard_ok [OF E view, of n] by (intro taken_outcome) (auto simp: not_le)
  show "remaining R b = lim" using b by (simp add: R bounded_view_def)
  show "gives (read_exact R n) b (take n bs) (\<lambda>b'. bounded_view V (proj b') (lim - n) (drop n bs))"
    if "n \<le> lim" "n \<le> length bs"
    using exact that by (auto simp: R bounded_outcome_def gives_def)
  show "gives (discard R n) b () (\<lambda>b'. bounded_view V (proj b') (lim - n) (drop n bs))"
    if "n \<le> lim" "n \<le> length bs"
    using discards that by (auto simp: R bounded_outcome_def gives_def)
  show "fails (read_exact R n) b (\<lambda>_. True)
      (\<lambda>b'. \<exists>k. k \<le> lim \<and> k \<le> length bs \<and> bounded_view V (proj b') (lim - k) (drop k bs))"
    if "lim < n \<or> length bs < n"
    using exact that by (auto simp: R bounded_outcome_def fails_def)
  show "fails (discard R n) b (\<lambda>_. True)
      (\<lambda>b'. \<exists>k. k \<le> lim \<and> k \<le> length bs \<and> bounded_view V (proj b') (lim - k) (drop k bs))"
    if "lim < n \<or> length bs < n"
    using discards that by (auto simp: R bounded_outcome_def fails_def)
qed

context lawful_poll_write
begin

lemma flush_awaited: "V w sent \<Longrightarrow> gives (await (poll_flush W)) w () (\<lambda>w'. V w' sent)"
  using await_ends [OF wf_waits, of "\<lambda>w. V w sent" w "poll_flush W" "\<lambda>_ w'. V w' sent"] polls_flush
  by (auto simp: gives_def)

lemma tokio_writer_lawful: "write_ext_of W E \<Longrightarrow> lawful_writer (tokio_io_writer E) V"
  using lawful_poll_write_axioms flush_awaited
  by (intro lawful_writer.intro lawful_sink.intro lawful_writer_axioms.intro) (auto simp: write_ext_of_def tokio_io_writer_def)

lemma futures_writer_lawful: "write_ext_of W E \<Longrightarrow> lawful_writer (futures_io_writer E) V"
  using tokio_writer_lawful [of E] by (simp add: tokio_io_writer_def futures_io_writer_def)

end

text \<open>
  \<open>try_read_byte\<close> of the wrappers polls the stream once: what is not there at that moment gives \<open>None\<close>,
  and the stream still holds all its bytes.
\<close>

context lawful_poll_read
begin

lemma polled_byte:
  assumes "V r bs" and "polls_a_byte F m"
  shows "\<exists>r'. m r = (case bs of [] \<Rightarrow> Err UnexpectedEof | b # _ \<Rightarrow> Ok (Ready b), r') \<and> V r' (drop 1 bs) \<or>
    m r = (Ok Pending, r') \<and> V r' bs"
proof -
  have run: "m r = poll_bind (F 1) (\<lambda>os. case os of [] \<Rightarrow> io_err UnexpectedEof | b # _ \<Rightarrow> io_ret (Ready b)) r"
    using assms(2) by (simp only: polls_a_byte_def)
  from polls_read [OF assms(1), of 1] show ?thesis
  proof (cases rule: polls_cases)
    case (ready os r')
    then obtain k where k: "os = take k bs" "V r' (drop k bs)" "k \<le> 1" "bs \<noteq> [] \<longrightarrow> 0 < k" by auto
    show ?thesis
    proof (cases bs)
      case Nil
      with ready(1) k show ?thesis by (auto simp: run poll_bind_def io_bind_def io_err_def)
    next
      case (Cons b cs)
      with k have "k = 1" by simp
      with ready(1) k Cons show ?thesis by (auto simp: run poll_bind_def io_bind_def io_ret_def)
    qed
  next
    case (pending r')
    then show ?thesis by (auto simp: run poll_bind_def io_bind_def io_ret_def)
  qed
qed

end

end
