(* ===== verification/Tokio_Write.thy ===== *)
theory Tokio_Write
  imports Async_IO Sync_Read
begin

text \<open>
  The writers of \<open>src/defaults/asynchronous/tokio.rs\<close>: a buffer in front of the stream, encrypted once
  encryption is switched on.  A buffer is filled, or it is being written from an offset on; the
  state survives a poll that is pending.  The loops of the polls may not end, and an offset behind the
  buffer panics.  The cipher is the parameter of \<open>Sync_Read\<close>, used as \<open>Encryptor<Aes128>\<close>.
\<close>

section \<open>AsyncBufferedWriter and AsyncEncryptionWriter\<close>

datatype buffer_state = Fill | Write nat

record 'w async_buffered =
  ab_writer :: 'w
  ab_buffer :: "byte list"
  ab_capacity :: nat
  ab_state :: buffer_state

text \<open>
  What the two match arms share: the free capacity takes what it can, and a poll of \<open>write\<close> with the
  rest of the buffer moves the offset (\<open>None\<close>: the slice panics; the poll's own answer otherwise).
\<close>

definition ab_room :: "('w, 'x) async_buffered_scheme \<Rightarrow> nat" where
  "ab_room b = ab_capacity b - length (ab_buffer b)"

definition ab_store :: "byte list \<Rightarrow> (('w, 'x) async_buffered_scheme, nat poll, 'e) io" where
  "ab_store buf = (\<lambda>b.
     let amount_to_write = min (ab_room b) (length buf)
     in (Ok (Ready amount_to_write), b\<lparr>ab_buffer := ab_buffer b @ take amount_to_write buf\<rparr>))"

definition ab_poll_rest ::
  "('w, 'y) async_write_scheme \<Rightarrow> nat \<Rightarrow> (('w, 'x) async_buffered_scheme, nat poll, io_error) io" where
  "ab_poll_rest W offset = (\<lambda>b.
     if length (ab_buffer b) < offset then (Panic, b)
     else case poll_write W (drop offset (ab_buffer b)) (ab_writer b) of
         (Ok (Ready amount_written), w) \<Rightarrow>
           (Ok (Ready amount_written), b\<lparr>ab_writer := w, ab_state := Write (offset + amount_written)\<rparr>)
       | (res, w) \<Rightarrow> (res, b\<lparr>ab_writer := w\<rparr>))"

definition ab_emptied :: "('w, 'x) async_buffered_scheme \<Rightarrow> ('w, 'x) async_buffered_scheme" where
  "ab_emptied b = b\<lparr>ab_buffer := [], ab_state := Fill\<rparr>"

partial_function (option) buffered_poll_write ::
  "('w, 'y) async_write_scheme \<Rightarrow> byte list \<Rightarrow> 'w async_buffered \<Rightarrow> ((nat poll, io_error) outcome \<times> 'w async_buffered) option" where
  "buffered_poll_write W buf b =
     (case ab_state b of
        Fill \<Rightarrow>
          if ab_room b > 0 then Some (ab_store buf b)
          else buffered_poll_write W buf (b\<lparr>ab_state := Write 0\<rparr>)
      | Write offset \<Rightarrow>
          (case ab_poll_rest W offset b of
             (Ok p, b) \<Rightarrow>
               (case p of
                  Ready amount_written \<Rightarrow>
                    if offset + amount_written = length (ab_buffer b)
                    then buffered_poll_write W buf (ab_emptied b)
                    else buffered_poll_write W buf b
                | Pending \<Rightarrow> Some (Ok Pending, b))
           | (Err e, b) \<Rightarrow> Some (Err e, b)
           | (Panic, b) \<Rightarrow> Some (Panic, b)
           | (Diverge, b) \<Rightarrow> Some (Diverge, b)))"

partial_function (option) buffered_poll_flush ::
  "('w, 'y) async_write_scheme \<Rightarrow> 'w async_buffered \<Rightarrow> ((unit poll, io_error) outcome \<times> 'w async_buffered) option" where
  "buffered_poll_flush W b =
     (case ab_state b of
        Fill \<Rightarrow> buffered_poll_flush W (b\<lparr>ab_state := Write 0\<rparr>)
      | Write offset \<Rightarrow>
          (case ab_poll_rest W offset b of
             (Ok p, b) \<Rightarrow>
               (case p of
                  Ready amount_written \<Rightarrow>
                    if offset + amount_written = length (ab_buffer b)
                    then Some (Ok (Ready ()), ab_emptied b)
                    else buffered_poll_flush W b
                | Pending \<Rightarrow> Some (Ok Pending, b))
           | (Err e, b) \<Rightarrow> Some (Err e, b)
           | (Panic, b) \<Rightarrow> Some (Panic, b)
           | (Diverge, b) \<Rightarrow> Some (Diverge, b)))"

definition on_ab_writer :: "('w, 'a, 'e) io \<Rightarrow> (('w, 'x) async_buffered_scheme, 'a, 'e) io" where
  "on_ab_writer = io_within ab_writer (\<lambda>b w. b\<lparr>ab_writer := w\<rparr>)"

text \<open>\<open>poll_shutdown\<close> goes to the stream, past the buffer.\<close>

definition buffered_poll_shutdown :: "('w, 'y) async_write_scheme \<Rightarrow> ('w async_buffered, unit poll, io_error) io" where
  "buffered_poll_shutdown W = on_ab_writer (poll_shutdown W)"

definition tokio_buffered :: "('w, 'y) async_write_scheme \<Rightarrow> 'w async_buffered async_write" where
  "tokio_buffered W =
     \<lparr>poll_write = (\<lambda>buf. io_total (buffered_poll_write W buf)),
      poll_flush = io_total (buffered_poll_flush W),
      poll_shutdown = buffered_poll_shutdown W\<rparr>"

record ('k, 'w) async_encryption = "'w async_buffered" +
  ab_encryptor :: 'k

text \<open>The whole buffer is encrypted in place before its first byte is written.\<close>

definition ab_encrypt :: "'k cipher \<Rightarrow> ('k, 'w) async_encryption \<Rightarrow> ('k, 'w) async_encryption" where
  "ab_encrypt c b = (case apply_blocks c (ab_encryptor b) (ab_buffer b) of
     (cs, k) \<Rightarrow> b\<lparr>ab_buffer := cs, ab_encryptor := k\<rparr>)"

partial_function (option) encryption_poll_write ::
  "'k cipher \<Rightarrow> ('w, 'y) async_write_scheme \<Rightarrow> byte list \<Rightarrow> ('k, 'w) async_encryption \<Rightarrow>
   ((nat poll, io_error) outcome \<times> ('k, 'w) async_encryption) option" where
  "encryption_poll_write c W buf b =
     (case ab_state b of
        Fill \<Rightarrow>
          if ab_room b > 0 then Some (ab_store buf b)
          else encryption_poll_write c W buf ((ab_encrypt c b)\<lparr>ab_state := Write 0\<rparr>)
      | Write offset \<Rightarrow>
          (case ab_poll_rest W offset b of
             (Ok p, b) \<Rightarrow>
               (case p of
                  Ready amount_written \<Rightarrow>
                    if offset + amount_written = length (ab_buffer b)
                    then encryption_poll_write c W buf (ab_emptied b)
                    else encryption_poll_write c W buf b
                | Pending \<Rightarrow> Some (Ok Pending, b))
           | (Err e, b) \<Rightarrow> Some (Err e, b)
           | (Panic, b) \<Rightarrow> Some (Panic, b)
           | (Diverge, b) \<Rightarrow> Some (Diverge, b)))"

partial_function (option) encryption_poll_flush ::
  "'k cipher \<Rightarrow> ('w, 'y) async_write_scheme \<Rightarrow> ('k, 'w) async_encryption \<Rightarrow>
   ((unit poll, io_error) outcome \<times> ('k, 'w) async_encryption) option" where
  "encryption_poll_flush c W b =
     (case ab_state b of
        Fill \<Rightarrow> encryption_poll_flush c W ((ab_encrypt c b)\<lparr>ab_state := Write 0\<rparr>)
      | Write offset \<Rightarrow>
          (case ab_poll_rest W offset b of
             (Ok p, b) \<Rightarrow>
               (case p of
                  Ready amount_written \<Rightarrow>
                    if offset + amount_written = length (ab_buffer b)
                    then Some (Ok (Ready ()), ab_emptied b)
                    else encryption_poll_flush c W b
                | Pending \<Rightarrow> Some (Ok Pending, b))
           | (Err e, b) \<Rightarrow> Some (Err e, b)
           | (Panic, b) \<Rightarrow> Some (Panic, b)
           | (Diverge, b) \<Rightarrow> Some (Diverge, b)))"

definition encryption_poll_shutdown :: "('w, 'y) async_write_scheme \<Rightarrow> (('k, 'w) async_encryption, unit poll, io_error) io" where
  "encryption_poll_shutdown W = on_ab_writer (poll_shutdown W)"

definition tokio_encryption :: "'k cipher \<Rightarrow> ('w, 'y) async_write_scheme \<Rightarrow> ('k, 'w) async_encryption async_write" where
  "tokio_encryption c W =
     \<lparr>poll_write = (\<lambda>buf. io_total (encryption_poll_write c W buf)),
      poll_flush = io_total (encryption_poll_flush c W),
      poll_shutdown = encryption_poll_shutdown W\<rparr>"

section \<open>AsyncDefaultWriter\<close>

datatype ('k, 'w) async_default_writer =
    AsyncStandard "'w async_buffered"
  | AsyncEncrypt "('k, 'w) async_encryption"
  | AsyncPoisoned

definition tokio_default_writer :: "'k cipher \<Rightarrow> ('w, 'y) async_write_scheme \<Rightarrow> ('k, 'w) async_default_writer async_write" where
  "tokio_default_writer c W =
     \<lparr>poll_write = (\<lambda>buf s. case s of
        AsyncStandard b \<Rightarrow> (case poll_write (tokio_buffered W) buf b of (res, b) \<Rightarrow> (res, AsyncStandard b))
      | AsyncEncrypt b \<Rightarrow> (case poll_write (tokio_encryption c W) buf b of (res, b) \<Rightarrow> (res, AsyncEncrypt b))
      | AsyncPoisoned \<Rightarrow> (Panic, AsyncPoisoned)),
      poll_flush = (\<lambda>s. case s of
        AsyncStandard b \<Rightarrow> (case poll_flush (tokio_buffered W) b of (res, b) \<Rightarrow> (res, AsyncStandard b))
      | AsyncEncrypt b \<Rightarrow> (case poll_flush (tokio_encryption c W) b of (res, b) \<Rightarrow> (res, AsyncEncrypt b))
      | AsyncPoisoned \<Rightarrow> (Panic, AsyncPoisoned)),
      poll_shutdown = (\<lambda>s. case s of
        AsyncStandard b \<Rightarrow> (case poll_shutdown (tokio_buffered W) b of (res, b) \<Rightarrow> (res, AsyncStandard b))
      | AsyncEncrypt b \<Rightarrow> (case poll_shutdown (tokio_encryption c W) b of (res, b) \<Rightarrow> (res, AsyncEncrypt b))
      | AsyncPoisoned \<Rightarrow> (Panic, AsyncPoisoned))\<rparr>"

text \<open>\<open>with_encryption\<close> clears the buffer it hands over, whatever of it was still to be written.\<close>

definition tokio_writer_with_encryption ::
  "'k cipher \<Rightarrow> byte list \<Rightarrow> (('k, 'w) async_default_writer, unit, 'e) io" where
  "tokio_writer_with_encryption c key = (\<lambda>s. case s of
     AsyncStandard b \<Rightarrow>
       (Ok (), AsyncEncrypt \<lparr>ab_writer = ab_writer b, ab_buffer = [], ab_capacity = ab_capacity b,
         ab_state = Fill, ab_encryptor = init c key\<rparr>)
   | AsyncEncrypt _ \<Rightarrow> (Panic, AsyncPoisoned)
   | AsyncPoisoned \<Rightarrow> (Panic, AsyncPoisoned))"

section \<open>Writing out the buffer\<close>

text \<open>
  The arm \<open>Write\<close> of a loop that goes on with \<open>finished\<close> once the buffer is empty: all the polls have
  it.  Each poll of the stream moves the offset, or the loop is left pending, to go on there.
\<close>

locale buffer_loop =
  fixes W :: "('w, 'y) async_write_scheme"
    and loop :: "('w, 'x) async_buffered_scheme \<Rightarrow> (('a poll, io_error) outcome \<times> ('w, 'x) async_buffered_scheme) option"
    and finished :: "('w, 'x) async_buffered_scheme \<Rightarrow> (('a poll, io_error) outcome \<times> ('w, 'x) async_buffered_scheme) option"
  assumes loop_write: "ab_state b = Write offset \<Longrightarrow> loop b =
     (case ab_poll_rest W offset b of
        (Ok p, b) \<Rightarrow>
          (case p of
             Ready amount_written \<Rightarrow>
               if offset + amount_written = length (ab_buffer b) then finished (ab_emptied b) else loop b
           | Pending \<Rightarrow> Some (Ok Pending, b))
      | (Err e, b) \<Rightarrow> Some (Err e, b)
      | (Panic, b) \<Rightarrow> Some (Panic, b)
      | (Diverge, b) \<Rightarrow> Some (Diverge, b))"
begin

lemma drains_buffer:
  assumes W: "lawful_poll_write W V waits"
  shows "ab_state b = Write offset \<Longrightarrow> offset \<le> length (ab_buffer b) \<Longrightarrow>
    V (ab_writer b) (sent @ take offset (ab_buffer b)) \<Longrightarrow>
    (\<exists>w. V w (sent @ ab_buffer b) \<and> loop b = finished (ab_emptied (b\<lparr>ab_writer := w\<rparr>))) \<or>
    (\<exists>w i. offset \<le> i \<and> i \<le> length (ab_buffer b) \<and> V w (sent @ take i (ab_buffer b)) \<and>
      loop b = Some (Ok Pending, b\<lparr>ab_writer := w, ab_state := Write i\<rparr>) \<and>
      (offset < i \<or> (w, ab_writer b) \<in> waits))"
proof (induction "length (ab_buffer b) - offset" arbitrary: b offset rule: less_induct)
  case less
  let ?rest = "drop offset (ab_buffer b)"
  from lawful_poll_write.polls_write [OF W less.prems(3), of ?rest] show ?case
  proof (cases rule: polls_cases)
    case (ready k w)
    let ?b = "b\<lparr>ab_writer := w, ab_state := Write (offset + k)\<rparr>"
    have le: "offset + k \<le> length (ab_buffer b)" and moves: "offset < length (ab_buffer b) \<longrightarrow> 0 < k"
      using ready(2) less.prems(2) by auto
    have V: "V w (sent @ take (offset + k) (ab_buffer b))"
      using ready(2) by (simp add: take_add)
    have rest: "ab_poll_rest W offset b = (Ok (Ready k), ?b)"
      using less.prems(2) ready(1) by (simp add: ab_poll_rest_def)
    show ?thesis
    proof (cases "offset + k = length (ab_buffer b)")
      case True
      have "loop b = finished (ab_emptied (b\<lparr>ab_writer := w\<rparr>))"
        using True by (simp add: loop_write [OF less.prems(1)] rest ab_emptied_def)
      with V True show ?thesis by auto
    next
      case False
      have run: "loop b = loop ?b"
        using False by (simp add: loop_write [OF less.prems(1)] rest)
      have "length (ab_buffer ?b) - (offset + k) < length (ab_buffer b) - offset"
        using False le moves by simp
      from less.hyps [OF this] V le consider
        (all) w' where "V w' (sent @ ab_buffer b)" "loop ?b = finished (ab_emptied (?b\<lparr>ab_writer := w'\<rparr>))"
      | (some) w' i where "offset + k \<le> i" "i \<le> length (ab_buffer b)" "V w' (sent @ take i (ab_buffer b))"
          "loop ?b = Some (Ok Pending, ?b\<lparr>ab_writer := w', ab_state := Write i\<rparr>)"
        by fastforce
      then show ?thesis
      proof cases
        case all
        have "ab_emptied (?b\<lparr>ab_writer := w'\<rparr>) = ab_emptied (b\<lparr>ab_writer := w'\<rparr>)" by (simp add: ab_emptied_def)
        with all show ?thesis unfolding run by auto
      next
        case some
        have "offset < i" using some(1) moves False le by auto
        with some show ?thesis unfolding run by (intro disjI2 exI [of _ w'] exI [of _ i]) simp
      qed
    qed
  next
    case (pending w)
    have "ab_poll_rest W offset b = (Ok Pending, b\<lparr>ab_writer := w\<rparr>)"
      using less.prems(2) pending(1) by (simp add: ab_poll_rest_def)
    then have "loop b = Some (Ok Pending, b\<lparr>ab_writer := w\<rparr>)"
      by (simp add: loop_write [OF less.prems(1)])
    moreover have "b\<lparr>ab_writer := w, ab_state := Write offset\<rparr> = b\<lparr>ab_writer := w\<rparr>"
      using less.prems(1) by (cases b) simp
    ultimately have "loop b = Some (Ok Pending, b\<lparr>ab_writer := w, ab_state := Write offset\<rparr>)" by simp
    with pending(2) less.prems(2) show ?thesis
      by (intro disjI2 exI [of _ w] exI [of _ offset]) simp
  qed
qed

end

interpretation buffered_write: buffer_loop W "buffered_poll_write W buf" "buffered_poll_write W buf" for W buf
  by unfold_locales (subst buffered_poll_write.simps, simp)

interpretation buffered_flush: buffer_loop W "buffered_poll_flush W" "\<lambda>b. Some (Ok (Ready ()), b)" for W
  by unfold_locales (subst buffered_poll_flush.simps, simp)

interpretation encryption_write: buffer_loop W "encryption_poll_write c W buf" "encryption_poll_write c W buf" for c W buf
  by unfold_locales (subst encryption_poll_write.simps, simp)

interpretation encryption_flush: buffer_loop W "encryption_poll_flush c W" "\<lambda>b. Some (Ok (Ready ()), b)" for c W
  by unfold_locales (subst encryption_poll_flush.simps, simp)

section \<open>The writers keep the contract of a poll\<close>

text \<open>
  How far a buffer is from being written out: a pending poll leaves it closer, or the stream is closer
  to being ready.
\<close>

fun buffer_rank :: "buffer_state \<Rightarrow> nat \<Rightarrow> nat" where
  "buffer_rank Fill n = Suc n"
| "buffer_rank (Write offset) n = n - offset"

definition ab_waits :: "('w \<times> 'w) set \<Rightarrow> (('w, 'x) async_buffered_scheme \<times> ('w, 'x) async_buffered_scheme) set" where
  "ab_waits waits = inv_image (less_than <*lex*> waits)
     (\<lambda>b. (buffer_rank (ab_state b) (length (ab_buffer b)), ab_writer b))"

lemma wf_ab_waits: "wf waits \<Longrightarrow> wf (ab_waits waits)"
  by (auto simp: ab_waits_def)

lemma ab_waits_iff:
  "(b', b) \<in> ab_waits waits \<longleftrightarrow>
     buffer_rank (ab_state b') (length (ab_buffer b')) < buffer_rank (ab_state b) (length (ab_buffer b)) \<or>
     buffer_rank (ab_state b') (length (ab_buffer b')) = buffer_rank (ab_state b) (length (ab_buffer b)) \<and>
       (ab_writer b', ab_writer b) \<in> waits"
  by (simp add: ab_waits_def)

text \<open>\<open>out\<close> is what the stream will have when the buffer is written out.\<close>

definition writing :: "('w \<Rightarrow> byte list \<Rightarrow> bool) \<Rightarrow> byte list \<Rightarrow> ('w, 'x) async_buffered_scheme \<Rightarrow> bool" where
  "writing V out b \<longleftrightarrow> (\<exists>offset sent. ab_state b = Write offset \<and> offset \<le> length (ab_buffer b) \<and>
     out = sent @ ab_buffer b \<and> V (ab_writer b) (sent @ take offset (ab_buffer b)))"

lemma drains_writing:
  assumes loop: "buffer_loop W loop finished" and W: "lawful_poll_write W V waits" and b: "writing V out b"
  obtains (all) w where "loop b = finished (ab_emptied (b\<lparr>ab_writer := w\<rparr>))" "V w out"
  | (some) w i where "loop b = Some (Ok Pending, b\<lparr>ab_writer := w, ab_state := Write i\<rparr>)"
      "writing V out (b\<lparr>ab_writer := w, ab_state := Write i\<rparr>)" "(b\<lparr>ab_writer := w, ab_state := Write i\<rparr>, b) \<in> ab_waits waits"
proof -
  obtain offset sent where sent: "ab_state b = Write offset" "offset \<le> length (ab_buffer b)"
      "out = sent @ ab_buffer b" "V (ab_writer b) (sent @ take offset (ab_buffer b))"
    using b by (auto simp: writing_def)
  from buffer_loop.drains_buffer [OF loop W sent(1,2,4)] consider
    (finishes) w where "V w (sent @ ab_buffer b)" "loop b = finished (ab_emptied (b\<lparr>ab_writer := w\<rparr>))"
  | (left) w i where "offset \<le> i" "i \<le> length (ab_buffer b)" "V w (sent @ take i (ab_buffer b))"
      "loop b = Some (Ok Pending, b\<lparr>ab_writer := w, ab_state := Write i\<rparr>)" "offset < i \<or> (w, ab_writer b) \<in> waits"
    by blast
  then show ?thesis
  proof cases
    case (finishes w)
    with sent(3) show ?thesis by (intro all) simp_all
  next
    case (left w i)
    then show ?thesis using sent(1,2,3) by (intro some) (auto simp: writing_def ab_waits_iff)
  qed
qed

text \<open>
  The two polls of a buffering writer, over the step \<open>enter\<close> that starts to write the buffer.  \<open>U b bs\<close>:
  the writer has accepted \<open>bs\<close>; \<open>out bs\<close> is what becomes of that on the stream.
\<close>

locale polled_buffer =
  fixes W :: "('w, 'y) async_write_scheme"
    and V :: "'w \<Rightarrow> byte list \<Rightarrow> bool"
    and waits :: "('w \<times> 'w) set"
    and write_loop :: "byte list \<Rightarrow> ('w, 'x) async_buffered_scheme \<Rightarrow> ((nat poll, io_error) outcome \<times> ('w, 'x) async_buffered_scheme) option"
    and flush_loop :: "('w, 'x) async_buffered_scheme \<Rightarrow> ((unit poll, io_error) outcome \<times> ('w, 'x) async_buffered_scheme) option"
    and enter :: "('w, 'x) async_buffered_scheme \<Rightarrow> ('w, 'x) async_buffered_scheme"
    and U :: "('w, 'x) async_buffered_scheme \<Rightarrow> byte list \<Rightarrow> bool"
    and out :: "byte list \<Rightarrow> byte list"
  assumes stream_lawful: "lawful_poll_write W V waits"
    and write_loop: "buffer_loop W (write_loop buf) (write_loop buf)"
    and write_fill: "ab_state b = Fill \<Longrightarrow>
      write_loop buf b = (if ab_room b > 0 then Some (ab_store buf b) else write_loop buf (enter b))"
    and flush_loop: "buffer_loop W flush_loop (\<lambda>b. Some (Ok (Ready ()), b))"
    and flush_fill: "ab_state b = Fill \<Longrightarrow> flush_loop b = flush_loop (enter b)"
    and capacity: "U b bs \<Longrightarrow> 0 < ab_capacity b"
    and stores: "U b bs \<Longrightarrow> ab_state b = Fill \<Longrightarrow> U (b\<lparr>ab_buffer := ab_buffer b @ cs\<rparr>) (bs @ cs)"
    and enters: "U b bs \<Longrightarrow> ab_state b = Fill \<Longrightarrow> U (enter b) bs \<and> ab_state (enter b) = Write 0 \<and>
      length (ab_buffer (enter b)) = length (ab_buffer b)"
    and writes: "U b bs \<Longrightarrow> ab_state b = Write offset \<Longrightarrow> writing V (out bs) b"
    and moves: "U b bs \<Longrightarrow> ab_state b = Write offset \<Longrightarrow> writing V (out bs) (b\<lparr>ab_writer := w, ab_state := Write i\<rparr>) \<Longrightarrow>
      U (b\<lparr>ab_writer := w, ab_state := Write i\<rparr>) bs"
    and empties: "U b bs \<Longrightarrow> ab_state b = Write offset \<Longrightarrow> V w (out bs) \<Longrightarrow> U (ab_emptied (b\<lparr>ab_writer := w\<rparr>)) bs"
begin

lemma store_polls:
  assumes "U b bs" "ab_state b = Fill" "0 < ab_room b"
  shows "\<exists>k b'. write_loop buf b = Some (Ok (Ready k), b') \<and> U b' (bs @ take k buf) \<and> k \<le> length buf \<and> (buf \<noteq> [] \<longrightarrow> 0 < k)"
  using assms stores [OF assms(1,2)] by (auto simp: write_fill ab_store_def Let_def)

lemma write_loop_writing:
  assumes b: "U b bs" "ab_state b = Write offset"
  shows "(\<exists>k b'. write_loop buf b = Some (Ok (Ready k), b') \<and> U b' (bs @ take k buf) \<and> k \<le> length buf \<and> (buf \<noteq> [] \<longrightarrow> 0 < k)) \<or>
    (\<exists>b'. write_loop buf b = Some (Ok Pending, b') \<and> U b' bs \<and> (b', b) \<in> ab_waits waits)"
  using write_loop stream_lawful writes [OF b]
proof (cases rule: drains_writing [where loop = "write_loop buf"])
  case (all w)
  let ?b = "ab_emptied (b\<lparr>ab_writer := w\<rparr>)"
  have "U ?b bs" by (rule empties [OF b all(2)])
  from store_polls [OF this] capacity [OF this] all(1) show ?thesis
    by (simp add: ab_emptied_def ab_room_def)
next
  case (some w i)
  with moves [OF b] show ?thesis by blast
qed

text \<open>\<open>poll_write\<close> accepts some of the bytes, or is pending and has accepted none.\<close>

lemma write_polls:
  assumes b: "U b bs"
  shows "polls (io_total (write_loop buf)) b
    (\<lambda>k b'. U b' (bs @ take k buf) \<and> k \<le> length buf \<and> (buf \<noteq> [] \<longrightarrow> 0 < k)) (\<lambda>b'. U b' bs \<and> (b', b) \<in> ab_waits waits)"
proof (cases "ab_state b")
  case Fill
  show ?thesis
  proof (cases "0 < ab_room b")
    case True
    from store_polls [OF b Fill this, of buf] show ?thesis by (auto simp: polls_def io_total_def)
  next
    case False
    have "write_loop buf b = write_loop buf (enter b)" using Fill False by (simp add: write_fill)
    with write_loop_writing [of "enter b" bs 0 buf] enters [OF b Fill] Fill show ?thesis
      by (auto simp: polls_def io_total_def ab_waits_iff)
  qed
next
  case (Write offset)
  from write_loop_writing [OF b this, of buf] show ?thesis by (auto simp: polls_def io_total_def)
qed

lemma flush_loop_writing:
  assumes b: "U b bs" "ab_state b = Write offset"
  shows "polls (io_total flush_loop) b (\<lambda>_ b'. U b' bs \<and> ab_state b' = Fill \<and> ab_buffer b' = [] \<and> V (ab_writer b') (out bs))
    (\<lambda>b'. U b' bs \<and> (b', b) \<in> ab_waits waits)"
  using flush_loop stream_lawful writes [OF b]
proof (cases rule: drains_writing [where loop = flush_loop])
  case (all w)
  with empties [OF b all(2)] show ?thesis by (auto simp: polls_def io_total_def ab_emptied_def)
next
  case (some w i)
  with moves [OF b] show ?thesis by (auto simp: polls_def io_total_def)
qed

text \<open>A flush that is ready has put everything accepted on the stream.\<close>

lemma flush_polls:
  assumes b: "U b bs"
  shows "polls (io_total flush_loop) b (\<lambda>_ b'. U b' bs \<and> ab_state b' = Fill \<and> ab_buffer b' = [] \<and> V (ab_writer b') (out bs))
    (\<lambda>b'. U b' bs \<and> (b', b) \<in> ab_waits waits)"
proof (cases "ab_state b")
  case Fill
  have "flush_loop b = flush_loop (enter b)" by (rule flush_fill [OF Fill])
  moreover from flush_loop_writing [of "enter b" bs 0] enters [OF b Fill] Fill
  have "polls (io_total flush_loop) (enter b) (\<lambda>_ b'. U b' bs \<and> ab_state b' = Fill \<and> ab_buffer b' = [] \<and> V (ab_writer b') (out bs))
      (\<lambda>b'. U b' bs \<and> (b', b) \<in> ab_waits waits)"
    by (auto simp: ab_waits_iff elim!: polls_mono)
  ultimately show ?thesis by (auto simp: polls_def io_total_def split: option.splits)
next
  case (Write offset)
  from flush_loop_writing [OF b this] show ?thesis .
qed

end

section \<open>The buffered and the encrypting writer\<close>

text \<open>The buffered writer has accepted \<open>bs\<close>: the stream has what is no longer in the buffer.\<close>

definition ab_view :: "('w \<Rightarrow> byte list \<Rightarrow> bool) \<Rightarrow> 'w async_buffered \<Rightarrow> byte list \<Rightarrow> bool" where
  "ab_view V b bs \<longleftrightarrow> 0 < ab_capacity b \<and> (case ab_state b of
     Fill \<Rightarrow> \<exists>sent. bs = sent @ ab_buffer b \<and> V (ab_writer b) sent
   | Write _ \<Rightarrow> writing V bs b)"

text \<open>
  The encrypting writer has accepted \<open>bs\<close> since the cipher stood at \<open>k0\<close> and the stream at \<open>sent0\<close>.  A
  buffer that is being filled is plain, one that is being written is encrypted.
\<close>

definition encrypted_from :: "'k cipher \<Rightarrow> 'k \<Rightarrow> byte list \<Rightarrow> byte list \<Rightarrow> byte list" where
  "encrypted_from c k0 sent0 bs = sent0 @ fst (apply_blocks c k0 bs)"

definition ae_view ::
  "'k cipher \<Rightarrow> ('w \<Rightarrow> byte list \<Rightarrow> bool) \<Rightarrow> 'k \<Rightarrow> byte list \<Rightarrow> ('k, 'w) async_encryption \<Rightarrow> byte list \<Rightarrow> bool" where
  "ae_view c V k0 sent0 b bs \<longleftrightarrow> 0 < ab_capacity b \<and> (case ab_state b of
     Fill \<Rightarrow> \<exists>ps. bs = ps @ ab_buffer b \<and> V (ab_writer b) (encrypted_from c k0 sent0 ps) \<and>
       ab_encryptor b = snd (apply_blocks c k0 ps)
   | Write _ \<Rightarrow> writing V (encrypted_from c k0 sent0 bs) b \<and> ab_encryptor b = snd (apply_blocks c k0 bs))"

lemma buffered_polled:
  fixes W :: "('w, 'y) async_write_scheme"
  assumes "lawful_poll_write W V waits"
  shows "polled_buffer W V waits (buffered_poll_write W) (buffered_poll_flush W) (\<lambda>b. b\<lparr>ab_state := Write 0\<rparr>)
    (ab_view V) (\<lambda>bs. bs)"
proof (rule polled_buffer.intro)
  show "lawful_poll_write W V waits" by (rule assms)
  show "buffer_loop W (buffered_poll_write W buf) (buffered_poll_write W buf)" for buf
    by (rule buffered_write.buffer_loop_axioms)
  show "buffer_loop W (buffered_poll_flush W) (\<lambda>b. Some (Ok (Ready ()), b))"
    by (rule buffered_flush.buffer_loop_axioms)
  show "buffered_poll_write W buf b = (if ab_room b > 0 then Some (ab_store buf b) else buffered_poll_write W buf (b\<lparr>ab_state := Write 0\<rparr>))"
    if "ab_state b = Fill" for b :: "'w async_buffered" and buf
    using that by (subst buffered_poll_write.simps) simp
  show "buffered_poll_flush W b = buffered_poll_flush W (b\<lparr>ab_state := Write 0\<rparr>)"
    if "ab_state b = Fill" for b :: "'w async_buffered"
    using that by (subst buffered_poll_flush.simps) simp
qed (auto simp: ab_view_def writing_def ab_emptied_def)

lemma encryption_polled:
  fixes W :: "('w, 'y) async_write_scheme" and c :: "'k cipher"
  assumes W: "lawful_poll_write W V waits" and c: "stream_cipher c"
  shows "polled_buffer W V waits (encryption_poll_write c W) (encryption_poll_flush c W)
    (\<lambda>b. (ab_encrypt c b)\<lparr>ab_state := Write 0\<rparr>) (ae_view c V k0 sent0) (encrypted_from c k0 sent0)"
proof (rule polled_buffer.intro)
  show "lawful_poll_write W V waits" by (rule W)
  show "buffer_loop W (encryption_poll_write c W buf) (encryption_poll_write c W buf)" for buf
    by (rule encryption_write.buffer_loop_axioms)
  show "buffer_loop W (encryption_poll_flush c W) (\<lambda>b. Some (Ok (Ready ()), b))"
    by (rule encryption_flush.buffer_loop_axioms)
  show "encryption_poll_write c W buf b = (if ab_room b > 0 then Some (ab_store buf b)
      else encryption_poll_write c W buf ((ab_encrypt c b)\<lparr>ab_state := Write 0\<rparr>))"
    if "ab_state b = Fill" for b :: "('k, 'w) async_encryption" and buf
    using that by (subst encryption_poll_write.simps) simp
  show "encryption_poll_flush c W b = encryption_poll_flush c W ((ab_encrypt c b)\<lparr>ab_state := Write 0\<rparr>)"
    if "ab_state b = Fill" for b :: "('k, 'w) async_encryption"
    using that by (subst encryption_poll_flush.simps) simp
  show "ae_view c V k0 sent0 ((ab_encrypt c b)\<lparr>ab_state := Write 0\<rparr>) bs \<and>
      ab_state ((ab_encrypt c b)\<lparr>ab_state := Write 0\<rparr>) = Write 0 \<and>
      length (ab_buffer ((ab_encrypt c b)\<lparr>ab_state := Write 0\<rparr>)) = length (ab_buffer b)"
    if b: "ae_view c V k0 sent0 b bs" "ab_state b = Fill" for b bs
  proof -
    obtain ps where ps: "bs = ps @ ab_buffer b" "V (ab_writer b) (encrypted_from c k0 sent0 ps)"
        "ab_encryptor b = snd (apply_blocks c k0 ps)" "0 < ab_capacity b"
      using b by (auto simp: ae_view_def)
    obtain cs k where cs: "apply_blocks c (ab_encryptor b) (ab_buffer b) = (cs, k)" by fastforce
    have all: "fst (apply_blocks c k0 bs) = fst (apply_blocks c k0 ps) @ cs" "snd (apply_blocks c k0 bs) = k"
      using apply_blocks_append(1,2) [OF c, of k0 ps "ab_buffer b"] cs by (simp_all add: ps(1,3))
    have "length cs = length (ab_buffer b)"
      using apply_blocks_append(3) [OF c, of "ab_encryptor b" "ab_buffer b"] cs by simp
    with ps(2,4) show ?thesis
      by (auto simp: ab_encrypt_def cs ae_view_def writing_def encrypted_from_def all)
  qed
qed (auto simp: ae_view_def writing_def ab_emptied_def)

section \<open>AsyncDefaultWriter keeps the contract\<close>

definition adw_view ::
  "'k cipher \<Rightarrow> ('w \<Rightarrow> byte list \<Rightarrow> bool) \<Rightarrow> 'k \<Rightarrow> byte list \<Rightarrow> ('k, 'w) async_default_writer \<Rightarrow> byte list \<Rightarrow> bool" where
  "adw_view c V k0 sent0 s bs = (case s of
     AsyncStandard b \<Rightarrow> ab_view V b bs
   | AsyncEncrypt b \<Rightarrow> ae_view c V k0 sent0 b bs
   | AsyncPoisoned \<Rightarrow> False)"

definition adw_waits :: "('w \<times> 'w) set \<Rightarrow> (('k, 'w) async_default_writer \<times> ('k, 'w) async_default_writer) set" where
  "adw_waits waits = map_prod AsyncStandard AsyncStandard ` ab_waits waits \<union>
     map_prod AsyncEncrypt AsyncEncrypt ` ab_waits waits"

lemma wf_adw_waits: "wf waits \<Longrightarrow> wf (adw_waits waits)"
  unfolding adw_waits_def
  by (intro wf_Un wf_map_prod_image wf_ab_waits) (auto simp: inj_def)

text \<open>Everything accepted is on the stream, and the buffer is empty.\<close>

definition async_delivered ::
  "'k cipher \<Rightarrow> ('w \<Rightarrow> byte list \<Rightarrow> bool) \<Rightarrow> 'k \<Rightarrow> byte list \<Rightarrow> ('k, 'w) async_default_writer \<Rightarrow> byte list \<Rightarrow> bool" where
  "async_delivered c V k0 sent0 s bs \<longleftrightarrow> (case s of
     AsyncStandard b \<Rightarrow> ab_state b = Fill \<and> ab_buffer b = [] \<and> V (ab_writer b) bs
   | AsyncEncrypt b \<Rightarrow> ab_state b = Fill \<and> ab_buffer b = [] \<and> V (ab_writer b) (encrypted_from c k0 sent0 bs)
   | AsyncPoisoned \<Rightarrow> False)"

lemma polls_wrapped:
  assumes "polls m b Q P" and "\<And>res b'. m b = (res, b') \<Longrightarrow> n (C b) = (res, C b')"
    and "\<And>a b'. Q a b' \<Longrightarrow> Q' a (C b')" and "\<And>b'. P b' \<Longrightarrow> P' (C b')"
  shows "polls n (C b) Q' P'"
  using assms by (auto simp: polls_def)

lemma default_writer_polls:
  assumes W: "lawful_poll_write W V waits" and c: "stream_cipher c" and s: "adw_view c V k0 sent0 s bs"
  shows "polls (poll_write (tokio_default_writer c W) buf) s
      (\<lambda>k s'. adw_view c V k0 sent0 s' (bs @ take k buf) \<and> k \<le> length buf \<and> (buf \<noteq> [] \<longrightarrow> 0 < k))
      (\<lambda>s'. adw_view c V k0 sent0 s' bs \<and> (s', s) \<in> adw_waits waits)"
    and "polls (poll_flush (tokio_default_writer c W)) s
      (\<lambda>_ s'. adw_view c V k0 sent0 s' bs \<and> async_delivered c V k0 sent0 s' bs)
      (\<lambda>s'. adw_view c V k0 sent0 s' bs \<and> (s', s) \<in> adw_waits waits)"
proof -
  note standard = buffered_polled [OF W] and encrypt = encryption_polled [OF W c]
  have "polls (poll_write (tokio_default_writer c W) buf) s
      (\<lambda>k s'. adw_view c V k0 sent0 s' (bs @ take k buf) \<and> k \<le> length buf \<and> (buf \<noteq> [] \<longrightarrow> 0 < k))
      (\<lambda>s'. adw_view c V k0 sent0 s' bs \<and> (s', s) \<in> adw_waits waits) \<and>
    polls (poll_flush (tokio_default_writer c W)) s
      (\<lambda>_ s'. adw_view c V k0 sent0 s' bs \<and> async_delivered c V k0 sent0 s' bs)
      (\<lambda>s'. adw_view c V k0 sent0 s' bs \<and> (s', s) \<in> adw_waits waits)"
  proof (cases s)
    case (AsyncStandard b)
    with s have b: "ab_view V b bs" by (simp add: adw_view_def)
    show ?thesis
      unfolding AsyncStandard
      by (intro conjI polls_wrapped [OF polled_buffer.write_polls [OF standard b, of buf]]
          polls_wrapped [OF polled_buffer.flush_polls [OF standard b]])
         (auto simp: tokio_default_writer_def tokio_buffered_def adw_view_def adw_waits_def async_delivered_def)
  next
    case (AsyncEncrypt b)
    with s have b: "ae_view c V k0 sent0 b bs" by (simp add: adw_view_def)
    show ?thesis
      unfolding AsyncEncrypt
      by (intro conjI polls_wrapped [OF polled_buffer.write_polls [OF encrypt b, of buf]]
          polls_wrapped [OF polled_buffer.flush_polls [OF encrypt b]])
         (auto simp: tokio_default_writer_def tokio_encryption_def adw_view_def adw_waits_def async_delivered_def)
  qed (use s in \<open>simp add: adw_view_def\<close>)
  then show "polls (poll_write (tokio_default_writer c W) buf) s
      (\<lambda>k s'. adw_view c V k0 sent0 s' (bs @ take k buf) \<and> k \<le> length buf \<and> (buf \<noteq> [] \<longrightarrow> 0 < k))
      (\<lambda>s'. adw_view c V k0 sent0 s' bs \<and> (s', s) \<in> adw_waits waits)"
    and "polls (poll_flush (tokio_default_writer c W)) s
      (\<lambda>_ s'. adw_view c V k0 sent0 s' bs \<and> async_delivered c V k0 sent0 s' bs)
      (\<lambda>s'. adw_view c V k0 sent0 s' bs \<and> (s', s) \<in> adw_waits waits)"
    by blast+
qed

lemma lawful_default_writer:
  assumes W: "lawful_poll_write W V waits" and c: "stream_cipher c"
  shows "lawful_poll_write (tokio_default_writer c W) (adw_view c V k0 sent0) (adw_waits waits)"
proof (rule lawful_poll_write.intro)
  show "wf (adw_waits waits)" by (rule wf_adw_waits [OF lawful_poll_write.wf_waits [OF W]])
qed (auto intro: default_writer_polls(1) [OF W c] polls_mono [OF default_writer_polls(2) [OF W c]])

text \<open>A flush that is awaited delivers.\<close>

lemma default_flush_delivers:
  assumes W: "lawful_poll_write W V waits" and c: "stream_cipher c" and s: "adw_view c V k0 sent0 s bs"
  shows "\<exists>s'. await (poll_flush (tokio_default_writer c W)) s = (Ok (), s') \<and>
    adw_view c V k0 sent0 s' bs \<and> async_delivered c V k0 sent0 s' bs"
  using await_ends [OF wf_adw_waits [OF lawful_poll_write.wf_waits [OF W]], of "\<lambda>s. adw_view c V k0 sent0 s bs" s
      "poll_flush (tokio_default_writer c W)" "\<lambda>_ s'. adw_view c V k0 sent0 s' bs \<and> async_delivered c V k0 sent0 s' bs"]
    s default_writer_polls(2) [OF W c]
  by auto

section \<open>Loops that do not end\<close>

text \<open>
  A poll of \<open>write\<close> takes \<open>Ok(0)\<close> of the stream for progress: where the stream takes no byte, or where
  the buffer has no capacity, the loop does not leave the task, not even as pending.
\<close>

definition takes_nothing :: "('w, 'y) async_write_scheme \<Rightarrow> 'w \<Rightarrow> bool" where
  "takes_nothing W w \<longleftrightarrow> (\<forall>buf. poll_write W buf w = (Ok (Ready 0), w))"

definition stuck :: "('w, 'y) async_write_scheme \<Rightarrow> ('w, 'x) async_buffered_scheme \<Rightarrow> bool" where
  "stuck W b \<longleftrightarrow> (case ab_state b of Fill \<Rightarrow> ab_room b = 0 | Write offset \<Rightarrow> offset < length (ab_buffer b)) \<and>
       takes_nothing W (ab_writer b) \<and> ab_buffer b \<noteq> [] \<or>
     ab_state b \<in> {Fill, Write 0} \<and> ab_capacity b = 0 \<and> ab_buffer b = [] \<and>
       poll_write W [] (ab_writer b) = (Ok (Ready 0), ab_writer b)"

lemma stuck_rest:
  assumes "stuck W b" and "ab_state b = Write offset"
  shows "ab_poll_rest W offset b = (Ok (Ready 0), b)"
proof -
  have "b\<lparr>ab_state := Write offset\<rparr> = b" using assms(2) by (cases b) simp
  moreover have "b\<lparr>ab_writer := ab_writer b, ab_state := Write offset\<rparr> = b\<lparr>ab_state := Write offset\<rparr>" by simp
  ultimately show ?thesis
    using assms by (auto simp: stuck_def takes_nothing_def ab_poll_rest_def)
qed

lemma stuck_enter: "stuck W b \<Longrightarrow> ab_state b = Fill \<Longrightarrow> ab_room b = 0 \<and> stuck W (b\<lparr>ab_state := Write 0\<rparr>)"
  by (auto simp: stuck_def ab_room_def)

lemma stuck_written:
  "stuck W b \<Longrightarrow> ab_state b = Write offset \<Longrightarrow> offset = length (ab_buffer b) \<Longrightarrow> stuck W (ab_emptied b) \<and> ab_capacity b = 0"
  by (auto simp: stuck_def ab_emptied_def)

lemma buffered_write_stuck: "buffered_poll_write W buf b = Some y \<Longrightarrow> \<not> stuck W b"
proof (induction rule: buffered_poll_write.raw_induct [rotated 1, consumes 1])
  case (1 loop W buf b y)
  show ?case
  proof
    assume stuck: "stuck W b"
    show False
    proof (cases "ab_state b")
      case Fill
      with 1 stuck_enter [OF stuck Fill] show False by simp
    next
      case (Write offset)
      show False
        using 1 stuck stuck_written [OF stuck Write]
        by (simp add: Write stuck_rest [OF stuck Write] split: if_splits)
    qed
  qed
qed

lemma stuck_encrypt:
  assumes c: "stream_cipher c" and b: "stuck W b" "ab_state b = Fill"
  shows "stuck W ((ab_encrypt c b)\<lparr>ab_state := Write 0\<rparr>)"
proof -
  obtain cs k where cs: "apply_blocks c (ab_encryptor b) (ab_buffer b) = (cs, k)" by fastforce
  have "length cs = length (ab_buffer b)"
    using apply_blocks_append(3) [OF c, of "ab_encryptor b" "ab_buffer b"] cs by simp
  with b show ?thesis by (auto simp: stuck_def ab_encrypt_def cs)
qed

lemma encryption_write_stuck: "encryption_poll_write c W buf b = Some y \<Longrightarrow> stream_cipher c \<Longrightarrow> \<not> stuck W b"
proof (induction rule: encryption_poll_write.raw_induct [rotated 1, consumes 1])
  case (1 loop c W buf b y)
  show ?case
  proof
    assume stuck: "stuck W b"
    show False
    proof (cases "ab_state b")
      case Fill
      with 1 stuck_enter [OF stuck Fill] stuck_encrypt [OF 1(3) stuck Fill] show False by simp
    next
      case (Write offset)
      show False
        using 1 stuck stuck_written [OF stuck Write]
        by (simp add: Write stuck_rest [OF stuck Write] split: if_splits)
    qed
  qed
qed

text \<open>A flush ends where the buffer is empty; where it is not, and the stream takes no byte, it does not.\<close>

lemma buffered_flush_stuck: "buffered_poll_flush W b = Some y \<Longrightarrow> ab_buffer b \<noteq> [] \<Longrightarrow> takes_nothing W (ab_writer b) \<Longrightarrow>
  (case ab_state b of Fill \<Rightarrow> True | Write offset \<Rightarrow> offset < length (ab_buffer b)) \<Longrightarrow> False"
proof (induction rule: buffered_poll_flush.raw_induct [rotated 1, consumes 1])
  case (1 loop W b y)
  show ?case
  proof (cases "ab_state b")
    case Fill
    with 1(1) [of W "b\<lparr>ab_state := Write 0\<rparr>" y] 1(2-) show False by simp
  next
    case (Write offset)
    with 1(3-5) have "stuck W b" by (simp add: stuck_def)
    with 1(1) [of W b y] 1(2-) Write show False by (simp add: stuck_rest split: if_splits)
  qed
qed

lemma encryption_flush_stuck: "encryption_poll_flush c W b = Some y \<Longrightarrow> stream_cipher c \<Longrightarrow> ab_buffer b \<noteq> [] \<Longrightarrow>
  takes_nothing W (ab_writer b) \<Longrightarrow> (case ab_state b of Fill \<Rightarrow> True | Write offset \<Rightarrow> offset < length (ab_buffer b)) \<Longrightarrow> False"
proof (induction rule: encryption_poll_flush.raw_induct [rotated 1, consumes 1])
  case (1 loop c W b y)
  show ?case
  proof (cases "ab_state b")
    case Fill
    obtain cs k where cs: "apply_blocks c (ab_encryptor b) (ab_buffer b) = (cs, k)" by fastforce
    have "length cs = length (ab_buffer b)"
      using apply_blocks_append(3) [OF 1(3), of "ab_encryptor b" "ab_buffer b"] cs by simp
    then have "ab_buffer (ab_encrypt c b) \<noteq> []" "ab_writer (ab_encrypt c b) = ab_writer b"
      using 1(4) by (auto simp: ab_encrypt_def cs)
    with 1(1) [of c W "(ab_encrypt c b)\<lparr>ab_state := Write 0\<rparr>" y] 1(2-) Fill show False by simp
  next
    case (Write offset)
    with 1(4-6) have "stuck W b" by (simp add: stuck_def)
    with 1(1) [of c W b y] 1(2-) Write show False by (simp add: stuck_rest split: if_splits)
  qed
qed

section \<open>The stream is not flushed\<close>

lemma ab_poll_rest_cong: "poll_write W = poll_write W' \<Longrightarrow> ab_poll_rest W = ab_poll_rest W'"
  by (simp add: ab_poll_rest_def fun_eq_iff)

lemma buffered_flush_cong: "buffered_poll_flush W b = Some y \<Longrightarrow> poll_write W = poll_write W' \<Longrightarrow> buffered_poll_flush W' b = Some y"
proof (induction rule: buffered_poll_flush.raw_induct [rotated 1, consumes 1])
  case (1 loop W b y)
  note rest = ab_poll_rest_cong [OF 1(3)]
  show ?case
    using 1(2) 1(1) [OF _ 1(3)]
    by (subst buffered_poll_flush.simps)
       (auto simp: rest split: buffer_state.splits prod.splits outcome.splits poll.splits if_splits)
qed

lemma encryption_flush_cong: "encryption_poll_flush c W b = Some y \<Longrightarrow> poll_write W = poll_write W' \<Longrightarrow> encryption_poll_flush c W' b = Some y"
proof (induction rule: encryption_poll_flush.raw_induct [rotated 1, consumes 1])
  case (1 loop c W b y)
  note rest = ab_poll_rest_cong [OF 1(3)]
  show ?case
    using 1(2) 1(1) [OF _ 1(3)]
    by (subst encryption_poll_flush.simps)
       (auto simp: rest split: buffer_state.splits prod.splits outcome.splits poll.splits if_splits)
qed

text \<open>What a flush does never depends on \<open>poll_flush\<close> of the stream.\<close>

lemma default_flush_cong:
  fixes W :: "('w, 'y) async_write_scheme" and W' :: "('w, 'y2) async_write_scheme"
  assumes "poll_write W = poll_write W'"
  shows "poll_flush (tokio_default_writer c W) = poll_flush (tokio_default_writer c W')"
proof -
  have "buffered_poll_flush W b = buffered_poll_flush W' b" for b :: "'w async_buffered"
    using buffered_flush_cong [of W b _ W'] buffered_flush_cong [of W' b _ W] assms
    by (cases "buffered_poll_flush W b"; cases "buffered_poll_flush W' b") auto
  moreover have "encryption_poll_flush c W b = encryption_poll_flush c W' b" for b :: "('a, 'w) async_encryption"
    using encryption_flush_cong [of c W b _ W'] encryption_flush_cong [of c W' b _ W] assms
    by (cases "encryption_poll_flush c W b"; cases "encryption_poll_flush c W' b") auto
  ultimately show ?thesis
    by (simp add: fun_eq_iff tokio_default_writer_def tokio_buffered_def tokio_encryption_def io_total_def split: async_default_writer.splits)
qed

end
