(* ===== verification/Tokio_Compress.thy ===== *)
theory Tokio_Compress
  imports Tokio_Write Sync_Compress
begin

text \<open>
  The compressing side of \<open>src/defaults/asynchronous/tokio.rs\<close>: a packet is compressed into a \<open>Vec\<close>, in
  pieces of at most 512 bytes of output, and the \<open>Vec\<close> is then written.  \<open>deflate\<close> is the parameter of
  \<open>Sync_Compress\<close>, called with \<open>MZFlush::Sync\<close> only.
\<close>

section \<open>TokioWriter\<close>

record ('q, 'w) async_writer =
  aw_state :: 'q
  aw_writer :: 'w

definition on_aw_writer :: "('w, 'a, 'e) io \<Rightarrow> (('q, 'w) async_writer, 'a, 'e) io" where
  "on_aw_writer = io_within aw_writer (\<lambda>a w. a\<lparr>aw_writer := w\<rparr>)"

definition tokio_writer :: "('w, 'y) async_write_scheme \<Rightarrow> ('q, 'w) async_writer async_write" where
  "tokio_writer W =
     \<lparr>poll_write = (\<lambda>buf. on_aw_writer (poll_write W buf)),
      poll_flush = on_aw_writer (poll_flush W),
      poll_shutdown = on_aw_writer (poll_shutdown W)\<rparr>"

section \<open>AsyncCachedPreCompressionWriter\<close>

record ('q, 'w) async_pre =
  ap_state :: 'q
  ap_buffer :: "byte list"
  ap_writer :: 'w

partial_function (option) tokio_pre_loop ::
  "'q deflater \<Rightarrow> byte list \<Rightarrow> nat \<Rightarrow> ('q, 'w) async_pre \<Rightarrow> ((unit, io_error) outcome \<times> ('q, 'w) async_pre) option" where
  "tokio_pre_loop D data offset b =
     (if length data < offset then Some (Panic, b)
      else case deflate D (ap_state b) (drop offset data) 512 SyncFlush of
        (q, bytes_consumed, os, status) \<Rightarrow>
          let b = b\<lparr>ap_state := q\<rparr>
          in case status of
               Ok _ \<Rightarrow>
                 let b = b\<lparr>ap_buffer := ap_buffer b @ os\<rparr>; offset = offset + bytes_consumed
                 in if offset = length data then Some (Ok (), b) else tokio_pre_loop D data offset b
             | Err e \<Rightarrow> Some (Err (OtherError ''Compression error''), b)
             | Panic \<Rightarrow> Some (Panic, b)
             | Diverge \<Rightarrow> Some (Diverge, b))"

definition tokio_pre_write :: "'q deflater \<Rightarrow> byte list \<Rightarrow> (('q, 'w) async_pre, unit, io_error) io" where
  "tokio_pre_write D data = io_total (tokio_pre_loop D data 0)"

definition tokio_pre_flush :: "(('q, 'w) async_pre, unit, io_error) io" where
  "tokio_pre_flush = io_ret ()"

definition tokio_pre_finish :: "(('q, 'w) async_pre, nat \<times> byte list, io_error) io" where
  "tokio_pre_finish = (\<lambda>b. (Ok (length (ap_buffer b), ap_buffer b), b))"

text \<open>The parent that \<open>async_finish\<close> returns with the payload.\<close>

definition tokio_pre_parent :: "('q, 'w) async_pre \<Rightarrow> ('q, 'w) async_writer" where
  "tokio_pre_parent b = \<lparr>aw_state = ap_state b, aw_writer = ap_writer b\<rparr>"

section \<open>AsyncCachedCompressionWriter\<close>

text \<open>A sink for what is written to it; the payload went to the writer inside when it was initialised.\<close>

definition tokio_sink :: "('w, 'y) async_write_scheme \<Rightarrow> 'w async_write" where
  "tokio_sink W =
     \<lparr>poll_write = (\<lambda>buf w. (Ok (Ready (length buf)), w)),
      poll_flush = poll_flush W,
      poll_shutdown = poll_shutdown W\<rparr>"

definition tokio_initialize :: "('w, 'x) write_ext_scheme \<Rightarrow> byte list \<Rightarrow> (('q, 'w) async_writer, unit, io_error) io" where
  "tokio_initialize E payload = on_aw_writer (ext_write_all E payload)"

definition tokio_pre_compression_writer :: "'q deflater \<Rightarrow> ('q, 'w) async_writer \<Rightarrow> 'level \<Rightarrow> ('q, 'w) async_pre" where
  "tokio_pre_compression_writer D a _ = \<lparr>ap_state = reset_compressor D (aw_state a), ap_buffer = [], ap_writer = aw_writer a\<rparr>"

section \<open>The write stream\<close>

text \<open>
  \<open>E0\<close>, \<open>E1\<close> and \<open>E2\<close> are what \<open>TokioIo\<close> calls on the writer, on the writer inside it, and on the writer
  with \<open>AsyncCachedCompressionWriter\<close> inside, which is that writer under another interface.
\<close>

definition tokio_write_stream ::
  "'q deflater \<Rightarrow> ('q, 'w) async_writer write_ext \<Rightarrow> 'w write_ext \<Rightarrow> ('q, 'w) async_writer write_ext \<Rightarrow>
   (('q, 'w) async_writer, ('q, 'w) async_pre, ('q, 'w) async_writer, byte list, 'level, io_error) write_stream" where
  "tokio_write_stream D E0 E1 E2 =
     \<lparr>base_writer = tokio_io_writer E0,
      pre_compression_writer = tokio_pre_compression_writer D,
      pre_writer = \<lparr>write_data = tokio_pre_write D, flush = tokio_pre_flush\<rparr>,
      finish = tokio_pre_finish,
      end_pre = tokio_pre_parent,
      with_compression = (\<lambda>a _. a),
      comp_writer = tokio_io_writer E2,
      initialize = tokio_initialize E1,
      end_compression = (\<lambda>a. a)\<rparr>"

section \<open>The contract of deflate\<close>

text \<open>
  \<open>K q bs os\<close>: since its reset the compressor \<open>q\<close> has taken \<open>bs\<close> and given \<open>os\<close>; \<open>J q bs os\<close>: and it
  holds nothing back.  Asked for a flush, it makes progress, \<open>pending q\<close> bounding how long it can go on
  without taking input; \<open>deflate_syncs\<close> asks that with its last input it has given everything, in
  whatever room is left of the 512 bytes.
\<close>

definition deflate_syncs ::
  "'q deflater \<Rightarrow> ('q \<Rightarrow> byte list \<Rightarrow> byte list \<Rightarrow> bool) \<Rightarrow> ('q \<Rightarrow> byte list \<Rightarrow> byte list \<Rightarrow> bool) \<Rightarrow> ('q \<Rightarrow> nat) \<Rightarrow> bool" where
  "deflate_syncs D K J pending \<longleftrightarrow> (\<forall>q bs os. J q bs os \<longrightarrow> K q bs os) \<and>
     (\<forall>q bs os data. K q bs os \<longrightarrow>
       (\<exists>q' c out st. deflate D q data 512 SyncFlush = (q', c, out, Ok st) \<and> c \<le> length data \<and>
          K q' (bs @ take c data) (os @ out) \<and>
          (if c = length data then J q' (bs @ data) (os @ out) else 0 < c \<or> pending q' < pending q)))"

lemma pre_loop_ends:
  assumes D: "deflate_syncs D K J pending"
  shows "offset \<le> length data \<Longrightarrow> K (ap_state b) (bs @ take offset data) (ap_buffer b) \<Longrightarrow>
    \<exists>b'. tokio_pre_loop D data offset b = Some (Ok (), b') \<and> J (ap_state b') (bs @ data) (ap_buffer b') \<and> ap_writer b' = ap_writer b"
proof (induction "(length data - offset, pending (ap_state b))" arbitrary: offset b
    rule: wf_induct [OF wf_lex_prod [OF wf_less_than wf_less_than]])
  case 1
  note IH = "1.hyps" [rule_format, OF _ refl]
  obtain q c out st where run: "deflate D (ap_state b) (drop offset data) 512 SyncFlush = (q, c, out, Ok st)"
    and c: "c \<le> length (drop offset data)"
    and q: "K q ((bs @ take offset data) @ take c (drop offset data)) (ap_buffer b @ out)"
    and prog: "if c = length (drop offset data) then J q ((bs @ take offset data) @ drop offset data) (ap_buffer b @ out)
      else 0 < c \<or> pending q < pending (ap_state b)"
    using D "1.prems"(2) unfolding deflate_syncs_def by blast
  let ?b = "b\<lparr>ap_state := q, ap_buffer := ap_buffer b @ out\<rparr>"
  show ?case
  proof (cases "offset + c = length data")
    case True
    then have "tokio_pre_loop D data offset b = Some (Ok (), ?b)"
      by (subst tokio_pre_loop.simps) (simp add: run Let_def)
    moreover have "J q (bs @ data) (ap_buffer b @ out)"
      using prog True by (auto split: if_splits)
    ultimately show ?thesis by simp
  next
    case False
    have run: "tokio_pre_loop D data offset b = tokio_pre_loop D data (offset + c) ?b"
      using False "1.prems"(1) by (subst tokio_pre_loop.simps) (simp add: run Let_def)
    have less: "((length data - (offset + c), pending (ap_state ?b)), (length data - offset, pending (ap_state b)))
        \<in> less_than <*lex*> less_than"
      using prog False c "1.prems"(1) by (auto split: if_splits)
    have "K (ap_state ?b) (bs @ take (offset + c) data) (ap_buffer ?b)" using q by (simp add: take_add)
    from IH [OF less _ this] c "1.prems"(1) show ?thesis by (simp add: run)
  qed
qed

lemma pre_write_takes:
  assumes D: "deflate_syncs D K J pending" and b: "J (ap_state b) bs (ap_buffer b)"
  shows "gives (tokio_pre_write D data) b () (\<lambda>b'. J (ap_state b') (bs @ data) (ap_buffer b') \<and> ap_writer b' = ap_writer b)"
proof -
  have "K (ap_state b) (bs @ take 0 data) (ap_buffer b)" using D b by (simp add: deflate_syncs_def)
  from pre_loop_ends [OF D _ this] show ?thesis
    by (auto simp: gives_def tokio_pre_write_def io_total_def)
qed

section \<open>The write stream keeps its contract\<close>

lemma lawful_writer_inside:
  fixes A :: "('w, 'y) async_write_scheme"
  assumes A: "lawful_poll_write A V waits"
  shows "lawful_poll_write (tokio_writer A) (\<lambda>a :: ('q, 'w) async_writer. V (aw_writer a)) (inv_image waits aw_writer)"
proof (rule lawful_poll_write.intro)
  show "wf (inv_image waits aw_writer)" by (rule wf_inv_image [OF lawful_poll_write.wf_waits [OF A]])
  fix a :: "('q, 'w) async_writer" and sent buf
  assume a: "V (aw_writer a) sent"
  from lawful_poll_write.polls_write [OF A a, of buf]
  show "polls (poll_write (tokio_writer A) buf) a
      (\<lambda>k a'. V (aw_writer a') (sent @ take k buf) \<and> k \<le> length buf \<and> (buf \<noteq> [] \<longrightarrow> 0 < k))
      (\<lambda>a'. V (aw_writer a') sent \<and> (a', a) \<in> inv_image waits aw_writer)"
    by (cases rule: polls_cases) (auto simp: polls_def tokio_writer_def on_aw_writer_def io_within_def)
  from lawful_poll_write.polls_flush [OF A a]
  show "polls (poll_flush (tokio_writer A)) a (\<lambda>_ a'. V (aw_writer a') sent)
      (\<lambda>a'. V (aw_writer a') sent \<and> (a', a) \<in> inv_image waits aw_writer)"
    by (cases rule: polls_cases) (auto simp: polls_def tokio_writer_def on_aw_writer_def io_within_def)
qed

text \<open>Whatever a sink has accepted, the writer inside has not moved.\<close>

lemma lawful_sink_inside:
  assumes A: "lawful_poll_write A V waits"
  shows "lawful_poll_write (tokio_sink A) (\<lambda>w _. V w sent) waits"
proof (rule lawful_poll_write.intro)
  show "wf waits" by (rule lawful_poll_write.wf_waits [OF A])
  show "polls (poll_write (tokio_sink A) buf) w (\<lambda>k w'. V w' sent \<and> k \<le> length buf \<and> (buf \<noteq> [] \<longrightarrow> 0 < k))
      (\<lambda>w'. V w' sent \<and> (w', w) \<in> waits)" if "V w sent" for w :: 'a and buf
    using that by (intro polls_ready [where a = "length buf"]) (auto simp: tokio_sink_def)
  show "polls (poll_flush (tokio_sink A)) w (\<lambda>_ w'. V w' sent) (\<lambda>w'. V w' sent \<and> (w', w) \<in> waits)" if "V w sent" for w
    using lawful_poll_write.polls_flush [OF A that] by (simp add: tokio_sink_def)
qed

text \<open>The writer has accepted \<open>sent\<close>; the compressing writer in front of it has accepted \<open>bs\<close> besides.\<close>

definition async_sent :: "('w \<Rightarrow> byte list \<Rightarrow> bool) \<Rightarrow> ('q, 'w) async_writer \<Rightarrow> byte list \<Rightarrow> bool" where
  "async_sent U a sent = U (aw_writer a) sent"

definition async_compressing ::
  "('q \<Rightarrow> byte list \<Rightarrow> byte list \<Rightarrow> bool) \<Rightarrow> ('w \<Rightarrow> byte list \<Rightarrow> bool) \<Rightarrow> byte list \<Rightarrow> ('q, 'w) async_pre \<Rightarrow> byte list \<Rightarrow> bool" where
  "async_compressing J U sent b bs \<longleftrightarrow> J (ap_state b) bs (ap_buffer b) \<and> U (ap_writer b) sent"

definition synced :: "('q \<Rightarrow> byte list \<Rightarrow> byte list \<Rightarrow> bool) \<Rightarrow> byte list \<Rightarrow> byte list \<Rightarrow> bool" where
  "synced J bs zs \<longleftrightarrow> (\<exists>q. J q bs zs)"

lemma tokio_initialize_sends:
  assumes "lawful_poll_write A U waits" and "write_ext_of A E" and "async_sent U a sent"
  shows "gives (tokio_initialize E zs) a () (\<lambda>a'. async_sent U a' (sent @ zs))"
proof -
  have "gives (ext_write_all E zs) (aw_writer a) () (\<lambda>w'. U w' (sent @ zs))"
    using assms unfolding write_ext_of_def async_sent_def by blast
  then show ?thesis
    by (auto simp: gives_def tokio_initialize_def on_aw_writer_def io_within_def async_sent_def)
qed

lemma tokio_sink_accepts:
  fixes E :: "('q, 'w) async_writer write_ext"
  assumes A: "lawful_poll_write A U waits" and E: "write_ext_of (tokio_writer (tokio_sink A)) E" and a: "async_sent U a sent"
  shows "gives (write_data (tokio_io_writer E) cs) a () (\<lambda>a'. async_sent U a' sent)"
proof -
  have "lawful_poll_write (tokio_writer (tokio_sink A)) (\<lambda>(a :: ('q, 'w) async_writer) _. U (aw_writer a) sent) (inv_image waits aw_writer)"
    by (rule lawful_writer_inside [OF lawful_sink_inside [OF A]])
  with E a have "gives (ext_write_all E cs) a () (\<lambda>a'. U (aw_writer a') sent)"
    unfolding write_ext_of_def async_sent_def by blast
  then show ?thesis by (simp add: tokio_io_writer_def async_sent_def)
qed

lemma lawful_deflating_tokio:
  fixes D :: "'q deflater" and A :: "('w, 'y) async_write_scheme"
  assumes A: "lawful_poll_write A U waits"
    and E: "write_ext_of (tokio_writer A) E0" "write_ext_of A E1" "write_ext_of (tokio_writer (tokio_sink A)) E2"
    and D: "deflate_syncs D K J pending" and resets: "deflate_resets D J"
  shows "lawful_deflating (tokio_write_stream D E0 E1 E2) (async_sent U)
    (async_compressing J U) (async_compressing J U)
    (\<lambda>sent zs a _. async_sent U a (sent @ zs)) (\<lambda>sent a. async_sent U a sent) (carried (synced J)) (synced J)"
proof (rule lawful_deflating.intro)
  let ?S = "tokio_write_stream D E0 E1 E2"
  show "lawful_writer (base_writer ?S) (async_sent U)"
    using lawful_poll_write.tokio_writer_lawful [OF lawful_writer_inside [OF A] E(1)]
    by (simp add: tokio_write_stream_def async_sent_def [abs_def])
  show "async_compressing J U sent (pre_compression_writer ?S a level) []" if "async_sent U a sent" for a sent and level :: 'level
    using that resets
    by (simp add: tokio_write_stream_def tokio_pre_compression_writer_def async_compressing_def async_sent_def deflate_resets_def)
  show "gives (write_data (pre_writer ?S) cs) b () (\<lambda>b'. async_compressing J U sent b' (bs @ cs))"
    if "async_compressing J U sent b bs" for sent b bs cs
    using that pre_write_takes [OF D, of b bs cs]
    by (auto simp: tokio_write_stream_def async_compressing_def elim!: gives_mono)
  show "gives (flush (pre_writer ?S)) b () (\<lambda>b'. async_compressing J U sent b' bs)"
    if "async_compressing J U sent b bs" for sent b bs
    using that by (simp add: tokio_write_stream_def tokio_pre_flush_def gives_def io_ret_def)
  show "\<exists>zs pay. synced J bs zs \<and> carried (synced J) pay bs zs \<and>
      gives (finish ?S) b (length zs, pay) (\<lambda>b'. async_sent U (end_pre ?S b') sent)"
    if "async_compressing J U sent b bs" for sent b bs
    using that
    by (intro exI [of _ "ap_buffer b"])
       (auto simp: tokio_write_stream_def tokio_pre_finish_def tokio_pre_parent_def async_compressing_def async_sent_def
         synced_def carried_def gives_def)
  show "gives (initialize ?S pay) a () (\<lambda>a'. async_sent U a' (sent @ zs))"
    if "async_sent U a sent" "carried (synced J) pay bs zs" for sent a pay bs zs
    using tokio_initialize_sends [OF A E(2) that(1)] that(2) by (simp add: tokio_write_stream_def carried_def)
  show "gives (write_data (comp_writer ?S) cs) a () (\<lambda>a'. async_sent U a' (sent @ zs))"
    if "async_sent U a (sent @ zs)" for sent zs a cs
    using tokio_sink_accepts [OF A E(3) that] by (simp add: tokio_write_stream_def)
qed (simp_all add: tokio_write_stream_def)

section \<open>What 512 bytes cannot hold\<close>

text \<open>
  A call of \<open>deflate\<close> that takes all the input ends the loop, however much of its output is still to
  come; nothing asks for it before the packet is sent.
\<close>

lemma pre_write_ends_with_input:
  assumes "deflate D (ap_state b) data 512 SyncFlush = (q, length data, os, Ok st)"
  shows "tokio_pre_write D data b = (Ok (), b\<lparr>ap_state := q, ap_buffer := ap_buffer b @ os\<rparr>)"
  using assms by (simp add: tokio_pre_write_def io_total_def tokio_pre_loop.simps [of D data 0] Let_def)

end
