(* ===== verification/Futures_Read.thy ===== *)
theory Futures_Read
  imports Async_IO Sync_Read
begin

text \<open>
  The readers of \<open>src/defaults/asynchronous/futures.rs\<close>: a poll of \<open>read\<close> fills a slice.  \<open>BufReader\<close> and
  \<open>Take\<close> are those of \<open>futures_util\<close>, the cipher and \<open>inflate\<close> those of their crates: parameters.  The
  enum \<open>AsyncDefaultReader\<close> has the constructors of \<open>DefaultReader\<close> in \<open>src/defaults/sync.rs\<close>, whose
  type is used.
\<close>

section \<open>FuturesReader, AsyncDecompressionReader and AsyncDecryptionReader\<close>

record ('z, 'r) async_reader =
  ar_state :: 'z
  ar_reader :: 'r

definition futures_reader_read :: "'r futures_read \<Rightarrow> ('z, 'r) async_reader futures_read" where
  "futures_reader_read F n = io_within ar_reader (\<lambda>w r. w\<lparr>ar_reader := r\<rparr>) (F n)"

record ('z, 'r) async_decompression =
  ad_state :: 'z
  ad_reader :: 'r

definition futures_decompression_read ::
  "'z inflater \<Rightarrow> ('r, 'x) async_buf_read_scheme \<Rightarrow> ('z, 'r) async_decompression futures_read" where
  "futures_decompression_read I B n = (\<lambda>d. case poll_fill_buf B (ad_reader d) of
     (Ok Pending, r) \<Rightarrow> (Ok Pending, d\<lparr>ad_reader := r\<rparr>)
   | (Ok (Ready internal_buf), r) \<Rightarrow>
       (case inflate I (ad_state d) internal_buf n of
          (z, bytes_consumed, Ok written) \<Rightarrow>
            (Ok (Ready written), d\<lparr>ad_state := z, ad_reader := consume_buf B bytes_consumed r\<rparr>)
        | (z, bytes_consumed, Err e) \<Rightarrow> (Err (OtherError ''Decompression error''), d\<lparr>ad_state := z, ad_reader := r\<rparr>)
        | (z, bytes_consumed, Panic) \<Rightarrow> (Panic, d\<lparr>ad_state := z, ad_reader := r\<rparr>)
        | (z, bytes_consumed, Diverge) \<Rightarrow> (Diverge, d\<lparr>ad_state := z, ad_reader := r\<rparr>))
   | (Err e, r) \<Rightarrow> (Err e, d\<lparr>ad_reader := r\<rparr>)
   | (Panic, r) \<Rightarrow> (Panic, d\<lparr>ad_reader := r\<rparr>)
   | (Diverge, r) \<Rightarrow> (Diverge, d\<lparr>ad_reader := r\<rparr>))"

definition futures_decryption_read :: "'k cipher \<Rightarrow> 'r futures_read \<Rightarrow> ('k \<times> 'r) futures_read" where
  "futures_decryption_read c F n = (\<lambda>(k, r). case F n r of
     (Ok (Ready bs), r') \<Rightarrow> (case apply_blocks c k bs of (ps, k') \<Rightarrow> (Ok (Ready ps), (k', r')))
   | (res, r') \<Rightarrow> (res, (k, r')))"

section \<open>AsyncDefaultReader\<close>

definition futures_default_read :: "'k cipher \<Rightarrow> 'r futures_read \<Rightarrow> ('k, 'r) default_reader futures_read" where
  "futures_default_read c F n = (\<lambda>s. case s of
     StandardReader r \<Rightarrow> (case F n r of (res, r') \<Rightarrow> (res, StandardReader r'))
   | DecryptReader k r \<Rightarrow> (case futures_decryption_read c F n (k, r) of (res, (k', r')) \<Rightarrow> (res, DecryptReader k' r'))
   | PoisonedReader \<Rightarrow> (Panic, PoisonedReader))"

definition futures_reader_with_encryption :: "'k cipher \<Rightarrow> byte list \<Rightarrow> (('k, 'r) default_reader, unit, 'e) io" where
  "futures_reader_with_encryption c key = (\<lambda>s. case s of
     StandardReader r \<Rightarrow> (Ok (), DecryptReader (init c key) r)
   | DecryptReader _ _ \<Rightarrow> (Panic, PoisonedReader)
   | PoisonedReader \<Rightarrow> (Panic, PoisonedReader))"

section \<open>The read stream\<close>

text \<open>\<open>take(n)\<close>, \<open>limit()\<close> and \<open>into_inner()\<close> of the \<open>Take\<close> of an asynchronous reader.\<close>

record ('r, 't) take_lib =
  take_new :: "'r \<Rightarrow> nat \<Rightarrow> 't"
  take_limit :: "'t \<Rightarrow> nat"
  take_into_inner :: "'t \<Rightarrow> 'r"

definition futures_with_bound :: "('r, 't) take_lib \<Rightarrow> ('z, 'r) async_reader \<Rightarrow> nat \<Rightarrow> ('z, 't) async_reader" where
  "futures_with_bound L w bound = \<lparr>ar_state = ar_state w, ar_reader = take_new L (ar_reader w) bound\<rparr>"

definition futures_end_bound :: "('r, 't) take_lib \<Rightarrow> ('z, 't) async_reader \<Rightarrow> ('z, 'r) async_reader" where
  "futures_end_bound L b = \<lparr>ar_state = ar_state b, ar_reader = take_into_inner L (ar_reader b)\<rparr>"

definition futures_with_decompression :: "'z inflater \<Rightarrow> ('z, 'r) async_reader \<Rightarrow> ('z, 'r) async_decompression" where
  "futures_with_decompression I w = \<lparr>ad_state = reset I (ar_state w), ad_reader = ar_reader w\<rparr>"

definition futures_end_decompression :: "('z, 'r) async_decompression \<Rightarrow> ('z, 'r) async_reader" where
  "futures_end_decompression d = \<lparr>ar_state = ad_state d, ar_reader = ad_reader d\<rparr>"

text \<open>
  \<open>L\<close> is the \<open>Take\<close> of the base reader and \<open>M\<close> that of the decompressing reader; \<open>E0\<close>, \<open>E1\<close> and \<open>E2\<close> are
  what \<open>FuturesIo\<close> calls on the base reader, on its \<open>Take\<close> and on that of the decompressing reader.
\<close>

definition futures_read_stream ::
  "'z inflater \<Rightarrow> ('r, 't) take_lib \<Rightarrow> (('z, 't) async_decompression, 'c) take_lib \<Rightarrow>
   ('z, 'r) async_reader futures_read_ext \<Rightarrow> ('z, 't) async_reader futures_read_ext \<Rightarrow> 'c futures_read_ext \<Rightarrow>
   (('z, 'r) async_reader, ('z, 't) async_reader, ('z, 't) async_decompression, 'c, io_error) read_stream" where
  "futures_read_stream I L M E0 E1 E2 =
     \<lparr>base = futures_io_reader E0,
      with_bound = futures_with_bound L,
      end_bound = futures_end_bound L,
      bounded = reader.extend (futures_io_reader E1) \<lparr>remaining = \<lambda>b. take_limit L (ar_reader b)\<rparr>,
      with_decompression = futures_with_decompression I,
      end_decompression = futures_end_decompression,
      inner_with_bound = take_new M,
      inner_end_bound = take_into_inner M,
      inner_bounded = reader.extend (futures_io_reader E2) \<lparr>remaining = take_limit M\<rparr>\<rparr>"

end
