(* ===== verification/Tokio_Read.thy ===== *)
theory Tokio_Read
  imports Futures_Read
begin

text \<open>
  The readers of \<open>src/defaults/asynchronous/tokio.rs\<close>: a poll of \<open>read\<close> appends to a \<open>ReadBuf\<close> that may
  hold bytes already.  The structs have the fields of those in \<open>futures.rs\<close>, whose records are used.
\<close>

section \<open>TokioReader, AsyncDecompressionReader and AsyncDecryptionReader\<close>

definition tokio_reader_read :: "'r tokio_read \<Rightarrow> ('z, 'r) async_reader tokio_read" where
  "tokio_reader_read T = (\<lambda>(w, buf). case T (ar_reader w, buf) of (res, (r, buf)) \<Rightarrow> (res, (w\<lparr>ar_reader := r\<rparr>, buf)))"

definition tokio_decompression_read ::
  "'z inflater \<Rightarrow> ('r, 'x) async_buf_read_scheme \<Rightarrow> ('z, 'r) async_decompression tokio_read" where
  "tokio_decompression_read I B = (\<lambda>(d, buf). case poll_fill_buf B (ad_reader d) of
     (Ok Pending, r) \<Rightarrow> (Ok Pending, (d\<lparr>ad_reader := r\<rparr>, buf))
   | (Ok (Ready internal_buf), r) \<Rightarrow>
       (case inflate I (ad_state d) internal_buf (unfilled buf) of
          (z, bytes_consumed, Ok written) \<Rightarrow>
            (Ok (Ready ()), (d\<lparr>ad_state := z, ad_reader := consume_buf B bytes_consumed r\<rparr>,
               buf\<lparr>rb_filled := rb_filled buf @ written\<rparr>))
        | (z, bytes_consumed, Err e) \<Rightarrow> (Err (OtherError ''Decompression error''), (d\<lparr>ad_state := z, ad_reader := r\<rparr>, buf))
        | (z, bytes_consumed, Panic) \<Rightarrow> (Panic, (d\<lparr>ad_state := z, ad_reader := r\<rparr>, buf))
        | (z, bytes_consumed, Diverge) \<Rightarrow> (Diverge, (d\<lparr>ad_state := z, ad_reader := r\<rparr>, buf)))
   | (Err e, r) \<Rightarrow> (Err e, (d\<lparr>ad_reader := r\<rparr>, buf))
   | (Panic, r) \<Rightarrow> (Panic, (d\<lparr>ad_reader := r\<rparr>, buf))
   | (Diverge, r) \<Rightarrow> (Diverge, (d\<lparr>ad_reader := r\<rparr>, buf)))"

text \<open>Only the bytes the poll has added are decrypted, in place; a shorter buffer makes the slice panic.\<close>

definition tokio_decryption_read :: "'k cipher \<Rightarrow> 'r tokio_read \<Rightarrow> ('k \<times> 'r) tokio_read" where
  "tokio_decryption_read c T = (\<lambda>((k, r), buf).
     let original_fill = length (rb_filled buf)
     in case T (r, buf) of
          (Ok (Ready _), (r', buf')) \<Rightarrow>
            if length (rb_filled buf') < original_fill then (Panic, ((k, r'), buf'))
            else (case apply_blocks c k (drop original_fill (rb_filled buf')) of
              (ps, k') \<Rightarrow> (Ok (Ready ()), ((k', r'), buf'\<lparr>rb_filled := take original_fill (rb_filled buf') @ ps\<rparr>)))
        | (res, (r', buf')) \<Rightarrow> (res, ((k, r'), buf')))"

section \<open>AsyncDefaultReader\<close>

definition tokio_default_read :: "'k cipher \<Rightarrow> 'r tokio_read \<Rightarrow> ('k, 'r) default_reader tokio_read" where
  "tokio_default_read c T = (\<lambda>(s, buf). case s of
     StandardReader r \<Rightarrow> (case T (r, buf) of (res, (r', buf')) \<Rightarrow> (res, (StandardReader r', buf')))
   | DecryptReader k r \<Rightarrow> (case tokio_decryption_read c T ((k, r), buf) of
        (res, ((k', r'), buf')) \<Rightarrow> (res, (DecryptReader k' r', buf')))
   | PoisonedReader \<Rightarrow> (Panic, (PoisonedReader, buf)))"

definition tokio_reader_with_encryption :: "'k cipher \<Rightarrow> byte list \<Rightarrow> (('k, 'r) default_reader, unit, 'e) io" where
  "tokio_reader_with_encryption c key = (\<lambda>s. case s of
     StandardReader r \<Rightarrow> (Ok (), DecryptReader (init c key) r)
   | DecryptReader _ _ \<Rightarrow> (Panic, PoisonedReader)
   | PoisonedReader \<Rightarrow> (Panic, PoisonedReader))"

section \<open>The read stream\<close>

definition tokio_with_bound :: "('r, 't) take_lib \<Rightarrow> ('z, 'r) async_reader \<Rightarrow> nat \<Rightarrow> ('z, 't) async_reader" where
  "tokio_with_bound L w bound = \<lparr>ar_state = ar_state w, ar_reader = take_new L (ar_reader w) bound\<rparr>"

definition tokio_end_bound :: "('r, 't) take_lib \<Rightarrow> ('z, 't) async_reader \<Rightarrow> ('z, 'r) async_reader" where
  "tokio_end_bound L b = \<lparr>ar_state = ar_state b, ar_reader = take_into_inner L (ar_reader b)\<rparr>"

definition tokio_with_decompression :: "'z inflater \<Rightarrow> ('z, 'r) async_reader \<Rightarrow> ('z, 'r) async_decompression" where
  "tokio_with_decompression I w = \<lparr>ad_state = reset I (ar_state w), ad_reader = ar_reader w\<rparr>"

definition tokio_end_decompression :: "('z, 'r) async_decompression \<Rightarrow> ('z, 'r) async_reader" where
  "tokio_end_decompression d = \<lparr>ar_state = ad_state d, ar_reader = ad_reader d\<rparr>"

definition tokio_read_stream ::
  "'z inflater \<Rightarrow> ('r, 't) take_lib \<Rightarrow> (('z, 't) async_decompression, 'c) take_lib \<Rightarrow>
   ('z, 'r) async_reader tokio_read_ext \<Rightarrow> ('z, 't) async_reader tokio_read_ext \<Rightarrow> 'c tokio_read_ext \<Rightarrow>
   (('z, 'r) async_reader, ('z, 't) async_reader, ('z, 't) async_decompression, 'c, io_error) read_stream" where
  "tokio_read_stream I L M E0 E1 E2 =
     \<lparr>base = tokio_io_reader E0,
      with_bound = tokio_with_bound L,
      end_bound = tokio_end_bound L,
      bounded = reader.extend (tokio_io_reader E1) \<lparr>remaining = \<lambda>b. take_limit L (ar_reader b)\<rparr>,
      with_decompression = tokio_with_decompression I,
      end_decompression = tokio_end_decompression,
      inner_with_bound = take_new M,
      inner_end_bound = take_into_inner M,
      inner_bounded = reader.extend (tokio_io_reader E2) \<lparr>remaining = take_limit M\<rparr>\<rparr>"

section \<open>A tokio reader appends what the futures reader stores\<close>

lemma appending_simps [simp]:
  "appending buf (Ok Pending, r) = (Ok Pending, (r, buf))"
  "appending buf (Ok (Ready os), r) = (Ok (Ready ()), (r, buf\<lparr>rb_filled := rb_filled buf @ os\<rparr>))"
  "appending buf (Err e, r) = (Err e, (r, buf))"
  "appending buf (Panic, r) = (Panic, (r, buf))"
  "appending buf (Diverge, r) = (Diverge, (r, buf))"
  by (simp_all add: appending_def)

lemma appendsD: "appends T F \<Longrightarrow> T (r, buf) = appending buf (F (unfilled buf) r)"
  by (simp add: appends_def)

lemma appends_reader: "appends T F \<Longrightarrow> appends (tokio_reader_read T) (futures_reader_read F)"
  by (auto simp: appends_def tokio_reader_read_def futures_reader_read_def io_within_def appending_def
      split: prod.splits outcome.splits poll.splits)

lemma appends_decompression: "appends (tokio_decompression_read I B) (futures_decompression_read I B)"
  by (auto simp: appends_def tokio_decompression_read_def futures_decompression_read_def
      split: prod.splits outcome.splits poll.splits)

text \<open>The answers of a poll.\<close>

lemma poll_answer_cases:
  obtains (pending) "res = Ok Pending" | (ready) a where "res = Ok (Ready a)" | (err) e where "res = Err e"
  | (panic) "res = Panic" | (diverge) "res = Diverge"
  by (cases res) (metis poll.exhaust)+

lemma appends_decryption:
  fixes T :: "'r tokio_read" and c :: "'k cipher"
  assumes T: "appends T F"
  shows "appends (tokio_decryption_read c T) (futures_decryption_read c F)"
  unfolding appends_def
proof (intro allI)
  fix kr :: "'k \<times> 'r" and buf
  obtain k r where kr: "kr = (k, r)" by fastforce
  obtain res r' where run: "F (unfilled buf) r = (res, r')" by fastforce
  then have "T (r, buf) = appending buf (res, r')" by (simp add: appendsD [OF T])
  then show "tokio_decryption_read c T (kr, buf) = appending buf (futures_decryption_read c F (unfilled buf) kr)"
    by (cases res rule: poll_answer_cases)
       (simp_all add: kr run tokio_decryption_read_def futures_decryption_read_def Let_def split: prod.split)
qed

lemma appends_default:
  assumes T: "appends T F"
  shows "appends (tokio_default_read c T) (futures_default_read c F)"
  unfolding appends_def
proof (intro allI)
  fix s buf
  show "tokio_default_read c T (s, buf) = appending buf (futures_default_read c F (unfilled buf) s)"
  proof (cases s)
    case (StandardReader r)
    obtain res r' where run: "F (unfilled buf) r = (res, r')" by fastforce
    then have "T (r, buf) = appending buf (res, r')" by (simp add: appendsD [OF T])
    then show ?thesis
      by (cases res rule: poll_answer_cases)
         (simp_all add: StandardReader run tokio_default_read_def futures_default_read_def)
  next
    case (DecryptReader k r)
    obtain res kr' where run: "futures_decryption_read c F (unfilled buf) (k, r) = (res, kr')" by (metis surj_pair)
    then have "tokio_decryption_read c T ((k, r), buf) = appending buf (res, kr')"
      by (simp add: appendsD [OF appends_decryption [OF T]])
    then show ?thesis
      by (cases kr'; cases res rule: poll_answer_cases)
         (simp_all add: DecryptReader run tokio_default_read_def futures_default_read_def)
  next
    case PoisonedReader
    then show ?thesis by (simp add: tokio_default_read_def futures_default_read_def)
  qed
qed

lemma tokio_read_with_encryption_eq: "tokio_reader_with_encryption = futures_reader_with_encryption"
  by (simp add: fun_eq_iff tokio_reader_with_encryption_def futures_reader_with_encryption_def)

end
