(* ===== verification/Async_Read.thy ===== *)
theory Async_Read
  imports Tokio_Read
begin

text \<open>
  The asynchronous readers keep the contract of a poll, and the two read streams the contract
  \<open>lawful_stream\<close> that \<open>read_packet\<close> and \<open>read_handshake\<close> ask for.  Over tokio this follows from the
  futures readers: a tokio reader appends what they store.
\<close>

section \<open>Documented behaviour of Take and BufReader\<close>

text \<open>
  \<open>Take\<close> reads at most its limit from the reader inside, and counts what it has read.  \<open>F\<close> reads the
  inner reader, \<open>Ft\<close> the \<open>Take\<close>.
\<close>

definition take_proj :: "('r, 't, 'x) take_lib_scheme \<Rightarrow> 't \<Rightarrow> 'r taken" where
  "take_proj L t = \<lparr>inner = take_into_inner L t, limit = take_limit L t\<rparr>"

definition take_keeps :: "('r, 't, 'x) take_lib_scheme \<Rightarrow> bool" where
  "take_keeps L \<longleftrightarrow> (\<forall>r n. take_into_inner L (take_new L r n) = r \<and> take_limit L (take_new L r n) = n)"

definition takes :: "('r, 't, 'x) take_lib_scheme \<Rightarrow> 'r futures_read \<Rightarrow> 't futures_read \<Rightarrow> bool" where
  "takes L F Ft \<longleftrightarrow> (\<forall>n t.
     if take_limit L t = 0 then Ft n t = (Ok (Ready []), t)
     else case F (min n (take_limit L t)) (take_into_inner L t) of (res, r) \<Rightarrow>
       \<exists>t'. Ft n t = (res, t') \<and> take_into_inner L t' = r \<and>
         take_limit L t' = take_limit L t - (case res of Ok (Ready os) \<Rightarrow> length os | _ \<Rightarrow> 0))"

text \<open>\<open>with_capacity\<close>, \<open>get_mut\<close> and what can be seen of a \<open>BufReader\<close>: the reader behind it, and the bytes it holds.\<close>

record ('r, 'b) buf_reader_lib =
  br_new :: "nat \<Rightarrow> 'r \<Rightarrow> 'b"
  br_get :: "'b \<Rightarrow> 'r"
  br_put :: "'r \<Rightarrow> 'b \<Rightarrow> 'b"
  br_buffer :: "'b \<Rightarrow> byte list"
  br_capacity :: "'b \<Rightarrow> nat"

definition br_view :: "('r, 'b, 'x) buf_reader_lib_scheme \<Rightarrow> ('r \<Rightarrow> byte list \<Rightarrow> bool) \<Rightarrow> 'b \<Rightarrow> byte list \<Rightarrow> bool" where
  "br_view L V b bs \<longleftrightarrow> 0 < br_capacity L b \<and> (\<exists>cs. V (br_get L b) cs \<and> bs = br_buffer L b @ cs)"

definition br_keeps :: "('r, 'b, 'x) buf_reader_lib_scheme \<Rightarrow> bool" where
  "br_keeps L \<longleftrightarrow>
     (\<forall>n r. br_get L (br_new L n r) = r \<and> br_buffer L (br_new L n r) = [] \<and> br_capacity L (br_new L n r) = n) \<and>
     (\<forall>r b. br_get L (br_put L r b) = r \<and> br_buffer L (br_put L r b) = br_buffer L b \<and>
        br_capacity L (br_put L r b) = br_capacity L b)"

definition buffers ::
  "('r, 'b, 'x) buf_reader_lib_scheme \<Rightarrow> 'r futures_read \<Rightarrow> 'b futures_read \<Rightarrow> ('b, 'y) async_buf_read_scheme \<Rightarrow> bool" where
  "buffers L F Fb B \<longleftrightarrow>
     (\<forall>V waits. lawful_poll_read F V waits \<longrightarrow> (\<exists>waits'. lawful_poll_buf_read Fb (br_view L V) waits' B))"

text \<open>\<open>Take\<close> and \<open>BufReader\<close> of tokio do the same, and append.\<close>

definition tokio_takes :: "('r, 't, 'x) take_lib_scheme \<Rightarrow> 'r tokio_read \<Rightarrow> 't tokio_read \<Rightarrow> bool" where
  "tokio_takes L T Tt \<longleftrightarrow> (\<forall>F. appends T F \<longrightarrow> (\<exists>Ft. appends Tt Ft \<and> takes L F Ft))"

definition tokio_buffers ::
  "('r, 'b, 'x) buf_reader_lib_scheme \<Rightarrow> 'r tokio_read \<Rightarrow> 'b tokio_read \<Rightarrow> ('b, 'y) async_buf_read_scheme \<Rightarrow> bool" where
  "tokio_buffers L T Tb B \<longleftrightarrow> (\<forall>F. appends T F \<longrightarrow> (\<exists>Fb. appends Tb Fb \<and> buffers L F Fb B))"

section \<open>The readers keep the contract of a poll\<close>

lemma lawful_futures_reader:
  fixes F :: "'r futures_read"
  assumes F: "lawful_poll_read F V waits"
  shows "lawful_poll_read (futures_reader_read F) (\<lambda>w. V (ar_reader w)) (inv_image waits ar_reader)"
proof (rule lawful_poll_read.intro)
  show "wf (inv_image waits ar_reader)" by (rule wf_inv_image [OF lawful_poll_read.wf_read_waits [OF F]])
  fix w :: "('z, 'r) async_reader" and bs n
  assume "V (ar_reader w) bs"
  from lawful_poll_read.polls_read [OF F this, of n]
  show "polls (futures_reader_read F n) w
      (\<lambda>os w'. \<exists>k. os = take k bs \<and> V (ar_reader w') (drop k bs) \<and> k \<le> n \<and> k \<le> length bs \<and> (0 < n \<and> bs \<noteq> [] \<longrightarrow> 0 < k))
      (\<lambda>w'. V (ar_reader w') bs \<and> (w', w) \<in> inv_image waits ar_reader)"
    by (cases rule: polls_cases) (auto simp: polls_def futures_reader_read_def io_within_def)
qed

lemma lawful_takes:
  assumes F: "lawful_poll_read F V waits" and L: "takes L F Ft"
  shows "lawful_poll_read Ft (\<lambda>t. taken_view V tail slack (take_proj L t)) (inv_image waits (take_into_inner L))"
proof (rule lawful_poll_read.intro)
  show "wf (inv_image waits (take_into_inner L))" by (rule wf_inv_image [OF lawful_poll_read.wf_read_waits [OF F]])
  fix t bs n
  assume t: "taken_view V tail slack (take_proj L t) bs"
  then have inside: "V (take_into_inner L t) (bs @ tail)" and lim: "take_limit L t = length bs + slack"
    and edge: "slack = 0 \<or> tail = []"
    by (simp_all add: taken_view_def take_proj_def)
  show "polls (Ft n) t
      (\<lambda>os t'. \<exists>k. os = take k bs \<and> taken_view V tail slack (take_proj L t') (drop k bs) \<and> k \<le> n \<and> k \<le> length bs \<and>
        (0 < n \<and> bs \<noteq> [] \<longrightarrow> 0 < k))
      (\<lambda>t'. taken_view V tail slack (take_proj L t') bs \<and> (t', t) \<in> inv_image waits (take_into_inner L))"
  proof (cases "take_limit L t = 0")
    case True
    then have "Ft n t = (Ok (Ready []), t)" using L by (simp add: takes_def)
    with t lim True show ?thesis by (intro polls_ready) auto
  next
    case False
    have read: "case F (min n (take_limit L t)) (take_into_inner L t) of (res, r) \<Rightarrow>
        \<exists>t'. Ft n t = (res, t') \<and> take_into_inner L t' = r \<and>
          take_limit L t' = take_limit L t - (case res of Ok (Ready os) \<Rightarrow> length os | _ \<Rightarrow> 0)"
      using L False unfolding takes_def by (auto split: if_splits)
    from lawful_poll_read.polls_read [OF F inside, of "min n (take_limit L t)"] show ?thesis
    proof (cases rule: polls_cases)
      case (ready os r')
      then obtain k where k: "os = take k (bs @ tail)" "V r' (drop k (bs @ tail))" "k \<le> min n (take_limit L t)"
          "k \<le> length (bs @ tail)" "0 < min n (take_limit L t) \<and> bs @ tail \<noteq> [] \<longrightarrow> 0 < k" by blast
      have kb: "k \<le> length bs" using k(3,4) lim edge by auto
      from read ready(1) obtain t' where t': "Ft n t = (Ok (Ready os), t')" "take_into_inner L t' = r'"
          "take_limit L t' = take_limit L t - length os" by auto
      with k kb lim edge False show ?thesis
        by (intro polls_ready) (auto simp: taken_view_def take_proj_def intro!: exI [of _ k])
    next
      case (pending r')
      from read pending(1) obtain t' where "Ft n t = (Ok Pending, t')" "take_into_inner L t' = r'"
          "take_limit L t' = take_limit L t" by auto
      with pending(2) lim edge show ?thesis
        by (intro polls_pending) (auto simp: taken_view_def take_proj_def)
    qed
  qed
qed

definition dr_waits :: "('r \<times> 'r) set \<Rightarrow> (('k, 'r) default_reader \<times> ('k, 'r) default_reader) set" where
  "dr_waits waits = inv_image (map_prod Some Some ` waits) reader_stream"

lemma wf_dr_waits: "wf waits \<Longrightarrow> wf (dr_waits waits)"
  unfolding dr_waits_def by (intro wf_inv_image wf_map_prod_image) auto

lemma lawful_futures_default:
  assumes F: "lawful_poll_read F V waits" and c: "stream_cipher c"
  shows "lawful_poll_read (futures_default_read c F) (default_view c V) (dr_waits waits)"
proof (rule lawful_poll_read.intro)
  show "wf (dr_waits waits)" by (rule wf_dr_waits [OF lawful_poll_read.wf_read_waits [OF F]])
  fix s bs n
  assume s: "default_view c V s bs"
  let ?Q = "\<lambda>os s'. \<exists>k. os = take k bs \<and> default_view c V s' (drop k bs) \<and> k \<le> n \<and> k \<le> length bs \<and> (0 < n \<and> bs \<noteq> [] \<longrightarrow> 0 < k)"
    and ?P = "\<lambda>s'. default_view c V s' bs \<and> (s', s) \<in> dr_waits waits"
  show "polls (futures_default_read c F n) s ?Q ?P"
  proof (cases s)
    case (StandardReader r)
    with s have "V r bs" by (simp add: default_view_def)
    from lawful_poll_read.polls_read [OF F this, of n] show ?thesis
      by (cases rule: polls_cases)
         (auto simp: polls_def futures_default_read_def StandardReader default_view_def dr_waits_def)
  next
    case (DecryptReader k r)
    with s obtain cs where cs: "V r cs" "bs = fst (apply_blocks c k cs)"
      by (auto simp: default_view_def)
    note split = apply_blocks_append [OF c]
    from lawful_poll_read.polls_read [OF F cs(1), of n] show ?thesis
    proof (cases rule: polls_cases)
      case (ready os r')
      then obtain j where j: "os = take j cs" "V r' (drop j cs)" "j \<le> n" "j \<le> length cs" "0 < n \<and> cs \<noteq> [] \<longrightarrow> 0 < j"
        by blast
      let ?k' = "snd (apply_blocks c k (take j cs))"
      have bs: "bs = fst (apply_blocks c k (take j cs)) @ fst (apply_blocks c ?k' (drop j cs))"
        using split(1) [of k "take j cs" "drop j cs"] cs(2) by simp
      have parts: "fst (apply_blocks c k (take j cs)) = take j bs" "fst (apply_blocks c ?k' (drop j cs)) = drop j bs"
        unfolding bs using j(4) split(3) [of k "take j cs"] by simp_all
      have "futures_default_read c F n s = (Ok (Ready (take j bs)), DecryptReader ?k' r')"
        using ready(1) parts(1)
        by (auto simp: futures_default_read_def futures_decryption_read_def DecryptReader j(1) split: prod.splits)
      moreover have "default_view c V (DecryptReader ?k' r') (drop j bs)"
        using j(2) parts(2) by (auto simp: default_view_def)
      moreover have "length bs = length cs" "bs \<noteq> [] \<Longrightarrow> cs \<noteq> []"
        using cs(2) split(3) [of k cs] by auto
      ultimately show ?thesis
        using j(3,4,5) by (intro polls_ready exI [of _ j]) auto
    next
      case (pending r')
      with cs show ?thesis
        by (auto simp: polls_def futures_default_read_def futures_decryption_read_def DecryptReader default_view_def dr_waits_def)
    qed
  qed (use s in \<open>simp add: default_view_def\<close>)
qed

section \<open>The read streams keep their contract\<close>

text \<open>Both views of a stream: of the bytes that will come, and inside a bound.\<close>

definition async_view :: "('r \<Rightarrow> byte list \<Rightarrow> bool) \<Rightarrow> ('z, 'r) async_reader \<Rightarrow> byte list \<Rightarrow> bool" where
  "async_view V w bs = V (ar_reader w) bs"

definition async_bound ::
  "('r, 't, 'x) take_lib_scheme \<Rightarrow> ('r \<Rightarrow> byte list \<Rightarrow> bool) \<Rightarrow> ('z, 't) async_reader \<Rightarrow> nat \<Rightarrow> byte list \<Rightarrow> bool" where
  "async_bound L V b lim bs = bounded_view V (take_proj L (ar_reader b)) lim bs"

lemma lawful_futures_stream:
  assumes L: "take_keeps L"
    and E0: "reads_exactly E0 (async_view V)"
    and E1: "\<And>tail slack. reads_exactly E1 (\<lambda>b. taken_view V tail slack (take_proj L (ar_reader b)))"
  shows "lawful_stream (futures_read_stream I L M E0 E1 E2) (async_view V) (async_bound L V)"
proof (rule lawful_stream.intro)
  show "lawful_reader (base (futures_read_stream I L M E0 E1 E2)) (async_view V)"
    by (rule ext_reader_lawful [OF E0]) (simp_all add: futures_read_stream_def futures_io_reader_def futures_discard_eq)
  show "lawful_bounded (bounded (futures_read_stream I L M E0 E1 E2)) (async_bound L V)"
    unfolding async_bound_def [abs_def]
    by (rule ext_bounded_lawful [OF E1])
       (simp_all add: futures_read_stream_def futures_io_reader_def futures_discard_eq reader.defs take_proj_def)
qed (use L in \<open>simp_all add: futures_read_stream_def futures_with_bound_def futures_end_bound_def async_view_def
    async_bound_def bounded_view_def take_proj_def take_keeps_def\<close>)

lemma lawful_tokio_stream:
  assumes L: "take_keeps L"
    and E0: "reads_exactly E0 (async_view V)"
    and E1: "\<And>tail slack. reads_exactly E1 (\<lambda>b. taken_view V tail slack (take_proj L (ar_reader b)))"
  shows "lawful_stream (tokio_read_stream I L M E0 E1 E2) (async_view V) (async_bound L V)"
proof (rule lawful_stream.intro)
  show "lawful_reader (base (tokio_read_stream I L M E0 E1 E2)) (async_view V)"
    by (rule ext_reader_lawful [OF E0]) (simp_all add: tokio_read_stream_def tokio_io_reader_def)
  show "lawful_bounded (bounded (tokio_read_stream I L M E0 E1 E2)) (async_bound L V)"
    unfolding async_bound_def [abs_def]
    by (rule ext_bounded_lawful [OF E1])
       (simp_all add: tokio_read_stream_def tokio_io_reader_def reader.defs take_proj_def)
qed (use L in \<open>simp_all add: tokio_read_stream_def tokio_with_bound_def tokio_end_bound_def async_view_def
    async_bound_def bounded_view_def take_proj_def take_keeps_def\<close>)

text \<open>What the libraries document of their parts gives what the streams need.\<close>

lemma futures_ext_reads:
  assumes F: "lawful_poll_read F V waits"
    and E0: "futures_ext_of (futures_reader_read F) E0"
    and L: "takes L F Ft" and E1: "futures_ext_of (futures_reader_read Ft) E1"
  shows "reads_exactly E0 (async_view V)"
    and "reads_exactly E1 (\<lambda>b. taken_view V tail slack (take_proj L (ar_reader b)))"
  using E0 lawful_futures_reader [OF F] E1 lawful_futures_reader [OF lawful_takes [OF F L]]
  unfolding futures_ext_of_def async_view_def [abs_def] by blast+

lemma tokio_ext_reads:
  assumes F: "appends T F" "lawful_poll_read F V waits"
    and E0: "tokio_ext_of (tokio_reader_read T) E0"
    and L: "tokio_takes L T Tt" and E1: "tokio_ext_of (tokio_reader_read Tt) E1"
  shows "reads_exactly E0 (async_view V)"
    and "reads_exactly E1 (\<lambda>b. taken_view V tail slack (take_proj L (ar_reader b)))"
proof -
  obtain Ft where Ft: "appends Tt Ft" "takes L F Ft" using L F(1) unfolding tokio_takes_def by blast
  show "reads_exactly E0 (async_view V)"
    using E0 appends_reader [OF F(1)] lawful_futures_reader [OF F(2)]
    unfolding tokio_ext_of_def async_view_def [abs_def] by blast
  show "reads_exactly E1 (\<lambda>b. taken_view V tail slack (take_proj L (ar_reader b)))"
    using E1 appends_reader [OF Ft(1)] lawful_futures_reader [OF lawful_takes [OF F(2) Ft(2)]]
    unfolding tokio_ext_of_def by blast
qed

end
