(* ===== verification/Async_Inflate.thy ===== *)
theory Async_Inflate
  imports Async_Read Sync_Inflate
begin

text \<open>
  Compressed packets over the asynchronous streams: the decompressing reader keeps the contract of a
  poll where the \<open>BufReader\<close> holds the whole packet, and the two read streams the contract
  \<open>lawful_inflating\<close>.  \<open>inflate\<close> is the parameter of \<open>Sync_Inflate\<close>.
\<close>

section \<open>Documented behaviour of Take on a buffered reader\<close>

text \<open>\<open>B\<close> is the buffered reader inside, \<open>Bt\<close> its \<open>Take\<close>, which shows no more than its limit.\<close>

definition takes_buf :: "('r, 't, 'x) take_lib_scheme \<Rightarrow> ('r, 'y) async_buf_read_scheme \<Rightarrow> ('t, 'z) async_buf_read_scheme \<Rightarrow> bool" where
  "takes_buf L B Bt \<longleftrightarrow>
     (\<forall>t. if take_limit L t = 0 then poll_fill_buf Bt t = (Ok (Ready []), t)
       else case poll_fill_buf B (take_into_inner L t) of (res, r) \<Rightarrow>
         \<exists>t'. poll_fill_buf Bt t = (case res of Ok (Ready buf) \<Rightarrow> Ok (Ready (take (take_limit L t) buf)) | _ \<Rightarrow> res, t') \<and>
           take_into_inner L t' = r \<and> take_limit L t' = take_limit L t) \<and>
     (\<forall>k t. let k' = min k (take_limit L t)
       in take_into_inner L (consume_buf Bt k t) = consume_buf B k' (take_into_inner L t) \<and>
         take_limit L (consume_buf Bt k t) = take_limit L t - k')"

text \<open>\<open>W r bs\<close>: the bytes \<open>bs\<close> are all that will come, and the buffer shows them at once.\<close>

definition shows_all :: "('r, 'y) async_buf_read_scheme \<Rightarrow> ('r \<Rightarrow> byte list \<Rightarrow> bool) \<Rightarrow> bool" where
  "shows_all B W \<longleftrightarrow> (\<forall>r bs. W r bs \<longrightarrow> poll_fill_buf B r = (Ok (Ready bs), r) \<and>
     (\<forall>k \<le> length bs. W (consume_buf B k r) (drop k bs)))"

lemma taken_shows_all:
  assumes Bt: "takes_buf L B Bt" and B: "shows_all B W" and t: "bounded_view W (take_proj L t) lim bs"
  shows "\<exists>t'. poll_fill_buf Bt t = (Ok (Ready (take lim bs)), t') \<and> bounded_view W (take_proj L t') lim bs"
    and "k \<le> length (take lim bs) \<Longrightarrow> bounded_view W (take_proj L (consume_buf Bt k t)) (lim - k) (drop k bs)"
proof -
  have lim: "take_limit L t = lim" and inside: "W (take_into_inner L t) bs"
    using t by (simp_all add: bounded_view_def take_proj_def)
  have fill: "poll_fill_buf B (take_into_inner L t) = (Ok (Ready bs), take_into_inner L t)"
    using B inside unfolding shows_all_def by blast
  show "\<exists>t'. poll_fill_buf Bt t = (Ok (Ready (take lim bs)), t') \<and> bounded_view W (take_proj L t') lim bs"
  proof (cases "lim = 0")
    case True
    then have "poll_fill_buf Bt t = (Ok (Ready []), t)" using Bt lim by (simp add: takes_buf_def)
    with t True show ?thesis by simp
  next
    case False
    moreover have "if take_limit L t = 0 then poll_fill_buf Bt t = (Ok (Ready []), t)
        else case poll_fill_buf B (take_into_inner L t) of (res, r) \<Rightarrow>
          \<exists>t'. poll_fill_buf Bt t = (case res of Ok (Ready buf) \<Rightarrow> Ok (Ready (take (take_limit L t) buf)) | _ \<Rightarrow> res, t') \<and>
            take_into_inner L t' = r \<and> take_limit L t' = take_limit L t"
      using Bt unfolding takes_buf_def by blast
    ultimately obtain t' where "poll_fill_buf Bt t = (Ok (Ready (take lim bs)), t')" "take_into_inner L t' = take_into_inner L t"
        "take_limit L t' = lim"
      by (auto simp: fill lim)
    with inside show ?thesis by (intro exI [of _ t']) (simp add: bounded_view_def take_proj_def)
  qed
  show "bounded_view W (take_proj L (consume_buf Bt k t)) (lim - k) (drop k bs)" if k: "k \<le> length (take lim bs)"
  proof -
    have kk: "min k lim = k" "k \<le> length bs" using k by simp_all
    have "take_into_inner L (consume_buf Bt k t) = consume_buf B k (take_into_inner L t)"
        "take_limit L (consume_buf Bt k t) = lim - k"
      using Bt kk(1) by (simp_all add: takes_buf_def Let_def lim)
    moreover have "W (consume_buf B k (take_into_inner L t)) (drop k bs)"
      using B inside kk(2) unfolding shows_all_def by blast
    ultimately show ?thesis by (simp add: bounded_view_def take_proj_def)
  qed
qed

section \<open>The decompressing reader\<close>

definition async_inflating ::
  "('r, 't, 'x) take_lib_scheme \<Rightarrow> ('r \<Rightarrow> byte list \<Rightarrow> bool) \<Rightarrow> ('z \<Rightarrow> byte list \<Rightarrow> byte list \<Rightarrow> bool) \<Rightarrow>
   nat \<Rightarrow> byte list \<Rightarrow> ('z, 't) async_decompression \<Rightarrow> byte list \<Rightarrow> bool" where
  "async_inflating L W Z lim zs d out \<longleftrightarrow> (\<exists>k. k \<le> lim \<and> k \<le> length zs \<and>
     bounded_view W (take_proj L (ad_reader d)) (lim - k) (drop k zs) \<and> Z (ad_state d) (drop k (take lim zs)) out)"

lemma lawful_async_decompression:
  assumes Bt: "takes_buf L B Bt" and B: "shows_all B W" and I: "inflates_whole I Z"
  shows "lawful_poll_read (futures_decompression_read I Bt) (async_inflating L W Z lim zs) {}"
proof (rule lawful_poll_read.intro)
  fix d out n
  assume "async_inflating L W Z lim zs d out"
  then obtain k where k: "k \<le> lim" "k \<le> length zs"
      and view: "bounded_view W (take_proj L (ad_reader d)) (lim - k) (drop k zs)"
      and z: "Z (ad_state d) (drop k (take lim zs)) out"
    by (auto simp: async_inflating_def)
  have chunk: "take (lim - k) (drop k zs) = drop k (take lim zs)" by (simp add: drop_take)
  obtain t where fill: "poll_fill_buf Bt (ad_reader d) = (Ok (Ready (drop k (take lim zs))), t)"
      and t: "bounded_view W (take_proj L t) (lim - k) (drop k zs)"
    using taken_shows_all(1) [OF Bt B view] unfolding chunk by blast
  obtain z' i j where inflate: "inflate I (ad_state d) (drop k (take lim zs)) n = (z', i, Ok (take j out))"
      "i \<le> length (drop k (take lim zs))" "j \<le> n" "j \<le> length out"
      "Z z' (drop i (drop k (take lim zs))) (drop j out)" "0 < n \<and> out \<noteq> [] \<longrightarrow> 0 < j"
    using I z unfolding inflates_whole_def by blast
  let ?d = "d\<lparr>ad_state := z', ad_reader := consume_buf Bt i t\<rparr>"
  have "futures_decompression_read I Bt n d = (Ok (Ready (take j out)), ?d)"
    by (simp add: futures_decompression_read_def fill inflate(1))
  moreover have "bounded_view W (take_proj L (ad_reader ?d)) (lim - (k + i)) (drop (k + i) zs)"
    using taken_shows_all(2) [OF Bt B t, of i] inflate(2) unfolding chunk by (simp add: add.commute)
  then have "async_inflating L W Z lim zs ?d (drop j out)"
    unfolding async_inflating_def using k inflate(2,5) by (intro exI [of _ "k + i"]) (auto simp: add.commute)
  ultimately show "polls (futures_decompression_read I Bt n) d
      (\<lambda>os d'. \<exists>k. os = take k out \<and> async_inflating L W Z lim zs d' (drop k out) \<and> k \<le> n \<and> k \<le> length out \<and>
        (0 < n \<and> out \<noteq> [] \<longrightarrow> 0 < k))
      (\<lambda>d'. async_inflating L W Z lim zs d' out \<and> (d', d) \<in> {})"
    using inflate(3,4,6) by (intro polls_ready exI [of _ j]) auto
qed simp

text \<open>What the libraries document of their parts gives the reads of the bounded decompressing reader.\<close>

lemma futures_inflating_reads:
  assumes "takes_buf L B Bt" and "shows_all B W" and "inflates_whole I Z"
    and "takes M (futures_decompression_read I Bt) Fc" and "futures_ext_of Fc E2"
  shows "reads_exactly E2 (\<lambda>c. taken_view (async_inflating L W Z lim zs) tail slack (take_proj M c))"
  using assms(5) lawful_takes [OF lawful_async_decompression [OF assms(1-3)] assms(4)]
  unfolding futures_ext_of_def by blast

lemma tokio_inflating_reads:
  assumes "takes_buf L B Bt" and "shows_all B W" and "inflates_whole I Z"
    and "tokio_takes M (tokio_decompression_read I Bt) Tc" and "tokio_ext_of Tc E2"
  shows "reads_exactly E2 (\<lambda>c. taken_view (async_inflating L W Z lim zs) tail slack (take_proj M c))"
proof -
  obtain Fc where "appends Tc Fc" "takes M (futures_decompression_read I Bt) Fc"
    using assms(4) appends_decompression unfolding tokio_takes_def by blast
  with assms(5) lawful_takes [OF lawful_async_decompression [OF assms(1-3)]] show ?thesis
    unfolding tokio_ext_of_def by blast
qed

section \<open>The read streams\<close>

definition async_inflating_bound ::
  "('r, 't, 'x) take_lib_scheme \<Rightarrow> (('z, 't) async_decompression, 'c, 'y) take_lib_scheme \<Rightarrow> ('r \<Rightarrow> byte list \<Rightarrow> bool) \<Rightarrow>
   ('z \<Rightarrow> byte list \<Rightarrow> byte list \<Rightarrow> bool) \<Rightarrow> nat \<Rightarrow> byte list \<Rightarrow> 'c \<Rightarrow> nat \<Rightarrow> byte list \<Rightarrow> bool" where
  "async_inflating_bound L M W Z lim zs c = bounded_view (async_inflating L W Z lim zs) (take_proj M c)"

text \<open>What the two streams share once the bounded reader inside keeps its contract.\<close>

lemma lawful_inflating_async:
  assumes S: "lawful_stream S (async_view W) (async_bound L W)"
    and inner: "\<And>lim zs. lawful_bounded (inner_bounded S) (async_inflating_bound L M W Z lim zs)"
    and M: "take_keeps M"
    and parts: "inner_with_bound S = take_new M" "inner_end_bound S = take_into_inner M"
      "with_decompression S = futures_with_decompression I" "end_decompression S = futures_end_decompression"
  shows "lawful_inflating S (async_view W) (async_bound L W) (async_inflating_bound L M W Z) (\<lambda>zs out. \<forall>z. Z (reset I z) zs out)"
proof (rule lawful_inflating.intro [OF S], rule lawful_inflating_axioms.intro)
  show "lawful_bounded (inner_bounded S) (async_inflating_bound L M W Z lim zs)" for lim zs by (rule inner)
  show "async_inflating_bound L M W Z lim zs (inner_with_bound S (with_decompression S b) n) n out"
    if "async_bound L W b lim zs" "\<forall>z. Z (reset I z) (take lim zs) out" for lim zs b n out
    using that M
    by (auto simp: parts async_inflating_bound_def bounded_view_def async_inflating_def async_bound_def take_proj_def
        take_keeps_def futures_with_decompression_def intro!: exI [of _ 0])
  show "\<exists>k. k \<le> lim \<and> k \<le> length zs \<and> async_bound L W (end_decompression S (inner_end_bound S c)) (lim - k) (drop k zs)"
    if "async_inflating_bound L M W Z lim zs c n' out" for lim zs c n' out
    using that
    by (auto simp: parts async_inflating_bound_def bounded_view_def async_inflating_def async_bound_def take_proj_def
        futures_end_decompression_def)
qed

lemma tokio_decompression_parts:
  "tokio_with_decompression = futures_with_decompression" "tokio_end_decompression = futures_end_decompression"
  "tokio_end_bound = futures_end_bound"
  by (simp_all add: fun_eq_iff tokio_with_decompression_def futures_with_decompression_def tokio_end_decompression_def
      futures_end_decompression_def tokio_end_bound_def futures_end_bound_def)

lemma lawful_inflating_futures:
  assumes L: "take_keeps L" and M: "take_keeps M"
    and E0: "reads_exactly E0 (async_view W)"
    and E1: "\<And>tail slack. reads_exactly E1 (\<lambda>b. taken_view W tail slack (take_proj L (ar_reader b)))"
    and E2: "\<And>lim zs tail slack. reads_exactly E2 (\<lambda>c. taken_view (async_inflating L W Z lim zs) tail slack (take_proj M c))"
  shows "lawful_inflating (futures_read_stream I L M E0 E1 E2) (async_view W) (async_bound L W)
    (async_inflating_bound L M W Z) (\<lambda>zs out. \<forall>z. Z (reset I z) zs out)"
proof (rule lawful_inflating_async [OF lawful_futures_stream [OF L E0 E1] _ M])
  show "lawful_bounded (inner_bounded (futures_read_stream I L M E0 E1 E2)) (async_inflating_bound L M W Z lim zs)" for lim zs
    unfolding async_inflating_bound_def [abs_def]
    by (rule ext_bounded_lawful [OF E2])
       (simp_all add: futures_read_stream_def futures_io_reader_def futures_discard_eq reader.defs take_proj_def)
qed (simp_all add: futures_read_stream_def)

lemma lawful_inflating_tokio:
  assumes L: "take_keeps L" and M: "take_keeps M"
    and E0: "reads_exactly E0 (async_view W)"
    and E1: "\<And>tail slack. reads_exactly E1 (\<lambda>b. taken_view W tail slack (take_proj L (ar_reader b)))"
    and E2: "\<And>lim zs tail slack. reads_exactly E2 (\<lambda>c. taken_view (async_inflating L W Z lim zs) tail slack (take_proj M c))"
  shows "lawful_inflating (tokio_read_stream I L M E0 E1 E2) (async_view W) (async_bound L W)
    (async_inflating_bound L M W Z) (\<lambda>zs out. \<forall>z. Z (reset I z) zs out)"
proof (rule lawful_inflating_async [OF lawful_tokio_stream [OF L E0 E1] _ M])
  show "lawful_bounded (inner_bounded (tokio_read_stream I L M E0 E1 E2)) (async_inflating_bound L M W Z lim zs)" for lim zs
    unfolding async_inflating_bound_def [abs_def]
    by (rule ext_bounded_lawful [OF E2])
       (simp_all add: tokio_read_stream_def tokio_io_reader_def reader.defs take_proj_def)
qed (simp_all add: tokio_read_stream_def tokio_decompression_parts)

text \<open>Where the last byte of the output goes with the last byte of the input, nothing is left over.\<close>

lemma drains_async:
  assumes ends: "\<And>z zs. Z z zs [] \<Longrightarrow> zs = []"
    and parts: "inner_end_bound S = take_into_inner M" "end_decompression S = futures_end_decompression"
      "end_bound S = futures_end_bound L"
  shows "drains S (async_view W) (async_inflating_bound L M W Z)"
  unfolding drains_def
  using ends
  by (fastforce simp: parts async_inflating_bound_def bounded_view_def async_inflating_def async_view_def take_proj_def
      futures_end_decompression_def futures_end_bound_def)

lemma drains_futures:
  "(\<And>z zs. Z z zs [] \<Longrightarrow> zs = []) \<Longrightarrow> drains (futures_read_stream I L M E0 E1 E2) (async_view W) (async_inflating_bound L M W Z)"
  by (rule drains_async) (simp_all add: futures_read_stream_def)

lemma drains_tokio:
  "(\<And>z zs. Z z zs [] \<Longrightarrow> zs = []) \<Longrightarrow> drains (tokio_read_stream I L M E0 E1 E2) (async_view W) (async_inflating_bound L M W Z)"
  by (rule drains_async) (simp_all add: tokio_read_stream_def tokio_decompression_parts)

end
