(* ===== verification/Tokio_Provider.thy ===== *)
theory Tokio_Provider
  imports Tokio_Compress Async_Inflate Sync_Provider Handshake
begin

text \<open>
  \<open>AsyncDefaultStreamProvider\<close> of \<open>src/defaults/asynchronous/tokio.rs\<close>, and the asynchronous operations of a
  \<open>ProtocolHandler\<close> over it: \<open>src/protocol/mod.rs\<close> has one body for the blocking and the asynchronous
  function, given the stream of the provider.  \<open>BufReader\<close> is a parameter \<open>BL\<close>.
\<close>

section \<open>AsyncDefaultStreamProvider\<close>

record ('b, 'z, 'k, 'w, 'q) async_provider =
  apr_reader :: 'b
  apr_writer :: "('k, 'w) async_default_writer"
  apr_threshold :: "nat option"
  apr_level :: compression
  apr_compression_state :: 'q
  apr_decompression_state :: 'z

definition tokio_new_provider ::
  "(('d, 'r) default_reader, 'b) buf_reader_lib \<Rightarrow> (byte \<Rightarrow> 'q) \<Rightarrow> 'z \<Rightarrow> 'r \<Rightarrow> 'w \<Rightarrow> compression \<Rightarrow> nat \<Rightarrow>
   (('b, 'z, 'k, 'w, 'q) async_provider, unit) outcome" where
  "tokio_new_provider BL new_compressor new_inflater r w level buffer_size =
     (case compression_into level of
        Ok raw \<Rightarrow> Ok
          \<lparr>apr_reader = br_new BL buffer_size (StandardReader r),
           apr_writer = AsyncStandard \<lparr>ab_writer = w, ab_buffer = [], ab_capacity = buffer_size, ab_state = Fill\<rparr>,
           apr_threshold = None,
           apr_level = level,
           apr_compression_state = new_compressor raw,
           apr_decompression_state = new_inflater\<rparr>
      | Err e \<Rightarrow> Err e
      | Panic \<Rightarrow> Panic
      | Diverge \<Rightarrow> Diverge)"

definition tokio_set_compression_threshold :: "nat option \<Rightarrow> ('b, 'z, 'k, 'w, 'q) async_provider \<Rightarrow> ('b, 'z, 'k, 'w, 'q) async_provider" where
  "tokio_set_compression_threshold threshold pr = pr\<lparr>apr_threshold := threshold\<rparr>"

text \<open>The reader first: where it panics, the writer is left as it was.\<close>

definition tokio_with_encryption ::
  "(('d, 'r) default_reader, 'b) buf_reader_lib \<Rightarrow> 'd cipher \<Rightarrow> 'k cipher \<Rightarrow> byte list \<Rightarrow>
   (('b, 'z, 'k, 'w, 'q) async_provider, unit, 'e) io" where
  "tokio_with_encryption BL dec enc key =
     io_bind (io_within (\<lambda>pr. br_get BL (apr_reader pr)) (\<lambda>pr s. pr\<lparr>apr_reader := br_put BL s (apr_reader pr)\<rparr>)
         (tokio_reader_with_encryption dec key)) (\<lambda>_.
       io_within apr_writer (\<lambda>pr s. pr\<lparr>apr_writer := s\<rparr>) (tokio_writer_with_encryption enc key))"

text \<open>The streams borrow a state and the reader or the writer.\<close>

definition tokio_on_read_stream ::
  "(('z, 'b) async_reader, 'a, 'e) io \<Rightarrow> (('b, 'z, 'k, 'w, 'q) async_provider, 'a, 'e) io" where
  "tokio_on_read_stream = io_within (\<lambda>pr. \<lparr>ar_state = apr_decompression_state pr, ar_reader = apr_reader pr\<rparr>)
     (\<lambda>pr s. pr\<lparr>apr_decompression_state := ar_state s, apr_reader := ar_reader s\<rparr>)"

definition tokio_on_write_stream ::
  "(('q, ('k, 'w) async_default_writer) async_writer, 'a, 'e) io \<Rightarrow> (('b, 'z, 'k, 'w, 'q) async_provider, 'a, 'e) io" where
  "tokio_on_write_stream = io_within (\<lambda>pr. \<lparr>aw_state = apr_compression_state pr, aw_writer = apr_writer pr\<rparr>)
     (\<lambda>pr s. pr\<lparr>apr_compression_state := aw_state s, apr_writer := aw_writer s\<rparr>)"

section \<open>A handler over the provider\<close>

definition async_read_handshake ::
  "protocol \<Rightarrow> (('z, 'b) async_reader, 'x, 'y, 'c, io_error) read_stream \<Rightarrow> ('x, 'c, 'h, io_error) state_handler \<Rightarrow>
   (('b, 'z, 'k, 'w, 'q) async_provider protocol_handler, 'h, io_error read_error) io" where
  "async_read_handshake p S H = (\<lambda>h. on_provider (tokio_on_read_stream (read_handshake p (handler_state h) S H)) h)"

definition async_read_packet ::
  "protocol \<Rightarrow> (('z, 'b) async_reader, 'x, 'y, 'c, io_error) read_stream \<Rightarrow> ('x, 'c, 'h, io_error) state_handler \<Rightarrow>
   (('b, 'z, 'k, 'w, 'q) async_provider protocol_handler, 'h, io_error read_error) io" where
  "async_read_packet p S H = (\<lambda>h.
     on_provider (\<lambda>pr. tokio_on_read_stream (read_packet p (handler_state h) (apr_threshold pr) S H) pr) h)"

definition async_write_packet_internal ::
  "(('q, ('k, 'w) async_default_writer) async_writer, 'u, 'v, 'pay, compression, io_error) write_stream \<Rightarrow> int \<Rightarrow>
   (('q, ('k, 'w) async_default_writer) async_writer, 'u, 'v, io_error) packet \<Rightarrow>
   (('b, 'z, 'k, 'w, 'q) async_provider protocol_handler, unit, io_error write_error) io" where
  "async_write_packet_internal S i pkt = on_provider (\<lambda>pr.
     tokio_on_write_stream (write_packet_internal (apr_threshold pr) (apr_level pr) S i pkt) pr)"

text \<open>\<open>None\<close>: not a packet the state writes, which the source refuses to compile.\<close>

definition async_write_packet ::
  "protocol \<Rightarrow> (('q, ('k, 'w) async_default_writer) async_writer, 'u, 'v, 'pay, compression, io_error) write_stream \<Rightarrow>
   ('b, 'z, 'k, 'w, 'q) async_provider protocol_handler \<Rightarrow> string \<Rightarrow>
   (('q, ('k, 'w) async_default_writer) async_writer, 'u, 'v, io_error) packet \<Rightarrow>
   ((unit, io_error write_error) outcome \<times> ('b, 'z, 'k, 'w, 'q) async_provider protocol_handler) option" where
  "async_write_packet p S h name pkt =
     map_option (\<lambda>i. async_write_packet_internal S i pkt h) (writer_packet_id p (handler_state h) name)"

definition async_write_raw ::
  "(('q, ('k, 'w) async_default_writer) async_writer, io_error) writer \<Rightarrow>
   ((('q, ('k, 'w) async_default_writer) async_writer, io_error) writer \<Rightarrow>
      (('q, ('k, 'w) async_default_writer) async_writer, unit, io_error write_error) io) \<Rightarrow>
   (('b, 'z, 'k, 'w, 'q) async_provider protocol_handler, unit, io_error write_error) io" where
  "async_write_raw W data = on_provider (tokio_on_write_stream
     (io_bind (data W) (\<lambda>_. io_map_err WStreamError (flush W))))"

definition async_write_legacy_1_6_ping_response ::
  "(('q, ('k, 'w) async_default_writer) async_writer, io_error) writer \<Rightarrow> legacy1_6_ping_response \<Rightarrow>
   (('b, 'z, 'k, 'w, 'q) async_provider protocol_handler, unit, io_error write_error) io" where
  "async_write_legacy_1_6_ping_response W response = async_write_raw W (\<lambda>W. write_legacy1_6 W response)"

definition async_write_legacy_1_3_ping_response ::
  "(('q, ('k, 'w) async_default_writer) async_writer, io_error) writer \<Rightarrow> legacy1_3_ping_response \<Rightarrow>
   (('b, 'z, 'k, 'w, 'q) async_provider protocol_handler, unit, io_error write_error) io" where
  "async_write_legacy_1_3_ping_response W response = async_write_raw W (\<lambda>W. write_legacy1_3 W response)"

end
