(* ===== verification/Futures_Write.thy ===== *)
theory Futures_Write
  imports Tokio_Write
begin

text \<open>
  The writers of \<open>src/defaults/asynchronous/futures.rs\<close>.  The structs have the fields of those in
  \<open>tokio.rs\<close>, and the records are shared; the loops are written out again in the source and here, and
  are the same functions.
\<close>

section \<open>AsyncBufferedWriter and AsyncEncryptionWriter\<close>

partial_function (option) futures_buffered_poll_write ::
  "('w, 'y) async_write_scheme \<Rightarrow> byte list \<Rightarrow> 'w async_buffered \<Rightarrow> ((nat poll, io_error) outcome \<times> 'w async_buffered) option" where
  "futures_buffered_poll_write W buf b =
     (case ab_state b of
        Fill \<Rightarrow>
          if ab_room b > 0 then Some (ab_store buf b)
          else futures_buffered_poll_write W buf (b\<lparr>ab_state := Write 0\<rparr>)
      | Write offset \<Rightarrow>
          (case ab_poll_rest W offset b of
             (Ok p, b) \<Rightarrow>
               (case p of
                  Ready amount_written \<Rightarrow>
                    if offset + amount_written = length (ab_buffer b)
                    then futures_buffered_poll_write W buf (ab_emptied b)
                    else futures_buffered_poll_write W buf b
                | Pending \<Rightarrow> Some (Ok Pending, b))
           | (Err e, b) \<Rightarrow> Some (Err e, b)
           | (Panic, b) \<Rightarrow> Some (Panic, b)
           | (Diverge, b) \<Rightarrow> Some (Diverge, b)))"

partial_function (option) futures_buffered_poll_flush ::
  "('w, 'y) async_write_scheme \<Rightarrow> 'w async_buffered \<Rightarrow> ((unit poll, io_error) outcome \<times> 'w async_buffered) option" where
  "futures_buffered_poll_flush W b =
     (case ab_state b of
        Fill \<Rightarrow> futures_buffered_poll_flush W (b\<lparr>ab_state := Write 0\<rparr>)
      | Write offset \<Rightarrow>
          (case ab_poll_rest W offset b of
             (Ok p, b) \<Rightarrow>
               (case p of
                  Ready amount_written \<Rightarrow>
                    if offset + amount_written = length (ab_buffer b)
                    then Some (Ok (Ready ()), ab_emptied b)
                    else futures_buffered_poll_flush W b
                | Pending \<Rightarrow> Some (Ok Pending, b))
           | (Err e, b) \<Rightarrow> Some (Err e, b)
           | (Panic, b) \<Rightarrow> Some (Panic, b)
           | (Diverge, b) \<Rightarrow> Some (Diverge, b)))"

text \<open>\<open>poll_shutdown\<close> is \<open>poll_close\<close> here; it goes to the stream, past the buffer.\<close>

definition futures_buffered_poll_shutdown :: "('w, 'y) async_write_scheme \<Rightarrow> ('w async_buffered, unit poll, io_error) io" where
  "futures_buffered_poll_shutdown W = on_ab_writer (poll_shutdown W)"

definition futures_buffered :: "('w, 'y) async_write_scheme \<Rightarrow> 'w async_buffered async_write" where
  "futures_buffered W =
     \<lparr>poll_write = (\<lambda>buf. io_total (futures_buffered_poll_write W buf)),
      poll_flush = io_total (futures_buffered_poll_flush W),
      poll_shutdown = futures_buffered_poll_shutdown W\<rparr>"

partial_function (option) futures_encryption_poll_write ::
  "'k cipher \<Rightarrow> ('w, 'y) async_write_scheme \<Rightarrow> byte list \<Rightarrow> ('k, 'w) async_encryption \<Rightarrow>
   ((nat poll, io_error) outcome \<times> ('k, 'w) async_encryption) option" where
  "futures_encryption_poll_write c W buf b =
     (case ab_state b of
        Fill \<Rightarrow>
          if ab_room b > 0 then Some (ab_store buf b)
          else futures_encryption_poll_write c W buf ((ab_encrypt c b)\<lparr>ab_state := Write 0\<rparr>)
      | Write offset \<Rightarrow>
          (case ab_poll_rest W offset b of
             (Ok p, b) \<Rightarrow>
               (case p of
                  Ready amount_written \<Rightarrow>
                    if offset + amount_written = length (ab_buffer b)
                    then futures_encryption_poll_write c W buf (ab_emptied b)
                    else futures_encryption_poll_write c W buf b
                | Pending \<Rightarrow> Some (Ok Pending, b))
           | (Err e, b) \<Rightarrow> Some (Err e, b)
           | (Panic, b) \<Rightarrow> Some (Panic, b)
           | (Diverge, b) \<Rightarrow> Some (Diverge, b)))"

partial_function (option) futures_encryption_poll_flush ::
  "'k cipher \<Rightarrow> ('w, 'y) async_write_scheme \<Rightarrow> ('k, 'w) async_encryption \<Rightarrow>
   ((unit poll, io_error) outcome \<times> ('k, 'w) async_encryption) option" where
  "futures_encryption_poll_flush c W b =
     (case ab_state b of
        Fill \<Rightarrow> futures_encryption_poll_flush c W ((ab_encrypt c b)\<lparr>ab_state := Write 0\<rparr>)
      | Write offset \<Rightarrow>
          (case ab_poll_rest W offset b of
             (Ok p, b) \<Rightarrow>
               (case p of
                  Ready amount_written \<Rightarrow>
                    if offset + amount_written = length (ab_buffer b)
                    then Some (Ok (Ready ()), ab_emptied b)
                    else futures_encryption_poll_flush c W b
                | Pending \<Rightarrow> Some (Ok Pending, b))
           | (Err e, b) \<Rightarrow> Some (Err e, b)
           | (Panic, b) \<Rightarrow> Some (Panic, b)
           | (Diverge, b) \<Rightarrow> Some (Diverge, b)))"

definition futures_encryption_poll_shutdown :: "('w, 'y) async_write_scheme \<Rightarrow> (('k, 'w) async_encryption, unit poll, io_error) io" where
  "futures_encryption_poll_shutdown W = on_ab_writer (poll_shutdown W)"

definition futures_encryption :: "'k cipher \<Rightarrow> ('w, 'y) async_write_scheme \<Rightarrow> ('k, 'w) async_encryption async_write" where
  "futures_encryption c W =
     \<lparr>poll_write = (\<lambda>buf. io_total (futures_encryption_poll_write c W buf)),
      poll_flush = io_total (futures_encryption_poll_flush c W),
      poll_shutdown = futures_encryption_poll_shutdown W\<rparr>"

section \<open>AsyncDefaultWriter\<close>

definition futures_default_writer :: "'k cipher \<Rightarrow> ('w, 'y) async_write_scheme \<Rightarrow> ('k, 'w) async_default_writer async_write" where
  "futures_default_writer c W =
     \<lparr>poll_write = (\<lambda>buf s. case s of
        AsyncStandard b \<Rightarrow> (case poll_write (futures_buffered W) buf b of (res, b) \<Rightarrow> (res, AsyncStandard b))
      | AsyncEncrypt b \<Rightarrow> (case poll_write (futures_encryption c W) buf b of (res, b) \<Rightarrow> (res, AsyncEncrypt b))
      | AsyncPoisoned \<Rightarrow> (Panic, AsyncPoisoned)),
      poll_flush = (\<lambda>s. case s of
        AsyncStandard b \<Rightarrow> (case poll_flush (futures_buffered W) b of (res, b) \<Rightarrow> (res, AsyncStandard b))
      | AsyncEncrypt b \<Rightarrow> (case poll_flush (futures_encryption c W) b of (res, b) \<Rightarrow> (res, AsyncEncrypt b))
      | AsyncPoisoned \<Rightarrow> (Panic, AsyncPoisoned)),
      poll_shutdown = (\<lambda>s. case s of
        AsyncStandard b \<Rightarrow> (case poll_shutdown (futures_buffered W) b of (res, b) \<Rightarrow> (res, AsyncStandard b))
      | AsyncEncrypt b \<Rightarrow> (case poll_shutdown (futures_encryption c W) b of (res, b) \<Rightarrow> (res, AsyncEncrypt b))
      | AsyncPoisoned \<Rightarrow> (Panic, AsyncPoisoned))\<rparr>"

text \<open>\<open>with_encryption\<close> clears the buffer it hands over, whatever of it was still to be written.\<close>

definition futures_writer_with_encryption ::
  "'k cipher \<Rightarrow> byte list \<Rightarrow> (('k, 'w) async_default_writer, unit, 'e) io" where
  "futures_writer_with_encryption c key = (\<lambda>s. case s of
     AsyncStandard b \<Rightarrow>
       (Ok (), AsyncEncrypt \<lparr>ab_writer = ab_writer b, ab_buffer = [], ab_capacity = ab_capacity b,
         ab_state = Fill, ab_encryptor = init c key\<rparr>)
   | AsyncEncrypt _ \<Rightarrow> (Panic, AsyncPoisoned)
   | AsyncPoisoned \<Rightarrow> (Panic, AsyncPoisoned))"

section \<open>The same writers as over tokio\<close>

lemmas poll_loop_splits = buffer_state.splits prod.splits outcome.splits poll.splits if_splits

text \<open>Two loops that return the same where either returns are the same.\<close>

lemma loop_eqI:
  assumes "\<And>b y. f b = Some y \<Longrightarrow> g b = Some y" and "\<And>b y. g b = Some y \<Longrightarrow> f b = Some y"
  shows "f = g"
proof (rule ext)
  show "f b = g b" for b
    using assms [of b] by (cases "f b"; cases "g b") auto
qed

lemma buffered_poll_write_of_futures: "futures_buffered_poll_write W buf b = Some y \<Longrightarrow> buffered_poll_write W buf b = Some y"
  by (induction rule: futures_buffered_poll_write.raw_induct [rotated 1, consumes 1]) (subst buffered_poll_write.simps, auto split: poll_loop_splits)

lemma buffered_poll_write_to_futures: "buffered_poll_write W buf b = Some y \<Longrightarrow> futures_buffered_poll_write W buf b = Some y"
  by (induction rule: buffered_poll_write.raw_induct [rotated 1, consumes 1]) (subst futures_buffered_poll_write.simps, auto split: poll_loop_splits)

lemma buffered_poll_flush_of_futures: "futures_buffered_poll_flush W b = Some y \<Longrightarrow> buffered_poll_flush W b = Some y"
  by (induction rule: futures_buffered_poll_flush.raw_induct [rotated 1, consumes 1]) (subst buffered_poll_flush.simps, auto split: poll_loop_splits)

lemma buffered_poll_flush_to_futures: "buffered_poll_flush W b = Some y \<Longrightarrow> futures_buffered_poll_flush W b = Some y"
  by (induction rule: buffered_poll_flush.raw_induct [rotated 1, consumes 1]) (subst futures_buffered_poll_flush.simps, auto split: poll_loop_splits)

lemma encryption_poll_write_of_futures: "futures_encryption_poll_write c W buf b = Some y \<Longrightarrow> encryption_poll_write c W buf b = Some y"
  by (induction rule: futures_encryption_poll_write.raw_induct [rotated 1, consumes 1]) (subst encryption_poll_write.simps, auto split: poll_loop_splits)

lemma encryption_poll_write_to_futures: "encryption_poll_write c W buf b = Some y \<Longrightarrow> futures_encryption_poll_write c W buf b = Some y"
  by (induction rule: encryption_poll_write.raw_induct [rotated 1, consumes 1]) (subst futures_encryption_poll_write.simps, auto split: poll_loop_splits)

lemma encryption_poll_flush_of_futures: "futures_encryption_poll_flush c W b = Some y \<Longrightarrow> encryption_poll_flush c W b = Some y"
  by (induction rule: futures_encryption_poll_flush.raw_induct [rotated 1, consumes 1]) (subst encryption_poll_flush.simps, auto split: poll_loop_splits)

lemma encryption_poll_flush_to_futures: "encryption_poll_flush c W b = Some y \<Longrightarrow> futures_encryption_poll_flush c W b = Some y"
  by (induction rule: encryption_poll_flush.raw_induct [rotated 1, consumes 1]) (subst futures_encryption_poll_flush.simps, auto split: poll_loop_splits)

lemma futures_loops_eq:
  shows "futures_buffered_poll_write W buf = buffered_poll_write W buf" and "futures_buffered_poll_flush W = buffered_poll_flush W"
    and "futures_encryption_poll_write c W buf = encryption_poll_write c W buf" and "futures_encryption_poll_flush c W = encryption_poll_flush c W"
  by (rule loop_eqI, erule buffered_poll_write_of_futures, erule buffered_poll_write_to_futures)
     (rule loop_eqI, erule buffered_poll_flush_of_futures, erule buffered_poll_flush_to_futures,
      rule loop_eqI, erule encryption_poll_write_of_futures, erule encryption_poll_write_to_futures,
      rule loop_eqI, erule encryption_poll_flush_of_futures, erule encryption_poll_flush_to_futures)

lemma futures_buffered_eq: "futures_buffered W = tokio_buffered W"
  by (simp add: futures_buffered_def tokio_buffered_def futures_loops_eq futures_buffered_poll_shutdown_def buffered_poll_shutdown_def)

lemma futures_encryption_eq: "futures_encryption c W = tokio_encryption c W"
  by (simp add: futures_encryption_def tokio_encryption_def futures_loops_eq futures_encryption_poll_shutdown_def encryption_poll_shutdown_def)

lemma futures_default_writer_eq: "futures_default_writer c W = tokio_default_writer c W"
  unfolding futures_default_writer_def tokio_default_writer_def futures_buffered_eq futures_encryption_eq ..

lemma futures_writer_with_encryption_eq: "futures_writer_with_encryption = tokio_writer_with_encryption"
  by (simp add: fun_eq_iff futures_writer_with_encryption_def tokio_writer_with_encryption_def)

end
