(* ===== verification/Futures_Compress.thy ===== *)
theory Futures_Compress
  imports Tokio_Compress Futures_Write
begin

text \<open>
  The compressing side of \<open>src/defaults/asynchronous/futures.rs\<close>.  The structs have the fields of those in
  \<open>tokio.rs\<close>, and the records are shared; the code is written out again in the source and here, and is
  the same.
\<close>

section \<open>FuturesWriter\<close>

definition futures_writer :: "('w, 'y) async_write_scheme \<Rightarrow> ('q, 'w) async_writer async_write" where
  "futures_writer W =
     \<lparr>poll_write = (\<lambda>buf. on_aw_writer (poll_write W buf)),
      poll_flush = on_aw_writer (poll_flush W),
      poll_shutdown = on_aw_writer (poll_shutdown W)\<rparr>"

section \<open>AsyncCachedPreCompressionWriter\<close>

partial_function (option) futures_pre_loop ::
  "'q deflater \<Rightarrow> byte list \<Rightarrow> nat \<Rightarrow> ('q, 'w) async_pre \<Rightarrow> ((unit, io_error) outcome \<times> ('q, 'w) async_pre) option" where
  "futures_pre_loop D data offset b =
     (if length data < offset then Some (Panic, b)
      else case deflate D (ap_state b) (drop offset data) 512 SyncFlush of
        (q, bytes_consumed, os, status) \<Rightarrow>
          let b = b\<lparr>ap_state := q\<rparr>
          in case status of
               Ok _ \<Rightarrow>
                 let b = b\<lparr>ap_buffer := ap_buffer b @ os\<rparr>; offset = offset + bytes_consumed
                 in if offset = length data then Some (Ok (), b) else futures_pre_loop D data offset b
             | Err e \<Rightarrow> Some (Err (OtherError ''Compression error''), b)
             | Panic \<Rightarrow> Some (Panic, b)
             | Diverge \<Rightarrow> Some (Diverge, b))"

definition futures_pre_write :: "'q deflater \<Rightarrow> byte list \<Rightarrow> (('q, 'w) async_pre, unit, io_error) io" where
  "futures_pre_write D data = io_total (futures_pre_loop D data 0)"

definition futures_pre_flush :: "(('q, 'w) async_pre, unit, io_error) io" where
  "futures_pre_flush = io_ret ()"

definition futures_pre_finish :: "(('q, 'w) async_pre, nat \<times> byte list, io_error) io" where
  "futures_pre_finish = (\<lambda>b. (Ok (length (ap_buffer b), ap_buffer b), b))"

definition futures_pre_parent :: "('q, 'w) async_pre \<Rightarrow> ('q, 'w) async_writer" where
  "futures_pre_parent b = \<lparr>aw_state = ap_state b, aw_writer = ap_writer b\<rparr>"

section \<open>AsyncCachedCompressionWriter\<close>

definition futures_sink :: "('w, 'y) async_write_scheme \<Rightarrow> 'w async_write" where
  "futures_sink W =
     \<lparr>poll_write = (\<lambda>buf w. (Ok (Ready (length buf)), w)),
      poll_flush = poll_flush W,
      poll_shutdown = poll_shutdown W\<rparr>"

definition futures_initialize :: "('w, 'x) write_ext_scheme \<Rightarrow> byte list \<Rightarrow> (('q, 'w) async_writer, unit, io_error) io" where
  "futures_initialize E payload = on_aw_writer (ext_write_all E payload)"

definition futures_pre_compression_writer :: "'q deflater \<Rightarrow> ('q, 'w) async_writer \<Rightarrow> 'level \<Rightarrow> ('q, 'w) async_pre" where
  "futures_pre_compression_writer D a _ = \<lparr>ap_state = reset_compressor D (aw_state a), ap_buffer = [], ap_writer = aw_writer a\<rparr>"

definition futures_write_stream ::
  "'q deflater \<Rightarrow> ('q, 'w) async_writer write_ext \<Rightarrow> 'w write_ext \<Rightarrow> ('q, 'w) async_writer write_ext \<Rightarrow>
   (('q, 'w) async_writer, ('q, 'w) async_pre, ('q, 'w) async_writer, byte list, 'level, io_error) write_stream" where
  "futures_write_stream D E0 E1 E2 =
     \<lparr>base_writer = futures_io_writer E0,
      pre_compression_writer = futures_pre_compression_writer D,
      pre_writer = \<lparr>write_data = futures_pre_write D, flush = futures_pre_flush\<rparr>,
      finish = futures_pre_finish,
      end_pre = futures_pre_parent,
      with_compression = (\<lambda>a _. a),
      comp_writer = futures_io_writer E2,
      initialize = futures_initialize E1,
      end_compression = (\<lambda>a. a)\<rparr>"

section \<open>The same streams\<close>

lemma pre_loop_of_futures: "futures_pre_loop D data offset b = Some y \<Longrightarrow> tokio_pre_loop D data offset b = Some y"
  by (induction rule: futures_pre_loop.raw_induct [rotated 1, consumes 1])
     (subst tokio_pre_loop.simps, auto simp: Let_def split: if_splits prod.splits outcome.splits)

lemma pre_loop_to_futures: "tokio_pre_loop D data offset b = Some y \<Longrightarrow> futures_pre_loop D data offset b = Some y"
  by (induction rule: tokio_pre_loop.raw_induct [rotated 1, consumes 1])
     (subst futures_pre_loop.simps, auto simp: Let_def split: if_splits prod.splits outcome.splits)

lemma futures_pre_loop_eq: "futures_pre_loop D data = tokio_pre_loop D data"
  by (rule ext, rule loop_eqI, erule pre_loop_of_futures, erule pre_loop_to_futures)

lemma futures_writer_eq: "futures_writer W = tokio_writer W"
  by (simp add: futures_writer_def tokio_writer_def)

lemma futures_sink_eq: "futures_sink W = tokio_sink W"
  by (simp add: futures_sink_def tokio_sink_def)

lemma futures_write_stream_eq: "futures_write_stream D E0 E1 E2 = tokio_write_stream D E0 E1 E2"
  by (simp add: futures_write_stream_def tokio_write_stream_def fun_eq_iff futures_pre_compression_writer_def
      tokio_pre_compression_writer_def futures_pre_write_def tokio_pre_write_def futures_pre_loop_eq
      futures_pre_flush_def tokio_pre_flush_def futures_pre_finish_def tokio_pre_finish_def futures_pre_parent_def
      tokio_pre_parent_def futures_initialize_def tokio_initialize_def futures_io_writer_def tokio_io_writer_def)

end
