(* ===== verification/Futures_Provider.thy ===== *)
theory Futures_Provider
  imports Tokio_Provider Futures_Compress
begin

text \<open>
  \<open>AsyncDefaultStreamProvider\<close> of \<open>src/defaults/asynchronous/futures.rs\<close>, with the fields of the provider in
  \<open>tokio.rs\<close>, whose record is used.  The operations are the same, and so is a handler over the provider.
\<close>

section \<open>AsyncDefaultStreamProvider\<close>

definition futures_new_provider ::
  "(('d, 'r) default_reader, 'b) buf_reader_lib \<Rightarrow> (byte \<Rightarrow> 'q) \<Rightarrow> 'z \<Rightarrow> 'r \<Rightarrow> 'w \<Rightarrow> compression \<Rightarrow> nat \<Rightarrow>
   (('b, 'z, 'k, 'w, 'q) async_provider, unit) outcome" where
  "futures_new_provider BL new_compressor new_inflater r w level buffer_size =
     (case compression_into level of
        Ok raw \<Rightarrow> Ok
          \<lparr>apr_reader = br_new BL buffer_size (StandardReader r),
           apr_writer = AsyncStandard \<lparr>ab_writer = w, ab_buffer = [], ab_capacity = buffer_size, ab_state = Fill\<rparr>,
           apr_threshold = None,
           apr_level = level,
           apr_compression_state = new_compressor raw,
           apr_decompression_state = new_inflater\<rparr>
      | Err e \<Rightarrow> Err e
      | Panic \<Rightarrow> Panic
      | Diverge \<Rightarrow> Diverge)"

definition futures_set_compression_threshold :: "nat option \<Rightarrow> ('b, 'z, 'k, 'w, 'q) async_provider \<Rightarrow> ('b, 'z, 'k, 'w, 'q) async_provider" where
  "futures_set_compression_threshold threshold pr = pr\<lparr>apr_threshold := threshold\<rparr>"

text \<open>The reader first: where it panics, the writer is left as it was.\<close>

definition futures_with_encryption ::
  "(('d, 'r) default_reader, 'b) buf_reader_lib \<Rightarrow> 'd cipher \<Rightarrow> 'k cipher \<Rightarrow> byte list \<Rightarrow>
   (('b, 'z, 'k, 'w, 'q) async_provider, unit, 'e) io" where
  "futures_with_encryption BL dec enc key =
     io_bind (io_within (\<lambda>pr. br_get BL (apr_reader pr)) (\<lambda>pr s. pr\<lparr>apr_reader := br_put BL s (apr_reader pr)\<rparr>)
         (futures_reader_with_encryption dec key)) (\<lambda>_.
       io_within apr_writer (\<lambda>pr s. pr\<lparr>apr_writer := s\<rparr>) (futures_writer_with_encryption enc key))"

definition futures_on_read_stream ::
  "(('z, 'b) async_reader, 'a, 'e) io \<Rightarrow> (('b, 'z, 'k, 'w, 'q) async_provider, 'a, 'e) io" where
  "futures_on_read_stream = io_within (\<lambda>pr. \<lparr>ar_state = apr_decompression_state pr, ar_reader = apr_reader pr\<rparr>)
     (\<lambda>pr s. pr\<lparr>apr_decompression_state := ar_state s, apr_reader := ar_reader s\<rparr>)"

definition futures_on_write_stream ::
  "(('q, ('k, 'w) async_default_writer) async_writer, 'a, 'e) io \<Rightarrow> (('b, 'z, 'k, 'w, 'q) async_provider, 'a, 'e) io" where
  "futures_on_write_stream = io_within (\<lambda>pr. \<lparr>aw_state = apr_compression_state pr, aw_writer = apr_writer pr\<rparr>)
     (\<lambda>pr s. pr\<lparr>apr_compression_state := aw_state s, apr_writer := aw_writer s\<rparr>)"

section \<open>The same provider\<close>

lemma futures_provider_eq:
  "futures_new_provider = tokio_new_provider" "futures_set_compression_threshold = tokio_set_compression_threshold"
  "futures_with_encryption = tokio_with_encryption" "futures_on_read_stream = tokio_on_read_stream"
  "futures_on_write_stream = tokio_on_write_stream"
  by (simp_all add: fun_eq_iff futures_new_provider_def tokio_new_provider_def futures_set_compression_threshold_def
      tokio_set_compression_threshold_def futures_with_encryption_def tokio_with_encryption_def tokio_read_with_encryption_eq
      futures_writer_with_encryption_eq futures_on_read_stream_def tokio_on_read_stream_def futures_on_write_stream_def
      tokio_on_write_stream_def)

end
