(* ===== verification/Async_Session.thy ===== *)
theory Async_Session
  imports Futures_Provider
begin

text \<open>
  \<open>ProtocolHandler\<close>s over \<open>AsyncDefaultStreamProvider\<close>s: what one writes is on its stream when the future
  of \<open>async_write_packet\<close> returns, encrypted if encryption is on, and is read by the other.  What the two
  libraries document of the parts a stream is made of is collected in \<open>write_libs\<close> and \<open>read_libs\<close>.
\<close>

section \<open>A writer with nothing unsent\<close>

lemma await_ready:
  assumes "await m s = (Ok a, s')"
  shows "\<exists>s0. m s0 = (Ok (Ready a), s')"
proof -
  have "await_loop m s = Some y \<Longrightarrow> y = (Ok a, s') \<Longrightarrow> \<exists>s0. m s0 = (Ok (Ready a), s')" for s y
    by (induction rule: await_loop.raw_induct [rotated 1, consumes 1])
       (auto split: prod.splits outcome.splits poll.splits)
  with assms show ?thesis by (auto simp: await_def io_total_def split: option.splits)
qed

definition async_idle :: "('k, 'w) async_default_writer \<Rightarrow> bool" where
  "async_idle s \<longleftrightarrow> (case s of
     AsyncStandard b \<Rightarrow> ab_state b = Fill \<and> ab_buffer b = []
   | AsyncEncrypt b \<Rightarrow> ab_state b = Fill \<and> ab_buffer b = []
   | AsyncPoisoned \<Rightarrow> False)"

lemma idle_delivered: "adw_view c V k0 sent0 s bs \<Longrightarrow> async_idle s \<Longrightarrow> async_delivered c V k0 sent0 s bs"
  by (auto simp: adw_view_def async_idle_def async_delivered_def ab_view_def ae_view_def split: async_default_writer.splits)

lemma buffered_flush_idle:
  "buffered_poll_flush W b = Some y \<Longrightarrow> y = (Ok (Ready u), b') \<Longrightarrow> ab_state b' = Fill \<and> ab_buffer b' = []"
  by (induction rule: buffered_poll_flush.raw_induct [rotated 1, consumes 1])
     (auto simp: ab_emptied_def split: buffer_state.splits prod.splits outcome.splits poll.splits if_splits)

lemma encryption_flush_idle:
  "encryption_poll_flush c W b = Some y \<Longrightarrow> y = (Ok (Ready u), b') \<Longrightarrow> ab_state b' = Fill \<and> ab_buffer b' = []"
  by (induction rule: encryption_poll_flush.raw_induct [rotated 1, consumes 1])
     (auto simp: ab_emptied_def split: buffer_state.splits prod.splits outcome.splits poll.splits if_splits)

lemma default_flush_idle:
  assumes "poll_flush (tokio_default_writer c W) s = (Ok (Ready u), s')"
  shows "async_idle s'"
proof (cases s)
  case (AsyncStandard b)
  with assms obtain b' where "buffered_poll_flush W b = Some (Ok (Ready u), b')" "s' = AsyncStandard b'"
    by (auto simp: tokio_default_writer_def tokio_buffered_def io_total_def split: prod.splits option.splits)
  with buffered_flush_idle show ?thesis by (fastforce simp: async_idle_def)
next
  case (AsyncEncrypt b)
  with assms obtain b' where "encryption_poll_flush c W b = Some (Ok (Ready u), b')" "s' = AsyncEncrypt b'"
    by (auto simp: tokio_default_writer_def tokio_encryption_def io_total_def split: prod.splits option.splits)
  with encryption_flush_idle show ?thesis by (fastforce simp: async_idle_def)
qed (use assms in \<open>simp add: tokio_default_writer_def\<close>)

lemma async_flush_idle:
  assumes "await (poll_flush (tokio_writer (tokio_default_writer c W))) a = (Ok (), a')"
  shows "async_idle (aw_writer a')"
proof -
  obtain a0 where "poll_flush (tokio_writer (tokio_default_writer c W)) a0 = (Ok (Ready ()), a')"
    using await_ready [OF assms] by blast
  then show ?thesis
    by (auto simp: tokio_writer_def on_aw_writer_def io_within_def dest: default_flush_idle split: prod.splits)
qed

text \<open>A packet ends with a flush.\<close>

lemma async_packet_flushed:
  fixes E0 :: "('q, ('k, 'w) async_default_writer) async_writer write_ext"
  assumes E0: "ext_flush E0 = await (poll_flush (tokio_writer (tokio_default_writer c W)))"
    and run: "write_packet_internal t level (tokio_write_stream D E0 E1 E2) i pkt a = (Ok (), a')"
  shows "async_idle (aw_writer a')"
  using run unfolding write_packet_internal_def
  by (auto simp: Let_def io_bind_def io_map_err_def tokio_write_stream_def tokio_io_writer_def E0 dest: async_flush_idle
      split: prod.splits outcome.splits)

section \<open>What the libraries document\<close>

definition write_libs ::
  "('w, 'y) async_write_scheme \<Rightarrow> ('q, 'w) async_writer write_ext \<Rightarrow> 'w write_ext \<Rightarrow> ('q, 'w) async_writer write_ext \<Rightarrow> bool" where
  "write_libs A E0 E1 E2 \<longleftrightarrow> write_ext_of (tokio_writer A) E0 \<and> write_ext_of A E1 \<and> write_ext_of (tokio_writer (tokio_sink A)) E2"

text \<open>
  \<open>T\<close> reads the \<open>BufReader\<close>, which \<open>B\<close> shows; \<open>Tt\<close> and \<open>Bt\<close> are its \<open>Take\<close>, and \<open>Tc\<close> is the \<open>Take\<close> of the
  decompressing reader.
\<close>

definition tokio_read_libs ::
  "'z inflater \<Rightarrow> 'b tokio_read \<Rightarrow> 'b async_buf_read \<Rightarrow> ('b, 't) take_lib \<Rightarrow> 't tokio_read \<Rightarrow> 't async_buf_read \<Rightarrow>
   (('z, 't) async_decompression, 'c) take_lib \<Rightarrow> 'c tokio_read \<Rightarrow> ('z, 'b) async_reader tokio_read_ext \<Rightarrow>
   ('z, 't) async_reader tokio_read_ext \<Rightarrow> 'c tokio_read_ext \<Rightarrow> bool" where
  "tokio_read_libs I T B L Tt Bt M Tc E0 E1 E2 \<longleftrightarrow>
     take_keeps L \<and> tokio_takes L T Tt \<and> takes_buf L B Bt \<and>
     take_keeps M \<and> tokio_takes M (tokio_decompression_read I Bt) Tc \<and>
     tokio_ext_of (tokio_reader_read T) E0 \<and> tokio_ext_of (tokio_reader_read Tt) E1 \<and> tokio_ext_of Tc E2"

definition futures_read_libs ::
  "'z inflater \<Rightarrow> 'b futures_read \<Rightarrow> 'b async_buf_read \<Rightarrow> ('b, 't) take_lib \<Rightarrow> 't futures_read \<Rightarrow> 't async_buf_read \<Rightarrow>
   (('z, 't) async_decompression, 'c) take_lib \<Rightarrow> 'c futures_read \<Rightarrow> ('z, 'b) async_reader futures_read_ext \<Rightarrow>
   ('z, 't) async_reader futures_read_ext \<Rightarrow> 'c futures_read_ext \<Rightarrow> bool" where
  "futures_read_libs I F B L Ft Bt M Fc E0 E1 E2 \<longleftrightarrow>
     take_keeps L \<and> takes L F Ft \<and> takes_buf L B Bt \<and>
     take_keeps M \<and> takes M (futures_decompression_read I Bt) Fc \<and>
     futures_ext_of (futures_reader_read F) E0 \<and> futures_ext_of (futures_reader_read Ft) E1 \<and> futures_ext_of Fc E2"

text \<open>The stream of a reader whose bytes come in any pieces, with any polls pending between them.\<close>

lemma tokio_libs_stream:
  assumes libs: "tokio_read_libs I T B L Tt Bt M Tc E0 E1 E2" and T: "appends T F" "lawful_poll_read F V waits"
  shows "lawful_stream (tokio_read_stream I L M E0 E1 E2) (async_view V) (async_bound L V)"
  using libs tokio_ext_reads [OF T, of E0 L Tt E1] unfolding tokio_read_libs_def by (intro lawful_tokio_stream) auto

lemma futures_libs_stream:
  assumes libs: "futures_read_libs I F B L Ft Bt M Fc E0 E1 E2" and F: "lawful_poll_read F V waits"
  shows "lawful_stream (futures_read_stream I L M E0 E1 E2) (async_view V) (async_bound L V)"
  using libs futures_ext_reads [OF F, of E0 L Ft E1] unfolding futures_read_libs_def by (intro lawful_futures_stream) auto

text \<open>And of one whose buffer holds all of them, with compressed packets too.\<close>

lemma tokio_libs_inflating:
  assumes libs: "tokio_read_libs I T B L Tt Bt M Tc E0 E1 E2" and T: "appends T F" "lawful_poll_read F V waits" "shows_all B V"
    and I: "inflates_whole I Z"
  shows "lawful_inflating (tokio_read_stream I L M E0 E1 E2) (async_view V) (async_bound L V)
    (async_inflating_bound L M V Z) (\<lambda>zs out. \<forall>z. Z (reset I z) zs out)"
  using libs tokio_ext_reads [OF T(1,2), of E0 L Tt E1] tokio_inflating_reads [OF _ T(3) I, of L Bt M Tc E2]
  unfolding tokio_read_libs_def by (intro lawful_inflating_tokio) auto

lemma futures_libs_inflating:
  assumes libs: "futures_read_libs I F B L Ft Bt M Fc E0 E1 E2" and F: "lawful_poll_read F V waits" "shows_all B V"
    and I: "inflates_whole I Z"
  shows "lawful_inflating (futures_read_stream I L M E0 E1 E2) (async_view V) (async_bound L V)
    (async_inflating_bound L M V Z) (\<lambda>zs out. \<forall>z. Z (reset I z) zs out)"
  using libs futures_ext_reads [OF F(1), of E0 L Ft E1] futures_inflating_reads [OF _ F(2) I, of L Bt M Fc E2]
  unfolding futures_read_libs_def by (intro lawful_inflating_futures) auto

section \<open>Writing through the provider\<close>

abbreviation async_threshold :: "('b, 'z, 'k, 'w, 'q) async_provider protocol_handler \<Rightarrow> nat option" where
  "async_threshold h \<equiv> apr_threshold (provider h)"

text \<open>The packet is on the stream behind what was sent before; or it is too large, and nothing of it was accepted.\<close>

definition async_packet_sent ::
  "'k cipher \<Rightarrow> ('w \<Rightarrow> byte list \<Rightarrow> bool) \<Rightarrow> 'k \<Rightarrow> byte list \<Rightarrow> byte list \<Rightarrow>
   ((unit, io_error write_error) outcome \<times> ('b, 'z, 'k, 'w, 'q) async_provider protocol_handler) option \<Rightarrow> bool" where
  "async_packet_sent enc V k0 sent0 sent run \<longleftrightarrow> (\<exists>h'. run = Some (Ok (), h') \<and>
     async_delivered enc V k0 sent0 (apr_writer (provider h')) sent \<and> adw_view enc V k0 sent0 (apr_writer (provider h')) sent)"

definition async_packet_refused ::
  "'k cipher \<Rightarrow> ('w \<Rightarrow> byte list \<Rightarrow> bool) \<Rightarrow> 'k \<Rightarrow> byte list \<Rightarrow> byte list \<Rightarrow> nat \<Rightarrow>
   ((unit, io_error write_error) outcome \<times> ('b, 'z, 'k, 'w, 'q) async_provider protocol_handler) option \<Rightarrow> bool" where
  "async_packet_refused enc V k0 sent0 sent n run \<longleftrightarrow> (\<exists>h' name. run = Some (Err (WOverSized name MAX_PACKET_SIZE n), h') \<and>
     adw_view enc V k0 sent0 (apr_writer (provider h')) sent)"

lemma async_handler_writes:
  fixes h :: "('b, 'z, 'k, 'w, 'q) async_provider protocol_handler"
  assumes E: "write_libs (tokio_default_writer enc W) E0 E1 E2"
    and frame: "wire_written (async_sent (adw_view enc V k0 sent0)) sent label frame
      (write_packet_internal (async_threshold h) (apr_level (provider h)) (tokio_write_stream D E0 E1 E2) i pkt)
      \<lparr>aw_state = apr_compression_state (provider h), aw_writer = apr_writer (provider h)\<rparr>"
    and i: "writer_packet_id p (handler_state h) name = Some i"
  shows "if length frame \<le> MAX_PACKET_SIZE
    then async_packet_sent enc V k0 sent0 (sent @ wire_frame frame) (async_write_packet p (tokio_write_stream D E0 E1 E2) h name pkt)
    else async_packet_refused enc V k0 sent0 sent (length frame) (async_write_packet p (tokio_write_stream D E0 E1 E2) h name pkt)"
proof -
  let ?a = "\<lparr>aw_state = apr_compression_state (provider h), aw_writer = apr_writer (provider h)\<rparr>"
  let ?m = "write_packet_internal (async_threshold h) (apr_level (provider h)) (tokio_write_stream D E0 E1 E2) i pkt"
  obtain res a' where run: "?m ?a = (res, a')" by fastforce
  have flush: "ext_flush E0 = await (poll_flush (tokio_writer (tokio_default_writer enc W)))"
    using E by (simp add: write_libs_def write_ext_of_def)
  have "async_write_packet p (tokio_write_stream D E0 E1 E2) h name pkt =
      Some (res, h\<lparr>provider := (provider h)\<lparr>apr_compression_state := aw_state a', apr_writer := aw_writer a'\<rparr>\<rparr>)"
    by (simp add: async_write_packet_def async_write_packet_internal_def i on_provider_def tokio_on_write_stream_def io_within_def run)
  moreover have "async_delivered enc V k0 sent0 (aw_writer a') bs"
    if "res = Ok ()" "async_sent (adw_view enc V k0 sent0) a' bs" for bs
    using that idle_delivered [OF _ async_packet_flushed [OF flush]] run by (auto simp: async_sent_def)
  ultimately show ?thesis
    using frame
    by (auto simp: wire_written_def gives_def fails_def run async_packet_sent_def async_packet_refused_def async_sent_def
        split: if_splits)
qed

section \<open>Reading through the provider\<close>

text \<open>\<open>async_peer_holds\<close>: the bytes \<open>bs\<close> are what the reader of the peer will still be given, in the view \<open>U\<close>.\<close>

definition async_peer_holds ::
  "('b \<Rightarrow> byte list \<Rightarrow> bool) \<Rightarrow> state \<Rightarrow> nat option \<Rightarrow> ('b, 'z, 'k, 'w, 'q) async_provider protocol_handler \<Rightarrow> byte list \<Rightarrow> bool" where
  "async_peer_holds U s threshold h bs \<longleftrightarrow> handler_state h = s \<and> async_threshold h = threshold \<and> U (apr_reader (provider h)) bs"

lemma async_handler_reads:
  assumes read: "\<And>r. async_view U r bs \<Longrightarrow> \<exists>r'. read_packet p s threshold S H r = (res, r') \<and> async_view U r' rest"
    and h: "async_peer_holds U s threshold h bs"
  shows "\<exists>h'. async_read_packet p S H h = (res, h') \<and> async_peer_holds U s threshold h' rest"
proof -
  obtain r' where "read_packet p s threshold S H
      \<lparr>ar_state = apr_decompression_state (provider h), ar_reader = apr_reader (provider h)\<rparr> = (res, r')" "async_view U r' rest"
    using read [of "\<lparr>ar_state = apr_decompression_state (provider h), ar_reader = apr_reader (provider h)\<rparr>"] h
    by (auto simp: async_peer_holds_def async_view_def)
  with h show ?thesis
    by (auto simp: async_read_packet_def on_provider_def tokio_on_read_stream_def io_within_def async_peer_holds_def async_view_def)
qed

end
