(* ===== verification/Async_Instances.thy ===== *)
theory Async_Instances
  imports Async_Session Sync_Instances
begin

text \<open>
  Instances of what the asynchronous code takes from tokio and futures, on which its contracts are
  interpreted: a stream that is not ready at some of its polls, the loops of the extension traits over
  any stream, \<open>Take\<close> and \<open>BufReader\<close>.  They satisfy what \<open>Async_IO\<close>, \<open>Async_Read\<close> and \<open>Async_Inflate\<close> take
  as documented behaviour.
\<close>

section \<open>A stream that is not always ready\<close>

text \<open>One turn for each poll: \<open>True\<close> is a poll that finds the stream not ready; after the last turn it is.\<close>

definition gated :: "('s, 'a poll, 'e) io \<Rightarrow> ('s \<times> bool list, 'a poll, 'e) io" where
  "gated m = (\<lambda>(s, turns). case turns of
     True # ts \<Rightarrow> (Ok Pending, (s, ts))
   | _ \<Rightarrow> (case m s of (res, s') \<Rightarrow> (res, (s', tl turns))))"

definition gated_write :: "nat \<Rightarrow> (byte list \<times> bool list) async_write" where
  "gated_write room =
     \<lparr>poll_write = (\<lambda>buf. gated (\<lambda>w. (Ok (Ready (min room (length buf))), w @ take room buf))),
      poll_flush = gated (\<lambda>w. (Ok (Ready ()), w)),
      poll_shutdown = gated (\<lambda>w. (Ok (Ready ()), w))\<rparr>"

definition gated_read :: "nat \<Rightarrow> (byte list \<times> bool list) futures_read" where
  "gated_read room n = gated (\<lambda>bs. (Ok (Ready (take (min n room) bs)), drop (min n room) bs))"

definition turns_left :: "(('s \<times> bool list) \<times> ('s \<times> bool list)) set" where
  "turns_left = measure (\<lambda>s. length (snd s))"

lemma gated_polls:
  assumes "m s = (Ok (Ready a), s')" and "\<And>ts. Q a (s', ts)"
  shows "polls (gated m) (s, turns) Q (\<lambda>s'. fst s' = s \<and> (s', (s, turns)) \<in> turns_left)"
proof (cases "\<exists>ts. turns = True # ts")
  case True
  then show ?thesis by (auto simp: polls_def gated_def turns_left_def)
next
  case False
  then have "gated m (s, turns) = (Ok (Ready a), (s', tl turns))"
    using assms(1) by (auto simp: gated_def split: list.splits bool.splits)
  with assms(2) show ?thesis by (intro polls_ready)
qed

interpretation gated_sink: lawful_poll_write "gated_write (Suc room)" "\<lambda>w sent. fst w = sent" turns_left for room
proof (rule lawful_poll_write.intro)
  show "wf turns_left" by (simp add: turns_left_def)
  fix w :: "byte list \<times> bool list" and sent buf
  assume "fst w = sent"
  then obtain turns where w: "w = (sent, turns)" by (cases w) simp
  show "polls (poll_write (gated_write (Suc room)) buf) w
      (\<lambda>k w'. fst w' = sent @ take k buf \<and> k \<le> length buf \<and> (buf \<noteq> [] \<longrightarrow> 0 < k)) (\<lambda>w'. fst w' = sent \<and> (w', w) \<in> turns_left)"
    unfolding w gated_write_def by (simp, rule gated_polls) (auto simp: min_def)
  show "polls (poll_flush (gated_write (Suc room))) w (\<lambda>_ w'. fst w' = sent) (\<lambda>w'. fst w' = sent \<and> (w', w) \<in> turns_left)"
    unfolding w gated_write_def by (simp, rule gated_polls) auto
qed

lemma clipped: "take (min k (length bs)) bs = take k bs" "drop (min k (length bs)) bs = drop k bs"
  by (cases "k \<le> length bs"; simp)+

interpretation gated_source: lawful_poll_read "gated_read (Suc room)" "\<lambda>r bs. fst r = bs" turns_left for room
proof (rule lawful_poll_read.intro)
  show "wf turns_left" by (simp add: turns_left_def)
  fix r :: "byte list \<times> bool list" and bs n
  assume "fst r = bs"
  then obtain turns where r: "r = (bs, turns)" by (cases r) simp
  let ?k = "min (min n (Suc room)) (length bs)"
  have parts: "take (min n (Suc room)) bs = take ?k bs" "drop (min n (Suc room)) bs = drop ?k bs"
    by (rule clipped [symmetric])+
  show "polls (gated_read (Suc room) n) r
      (\<lambda>os r'. \<exists>k. os = take k bs \<and> fst r' = drop k bs \<and> k \<le> n \<and> k \<le> length bs \<and> (0 < n \<and> bs \<noteq> [] \<longrightarrow> 0 < k))
      (\<lambda>r'. fst r' = bs \<and> (r', r) \<in> turns_left)"
    unfolding r gated_read_def by (rule gated_polls, rule refl, rule exI [of _ ?k]) (auto intro!: parts)
qed

section \<open>The loops of the extension traits\<close>

partial_function (option) poll_write_all ::
  "('w, 'y) async_write_scheme \<Rightarrow> byte list \<Rightarrow> 'w \<Rightarrow> ((unit, io_error) outcome \<times> 'w) option" where
  "poll_write_all A buf w =
     (if buf = [] then Some (Ok (), w)
      else case await (poll_write A buf) w of
        (Ok n, w) \<Rightarrow> if n = 0 then Some (Err WriteZero, w) else poll_write_all A (drop n buf) w
      | (Err e, w) \<Rightarrow> Some (Err e, w)
      | (Panic, w) \<Rightarrow> Some (Panic, w)
      | (Diverge, w) \<Rightarrow> Some (Diverge, w))"

definition polled_write_ext :: "('w, 'y) async_write_scheme \<Rightarrow> 'w write_ext" where
  "polled_write_ext A = \<lparr>ext_write_all = \<lambda>buf. io_total (poll_write_all A buf), ext_flush = await (poll_flush A)\<rparr>"

context lawful_poll_write
begin

lemma write_awaited:
  assumes "V w sent" and "buf \<noteq> []"
  shows "\<exists>k w'. await (poll_write W buf) w = (Ok k, w') \<and> V w' (sent @ take k buf) \<and> k \<le> length buf \<and> 0 < k"
  using await_ends [where I = "\<lambda>w. V w sent", OF wf_waits assms(1) polls_write, of buf] assms(2) by auto

lemma write_all_polled: "V w sent \<Longrightarrow> \<exists>w'. poll_write_all W buf w = Some (Ok (), w') \<and> V w' (sent @ buf)"
proof (induction "length buf" arbitrary: buf w sent rule: less_induct)
  case less
  show ?case
  proof (cases "buf = []")
    case True
    with less.prems show ?thesis by (simp add: poll_write_all.simps)
  next
    case False
    then obtain k w1 where k: "await (poll_write W buf) w = (Ok k, w1)" "V w1 (sent @ take k buf)" "k \<le> length buf" "0 < k"
      using write_awaited [OF less.prems] by blast
    have "poll_write_all W buf w = poll_write_all W (drop k buf) w1"
      using False k(1,4) by (simp add: poll_write_all.simps [of W buf w])
    with less.hyps [OF _ k(2), of "drop k buf"] k(3,4) False show ?thesis by auto
  qed
qed

end

lemma polled_write_ext: "write_ext_of A (polled_write_ext A)"
  unfolding write_ext_of_def
proof (intro conjI allI impI)
  show "gives (ext_write_all (polled_write_ext A) buf) w () (\<lambda>w'. V w' (sent @ buf))"
    if "lawful_poll_write A V waits" "V w sent" for V waits w sent buf
    using lawful_poll_write.write_all_polled [OF that, of buf] by (auto simp: polled_write_ext_def gives_def io_total_def)
qed (simp add: polled_write_ext_def)

partial_function (option) poll_read_all ::
  "'r futures_read \<Rightarrow> nat \<Rightarrow> byte list \<Rightarrow> 'r \<Rightarrow> ((byte list, io_error) outcome \<times> 'r) option" where
  "poll_read_all F n acc r =
     (if n = 0 then Some (Ok acc, r)
      else case await (F n) r of
        (Ok os, r) \<Rightarrow> if os = [] then Some (Err UnexpectedEof, r) else poll_read_all F (n - length os) (acc @ os) r
      | (Err e, r) \<Rightarrow> Some (Err e, r)
      | (Panic, r) \<Rightarrow> Some (Panic, r)
      | (Diverge, r) \<Rightarrow> Some (Diverge, r))"

partial_function (option) poll_copy ::
  "'r futures_read \<Rightarrow> nat \<Rightarrow> nat \<Rightarrow> 'r \<Rightarrow> ((nat, io_error) outcome \<times> 'r) option" where
  "poll_copy F n copied r =
     (if n = 0 then Some (Ok copied, r)
      else case await (F (min n 8192)) r of
        (Ok os, r) \<Rightarrow> if os = [] then Some (Ok copied, r) else poll_copy F (n - length os) (copied + length os) r
      | (Err e, r) \<Rightarrow> Some (Err e, r)
      | (Panic, r) \<Rightarrow> Some (Panic, r)
      | (Diverge, r) \<Rightarrow> Some (Diverge, r))"

context lawful_poll_read
begin

lemma read_awaited:
  assumes "V r bs" and "0 < n"
  shows "\<exists>k r'. await (F n) r = (Ok (take k bs), r') \<and> V r' (drop k bs) \<and> k \<le> n \<and> k \<le> length bs \<and> (bs \<noteq> [] \<longrightarrow> 0 < k)"
  using await_ends [where I = "\<lambda>r. V r bs", OF wf_read_waits assms(1) polls_read, of n] assms(2) by auto

lemma read_all_polled:
  "V r bs \<Longrightarrow> \<exists>r'. poll_read_all F n acc r = Some (if n \<le> length bs then Ok (acc @ take n bs) else Err UnexpectedEof, r') \<and> V r' (drop n bs)"
proof (induction n arbitrary: acc r bs rule: less_induct)
  case (less n)
  show ?case
  proof (cases "n = 0")
    case True
    with less.prems show ?thesis by (simp add: poll_read_all.simps)
  next
    case False
    then obtain k r1 where k: "await (F n) r = (Ok (take k bs), r1)" "V r1 (drop k bs)" "k \<le> n" "k \<le> length bs" "bs \<noteq> [] \<longrightarrow> 0 < k"
      using read_awaited [OF less.prems, of n] by blast
    show ?thesis
    proof (cases "bs = []")
      case True
      with False k show ?thesis by (simp add: poll_read_all.simps [of F n])
    next
      case more: False
      then have "0 < k" and "take k bs \<noteq> []" using k(5) by auto
      then have "poll_read_all F n acc r = poll_read_all F (n - k) (acc @ take k bs) r1"
        using False k(1,4) by (simp add: poll_read_all.simps [of F n])
      moreover have "take k bs @ take (n - k) (drop k bs) = take n bs" using k(3) by (metis take_add le_add_diff_inverse)
      ultimately show ?thesis
        using less.IH [OF _ k(2), of "n - k" "acc @ take k bs"] \<open>0 < k\<close> False k(3,4) by auto
    qed
  qed
qed

lemma copy_polled:
  "V r bs \<Longrightarrow> \<exists>r'. poll_copy F n copied r = Some (Ok (copied + min n (length bs)), r') \<and> V r' (drop n bs)"
proof (induction n arbitrary: copied r bs rule: less_induct)
  case (less n)
  show ?case
  proof (cases "n = 0")
    case True
    with less.prems show ?thesis by (simp add: poll_copy.simps)
  next
    case False
    then obtain k r1 where k: "await (F (min n 8192)) r = (Ok (take k bs), r1)" "V r1 (drop k bs)" "k \<le> min n 8192" "k \<le> length bs"
        "bs \<noteq> [] \<longrightarrow> 0 < k"
      using read_awaited [OF less.prems, of "min n 8192"] by auto
    show ?thesis
    proof (cases "bs = []")
      case True
      with False k show ?thesis by (simp add: poll_copy.simps [of F n])
    next
      case more: False
      then have "0 < k" and "take k bs \<noteq> []" using k(5) by auto
      then have "poll_copy F n copied r = poll_copy F (n - k) (copied + k) r1"
        using False k(1,4) by (simp add: poll_copy.simps [of F n])
      moreover have sum: "copied + k + min (n - k) (length (drop k bs)) = copied + min n (length bs)" and "n - k + k = n"
        using k(3,4) by auto
      ultimately show ?thesis
        using less.IH [OF _ k(2), of "n - k" "copied + k", unfolded sum] \<open>0 < k\<close> False by simp
    qed
  qed
qed

end

definition polled_read_ext :: "'r futures_read \<Rightarrow> 'r futures_read_ext" where
  "polled_read_ext F =
     \<lparr>ext_read_exact = \<lambda>n. io_total (poll_read_all F n []),
      ext_copy_take = \<lambda>n. io_total (poll_copy F n 0),
      ext_poll_read_exact = \<lambda>n. poll_bind (F n) (\<lambda>os. case os of [] \<Rightarrow> io_err UnexpectedEof | b # _ \<Rightarrow> io_ret (Ready [b]))\<rparr>"

lemma polled_read_ext: "futures_ext_of F (polled_read_ext F)"
  unfolding futures_ext_of_def reads_exactly_def
proof (intro allI impI)
  fix V waits r bs n
  assume F: "lawful_poll_read F V waits" and r: "V r bs"
  show "(\<exists>r'. V r' (drop n bs) \<and> ext_read_exact (polled_read_ext F) n r = (if n \<le> length bs then Ok (take n bs) else Err UnexpectedEof, r')) \<and>
    (\<exists>r'. V r' (drop n bs) \<and> ext_copy_take (polled_read_ext F) n r = (Ok (min n (length bs)), r'))"
    using lawful_poll_read.read_all_polled [OF F r, of n "[]"] lawful_poll_read.copy_polled [OF F r, of n 0]
    by (auto simp: polled_read_ext_def io_total_def)
qed

text \<open>A tokio stream is read through an empty buffer.\<close>

definition stores :: "'r tokio_read \<Rightarrow> 'r futures_read" where
  "stores T n = (\<lambda>r. case T (r, \<lparr>rb_filled = [], rb_capacity = n\<rparr>) of
     (Ok Pending, (r, buf)) \<Rightarrow> (Ok Pending, r)
   | (Ok (Ready _), (r, buf)) \<Rightarrow> (Ok (Ready (rb_filled buf)), r)
   | (Err e, (r, buf)) \<Rightarrow> (Err e, r)
   | (Panic, (r, buf)) \<Rightarrow> (Panic, r)
   | (Diverge, (r, buf)) \<Rightarrow> (Diverge, r))"

lemma appends_stores:
  assumes "appends T F"
  shows "stores T = F"
proof (intro ext)
  fix n r
  obtain res r' where run: "F n r = (res, r')" by fastforce
  then have "T (r, \<lparr>rb_filled = [], rb_capacity = n\<rparr>) = appending \<lparr>rb_filled = [], rb_capacity = n\<rparr> (res, r')"
    by (simp add: appendsD [OF assms] unfilled_def)
  then show "stores T n r = F n r"
    by (cases res rule: poll_answer_cases) (simp_all add: run stores_def)
qed

definition tokio_of :: "'r futures_read \<Rightarrow> 'r tokio_read" where
  "tokio_of F = (\<lambda>(r, buf). appending buf (F (unfilled buf) r))"

lemma appends_tokio_of: "appends (tokio_of F) F"
  by (simp add: appends_def tokio_of_def)

definition polled_tokio_ext :: "'r tokio_read \<Rightarrow> 'r tokio_read_ext" where
  "polled_tokio_ext T =
     \<lparr>ext_read_exact = ext_read_exact (polled_read_ext (stores T)),
      ext_copy_take = ext_copy_take (polled_read_ext (stores T)),
      ext_poll_read_u8 = poll_bind (stores T 1) (\<lambda>os. case os of [] \<Rightarrow> io_err UnexpectedEof | b # _ \<Rightarrow> io_ret (Ready b))\<rparr>"

lemma polled_tokio_ext: "tokio_ext_of T (polled_tokio_ext T)"
  unfolding tokio_ext_of_def
proof (intro allI impI)
  fix F V waits
  assume T: "appends T F" and F: "lawful_poll_read F V waits"
  have "reads_exactly (polled_read_ext F) V"
    using polled_read_ext [of F] F unfolding futures_ext_of_def by blast
  then show "reads_exactly (polled_tokio_ext T) V"
    unfolding reads_exactly_def by (simp add: polled_tokio_ext_def appends_stores [OF T])
qed

lemma polled_tokio_u8: "appends T F \<Longrightarrow> polls_a_byte F (ext_poll_read_u8 (polled_tokio_ext T))"
  by (simp add: polls_a_byte_def polled_tokio_ext_def appends_stores)

lemma polled_futures_byte: "polls_one_byte F (ext_poll_read_exact (polled_read_ext F) 1)"
  by (simp add: polls_one_byte_def polled_read_ext_def)

section \<open>Take and BufReader\<close>

definition taken_lib :: "('r, 'r taken) take_lib" where
  "taken_lib = \<lparr>take_new = \<lambda>r n. \<lparr>inner = r, limit = n\<rparr>, take_limit = limit, take_into_inner = inner\<rparr>"

definition polled_take :: "'r futures_read \<Rightarrow> 'r taken futures_read" where
  "polled_take F n = (\<lambda>t.
     if limit t = 0 then (Ok (Ready []), t)
     else case F (min n (limit t)) (inner t) of (res, r) \<Rightarrow>
       (res, \<lparr>inner = r, limit = limit t - (case res of Ok (Ready os) \<Rightarrow> length os | _ \<Rightarrow> 0)\<rparr>))"

definition polled_buf_take :: "('r, 'x) async_buf_read_scheme \<Rightarrow> 'r taken async_buf_read" where
  "polled_buf_take B =
     \<lparr>poll_fill_buf = (\<lambda>t.
        if limit t = 0 then (Ok (Ready []), t)
        else case poll_fill_buf B (inner t) of (res, r) \<Rightarrow>
          (case res of Ok (Ready buf) \<Rightarrow> Ok (Ready (take (limit t) buf)) | _ \<Rightarrow> res, t\<lparr>inner := r\<rparr>)),
      consume_buf = (\<lambda>k t. \<lparr>inner = consume_buf B (min k (limit t)) (inner t), limit = limit t - min k (limit t)\<rparr>)\<rparr>"

lemma taken_lib_keeps: "take_keeps taken_lib"
  by (simp add: take_keeps_def taken_lib_def)

lemma polled_take: "takes taken_lib F (polled_take F)"
  by (auto simp: takes_def taken_lib_def polled_take_def)

lemma polled_tokio_take: "tokio_takes taken_lib T (tokio_of (polled_take (stores T)))"
  by (auto simp: tokio_takes_def appends_stores intro: appends_tokio_of polled_take)

lemma polled_buf_take: "takes_buf taken_lib B (polled_buf_take B)"
  unfolding takes_buf_def taken_lib_def polled_buf_take_def by (simp split: prod.split outcome.split poll.split)

definition polled_fill :: "'r futures_read \<Rightarrow> ('r buf_reader, byte list poll, io_error) io" where
  "polled_fill F = (\<lambda>b.
     if buffered b = [] then case F (buf_capacity b) (source b) of
         (Ok (Ready os), r) \<Rightarrow> (Ok (Ready os), b\<lparr>source := r, buffered := os\<rparr>)
       | (res, r) \<Rightarrow> (res, b\<lparr>source := r\<rparr>)
     else (Ok (Ready (buffered b)), b))"

definition polled_buf :: "'r futures_read \<Rightarrow> 'r buf_reader async_buf_read" where
  "polled_buf F = \<lparr>poll_fill_buf = polled_fill F, consume_buf = \<lambda>k b. b\<lparr>buffered := drop k (buffered b)\<rparr>\<rparr>"

definition polled_buf_read :: "'r futures_read \<Rightarrow> 'r buf_reader futures_read" where
  "polled_buf_read F n = poll_bind (polled_fill F)
     (\<lambda>buf b. (Ok (Ready (take n buf)), b\<lparr>buffered := drop n (buffered b)\<rparr>))"

definition buf_reader_lib :: "('r, 'r buf_reader) buf_reader_lib" where
  "buf_reader_lib =
     \<lparr>br_new = \<lambda>n r. \<lparr>source = r, buffered = [], buf_capacity = n\<rparr>, br_get = source, br_put = \<lambda>r b. b\<lparr>source := r\<rparr>,
      br_buffer = buffered, br_capacity = buf_capacity\<rparr>"

lemma buf_reader_lib_keeps: "br_keeps buf_reader_lib"
  by (simp add: br_keeps_def buf_reader_lib_def)

context lawful_poll_read
begin

lemma fill_polled:
  assumes b: "br_view buf_reader_lib V b bs"
  shows "polls (polled_fill F) b
    (\<lambda>buf b'. \<exists>cs. bs = buf @ cs \<and> buffered b' = buf \<and> V (source b') cs \<and> 0 < buf_capacity b' \<and> (bs \<noteq> [] \<longrightarrow> buf \<noteq> []))
    (\<lambda>b'. br_view buf_reader_lib V b' bs \<and> (b', b) \<in> inv_image waits source)"
proof -
  obtain cs where b': "V (source b) cs" "bs = buffered b @ cs" "0 < buf_capacity b"
    using b by (auto simp: br_view_def buf_reader_lib_def)
  show ?thesis
  proof (cases "buffered b = []")
    case True
    with b' polls_read [OF b'(1), of "buf_capacity b"] show ?thesis
    proof (elim polls_cases, goal_cases)
      case (1 os r')
      then obtain k where k: "os = take k cs" "V r' (drop k cs)" "cs \<noteq> [] \<longrightarrow> 0 < k" by blast
      have "polled_fill F b = (Ok (Ready os), b\<lparr>source := r', buffered := os\<rparr>)"
        using True 1 by (simp add: polled_fill_def)
      with k True b' show ?case by (intro polls_ready exI [of _ "drop k cs"]) auto
    next
      case (2 r')
      have "polled_fill F b = (Ok Pending, b\<lparr>source := r'\<rparr>)"
        using True 2 by (simp add: polled_fill_def)
      with 2 show ?case by (intro polls_pending) (auto simp: br_view_def buf_reader_lib_def)
    qed
  next
    case False
    with b' show ?thesis by (auto simp: polls_def polled_fill_def)
  qed
qed

lemma buf_reader_polled: "lawful_poll_buf_read (polled_buf_read F) (br_view buf_reader_lib V) (inv_image waits source) (polled_buf F)"
proof (intro lawful_poll_buf_read.intro lawful_poll_read.intro lawful_poll_buf_read_axioms.intro)
  show "wf (inv_image waits source)" by (rule wf_inv_image [OF wf_read_waits])
  fix b bs
  assume b: "br_view buf_reader_lib V b bs"
  show "polls (poll_fill_buf (polled_buf F)) b
      (\<lambda>buf b'. br_view buf_reader_lib V b' bs \<and> (\<exists>k. buf = take k bs \<and> k \<le> length bs \<and> (bs \<noteq> [] \<longrightarrow> 0 < k)) \<and>
        (\<forall>j \<le> length buf. br_view buf_reader_lib V (consume_buf (polled_buf F) j b') (drop j bs)))
      (\<lambda>b'. br_view buf_reader_lib V b' bs \<and> (b', b) \<in> inv_image waits source)"
    using fill_polled [OF b]
  proof (cases rule: polls_cases)
    case (ready buf b')
    then obtain cs where cs: "bs = buf @ cs" "buffered b' = buf" "V (source b') cs" "0 < buf_capacity b'" "bs \<noteq> [] \<longrightarrow> buf \<noteq> []"
      by blast
    have "\<exists>k. buf = take k bs \<and> k \<le> length bs \<and> (bs \<noteq> [] \<longrightarrow> 0 < k)"
      using cs(1,5) by (intro exI [of _ "length buf"]) auto
    with ready(1) cs show ?thesis
      by (intro polls_ready [where a = buf and s' = b']) (auto simp: polled_buf_def br_view_def buf_reader_lib_def)
  next
    case (pending b')
    then show ?thesis by (intro polls_pending) (auto simp: polled_buf_def)
  qed
  show "polls (polled_buf_read F n) b
      (\<lambda>os b'. \<exists>k. os = take k bs \<and> br_view buf_reader_lib V b' (drop k bs) \<and> k \<le> n \<and> k \<le> length bs \<and> (0 < n \<and> bs \<noteq> [] \<longrightarrow> 0 < k))
      (\<lambda>b'. br_view buf_reader_lib V b' bs \<and> (b', b) \<in> inv_image waits source)" for n
    unfolding polled_buf_read_def
  proof (rule polls_bind [OF fill_polled [OF b]])
    fix buf and b' :: "'r buf_reader"
    assume "\<exists>cs. bs = buf @ cs \<and> buffered b' = buf \<and> V (source b') cs \<and> 0 < buf_capacity b' \<and> (bs \<noteq> [] \<longrightarrow> buf \<noteq> [])"
    then obtain cs where cs: "bs = buf @ cs" "buffered b' = buf" "V (source b') cs" "0 < buf_capacity b'" "bs \<noteq> [] \<longrightarrow> buf \<noteq> []"
      by blast
    let ?k = "min n (length buf)"
    have k: "take n buf = take ?k bs" "drop ?k bs = drop n buf @ cs" "?k \<le> n" "?k \<le> length bs" "0 < n \<and> bs \<noteq> [] \<longrightarrow> 0 < ?k"
      using cs(5) by (auto simp: cs(1) clipped)
    have "br_view buf_reader_lib V (b'\<lparr>buffered := drop n buf\<rparr>) (drop ?k bs)"
      unfolding k(2) using cs(3,4) by (simp add: br_view_def buf_reader_lib_def)
    with cs(2) k(1,3,4,5)
    show "polls (\<lambda>b. (Ok (Ready (take n buf)), b\<lparr>buffered := drop n (buffered b)\<rparr>)) b'
        (\<lambda>os b'. \<exists>k. os = take k bs \<and> br_view buf_reader_lib V b' (drop k bs) \<and> k \<le> n \<and> k \<le> length bs \<and> (0 < n \<and> bs \<noteq> [] \<longrightarrow> 0 < k))
        (\<lambda>b'. br_view buf_reader_lib V b' bs \<and> (b', b) \<in> inv_image waits source)"
      unfolding polls_def by blast
  qed
qed

end

lemma polled_buffers: "buffers buf_reader_lib F (polled_buf_read F) (polled_buf F)"
  unfolding buffers_def by (blast intro: lawful_poll_read.buf_reader_polled)

lemma polled_tokio_buffers: "tokio_buffers buf_reader_lib T (tokio_of (polled_buf_read (stores T))) (polled_buf (stores T))"
  by (auto simp: tokio_buffers_def appends_stores intro: appends_tokio_of polled_buffers)

text \<open>A buffer that holds all that will come.\<close>

definition polled_whole :: "'r futures_read \<Rightarrow> 'r buf_reader \<Rightarrow> byte list \<Rightarrow> bool" where
  "polled_whole F b bs \<longleftrightarrow> 0 < buf_capacity b \<and> buffered b = bs \<and> (\<forall>n. F n (source b) = (Ok (Ready []), source b))"

lemma polled_whole_fill: "polled_whole F b bs \<Longrightarrow> polled_fill F b = (Ok (Ready bs), b)"
  by (cases b) (auto simp: polled_whole_def polled_fill_def)

lemma polled_whole_shows: "shows_all (polled_buf F) (polled_whole F)"
  unfolding shows_all_def
  using polled_whole_fill [of F] by (auto simp: polled_buf_def polled_whole_def)

lemma polled_whole_read: "lawful_poll_read (polled_buf_read F) (polled_whole F) {}"
proof (rule lawful_poll_read.intro)
  fix b bs n
  assume b: "polled_whole F b bs"
  have "polled_buf_read F n b = (Ok (Ready (take n bs)), b\<lparr>buffered := drop n bs\<rparr>)"
    using b by (simp add: polled_buf_read_def poll_bind_def io_bind_def polled_whole_fill [OF b] polled_whole_def)
  with b show "polls (polled_buf_read F n) b
      (\<lambda>os b'. \<exists>k. os = take k bs \<and> polled_whole F b' (drop k bs) \<and> k \<le> n \<and> k \<le> length bs \<and> (0 < n \<and> bs \<noteq> [] \<longrightarrow> 0 < k))
      (\<lambda>b'. polled_whole F b' bs \<and> (b', b) \<in> {})"
    by (intro polls_ready exI [of _ "min n (length bs)"]) (auto simp: polled_whole_def clipped)
qed simp

section \<open>A compressor that is asked for a flush\<close>

definition stored_synced :: "byte list \<Rightarrow> byte list \<Rightarrow> byte list \<Rightarrow> bool" where
  "stored_synced q bs os \<longleftrightarrow> q = [] \<and> os = stored_header @ bs \<or> q = stored_header \<and> bs = [] \<and> os = []"

lemma stored_syncs: "deflate_syncs stored_deflater stored_synced stored_synced length"
  unfolding deflate_syncs_def
proof (intro conjI allI impI)
  fix q bs os data
  assume q: "stored_synced q bs os"
  then have len: "length q \<le> 2" by (auto simp: stored_synced_def stored_header_def)
  have out: "os @ q = stored_header @ bs" using q by (auto simp: stored_synced_def)
  let ?c = "min (length data) (512 - length q)" and ?out = "q @ take (512 - length q) data"
  have run: "deflate stored_deflater q data 512 SyncFlush = ([], ?c, ?out, Ok StatusOk)"
    using len by (simp add: stored_deflater_def)
  have "take ?c data = take (512 - length q) data" by (simp add: min_def)
  then have "stored_synced [] (bs @ take ?c data) (os @ ?out)"
    by (simp add: stored_synced_def flip: append_assoc) (simp add: out)
  moreover have "?c = length data \<or> 0 < ?c" using len by auto
  ultimately show "\<exists>q' c out st. deflate stored_deflater q data 512 SyncFlush = (q', c, out, Ok st) \<and> c \<le> length data \<and>
      stored_synced q' (bs @ take c data) (os @ out) \<and>
      (if c = length data then stored_synced q' (bs @ data) (os @ out) else 0 < c \<or> length q' < length q)"
    using run by (intro exI [of _ "[]"] exI [of _ ?c] exI [of _ ?out] exI [of _ StatusOk]) auto
qed

lemma stored_synced_resets: "deflate_resets stored_deflater stored_synced"
  by (simp add: deflate_resets_def stored_deflater_def stored_synced_def)

lemma stored_synced_inflates: "bs \<noteq> [] \<Longrightarrow> synced stored_synced bs zs \<Longrightarrow> stored (reset stored_inflater z) zs bs"
  by (intro stored_inflates) (auto simp: synced_def stored_synced_def stored_deflates_def)

section \<open>Interpretations\<close>

interpretation gated_buffered: polled_buffer "gated_write (Suc room)" "\<lambda>w sent. fst w = sent" turns_left
  "buffered_poll_write (gated_write (Suc room))" "buffered_poll_flush (gated_write (Suc room))" "\<lambda>b. b\<lparr>ab_state := Write 0\<rparr>"
  "ab_view (\<lambda>w sent. fst w = sent)" "\<lambda>bs. bs" for room
  by (rule buffered_polled [OF gated_sink.lawful_poll_write_axioms])

interpretation gated_encrypting: polled_buffer "gated_write (Suc room)" "\<lambda>w sent. fst w = sent" turns_left
  "encryption_poll_write feedback_encryptor (gated_write (Suc room))" "encryption_poll_flush feedback_encryptor (gated_write (Suc room))"
  "\<lambda>b. (ab_encrypt feedback_encryptor b)\<lparr>ab_state := Write 0\<rparr>"
  "ae_view feedback_encryptor (\<lambda>w sent. fst w = sent) k0 sent0" "encrypted_from feedback_encryptor k0 sent0" for room k0 sent0
  by (rule encryption_polled [OF gated_sink.lawful_poll_write_axioms feedback_encryptor])

interpretation gated_default: lawful_poll_write "tokio_default_writer feedback_encryptor (gated_write (Suc room))"
  "adw_view feedback_encryptor (\<lambda>w sent. fst w = sent) k0 sent0" "adw_waits turns_left" for room k0 sent0
  by (rule lawful_default_writer [OF gated_sink.lawful_poll_write_axioms feedback_encryptor])

lemma lawful_gated_reader:
  "lawful_poll_read (futures_default_read feedback_decryptor (gated_read (Suc room)))
    (default_view feedback_decryptor (\<lambda>r bs. fst r = bs)) (dr_waits turns_left)"
  by (rule lawful_futures_default [OF gated_source.lawful_poll_read_axioms feedback_decryptor])

interpretation gated_buf: lawful_poll_buf_read "polled_buf_read (futures_default_read feedback_decryptor (gated_read (Suc room)))"
  "br_view buf_reader_lib (default_view feedback_decryptor (\<lambda>r bs. fst r = bs))" "inv_image (dr_waits turns_left) source"
  "polled_buf (futures_default_read feedback_decryptor (gated_read (Suc room)))" for room
  by (rule lawful_poll_read.buf_reader_polled [OF lawful_gated_reader])

text \<open>The parts of a write stream over any writer, and of a read stream over any \<open>BufReader\<close>.\<close>

lemma polled_write_libs: "write_libs A (polled_write_ext (tokio_writer A)) (polled_write_ext A) (polled_write_ext (tokio_writer (tokio_sink A)))"
  by (simp add: write_libs_def polled_write_ext)

lemma polled_tokio_libs:
  fixes I :: "'z inflater" and B :: "'b async_buf_read"
  shows "tokio_read_libs I T B taken_lib (tokio_of (polled_take (stores T))) (polled_buf_take B)
    taken_lib (tokio_of (polled_take (stores (tokio_decompression_read I (polled_buf_take B)))))
    (polled_tokio_ext (tokio_reader_read T)) (polled_tokio_ext (tokio_reader_read (tokio_of (polled_take (stores T)))))
    (polled_tokio_ext (tokio_of (polled_take (stores (tokio_decompression_read I (polled_buf_take B))))))"
  by (simp add: tokio_read_libs_def taken_lib_keeps polled_tokio_take polled_buf_take polled_tokio_ext)

lemma polled_futures_libs:
  fixes I :: "'z inflater" and B :: "'b async_buf_read"
  shows "futures_read_libs I F B taken_lib (polled_take F) (polled_buf_take B)
    taken_lib (polled_take (futures_decompression_read I (polled_buf_take B)))
    (polled_read_ext (futures_reader_read F)) (polled_read_ext (futures_reader_read (polled_take F)))
    (polled_read_ext (polled_take (futures_decompression_read I (polled_buf_take B))))"
  by (simp add: futures_read_libs_def taken_lib_keeps polled_take polled_buf_take polled_read_ext)

end
