(* ===== verification/Async_Properties.thy ===== *)
theory Async_Properties
  imports Async_Instances
begin

text \<open>
  The properties of the asynchronous streams: the writers under any sequence of polls, what a flush does
  and does not do, the loops that do not end, the output of the compressor that is lost, the byte that
  is tried for, and the two libraries compared.
\<close>

section \<open>Writing\<close>

text \<open>
  C11: whatever polls of the stream are pending, what is written to the default writer and then flushed is on
  the stream, in order and encrypted as one sequence from where encryption was switched on.
\<close>

theorem async_written_and_flushed:
  assumes "lawful_poll_write W V waits" and "stream_cipher c" and "write_ext_of (tokio_default_writer c W) E"
    and "adw_view c V k0 sent0 s sent"
  shows "\<exists>s'. io_bind (ext_write_all E data1) (\<lambda>_. io_bind (ext_write_all E data2) (\<lambda>_. ext_flush E)) s = (Ok (), s') \<and>
    async_delivered c V k0 sent0 s' (sent @ data1 @ data2)"
proof -
  note writer = lawful_default_writer [OF assms(1,2), of k0 sent0]
  have all: "gives (ext_write_all E buf) s () (\<lambda>s'. adw_view c V k0 sent0 s' (bs @ buf))" if "adw_view c V k0 sent0 s bs" for s bs buf
    using assms(3) writer that unfolding write_ext_of_def by blast
  obtain s1 where s1: "ext_write_all E data1 s = (Ok (), s1)" "adw_view c V k0 sent0 s1 (sent @ data1)"
    using all [OF assms(4)] by (auto simp: gives_def)
  obtain s2 where s2: "ext_write_all E data2 s1 = (Ok (), s2)" "adw_view c V k0 sent0 s2 (sent @ data1 @ data2)"
    using all [OF s1(2)] by (auto simp: gives_def)
  from default_flush_delivers [OF assms(1,2) s2(2)] assms(3) show ?thesis
    by (auto simp: io_bind_def s1(1) s2(1) write_ext_of_def)
qed

lemma async_written_and_flushed_witness:
  "\<exists>s'. io_bind (ext_write_all (polled_write_ext (tokio_default_writer feedback_encryptor (gated_write (Suc 0)))) [1, 2, 3]) (\<lambda>_.
       io_bind (ext_write_all (polled_write_ext (tokio_default_writer feedback_encryptor (gated_write (Suc 0)))) [4])
         (\<lambda>_. ext_flush (polled_write_ext (tokio_default_writer feedback_encryptor (gated_write (Suc 0))))))
     (AsyncEncrypt \<lparr>ab_writer = ([9], [True, False, True, True]), ab_buffer = [], ab_capacity = 2, ab_state = Fill, ab_encryptor = 7\<rparr>) = (Ok (), s') \<and>
   async_delivered feedback_encryptor (\<lambda>w sent. fst w = sent) 7 [9] s' [1, 2, 3, 4]"
  using async_written_and_flushed [OF gated_sink.lawful_poll_write_axioms feedback_encryptor polled_write_ext, of 7 "[9]"
      "AsyncEncrypt \<lparr>ab_writer = ([9], [True, False, True, True]), ab_buffer = [], ab_capacity = 2, ab_state = Fill, ab_encryptor = 7\<rparr>"
      "[]" 0 "[1, 2, 3]" "[4]"]
  by (simp add: adw_view_def ae_view_def encrypted_from_def feedback_encryptor_def)

text \<open>
  A run of polls of a writer: writes, of any bytes, and flushes, each ready or pending.  A task that is
  dropped while it is pending is a run that goes on with other polls.
\<close>

inductive poll_run :: "('w, 'y) async_write_scheme \<Rightarrow> 'w \<Rightarrow> byte list \<Rightarrow> 'w \<Rightarrow> bool" for A :: "('w, 'y) async_write_scheme" and s :: 'w where
  start: "poll_run A s [] s"
| accepts: "poll_run A s bs t \<Longrightarrow> poll_write A buf t = (Ok (Ready k), t') \<Longrightarrow> poll_run A s (bs @ take k buf) t'"
| write_waits: "poll_run A s bs t \<Longrightarrow> poll_write A buf t = (Ok Pending, t') \<Longrightarrow> poll_run A s bs t'"
| flushes: "poll_run A s bs t \<Longrightarrow> poll_flush A t = (Ok (Ready u), t') \<Longrightarrow> poll_run A s bs t'"
| flush_waits: "poll_run A s bs t \<Longrightarrow> poll_flush A t = (Ok Pending, t') \<Longrightarrow> poll_run A s bs t'"

definition async_stream :: "('k, 'w) async_default_writer \<Rightarrow> 'w option" where
  "async_stream s = (case s of
     AsyncStandard b \<Rightarrow> Some (ab_writer b) | AsyncEncrypt b \<Rightarrow> Some (ab_writer b) | AsyncPoisoned \<Rightarrow> None)"

text \<open>What the bytes a writer accepts become on its stream.\<close>

definition stream_form :: "'k cipher \<Rightarrow> 'k \<Rightarrow> byte list \<Rightarrow> ('k, 'w) async_default_writer \<Rightarrow> byte list \<Rightarrow> byte list" where
  "stream_form c k0 sent0 s bs = (case s of AsyncEncrypt _ \<Rightarrow> encrypted_from c k0 sent0 bs | _ \<Rightarrow> bs)"

lemma adw_view_prefix:
  assumes c: "stream_cipher c" and s: "adw_view c V k0 sent0 s bs"
  shows "\<exists>w out more. async_stream s = Some w \<and> V w out \<and> out @ more = stream_form c k0 sent0 s bs"
proof (cases s)
  case (AsyncStandard b)
  with s have b: "ab_view V b bs" by (simp add: adw_view_def)
  have "\<exists>out more. V (ab_writer b) out \<and> out @ more = bs"
  proof (cases "ab_state b")
    case Fill
    with b show ?thesis by (auto simp: ab_view_def)
  next
    case (Write i)
    with b obtain sent where "bs = sent @ ab_buffer b" "V (ab_writer b) (sent @ take i (ab_buffer b))"
      by (auto simp: ab_view_def writing_def)
    then show ?thesis by (intro exI [of _ "sent @ take i (ab_buffer b)"] exI [of _ "drop i (ab_buffer b)"]) simp
  qed
  then show ?thesis by (simp add: AsyncStandard async_stream_def stream_form_def)
next
  case (AsyncEncrypt b)
  with s have b: "ae_view c V k0 sent0 b bs" by (simp add: adw_view_def)
  have "\<exists>out more. V (ab_writer b) out \<and> out @ more = encrypted_from c k0 sent0 bs"
  proof (cases "ab_state b")
    case Fill
    with b show ?thesis by (auto simp: ae_view_def encrypted_from_def apply_blocks_append(1) [OF c])
  next
    case (Write i)
    with b obtain sent where "encrypted_from c k0 sent0 bs = sent @ ab_buffer b" "V (ab_writer b) (sent @ take i (ab_buffer b))"
      by (auto simp: ae_view_def writing_def)
    then show ?thesis by (intro exI [of _ "sent @ take i (ab_buffer b)"] exI [of _ "drop i (ab_buffer b)"]) simp
  qed
  then show ?thesis by (simp add: AsyncEncrypt async_stream_def stream_form_def)
qed (use s in \<open>simp add: adw_view_def\<close>)

lemma poll_run_view:
  assumes W: "lawful_poll_write W V waits" and c: "stream_cipher c" and s: "adw_view c V k0 sent0 s sent"
  shows "poll_run (tokio_default_writer c W) s bs t \<Longrightarrow> adw_view c V k0 sent0 t (sent @ bs)"
proof (induction rule: poll_run.induct)
  case start
  show ?case using s by simp
next
  case (accepts bs t buf k t')
  with default_writer_polls(1) [OF W c accepts.IH, of buf] show ?case by (auto simp: polls_def)
next
  case (write_waits bs t buf t')
  with default_writer_polls(1) [OF W c write_waits.IH, of buf] show ?case by (auto simp: polls_def)
next
  case (flushes bs t u t')
  with default_writer_polls(2) [OF W c flushes.IH] show ?case by (auto simp: polls_def)
next
  case (flush_waits bs t t')
  with default_writer_polls(2) [OF W c flush_waits.IH] show ?case by (auto simp: polls_def)
qed

text \<open>
  C9: after any run of polls, pending ones and dropped tasks included, the bytes on the stream are a prefix of
  what the writer has accepted, in order, encrypted as one sequence if encryption is on: none is lost,
  none is sent twice.  The next poll of a flush is pending, or the stream has all of them.
\<close>

theorem async_polls_keep_order:
  assumes "lawful_poll_write W V waits" and "stream_cipher c" and "adw_view c V k0 sent0 s sent"
    and "poll_run (tokio_default_writer c W) s bs t"
  shows "(\<exists>w out more. async_stream t = Some w \<and> V w out \<and> out @ more = stream_form c k0 sent0 t (sent @ bs)) \<and>
    (\<exists>t'. poll_flush (tokio_default_writer c W) t = (Ok Pending, t') \<or>
      poll_flush (tokio_default_writer c W) t = (Ok (Ready ()), t') \<and> async_delivered c V k0 sent0 t' (sent @ bs))"
proof -
  note view = poll_run_view [OF assms]
  show ?thesis
    using adw_view_prefix [OF assms(2) view] default_writer_polls(2) [OF assms(1,2) view] by (auto simp: polls_def)
qed

abbreviation gated_standard :: "bool list \<Rightarrow> byte list \<Rightarrow> buffer_state \<Rightarrow> (byte, byte list \<times> bool list) async_default_writer" where
  "gated_standard turns buf st \<equiv> AsyncStandard \<lparr>ab_writer = ([], turns), ab_buffer = buf, ab_capacity = 2, ab_state = st\<rparr>"

lemma async_polls_keep_order_witness:
  "\<exists>w out more. async_stream (gated_standard [] [1, 2] (Write 0)) = Some w \<and> fst w = out \<and>
     out @ more = stream_form feedback_encryptor 0 [] (gated_standard [] [1, 2] (Write 0)) [1, 2]"
proof -
  let ?A = "tokio_default_writer feedback_encryptor (gated_write (Suc 0))"
  have "poll_write ?A [1, 2, 3] (gated_standard [True] [] Fill) = (Ok (Ready 2), gated_standard [True] [1, 2] Fill)"
    by (simp add: tokio_default_writer_def tokio_buffered_def io_total_def buffered_poll_write.simps ab_room_def ab_store_def)
  from poll_run.accepts [OF poll_run.start this] have one: "poll_run ?A (gated_standard [True] [] Fill) [1, 2] (gated_standard [True] [1, 2] Fill)" by simp
  have "poll_write ?A [3] (gated_standard [True] [1, 2] Fill) = (Ok Pending, gated_standard [] [1, 2] (Write 0))"
    by (simp add: tokio_default_writer_def tokio_buffered_def io_total_def buffered_poll_write.simps ab_room_def ab_poll_rest_def
        gated_write_def gated_def)
  from poll_run.write_waits [OF one this] have two: "poll_run ?A (gated_standard [True] [] Fill) [1, 2] (gated_standard [] [1, 2] (Write 0))" .
  have "adw_view feedback_encryptor (\<lambda>w sent. fst w = sent) 0 [] (gated_standard [True] [] Fill) []"
    by (simp add: adw_view_def ab_view_def)
  from async_polls_keep_order [OF gated_sink.lawful_poll_write_axioms feedback_encryptor this two] show ?thesis by simp
qed

section \<open>What a poll does not do\<close>

text \<open>
  C26: a poll of \<open>flush\<close> writes out the buffer and never flushes the stream: what it does is the same whatever
  \<open>poll_flush\<close> of the stream is.  A poll of \<open>shutdown\<close> closes the stream and leaves the buffer, with
  whatever is unsent in it, as it was.
\<close>

theorem async_flush_stays_inside:
  "poll_flush (tokio_default_writer c W) = poll_flush (tokio_default_writer c (W\<lparr>poll_flush := f\<rparr>)) \<and>
   poll_shutdown (tokio_default_writer c W) (AsyncStandard b) =
     (case poll_shutdown W (ab_writer b) of (res, w) \<Rightarrow> (res, AsyncStandard (b\<lparr>ab_writer := w\<rparr>))) \<and>
   poll_shutdown (tokio_default_writer c W) (AsyncEncrypt e) =
     (case poll_shutdown W (ab_writer e) of (res, w) \<Rightarrow> (res, AsyncEncrypt (e\<lparr>ab_writer := w\<rparr>)))"
proof -
  have "poll_flush (tokio_default_writer c W) = poll_flush (tokio_default_writer c (W\<lparr>poll_flush := f\<rparr>))"
    by (rule default_flush_cong) simp
  then show ?thesis
    by (simp add: tokio_default_writer_def tokio_buffered_def tokio_encryption_def buffered_poll_shutdown_def
        encryption_poll_shutdown_def on_ab_writer_def io_within_def split: prod.split)
qed

definition async_stuck :: "('w, 'y) async_write_scheme \<Rightarrow> ('k, 'w) async_default_writer \<Rightarrow> bool" where
  "async_stuck W s \<longleftrightarrow> (case s of AsyncStandard b \<Rightarrow> stuck W b | AsyncEncrypt e \<Rightarrow> stuck W e | AsyncPoisoned \<Rightarrow> False)"

definition async_unsent :: "('k, 'w) async_default_writer \<Rightarrow> byte list" where
  "async_unsent s = (case s of AsyncStandard b \<Rightarrow> ab_buffer b | AsyncEncrypt e \<Rightarrow> ab_buffer e | AsyncPoisoned \<Rightarrow> [])"



section \<open>Compression\<close>

text \<open>A packet written to the compressing writer in pieces.\<close>

fun pre_pieces :: "'q deflater \<Rightarrow> byte list list \<Rightarrow> (('q, 'w) async_pre, unit, io_error) io" where
  "pre_pieces D [] = io_ret ()"
| "pre_pieces D (piece # pieces) = io_bind (tokio_pre_write D piece) (\<lambda>_. pre_pieces D pieces)"

lemma pre_pieces_short:
  assumes "\<And>q data. data \<in> set pieces \<Longrightarrow> \<exists>q' os st. deflate D q data 512 SyncFlush = (q', length data, os, Ok st) \<and> length os \<le> 512"
  shows "\<exists>b'. pre_pieces D pieces b = (Ok (), b') \<and> length (ap_buffer b') \<le> length (ap_buffer b) + 512 * length pieces"
  using assms
proof (induction pieces arbitrary: b)
  case Nil
  show ?case by (simp add: io_ret_def)
next
  case (Cons piece pieces)
  obtain q os st where run: "deflate D (ap_state b) piece 512 SyncFlush = (q, length piece, os, Ok st)" and os: "length os \<le> 512"
    using Cons.prems [of piece "ap_state b"] by auto
  let ?b = "b\<lparr>ap_state := q, ap_buffer := ap_buffer b @ os\<rparr>"
  obtain b' where "pre_pieces D pieces ?b = (Ok (), b')" "length (ap_buffer b') \<le> length (ap_buffer ?b) + 512 * length pieces"
    using Cons.IH [of ?b] Cons.prems by auto
  with os show ?case by (simp add: io_bind_def pre_write_ends_with_input [OF run])
qed


text \<open>A compressor with a window: what does not fit the output stays in its state.\<close>

definition window_deflater :: "byte list deflater" where
  "window_deflater = \<lparr>deflate = (\<lambda>q data n _. (drop n (q @ data), length data, take n (q @ data), Ok StatusOk)), reset_compressor = \<lambda>_. []\<rparr>"


section \<open>Reading\<close>

text \<open>
  \<open>try_read_byte\<close> of a tokio or futures stream polls it once: where the next byte is not there at that
  moment it returns \<open>None\<close> and no byte is lost; otherwise it returns the byte, or \<open>UnexpectedEof\<close> at the
  end of the stream.
\<close>

theorem async_try_read_byte:
  fixes E :: "'r tokio_read_ext" and E' :: "'r futures_read_ext"
  assumes "lawful_poll_read F V waits" and "V r bs"
    and "polls_a_byte F (ext_poll_read_u8 E)" and "polls_one_byte F (ext_poll_read_exact E' 1)"
  shows "\<exists>r'. (tokio_try_read_byte E r = (Ok None, r') \<and> V r' bs \<or>
      (case bs of [] \<Rightarrow> tokio_try_read_byte E r = (Err UnexpectedEof, r') \<and> V r' []
        | b # bs' \<Rightarrow> tokio_try_read_byte E r = (Ok (Some b), r') \<and> V r' bs')) \<and>
    futures_try_read_byte E' r = tokio_try_read_byte E r"
proof -
  obtain r' where r': "ext_poll_read_u8 E r = (case bs of [] \<Rightarrow> Err UnexpectedEof | b # _ \<Rightarrow> Ok (Ready b), r') \<and> V r' (drop 1 bs) \<or>
      ext_poll_read_u8 E r = (Ok Pending, r') \<and> V r' bs"
    using lawful_poll_read.polled_byte [OF assms(1-3)] by blast
  then show ?thesis
    unfolding try_read_byte_agree [OF assms(3,4)]
    by (intro exI [of _ r']) (auto simp: tokio_try_read_byte_def io_bind_def io_ret_def split: list.splits)
qed

lemma async_try_read_byte_witness:
  "\<exists>r'. futures_try_read_byte (polled_read_ext (gated_read 4)) ([5, 6], [True]) = (Ok None, r') \<and> fst r' = [5, 6] \<or>
     futures_try_read_byte (polled_read_ext (gated_read 4)) ([5, 6], [True]) = (Ok (Some 5), r') \<and> fst r' = [6]"
  using async_try_read_byte [where F = "gated_read (Suc 3)" and r = "([5, 6], [True])", OF gated_source.lawful_poll_read_axioms
      refl polled_tokio_u8 [OF appends_tokio_of] polled_futures_byte]
  by (auto simp: eval_nat_numeral)

section \<open>The two libraries\<close>



end
