(* ===== verification/Async_Roundtrip.thy ===== *)
theory Async_Roundtrip
  imports Async_Properties Versions_1_20
begin

text \<open>
  Packets between two \<open>ProtocolHandler\<close>s over \<open>AsyncDefaultStreamProvider\<close>s: written and read back under
  every compression threshold, and read however their bytes arrive.
\<close>

section \<open>Written and read back\<close>


abbreviation gated_out :: "(byte, byte list \<times> bool list) async_default_writer async_write" where
  "gated_out \<equiv> tokio_default_writer feedback_encryptor (gated_write (Suc 0))"

abbreviation gated_writer :: "((byte list, (byte, byte list \<times> bool list) async_default_writer) async_writer,
    (byte list, (byte, byte list \<times> bool list) async_default_writer) async_pre,
    (byte list, (byte, byte list \<times> bool list) async_default_writer) async_writer, byte list, compression, io_error) write_stream" where
  "gated_writer \<equiv> tokio_write_stream stored_deflater (polled_write_ext (tokio_writer gated_out)) (polled_write_ext gated_out)
     (polled_write_ext (tokio_writer (tokio_sink gated_out)))"

abbreviation gated_in :: "(byte, byte list \<times> bool list) default_reader futures_read" where
  "gated_in \<equiv> futures_default_read feedback_decryptor (gated_read (Suc 0))"

text \<open>The tokio stream over a \<open>BufReader\<close> that reads \<open>F\<close>.\<close>

abbreviation polled_tokio_stream :: "'r futures_read \<Rightarrow> ((nat, 'r buf_reader) async_reader, (nat, 'r buf_reader taken) async_reader,
    (nat, 'r buf_reader taken) async_decompression, (nat, 'r buf_reader taken) async_decompression taken, io_error) read_stream" where
  "polled_tokio_stream F \<equiv> tokio_read_stream stored_inflater taken_lib taken_lib (polled_tokio_ext (tokio_reader_read (tokio_of (polled_buf_read F))))
     (polled_tokio_ext (tokio_reader_read (tokio_of (polled_take (stores (tokio_of (polled_buf_read F)))))))
     (polled_tokio_ext (tokio_of (polled_take (stores (tokio_decompression_read stored_inflater (polled_buf_take (polled_buf F)))))))"

abbreviation gated_peer :: "((byte, byte list \<times> bool list) default_reader buf_reader, nat, byte, byte list \<times> bool list, byte list) async_provider protocol_handler" where
  "gated_peer \<equiv> \<lparr>provider =
    \<lparr>apr_reader = \<lparr>source = StandardReader ([], []), buffered = [], buf_capacity = 8\<rparr>,
     apr_writer = AsyncStandard \<lparr>ab_writer = ([], [True, False, True]), ab_buffer = [], ab_capacity = 2, ab_state = Fill\<rparr>,
     apr_threshold = Some 1, apr_level = default_compression, apr_compression_state = [], apr_decompression_state = 2\<rparr>,
    handler_state = (Serverbound, LoginPhase)\<rparr>"

lemma gated_deflating:
  "lawful_deflating gated_writer (async_sent (adw_view feedback_encryptor (\<lambda>w sent. fst w = sent) k0 sent0))
    (async_compressing stored_synced (adw_view feedback_encryptor (\<lambda>w sent. fst w = sent) k0 sent0))
    (async_compressing stored_synced (adw_view feedback_encryptor (\<lambda>w sent. fst w = sent) k0 sent0))
    (\<lambda>sent zs a _. async_sent (adw_view feedback_encryptor (\<lambda>w sent. fst w = sent) k0 sent0) a (sent @ zs))
    (\<lambda>sent a. async_sent (adw_view feedback_encryptor (\<lambda>w sent. fst w = sent) k0 sent0) a sent)
    (carried (synced stored_synced)) (synced stored_synced)"
  by (rule lawful_deflating_tokio [OF gated_default.lawful_poll_write_axioms _ _ _ stored_syncs stored_synced_resets])
     (rule polled_write_ext)+

lemma polled_tokio_inflating:
  "lawful_inflating (polled_tokio_stream F) (async_view (polled_whole F)) (async_bound taken_lib (polled_whole F))
    (async_inflating_bound taken_lib taken_lib (polled_whole F) stored) (\<lambda>zs out. \<forall>z. stored (reset stored_inflater z) zs out)"
  by (rule tokio_libs_inflating [OF polled_tokio_libs appends_tokio_of polled_whole_read polled_whole_shows stored_whole])


section \<open>Bytes that arrive in pieces\<close>

lemma read_uncompressed_frame:
  assumes S: "lawful_stream S V B" and d: "designator_from_id p s (varint_into v) = Some d"
    and H: "well_behaved B (handle_bounded H d)" "answers B (handle_bounded H d) payload res" "returns res"
    and frame: "frame = (if threshold = None then [] else [0]) @ enc_varint v @ payload" "length frame \<le> MAX_PACKET_SIZE"
    and r: "V r (wire_frame frame @ rest)"
  shows "\<exists>r'. read_packet p s threshold S H r = (res, r') \<and> V r' rest"
proof (cases threshold)
  case None
  with frame r show ?thesis
    unfolding None by (intro read_packet_plain [OF S d H]) (auto simp: wire_frames MAX_PACKET_SIZE_def)
next
  case (Some t)
  with frame r show ?thesis
    unfolding Some by (intro read_packet_uncompressed [OF S d H]) (auto simp: wire_frames MAX_PACKET_SIZE_def)
qed

text \<open>
  C22: a packet that is not compressed is read however its bytes arrive: in any pieces, with any polls of the
  stream pending in between, behind the buffer and the decryption.  The handler gets its payload, and
  what follows the packet is still to come.
\<close>

theorem async_packet_any_arrival:
  fixes h :: "('b, 'z, 'k, 'w, 'q) async_provider protocol_handler"
  assumes "lawful_poll_read F0 U waits" and "stream_cipher dec"
    and "buffers BL (futures_default_read dec F0) F B" and "futures_read_libs I F B L Ft Bt M Fc R0 R1 R2"
    and "designator_from_id p s (varint_into v) = Some d"
    and "well_behaved (async_bound L (br_view BL (default_view dec U))) (handle_bounded H d)"
    and "answers (async_bound L (br_view BL (default_view dec U))) (handle_bounded H d) payload res" and "returns res"
    and "frame = (if threshold = None then [] else [0]) @ enc_varint v @ payload" and "length frame \<le> MAX_PACKET_SIZE"
    and "async_peer_holds (br_view BL (default_view dec U)) s threshold h (wire_frame frame @ rest)"
  shows "\<exists>h'. async_read_packet p (futures_read_stream I L M R0 R1 R2) H h = (res, h') \<and>
    async_peer_holds (br_view BL (default_view dec U)) s threshold h' rest"
proof (rule async_handler_reads [OF _ assms(11)])
  obtain waits' where "lawful_poll_buf_read F (br_view BL (default_view dec U)) waits' B"
    using assms(3) lawful_futures_default [OF assms(1,2)] unfolding buffers_def by blast
  then have S: "lawful_stream (futures_read_stream I L M R0 R1 R2) (async_view (br_view BL (default_view dec U)))
      (async_bound L (br_view BL (default_view dec U)))"
    by (rule futures_libs_stream [OF assms(4) lawful_poll_buf_read.axioms(1)])
  show "\<exists>r'. read_packet p s threshold (futures_read_stream I L M R0 R1 R2) H r = (res, r') \<and>
      async_view (br_view BL (default_view dec U)) r' rest"
    if "async_view (br_view BL (default_view dec U)) r (wire_frame frame @ rest)" for r
    by (rule read_uncompressed_frame [where frame = frame, OF S assms(5-10) that])
qed

text \<open>The futures stream over a \<open>BufReader\<close> that reads \<open>F\<close>.\<close>

abbreviation polled_futures_stream :: "'r futures_read \<Rightarrow> ((nat, 'r buf_reader) async_reader, (nat, 'r buf_reader taken) async_reader,
    (nat, 'r buf_reader taken) async_decompression, (nat, 'r buf_reader taken) async_decompression taken, io_error) read_stream" where
  "polled_futures_stream F \<equiv> futures_read_stream stored_inflater taken_lib taken_lib (polled_read_ext (futures_reader_read (polled_buf_read F)))
     (polled_read_ext (futures_reader_read (polled_take (polled_buf_read F))))
     (polled_read_ext (polled_take (futures_decompression_read stored_inflater (polled_buf_take (polled_buf F)))))"

lemma gated_futures_stream:
  "lawful_stream (polled_futures_stream gated_in) (async_view (br_view buf_reader_lib (default_view feedback_decryptor (\<lambda>r bs. fst r = bs))))
    (async_bound taken_lib (br_view buf_reader_lib (default_view feedback_decryptor (\<lambda>r bs. fst r = bs))))"
  by (rule futures_libs_stream [OF polled_futures_libs gated_buf.lawful_poll_read_axioms])

lemma async_packet_any_arrival_witness:
  "\<exists>h'. async_read_packet v774 (polled_futures_stream gated_in) (varint_handler (polled_futures_stream gated_in))
     (gated_peer\<lparr>handler_state := (Clientbound, LoginPhase), provider := (provider gated_peer)
       \<lparr>apr_reader := \<lparr>source = DecryptReader 0 (fst (feedback_encrypt 0 [3, 0, 2, 7, 5]), [True, False, True, True]), buffered = [], buf_capacity = 8\<rparr>\<rparr>\<rparr>) =
     (Ok (Packet ''LoginSuccess'', VarInt 7), h')"
proof -
  let ?h = "gated_peer\<lparr>handler_state := (Clientbound, LoginPhase), provider := (provider gated_peer)
       \<lparr>apr_reader := \<lparr>source = DecryptReader 0 (fst (feedback_encrypt 0 [3, 0, 2, 7, 5]), [True, False, True, True]), buffered = [], buf_capacity = 8\<rparr>\<rparr>\<rparr>"
  have known: "designator_from_id v774 (Clientbound, LoginPhase) (varint_into (VarInt 2)) = Some (Packet ''LoginSuccess'')"
    by (simp add: v774_def v774_login_def build_protocol_def designator_of_id_def)
  have prefix: "length_prefix (Suc (Suc (Suc 0))) = [3]" by (simp add: length_prefix_def varint_from_def)
  have frame: "[0, 2, 7] = (if Some 1 = (None :: nat option) then [] else [0]) @ enc_varint (VarInt 2) @ enc_varint (VarInt 7)" by simp
  have plain: "fst (feedback_decrypt 0 (fst (feedback_encrypt 0 [3, 0, 2, 7, 5]))) = [3, 0, 2, 7, 5]" by (rule feedback_inverse)
  have h: "async_peer_holds (br_view buf_reader_lib (default_view feedback_decryptor (\<lambda>r bs. fst r = bs))) (Clientbound, LoginPhase) (Some 1) ?h
      (wire_frame [0, 2, 7] @ [5])"
    using plain
    by (simp add: async_peer_holds_def br_view_def buf_reader_lib_def default_view_def wire_frame_def prefix feedback_decryptor_def)
  have len: "length [0, 2, 7 :: byte] \<le> MAX_PACKET_SIZE" by (simp add: MAX_PACKET_SIZE_def)
  from async_packet_any_arrival [where H = "varint_handler (polled_futures_stream gated_in)", OF gated_source.lawful_poll_read_axioms feedback_decryptor
      polled_buffers polled_futures_libs known varint_handler_bounded [OF gated_futures_stream] _ frame len h]
  show ?thesis by (auto simp: returns_def)
qed

end
