(* ===== verification/Provider.thy ===== *)
theory Provider
  imports Sync_Provider Handshake Packet_Types
begin

text \<open>
  Code that is generic in its provider: the traits \<open>StreamProvider\<close>, \<open>EncryptableStreamProvider\<close>,
  \<open>ReadStreamProvider\<close> and \<open>WriteStreamProvider\<close> of \<open>src/traits.rs\<close> as a record of their methods, a
  \<open>ProtocolHandler\<close> over any type that has them, and the contract such a type keeps.
\<close>

section \<open>The traits of a provider\<close>

text \<open>
  \<open>read_stream\<close> and \<open>write_stream\<close> borrow a part of the provider: each is the function that takes the part
  out and the one that puts it back when the borrow ends.  \<open>with_encryption\<close> returns or panics.
\<close>

record ('p, 'r, 'b, 'd, 'c, 'w, 'q, 'z, 'pay, 'level, 'e) provider_traits =
  readers :: "('r, 'b, 'd, 'c, 'e) read_stream"
  writers :: "('w, 'q, 'z, 'pay, 'level, 'e) write_stream"
  borrow_reader :: "'p \<Rightarrow> 'r"
  return_reader :: "'r \<Rightarrow> 'p \<Rightarrow> 'p"
  borrow_writer :: "'p \<Rightarrow> 'w"
  return_writer :: "'w \<Rightarrow> 'p \<Rightarrow> 'p"
  threshold_of :: "'p \<Rightarrow> nat option"
  level_of :: "'p \<Rightarrow> 'level"
  set_threshold :: "nat option \<Rightarrow> 'p \<Rightarrow> 'p"
  encrypt_streams :: "byte list \<Rightarrow> ('p, unit, 'e write_error) io"

definition with_reader ::
  "('p, 'r, 'b, 'd, 'c, 'w, 'q, 'z, 'pay, 'level, 'e) provider_traits \<Rightarrow> ('r, 'a, 'f) io \<Rightarrow> ('p, 'a, 'f) io" where
  "with_reader X = io_within (borrow_reader X) (\<lambda>pr r. return_reader X r pr)"

definition with_writer ::
  "('p, 'r, 'b, 'd, 'c, 'w, 'q, 'z, 'pay, 'level, 'e) provider_traits \<Rightarrow> ('w, 'a, 'f) io \<Rightarrow> ('p, 'a, 'f) io" where
  "with_writer X = io_within (borrow_writer X) (\<lambda>pr w. return_writer X w pr)"

section \<open>A handler over the traits\<close>

definition trait_read_handshake ::
  "protocol \<Rightarrow> ('p, 'r, 'b, 'd, 'c, 'w, 'q, 'z, 'pay, 'level, 'e) provider_traits \<Rightarrow> ('b, 'c, 'h, 'e) state_handler \<Rightarrow>
   ('p protocol_handler, 'h, 'e read_error) io" where
  "trait_read_handshake p X H = (\<lambda>h.
     on_provider (with_reader X (read_handshake p (handler_state h) (readers X) H)) h)"

definition trait_read_packet ::
  "protocol \<Rightarrow> ('p, 'r, 'b, 'd, 'c, 'w, 'q, 'z, 'pay, 'level, 'e) provider_traits \<Rightarrow> ('b, 'c, 'h, 'e) state_handler \<Rightarrow>
   ('p protocol_handler, 'h, 'e read_error) io" where
  "trait_read_packet p X H = (\<lambda>h. on_provider (\<lambda>pr.
     with_reader X (read_packet p (handler_state h) (threshold_of X pr) (readers X) H) pr) h)"

text \<open>A packet the state does not write is refused by the compiler; here it is a panic.\<close>

definition trait_write_packet ::
  "protocol \<Rightarrow> ('p, 'r, 'b, 'd, 'c, 'w, 'q, 'z, 'pay, 'level, 'e) provider_traits \<Rightarrow> string \<Rightarrow> ('w, 'q, 'z, 'e) packet \<Rightarrow>
   ('p protocol_handler, unit, 'e write_error) io" where
  "trait_write_packet p X name pkt = (\<lambda>h. case writer_packet_id p (handler_state h) name of
     None \<Rightarrow> (Panic, h)
   | Some i \<Rightarrow> on_provider (\<lambda>pr.
       with_writer X (write_packet_internal (threshold_of X pr) (level_of X pr) (writers X) i pkt) pr) h)"

definition trait_write_raw ::
  "('p, 'r, 'b, 'd, 'c, 'w, 'q, 'z, 'pay, 'level, 'e) provider_traits \<Rightarrow>
   (('w, 'e) writer \<Rightarrow> ('w, unit, 'e write_error) io) \<Rightarrow> ('p protocol_handler, unit, 'e write_error) io" where
  "trait_write_raw X data = on_provider (with_writer X (write_raw (base_writer (writers X)) data))"

definition trait_with_encryption ::
  "('p, 'r, 'b, 'd, 'c, 'w, 'q, 'z, 'pay, 'level, 'e) provider_traits \<Rightarrow> byte list \<Rightarrow>
   ('p protocol_handler, unit, 'e write_error) io" where
  "trait_with_encryption X key = on_provider (encrypt_streams X key)"

definition trait_set_threshold ::
  "('p, 'r, 'b, 'd, 'c, 'w, 'q, 'z, 'pay, 'level, 'e) provider_traits \<Rightarrow> nat option \<Rightarrow> ('p protocol_handler, unit, 'f) io" where
  "trait_set_threshold X t = on_provider (\<lambda>pr. (Ok (), set_threshold X t pr))"

section \<open>The contract of a provider\<close>

text \<open>
  What a handler stands for: its state and threshold, the bytes \<open>ins\<close> its reader will be given, the bytes
  \<open>sent\<close> its writer has accepted, of which none is held back.
\<close>

definition linked ::
  "('p, 'r, 'b, 'd, 'c, 'w, 'q, 'z, 'pay, 'level, 'e) provider_traits \<Rightarrow> ('r \<Rightarrow> byte list \<Rightarrow> bool) \<Rightarrow>
   ('w \<Rightarrow> byte list \<Rightarrow> bool) \<Rightarrow> ('w \<Rightarrow> bool) \<Rightarrow> state \<Rightarrow> nat option \<Rightarrow> byte list \<Rightarrow> byte list \<Rightarrow> 'p protocol_handler \<Rightarrow> bool" where
  "linked X V U idle s t ins sent h \<longleftrightarrow> handler_state h = s \<and> threshold_of X (provider h) = t \<and>
     V (borrow_reader X (provider h)) ins \<and> U (borrow_writer X (provider h)) sent \<and> idle (borrow_writer X (provider h))"

locale provider_link =
  lawful_stream "readers X" V B + lawful_deflating "writers X" U P F Z N carries deflates
  for X :: "('p, 'r, 'b, 'd, 'c, 'w, 'q, 'z, 'pay, 'level, 'e) provider_traits"
    and V :: "'r \<Rightarrow> byte list \<Rightarrow> bool" and B :: "'b \<Rightarrow> nat \<Rightarrow> byte list \<Rightarrow> bool"
    and U :: "'w \<Rightarrow> byte list \<Rightarrow> bool" and P F Z N carries deflates +
  fixes idle :: "'w \<Rightarrow> bool"
  assumes returned_reader: "borrow_reader X (return_reader X r pr) = r"
      "borrow_writer X (return_reader X r pr) = borrow_writer X pr" "threshold_of X (return_reader X r pr) = threshold_of X pr"
    and returned_writer: "borrow_writer X (return_writer X w pr) = w"
      "borrow_reader X (return_writer X w pr) = borrow_reader X pr" "threshold_of X (return_writer X w pr) = threshold_of X pr"
    and threshold_set: "threshold_of X (set_threshold X t pr) = t" "borrow_reader X (set_threshold X t pr) = borrow_reader X pr"
      "borrow_writer X (set_threshold X t pr) = borrow_writer X pr"
    and flush_idle: "flush (base_writer (writers X)) w = (Ok (), w') \<Longrightarrow> idle w'"
begin

lemma stream: "lawful_stream (readers X) V B" and deflating: "lawful_deflating (writers X) U P F Z N carries deflates"
  by unfold_locales

lemma linked_reader:
  assumes "linked X V U idle s t ins sent h" and "m (borrow_reader X (provider h)) = (res, r')" and "V r' rest"
  shows "\<exists>h'. on_provider (with_reader X m) h = (res, h') \<and> linked X V U idle s t rest sent h'"
  using assms by (simp add: linked_def on_provider_def with_reader_def io_within_def returned_reader)

lemma linked_writer:
  assumes "linked X V U idle s t ins sent h" and "m (borrow_writer X (provider h)) = (res, w')" and "U w' sent'" and "idle w'"
  shows "\<exists>h'. on_provider (with_writer X m) h = (res, h') \<and> linked X V U idle s t ins sent' h'"
  using assms by (simp add: linked_def on_provider_def with_writer_def io_within_def returned_writer)

lemma link_reads_handshake:
  assumes h: "linked X V U idle s t ins sent h"
    and read: "\<And>r. V r ins \<Longrightarrow> \<exists>r'. read_handshake p s (readers X) H r = (res, r') \<and> V r' rest"
  shows "\<exists>h'. trait_read_handshake p X H h = (res, h') \<and> linked X V U idle s t rest sent h'"
proof -
  obtain r' where "read_handshake p s (readers X) H (borrow_reader X (provider h)) = (res, r')" "V r' rest"
    using read h by (auto simp: linked_def)
  from linked_reader [where m = "read_handshake p s (readers X) H", OF h this] show ?thesis
    using h by (simp add: trait_read_handshake_def linked_def)
qed

lemma link_reads:
  assumes h: "linked X V U idle s t ins sent h"
    and read: "\<And>r. V r ins \<Longrightarrow> \<exists>r'. read_packet p s t (readers X) H r = (res, r') \<and> V r' rest"
  shows "\<exists>h'. trait_read_packet p X H h = (res, h') \<and> linked X V U idle s t rest sent h'"
proof -
  obtain r' where "read_packet p s t (readers X) H (borrow_reader X (provider h)) = (res, r')" "V r' rest"
    using read h by (auto simp: linked_def)
  from linked_reader [where m = "read_packet p s t (readers X) H", OF h this] show ?thesis
    using h by (simp add: trait_read_packet_def linked_def on_provider_def io_within_def)
qed

text \<open>A packet without compression, and a stream that ends in front of a packet.\<close>

lemma link_reads_plain:
  assumes h: "linked X V U idle s None (wire_frame (packet_body i payload) @ rest) sent h"
    and i: "- (2 ^ 31) \<le> i" "i < 2 ^ 31" and d: "designator_from_id p s i = Some d"
    and m: "well_behaved B (handle_bounded H d)" "answers B (handle_bounded H d) payload res" "returns res"
    and len: "length (packet_body i payload) \<le> MAX_PACKET_SIZE"
  shows "\<exists>h'. trait_read_packet p X H h = (res, h') \<and> linked X V U idle s None rest sent h'"
proof (rule link_reads [OF h])
  fix r
  assume r: "V r (wire_frame (packet_body i payload) @ rest)"
  have "designator_from_id p s (varint_into (varint_from i)) = Some d"
    using d varint_into_from [OF i] by simp
  then show "\<exists>r'. read_packet p s None (readers X) H r = (res, r') \<and> V r' rest"
    using r len by (intro read_packet_plain [OF stream _ m]) (auto simp: wire_frames packet_body_def MAX_PACKET_SIZE_def)
qed

lemma link_reads_end:
  assumes h: "linked X V U idle s t [] sent h"
  shows "\<exists>e h'. trait_read_packet p X H h = (Err e, h') \<and> is_stream_error e \<and>
    borrow_writer X (provider h') = borrow_writer X (provider h) \<and> handler_state h' = s \<and> threshold_of X (provider h') = t"
proof -
  have "fails (read_packet p s t (readers X) H) (borrow_reader X (provider h)) is_stream_error (\<lambda>_. True)"
    using h by (intro read_packet_bad_prefix [OF stream, of _ "[]"]) (auto simp: linked_def eval_nat_numeral)
  then show ?thesis
    using h by (auto simp: fails_def trait_read_packet_def on_provider_def with_reader_def io_within_def linked_def returned_reader)
qed

lemma link_writes:
  assumes h: "linked X V U idle s t ins sent h" and i: "writer_packet_id p s name = Some i"
    and pkt: "\<And>sent zs. packet_writes U (P sent) (Z sent zs) pkt payload" and len: "length (packet_body i payload) \<le> I32_MAX"
  shows "\<exists>frame. frame_of deflates t (packet_body i payload) frame \<and> (length frame \<le> MAX_PACKET_SIZE \<longrightarrow>
    gives (trait_write_packet p X name pkt) h () (linked X V U idle s t ins (sent @ wire_frame frame)))"
proof -
  let ?w = "borrow_writer X (provider h)"
  let ?m = "write_packet_internal t (level_of X (provider h)) (writers X) i pkt"
  have w: "U ?w sent" using h by (simp add: linked_def)
  obtain frame where frame: "frame_of deflates t (packet_body i payload) frame"
      "wire_written U sent (oversized_name t (packet_body i payload)) frame ?m ?w"
    using write_packet_internal_frame [OF deflating pkt len w] by blast
  show ?thesis
  proof (intro exI [of _ frame] conjI frame(1) impI)
    assume "length frame \<le> MAX_PACKET_SIZE"
    with frame(2) obtain w' where w': "?m ?w = (Ok (), w')" "U w' (sent @ wire_frame frame)"
      by (auto simp: wire_written_def gives_def)
    from w'(1) have "idle w'"
      unfolding write_packet_internal_def Let_def
      by (auto simp: io_bind_def io_map_err_def intro: flush_idle split: prod.splits outcome.splits)
    from linked_writer [where m = ?m, OF h w' this]
    show "gives (trait_write_packet p X name pkt) h () (linked X V U idle s t ins (sent @ wire_frame frame))"
      using h i by (auto simp: gives_def trait_write_packet_def linked_def on_provider_def io_within_def)
  qed
qed

lemma link_writes_plain:
  assumes "linked X V U idle s None ins sent h" and "writer_packet_id p s name = Some i"
    and "\<And>sent zs. packet_writes U (P sent) (Z sent zs) pkt payload" and len: "length (packet_body i payload) \<le> MAX_PACKET_SIZE"
  shows "gives (trait_write_packet p X name pkt) h () (linked X V U idle s None ins (sent @ wire_frame (packet_body i payload)))"
proof -
  have "length (packet_body i payload) \<le> I32_MAX" using len by (simp add: MAX_PACKET_SIZE_def I32_MAX_def)
  from link_writes [OF assms(1-3) this] len show ?thesis by (auto simp: frame_of_def)
qed

lemma link_writes_raw:
  assumes h: "linked X V U idle s t ins sent h" and data: "emits U (write_raw (base_writer (writers X)) data) bs"
  shows "gives (trait_write_raw X data) h () (linked X V U idle s t ins (sent @ bs))"
proof -
  have "U (borrow_writer X (provider h)) sent" using h by (simp add: linked_def)
  then obtain w' where w': "write_raw (base_writer (writers X)) data (borrow_writer X (provider h)) = (Ok (), w')" "U w' (sent @ bs)"
    using emitsD [OF data] by (auto simp: gives_def)
  from w'(1) have "idle w'"
    by (auto simp: write_raw_def io_bind_def io_map_err_def intro: flush_idle split: prod.splits outcome.splits)
  from linked_writer [where m = "write_raw (base_writer (writers X)) data", OF h w' this] show ?thesis by (simp add: gives_def trait_write_raw_def)
qed

lemma link_sets_threshold:
  assumes "linked X V U idle s t ins sent h"
  shows "gives (trait_set_threshold X t') h () (linked X V U idle s t' ins sent)"
  using assms by (simp add: gives_def trait_set_threshold_def on_provider_def io_within_def linked_def threshold_set)

end

end
