(* ===== verification/Example_Packets.thy ===== *)
theory Example_Packets
  imports Provider Versions_1_20
begin

text \<open>
  The packets of the example server, \<open>src/example_helpers/src/lib.rs\<close>: what it reads (the functions
  \<open>handle_packet\<close> of its state handlers) and what it writes (its types with \<open>ToWriter\<close> and \<open>Serializable\<close>).
  The macro \<open>sync_and_async_helper!\<close> writes them once for the blocking and the asynchronous server.  A
  \<open>Uuid\<close> is its 16 bytes, a \<open>String\<close> its UTF-8.
\<close>

section \<open>Strings\<close>

text \<open>The bytes of a literal, and what \<open>String::from_utf8\<close> accepts: the table of well-formed UTF-8.\<close>

definition literal :: "string \<Rightarrow> byte list" where
  "literal s = map of_char s"

text \<open>The number of continuation bytes behind a first byte, and the range of the first of them.\<close>

definition utf8_first :: "byte \<Rightarrow> (nat \<times> byte \<times> byte) option" where
  "utf8_first b =
     (if b < 0x80 then Some (0, 0x80, 0xBF)
      else if 0xC2 \<le> b \<and> b \<le> 0xDF then Some (1, 0x80, 0xBF)
      else if b = 0xE0 then Some (2, 0xA0, 0xBF)
      else if b = 0xED then Some (2, 0x80, 0x9F)
      else if 0xE1 \<le> b \<and> b \<le> 0xEF then Some (2, 0x80, 0xBF)
      else if b = 0xF0 then Some (3, 0x90, 0xBF)
      else if 0xF1 \<le> b \<and> b \<le> 0xF3 then Some (3, 0x80, 0xBF)
      else if b = 0xF4 then Some (3, 0x80, 0x8F)
      else None)"

fun utf8_valid :: "byte list \<Rightarrow> bool" where
  "utf8_valid [] = True"
| "utf8_valid (b # bs) =
     (case utf8_first b of
        None \<Rightarrow> False
      | Some (n, lo, hi) \<Rightarrow> n \<le> length bs \<and> (n = 0 \<or> lo \<le> hd bs \<and> hd bs \<le> hi) \<and>
          list_all (\<lambda>c. 0x80 \<le> c \<and> c \<le> 0xBF) (take n bs) \<and> utf8_valid (drop n bs))"

definition from_utf8 :: "byte list \<Rightarrow> byte list option" where
  "from_utf8 bs = (if utf8_valid bs then Some bs else None)"

section \<open>What the server reads\<close>

text \<open>
  \<open>read_bytes!\<close> at a length that was read: a negative length, cast to \<open>usize\<close>, is more than a \<open>Vec\<close> can
  have, and \<open>vec!\<close> panics.
\<close>

definition read_vec :: "('r, 'e, 'x) reader_scheme \<Rightarrow> int \<Rightarrow> ('r, byte list, 'e read_error) io" where
  "read_vec R count = (if count < 0 then io_panic else io_map_err RStreamError (read_exact R (nat count)))"

datatype handshake_result = Legacy bool | Standard bool

definition handle_hello :: "('r, 'e, 'x) reader_scheme \<Rightarrow> ('r, handshake_result, 'e read_error) io" where
  "handle_hello R =
     io_bind (read_varint R) (\<lambda>version.
     io_bind (read_varint R) (\<lambda>v.
       let string_length = varint_into v
       in if string_length < 0 then io_err (NegativeLength ''handshake_address'')
          else io_bind (io_map_err RStreamError (discard R (nat string_length + 2))) (\<lambda>_.
            io_bind (read_varint R) (\<lambda>v.
              let intent = varint_into v
              in if intent \<le> 0 \<or> intent > 3 then io_err (BadEnum ''intent'' intent)
                 else io_ret (Standard (intent = 1))))))"

text \<open>The designator is a \<open>Handshake\<close> here, and a packet of the state below; no other can occur.\<close>

definition handshake_handler :: "('r, 'e, 'x) reader_scheme \<Rightarrow> designator \<Rightarrow> ('r, handshake_result, 'e read_error) io" where
  "handshake_handler R d = (case d of
     Handshake handshake.Standard \<Rightarrow> handle_hello R
   | Handshake Legacy1_3 \<Rightarrow> io_ret (Legacy True)
   | _ \<Rightarrow> io_ret (Legacy False))"

definition status_handler :: "('r, 'e, 'x) reader_scheme \<Rightarrow> designator \<Rightarrow> ('r, 64 word option, 'e read_error) io" where
  "status_handler R d =
     (if d = Packet ''StatusRequest'' then io_ret None else io_bind (read_i64 R) (\<lambda>timestamp. io_ret (Some timestamp)))"

definition recv_start :: "('r, 'e, 'x) reader_scheme \<Rightarrow> designator \<Rightarrow> ('r, (byte list \<times> byte list) option, 'e read_error) io" where
  "recv_start R d =
     (if d = Packet ''LoginStart''
      then io_bind (read_varint R) (\<lambda>v.
        let name_length = varint_into v
        in if name_length < 0 then io_err (NegativeLength ''login_name'')
           else if name_length > 16 then io_err (ROverSized ''login_name'' 16 (nat name_length))
           else io_bind (read_vec R name_length) (\<lambda>raw_string. case from_utf8 raw_string of
               None \<Rightarrow> io_err (StringDecode ''login_name'')
             | Some username \<Rightarrow>
                 io_bind (io_map_err RStreamError (read_exact R 16)) (\<lambda>raw_uuid. io_ret (Some (username, raw_uuid)))))
      else io_ret None)"

definition encryption_response ::
  "('r, 'e, 'x) reader_scheme \<Rightarrow> designator \<Rightarrow> ('r, (byte list \<times> byte list) option, 'e read_error) io" where
  "encryption_response R d =
     (if d = Packet ''EncryptionResponse''
      then io_bind (read_varint R) (\<lambda>shared_secret_length.
        io_bind (read_vec R (varint_into shared_secret_length)) (\<lambda>shared_secret.
        io_bind (read_varint R) (\<lambda>verify_token_length.
        io_bind (read_vec R (varint_into verify_token_length)) (\<lambda>verify_token.
        io_ret (Some (shared_secret, verify_token))))))
      else io_ret None)"

definition login_acknowledge :: "('r, 'e, 'x) reader_scheme \<Rightarrow> designator \<Rightarrow> ('r, bool, 'e read_error) io" where
  "login_acknowledge _ d = io_ret (d = Packet ''LoginAcknowledge'')"

definition config_packet :: "('r, 'e, 'x) reader_scheme \<Rightarrow> designator \<Rightarrow> ('r, bool, 'e read_error) io" where
  "config_packet _ d = io_ret (d = Packet ''CustomClick'')"

section \<open>What the server writes\<close>

text \<open>\<open>StatusPacket\<close> and \<open>KickPacket\<close> are strings with a length in front; \<open>None\<close> where \<open>new\<close> refuses.\<close>

definition new_status :: "byte list \<Rightarrow> byte list option" where
  "new_status payload = (if length payload > I16_MAX then None else Some payload)"

definition new_kick :: "byte list \<Rightarrow> byte list option" where
  "new_kick reason =
     (let payload = literal ''{\"text\":\"'' @ reason @ literal ''\"}''
      in if length payload > I16_MAX then None else Some payload)"

definition size_string :: "byte list \<Rightarrow> nat" where
  "size_string s = size_varint (varint_from (int (length s))) + length s"

definition write_string :: "('w, 'e, 'x) writer_scheme \<Rightarrow> byte list \<Rightarrow> ('w, unit, 'e write_error) io" where
  "write_string W s = io_bind (write_varint W (varint_from (int (length s)))) (\<lambda>_. io_map_err WStreamError (write_data W s))"

definition size_pong :: "64 word \<Rightarrow> nat" where
  "size_pong timestamp = size_i64 timestamp"

definition write_pong :: "('w, 'e, 'x) writer_scheme \<Rightarrow> 64 word \<Rightarrow> ('w, unit, 'e write_error) io" where
  "write_pong W timestamp = write_i64 W timestamp"

record encryption_request =
  public_key :: "byte list"
  token :: "byte list"

text \<open>\<open>None\<close> where an assertion of \<open>new\<close> fails.\<close>

definition new_encryption_request :: "byte list \<Rightarrow> byte list \<Rightarrow> encryption_request option" where
  "new_encryption_request pubkey tok =
     (if length pubkey < I32_MAX \<and> length tok < I32_MAX then Some \<lparr>public_key = pubkey, token = tok\<rparr> else None)"

definition size_encryption_request :: "encryption_request \<Rightarrow> nat" where
  "size_encryption_request this =
     1 + size_varint (varint_from (int (length (public_key this)))) + length (public_key this)
       + size_varint (varint_from (int (length (token this)))) + length (token this) + 1"

definition write_encryption_request ::
  "('w, 'e, 'x) writer_scheme \<Rightarrow> encryption_request \<Rightarrow> ('w, unit, 'e write_error) io" where
  "write_encryption_request W this =
     io_bind (write_varint W (varint_from 0)) (\<lambda>_.
     io_bind (write_varint W (varint_from (int (length (public_key this))))) (\<lambda>_.
     io_bind (io_map_err WStreamError (write_data W (public_key this))) (\<lambda>_.
     io_bind (write_varint W (varint_from (int (length (token this))))) (\<lambda>_.
     io_bind (io_map_err WStreamError (write_data W (token this))) (\<lambda>_.
     write_u8 W 0)))))"

definition size_set_compression :: "unit \<Rightarrow> nat" where
  "size_set_compression _ = 1"

definition write_set_compression :: "('w, 'e, 'x) writer_scheme \<Rightarrow> unit \<Rightarrow> ('w, unit, 'e write_error) io" where
  "write_set_compression W _ = write_varint W (varint_from 1)"

record login_success =
  username :: "byte list"
  uuid :: "byte list"

definition new_login_success :: "byte list \<Rightarrow> byte list \<Rightarrow> login_success option" where
  "new_login_success name u = (if length name \<le> 16 then Some \<lparr>username = name, uuid = u\<rparr> else None)"

definition size_login_success :: "login_success \<Rightarrow> nat" where
  "size_login_success this = size_varint (varint_from (int (length (username this)))) + length (username this) + 17"

definition write_login_success :: "('w, 'e, 'x) writer_scheme \<Rightarrow> login_success \<Rightarrow> ('w, unit, 'e write_error) io" where
  "write_login_success W this =
     io_bind (io_map_err WStreamError (write_data W (uuid this))) (\<lambda>_.
     io_bind (write_varint W (varint_from (int (length (username this))))) (\<lambda>_.
     io_bind (io_map_err WStreamError (write_data W (username this))) (\<lambda>_.
     write_varint W (varint_from 0))))"

text \<open>\<open>Nbt\<close>: the bytes \<open>crab_nbt\<close> has made of the data.\<close>

definition size_nbt :: "byte list \<Rightarrow> nat" where
  "size_nbt this = length this"

definition write_nbt :: "('w, 'e, 'x) writer_scheme \<Rightarrow> byte list \<Rightarrow> ('w, unit, 'e write_error) io" where
  "write_nbt W this = io_map_err WStreamError (write_data W this)"

definition size_clear_dialog :: "unit \<Rightarrow> nat" where
  "size_clear_dialog _ = 0"

definition write_clear_dialog :: "('w, 'e, 'x) writer_scheme \<Rightarrow> unit \<Rightarrow> ('w, unit, 'e write_error) io" where
  "write_clear_dialog W _ = io_ret ()"

section \<open>The packets on the wire\<close>

definition enc_string :: "byte list \<Rightarrow> byte list" where
  "enc_string s = enc_varint (varint_from (int (length s))) @ s"

definition enc_encryption_request :: "encryption_request \<Rightarrow> byte list" where
  "enc_encryption_request this = 0 # enc_string (public_key this) @ enc_string (token this) @ [0]"

definition enc_login_success :: "login_success \<Rightarrow> byte list" where
  "enc_login_success this = uuid this @ enc_string (username this) @ [0]"

definition enc_hello :: "int \<Rightarrow> byte list \<Rightarrow> 16 word \<Rightarrow> int \<Rightarrow> byte list" where
  "enc_hello version address port intent =
     enc_varint (varint_from version) @ enc_string address @ to_be_bytes 2 port @ enc_varint (varint_from intent)"

definition enc_login_start :: "byte list \<Rightarrow> byte list \<Rightarrow> byte list" where
  "enc_login_start name u = enc_string name @ u"

definition enc_response :: "byte list \<Rightarrow> byte list \<Rightarrow> byte list" where
  "enc_response secret tok = enc_string secret @ enc_string tok"

lemma length_enc_string_le: "length (enc_string s) \<le> length s + 5"
  using enc_varint_length [of "varint_from (int (length s))"] by (simp add: enc_string_def)

lemma enc_varint_one: "enc_varint (varint_from 1) = [1]"
  by (simp add: varint_from_def)

lemma emits_string:
  assumes "lawful_sink W V"
  shows "emits V (write_string W s) (enc_string s)"
  unfolding write_string_def enc_string_def
  by (intro emits_bind emits_write [OF assms] varint.writes_enc [OF TrueI assms])

interpretation string_packet: serializes write_string size_string enc_string "\<lambda>_. True"
  by unfold_locales (simp_all add: emits_string, simp add: size_string_def enc_string_def size_varint_enc)

interpretation pong_packet: serializes write_pong size_pong "to_be_bytes 8" "\<lambda>_. True"
  by unfold_locales (simp_all add: size_pong_def i64.size_enc write_pong_def i64.writes_enc)

interpretation set_compression_packet: serializes write_set_compression size_set_compression "\<lambda>_. [1]" "\<lambda>_. True"
proof unfold_locales
  show "emits V (write_set_compression W x) [1]" if "lawful_sink W V" for W :: "('w, 'we, 'wx) writer_scheme" and V x
    using varint.writes_enc [OF TrueI that, of "varint_from 1"] by (simp add: write_set_compression_def enc_varint_one)
qed (simp add: size_set_compression_def)

interpretation nbt_packet: serializes write_nbt size_nbt "\<lambda>bs. bs" "\<lambda>_. True"
  by unfold_locales (simp_all add: size_nbt_def write_nbt_def emits_write)

interpretation clear_dialog_packet: serializes write_clear_dialog size_clear_dialog "\<lambda>_. []" "\<lambda>_. True"
  by unfold_locales (simp_all add: size_clear_dialog_def write_clear_dialog_def emits_ret)

interpretation encryption_request_packet: serializes write_encryption_request size_encryption_request enc_encryption_request "\<lambda>_. True"
proof unfold_locales
  fix x :: encryption_request
  show "size_encryption_request x = length (enc_encryption_request x)"
    by (simp add: size_encryption_request_def enc_encryption_request_def enc_string_def size_varint_enc)
  show "emits V (write_encryption_request W x) (enc_encryption_request x)" if W: "lawful_sink W V"
    for W :: "('w, 'we, 'wx) writer_scheme" and V
  proof -
    note varint = varint.writes_enc [OF TrueI W]
    have "emits V (write_encryption_request W x)
        (enc_varint (varint_from 0) @ enc_varint (varint_from (int (length (public_key x)))) @ public_key x @
          enc_varint (varint_from (int (length (token x)))) @ token x @ to_be_bytes 1 (0 :: 8 word))"
      unfolding write_encryption_request_def by (intro emits_bind emits_write [OF W] varint u8.writes_enc [OF TrueI W])
    then show ?thesis by (simp add: enc_encryption_request_def enc_string_def enc_varint_zero)
  qed
qed

interpretation login_success_packet: serializes write_login_success size_login_success enc_login_success "\<lambda>x. length (uuid x) = 16"
proof unfold_locales
  fix x :: login_success
  assume "length (uuid x) = 16"
  then show "size_login_success x = length (enc_login_success x)"
    by (simp add: size_login_success_def enc_login_success_def enc_string_def size_varint_enc)
  show "emits V (write_login_success W x) (enc_login_success x)" if W: "lawful_sink W V"
    for W :: "('w, 'we, 'wx) writer_scheme" and V
  proof -
    have "emits V (write_login_success W x)
        (uuid x @ enc_varint (varint_from (int (length (username x)))) @ username x @ enc_varint (varint_from 0))"
      unfolding write_login_success_def by (intro emits_bind emits_write [OF W] varint.writes_enc [OF TrueI W])
    then show ?thesis by (simp add: enc_login_success_def enc_string_def enc_varint_zero)
  qed
qed

section \<open>The handlers on the wire\<close>

lemma decodes_discard:
  assumes R: "lawful_reader R V" and n: "n = length bs"
  shows "decodes V (io_map_err RStreamError (discard R n)) bs ()"
  unfolding decodes_def
proof (intro conjI allI impI)
  show "gives (io_map_err RStreamError (discard R n)) r () (\<lambda>r'. V r' rest)" if "V r (bs @ rest)" for r rest
    using lawful_reader.discard_prefix [OF R that n] by (rule gives_map_err)
  show "fails (io_map_err RStreamError (discard R n)) r is_stream_error (\<lambda>_. True)"
    if "V r ps" "ps @ cont = bs" "length ps < length bs" for r ps cont
    using lawful_reader.discard_short [OF R that(1), of n] that(3) n by (intro fails_map_err) (auto elim: fails_mono)
qed

lemma decodes_read_vec:
  assumes "lawful_reader R V"
  shows "decodes V (read_vec R (int (length bs))) bs bs"
  using decodes_read_exact [OF assms, of "length bs" bs] by (simp add: read_vec_def)

text \<open>A length that fits an \<open>i32\<close>, and the bytes behind it.\<close>

lemma decodes_string:
  assumes R: "lawful_reader R V" and s: "length s < 2 ^ 31"
    and g: "g (int (length s)) = io_bind (read_vec R (int (length s))) f" and f: "decodes V (f s) cs b"
  shows "decodes V (io_bind (read_varint R) (\<lambda>v. g (varint_into v))) (enc_string s @ cs) b"
proof -
  have "varint_into (varint_from (int (length s))) = int (length s)" using s by (intro varint_into_from) simp_all
  then have "decodes V (g (varint_into (varint_from (int (length s))))) (s @ cs) b"
    using decodes_bind [where f = f, OF decodes_read_vec [OF R] f] by (simp add: g)
  from decodes_bind [where f = "\<lambda>v. g (varint_into v)", OF varint.reads_enc [OF TrueI R] this]
  show ?thesis by (simp add: enc_string_def)
qed

lemma handle_hello_decodes:
  assumes R: "lawful_reader R V" and address: "length address < 2 ^ 31" and intent: "1 \<le> intent" "intent \<le> 3"
  shows "decodes V (handle_hello R) (enc_hello version address port intent) (Standard (intent = 1))"
proof -
  have len: "varint_into (varint_from (int (length address))) = int (length address)"
    and int: "varint_into (varint_from intent) = intent"
    using address intent by (simp_all add: varint_into_from)
  note varint = varint.reads_enc [OF TrueI R]
  have "nat (int (length address)) + 2 = length (address @ to_be_bytes 2 port)" by simp
  note discard = decodes_discard [OF R this]
  have "decodes V (handle_hello R) (enc_varint (varint_from version) @ enc_varint (varint_from (int (length address))) @
      (address @ to_be_bytes 2 port) @ enc_varint (varint_from intent)) (Standard (intent = 1))"
    unfolding handle_hello_def
    by (rule decodes_bind [OF varint], rule decodes_bind [OF varint])
       (simp only: len Let_def, simp only: of_nat_less_0_iff if_False,
        rule decodes_bind [OF discard], rule decodes_bind_nil [OF varint], use intent in \<open>simp add: int decodes_ret\<close>)
  then show ?thesis by (simp add: enc_hello_def enc_string_def)
qed

lemma status_handler_decodes:
  assumes "lawful_reader R V"
  shows "decodes V (status_handler R (Packet ''StatusRequest'')) [] None"
    and "decodes V (status_handler R (Packet ''Ping'')) (to_be_bytes 8 timestamp) (Some timestamp)"
  using i64.reads_enc [OF TrueI assms] by (auto simp: status_handler_def intro: decodes_ret decodes_bind_ret)

lemma recv_start_decodes:
  assumes R: "lawful_reader R V" and name: "length name \<le> 16" "utf8_valid name" and u: "length u = 16"
  shows "decodes V (recv_start R (Packet ''LoginStart'')) (enc_login_start name u) (Some (name, u))"
proof -
  let ?uuid = "\<lambda>raw_string. case from_utf8 raw_string of
      None \<Rightarrow> io_err (StringDecode ''login_name'')
    | Some n \<Rightarrow>
        io_bind (io_map_err RStreamError (read_exact R 16)) (\<lambda>raw_uuid. io_ret (Some (n, raw_uuid)))"
  have "decodes V (?uuid name) u (Some (name, u))"
    using name u by (auto simp: from_utf8_def intro!: decodes_bind_ret decodes_read_exact [OF R])
  then show ?thesis
    unfolding recv_start_def enc_login_start_def
    using name by (simp only: refl if_True) (rule decodes_string [OF R, where f = ?uuid], simp_all)
qed

lemma encryption_response_decodes:
  assumes R: "lawful_reader R V" and len: "length secret < 2 ^ 31" "length tok < 2 ^ 31"
  shows "decodes V (encryption_response R (Packet ''EncryptionResponse'')) (enc_response secret tok) (Some (secret, tok))"
proof -
  let ?token = "\<lambda>s. io_bind (read_varint R) (\<lambda>v. io_bind (read_vec R (varint_into v)) (\<lambda>t. io_ret (Some (s, t))))"
  have "decodes V (?token secret) (enc_string tok @ []) (Some (secret, tok))"
    by (rule decodes_string [OF R len(2), where f = "\<lambda>t. io_ret (Some (secret, t))" and
          g = "\<lambda>n. io_bind (read_vec R n) (\<lambda>t. io_ret (Some (secret, t)))", OF refl decodes_ret])
  then have "decodes V (?token secret) (enc_string tok) (Some (secret, tok))" by simp
  from decodes_string [OF R len(1), where f = ?token and g = "\<lambda>n. io_bind (read_vec R n) ?token", OF refl this]
  show ?thesis by (simp add: encryption_response_def enc_response_def)
qed

end
