(* ===== verification/Example_Server.thy ===== *)
theory Example_Server
  imports Example_Packets
begin

text \<open>
  The example server of \<open>src/example_helpers/src/lib.rs\<close>, generic in its provider: it answers a status
  request, or logs a player in as far as the configuration state, with encryption and compression, or
  answers a legacy ping.  What it takes from other crates (RSA, the random token, the NBT data) and the
  JSON literal of its status are in the record \<open>example_env\<close>; \<open>println!\<close> is left out.
\<close>

section \<open>The calls of the server\<close>

datatype 'e server_error = ReadFailed "'e read_error" | WriteFailed "'e write_error"

record 'rsa example_env =
  status_json :: "byte list"
  random_token :: "byte list"
  new_private_key :: "'rsa option"
  public_key_der :: "'rsa \<Rightarrow> byte list option"
  rsa_decrypt :: "'rsa \<Rightarrow> byte list \<Rightarrow> byte list option"
  dialog_nbt :: "byte list"
  farewell_nbt :: "byte list"

definition server_handler ::
  "('p, 'r, 'b, 'd, 'c, 'w, 'q, 'z, 'pay, 'level, 'e) provider_traits \<Rightarrow>
   (('b, 'e) bounded_reader \<Rightarrow> designator \<Rightarrow> ('b, 'h, 'e read_error) io) \<Rightarrow>
   (('c, 'e) bounded_reader \<Rightarrow> designator \<Rightarrow> ('c, 'h, 'e read_error) io) \<Rightarrow> ('b, 'c, 'h, 'e) state_handler" where
  "server_handler X f g = \<lparr>handle_bounded = f (bounded (readers X)), handle_inner = g (inner_bounded (readers X))\<rparr>"

definition srv_read_handshake ::
  "('p, 'r, 'b, 'd, 'c, 'w, 'q, 'z, 'pay, 'level, 'e) provider_traits \<Rightarrow> ('b, 'c, 'h, 'e) state_handler \<Rightarrow>
   ('p protocol_handler, 'h, 'e server_error) io" where
  "srv_read_handshake X H = io_map_err ReadFailed (trait_read_handshake v773 X H)"

definition srv_read ::
  "('p, 'r, 'b, 'd, 'c, 'w, 'q, 'z, 'pay, 'level, 'e) provider_traits \<Rightarrow> ('b, 'c, 'h, 'e) state_handler \<Rightarrow>
   ('p protocol_handler, 'h, 'e server_error) io" where
  "srv_read X H = io_map_err ReadFailed (trait_read_packet v773 X H)"

definition srv_write ::
  "('p, 'r, 'b, 'd, 'c, 'w, 'q, 'z, 'pay, 'level, 'e) provider_traits \<Rightarrow> string \<Rightarrow> ('w, 'q, 'z, 'e) packet \<Rightarrow>
   ('p protocol_handler, unit, 'e server_error) io" where
  "srv_write X name pkt = io_map_err WriteFailed (trait_write_packet v773 X name pkt)"

text \<open>\<open>Option::expect\<close> and \<open>Result::expect_err\<close>; a change of state that does not exist is refused by the compiler.\<close>

definition expect :: "'a option \<Rightarrow> ('s, 'a, 'e) io" where
  "expect x = (case x of None \<Rightarrow> io_panic | Some a \<Rightarrow> io_ret a)"

definition expect_err :: "('s, 'a, 'e) io \<Rightarrow> ('s, unit, 'f) io" where
  "expect_err m = (\<lambda>s. case m s of
     (Ok _, s) \<Rightarrow> (Panic, s)
   | (Err _, s) \<Rightarrow> (Ok (), s)
   | (Panic, s) \<Rightarrow> (Panic, s)
   | (Diverge, s) \<Rightarrow> (Diverge, s))"

definition change_state :: "('p protocol_handler \<Rightarrow> 'p protocol_handler option) \<Rightarrow> ('p protocol_handler, unit, 'e) io" where
  "change_state f = (\<lambda>h. case f h of None \<Rightarrow> (Panic, h) | Some h' \<Rightarrow> (Ok (), h'))"

section \<open>The status state\<close>

definition status_state ::
  "('p, 'r, 'b, 'd, 'c, 'w, 'q, 'z, 'pay, 'level, 'e) provider_traits \<Rightarrow> 'rsa example_env \<Rightarrow>
   ('p protocol_handler, unit, 'e server_error) io" where
  "status_state X E =
     io_bind (change_state into_status_state) (\<lambda>_.
     io_bind (srv_read X (server_handler X status_handler status_handler)) (\<lambda>request.
       if request \<noteq> None then io_ret ()
       else io_bind (expect (new_status (status_json E))) (\<lambda>packet.
         io_bind (srv_write X ''StatusResponse'' (typed_packet (writers X) write_string write_string write_string size_string packet)) (\<lambda>_.
         io_bind (srv_read X (server_handler X status_handler status_handler)) (\<lambda>ping. case ping of
             None \<Rightarrow> io_ret ()
           | Some timestamp \<Rightarrow> srv_write X ''Pong'' (typed_packet (writers X) write_pong write_pong write_pong size_pong timestamp))))))"

section \<open>The login and configuration states\<close>

definition kick ::
  "('p, 'r, 'b, 'd, 'c, 'w, 'q, 'z, 'pay, 'level, 'e) provider_traits \<Rightarrow> string \<Rightarrow>
   ('p protocol_handler, unit, 'e server_error) io" where
  "kick X reason =
     io_bind (expect (new_kick (literal reason))) (\<lambda>packet.
       srv_write X ''Disconnect'' (typed_packet (writers X) write_string write_string write_string size_string packet))"

partial_function (option) await_click ::
  "('p, 'r, 'b, 'd, 'c, 'w, 'q, 'z, 'pay, 'level, 'e) provider_traits \<Rightarrow> 'p protocol_handler \<Rightarrow>
   ((unit, 'e server_error) outcome \<times> 'p protocol_handler) option" where
  "await_click X h =
     (case srv_read X (server_handler X config_packet config_packet) h of
        (Ok clicked, h) \<Rightarrow> if clicked then Some (Ok (), h) else await_click X h
      | (Err e, h) \<Rightarrow> Some (Err e, h)
      | (Panic, h) \<Rightarrow> Some (Panic, h)
      | (Diverge, h) \<Rightarrow> Some (Diverge, h))"

definition config_state ::
  "('p, 'r, 'b, 'd, 'c, 'w, 'q, 'z, 'pay, 'level, 'e) provider_traits \<Rightarrow> 'rsa example_env \<Rightarrow>
   ('p protocol_handler, unit, 'e server_error) io" where
  "config_state X E =
     io_bind (change_state (into_next_state v773)) (\<lambda>_.
     io_bind (srv_write X ''ShowDialog'' (typed_packet (writers X) write_nbt write_nbt write_nbt size_nbt (dialog_nbt E))) (\<lambda>_.
     io_bind (io_total (await_click X)) (\<lambda>_.
     io_bind (srv_write X ''ClearDialog'' (typed_packet (writers X) write_clear_dialog write_clear_dialog write_clear_dialog size_clear_dialog ())) (\<lambda>_.
     srv_write X ''Disconnect'' (typed_packet (writers X) write_nbt write_nbt write_nbt size_nbt (farewell_nbt E))))))"

definition accept_login ::
  "('p, 'r, 'b, 'd, 'c, 'w, 'q, 'z, 'pay, 'level, 'e) provider_traits \<Rightarrow> 'rsa example_env \<Rightarrow> byte list \<Rightarrow> byte list \<Rightarrow> byte list \<Rightarrow>
   ('p protocol_handler, unit, 'e server_error) io" where
  "accept_login X E name u secret =
     io_bind (io_map_err WriteFailed (trait_with_encryption X secret)) (\<lambda>_.
     io_bind (srv_write X ''SetCompression'' (typed_packet (writers X)
       write_set_compression write_set_compression write_set_compression size_set_compression ())) (\<lambda>_.
     io_bind (trait_set_threshold X (Some 1)) (\<lambda>_.
     io_bind (expect (new_login_success name u)) (\<lambda>packet.
     io_bind (srv_write X ''LoginSuccess'' (typed_packet (writers X)
       write_login_success write_login_success write_login_success size_login_success packet)) (\<lambda>_.
     io_bind (srv_read X (server_handler X login_acknowledge login_acknowledge)) (\<lambda>acknowledged.
       if \<not> acknowledged then kick X ''You didn't send the expected LoginAcknowledge packet!''
       else config_state X E))))))"

definition check_response ::
  "('p, 'r, 'b, 'd, 'c, 'w, 'q, 'z, 'pay, 'level, 'e) provider_traits \<Rightarrow> 'rsa example_env \<Rightarrow> 'rsa \<Rightarrow> byte list \<Rightarrow> byte list \<Rightarrow>
   byte list \<Rightarrow> byte list \<Rightarrow> ('p protocol_handler, unit, 'e server_error) io" where
  "check_response X E rsa_priv name u secret response_token =
     (case rsa_decrypt E rsa_priv response_token of
        None \<Rightarrow> kick X ''We were unable to decrypt the token!''
      | Some response_token \<Rightarrow>
          if response_token \<noteq> random_token E then kick X ''You sent a different token!''
          else case rsa_decrypt E rsa_priv secret of
              None \<Rightarrow> kick X ''We were unable to decrypt the secret!''
            | Some secret \<Rightarrow>
                if length secret \<noteq> 16 then kick X ''You didn't send a 128 bit key!''
                else accept_login X E name u secret)"

definition receive_response ::
  "('p, 'r, 'b, 'd, 'c, 'w, 'q, 'z, 'pay, 'level, 'e) provider_traits \<Rightarrow> 'rsa example_env \<Rightarrow> 'rsa \<Rightarrow> byte list \<Rightarrow> byte list \<Rightarrow>
   ('p protocol_handler, unit, 'e server_error) io" where
  "receive_response X E rsa_priv name u =
     io_bind (srv_read X (server_handler X encryption_response encryption_response)) (\<lambda>response. case response of
         None \<Rightarrow> kick X ''You didn't send the expected EncryptionResponse packet!''
       | Some (secret, response_token) \<Rightarrow> check_response X E rsa_priv name u secret response_token)"

definition login_state ::
  "('p, 'r, 'b, 'd, 'c, 'w, 'q, 'z, 'pay, 'level, 'e) provider_traits \<Rightarrow> 'rsa example_env \<Rightarrow>
   ('p protocol_handler, unit, 'e server_error) io" where
  "login_state X E =
     io_bind (change_state into_login_state) (\<lambda>_.
     io_bind (srv_read X (server_handler X recv_start recv_start)) (\<lambda>start. case start of
         None \<Rightarrow> kick X ''You didn't send the expected LoginStart packet!''
       | Some (name, u) \<Rightarrow>
           io_bind (expect (new_private_key E)) (\<lambda>rsa_priv.
           io_bind (expect (public_key_der E rsa_priv)) (\<lambda>der_bytes.
           io_bind (expect (new_encryption_request der_bytes (random_token E))) (\<lambda>packet.
           io_bind (srv_write X ''EncryptionRequest'' (typed_packet (writers X)
             write_encryption_request write_encryption_request write_encryption_request size_encryption_request packet)) (\<lambda>_.
           receive_response X E rsa_priv name u))))))"

section \<open>A legacy client\<close>

definition legacy_state ::
  "('p, 'r, 'b, 'd, 'c, 'w, 'q, 'z, 'pay, 'level, 'e) provider_traits \<Rightarrow> bool \<Rightarrow>
   ('p protocol_handler, unit, 'e server_error) io" where
  "legacy_state X is_pre =
     io_bind
       (if is_pre
        then io_bind (expect (new_1_3 (map of_char ''Wow! You're a really, really old client!'') (map of_char ''1'') (map of_char ''1'')))
          (\<lambda>response. io_map_err WriteFailed (trait_write_raw X (\<lambda>W. write_legacy1_3 W response)))
        else io_bind (expect (new_1_6 (map of_char ''1.21.10'') (map of_char ''Wow! You're an old client!'') (map of_char ''0'') (map of_char ''0'')))
          (\<lambda>response. io_map_err WriteFailed (trait_write_raw X (\<lambda>W. write_legacy1_6 W response))))
       (\<lambda>_. expect_err (trait_read_packet v773 X (server_handler X handshake_handler handshake_handler)))"

section \<open>The connection\<close>

definition handle_connection_with_errors ::
  "('p, 'r, 'b, 'd, 'c, 'w, 'q, 'z, 'pay, 'level, 'e) provider_traits \<Rightarrow> 'rsa example_env \<Rightarrow> 'p \<Rightarrow>
   (unit, 'e server_error) outcome \<times> 'p protocol_handler" where
  "handle_connection_with_errors X E pr =
     io_bind (srv_read_handshake X (server_handler X handshake_handler handshake_handler)) (\<lambda>result. case result of
         Standard is_status \<Rightarrow> if is_status then status_state X E else login_state X E
       | Legacy is_pre \<Rightarrow> legacy_state X is_pre) (new_serverside pr)"

section \<open>Reading and writing through a provider that keeps its contract\<close>

lemma decodes_answers:
  assumes R: "lawful_bounded R B" and m: "\<And>tail slack. decodes (frame_view B tail slack) m payload a"
  shows "answers B m payload (Ok a)"
  unfolding answers_def
proof (intro allI impI)
  fix b rest
  assume "B b (length payload) (payload @ rest)"
  then have "frame_view B rest 0 b (payload @ [])" by (simp add: frame_view_def)
  from decodesD [OF m this] show "fst (m b) = Ok a" by (auto simp: gives_def)
qed

lemma well_behaved_panic [contained]: "well_behaved B io_panic"
  by (rule well_behavedI, rule exI [of _ 0], simp add: io_panic_def)

lemma well_behaved_read_i64 [contained]: "ops_contained B R \<Longrightarrow> well_behaved B (read_i64 R)"
  by (simp add: read_i64_def read_prim_def contained)

lemma well_behaved_read_vec [contained]: "ops_contained B R \<Longrightarrow> well_behaved B (read_vec R n)"
  by (simp add: read_vec_def contained)

text \<open>The handlers of the server use their reader only through the operations of the trait.\<close>

lemma well_behaved_handlers [contained]:
  assumes R: "ops_contained B R"
  shows "well_behaved B (handshake_handler R d)" and "well_behaved B (status_handler R d)" and "well_behaved B (recv_start R d)"
    and "well_behaved B (encryption_response R d)" and "well_behaved B (login_acknowledge R d)" and "well_behaved B (config_packet R d)"
proof -
  have "well_behaved B (handle_hello R)"
    by (simp add: handle_hello_def Let_def contained R split: if_split)
  then show "well_behaved B (handshake_handler R d)"
    by (simp add: handshake_handler_def contained split: designator.split handshake.split)
  show "well_behaved B (recv_start R d)"
    by (simp add: recv_start_def Let_def contained R split: option.split if_split)
  show "well_behaved B (encryption_response R d)"
    by (simp add: encryption_response_def contained R split: if_split)
qed (simp_all add: status_handler_def login_acknowledge_def config_packet_def contained R)

lemma short_handshake:
  fixes n :: nat
  assumes "n < 254"
  shows "n < 2 ^ 28" and "n < 128 \<or> n mod 128 \<noteq> 126" and "n < 128 \<or> odd (n div 128)"
proof -
  show "n < 2 ^ 28" using assms by simp
  have "n div 128 = 1 \<and> n mod 128 = n - 128" if "\<not> n < 128"
    using assms that by (simp add: div_if mod_if)
  then show "n < 128 \<or> n mod 128 \<noteq> 126" "n < 128 \<or> odd (n div 128)" using assms by auto
qed

context provider_link
begin

lemma bounded_readers: "lawful_bounded (bounded (readers X)) B" "ops_contained B (bounded (readers X))"
  using lawful_stream.bounded_lawful [OF stream] lawful_ops_contained by auto

lemma frame_readers: "lawful_reader (bounded (readers X)) (frame_view B tail slack)"
  by (rule lawful_bounded.frame_lawful [OF bounded_readers(1)])

lemma srv_reads:
  assumes h: "linked X V U idle s None (wire_frame (packet_body i payload) @ rest) sent h"
    and d: "designator_from_id v773 s i = Some d" and i: "- (2 ^ 31) \<le> i" "i < 2 ^ 31"
    and f: "\<And>tail slack. decodes (frame_view B tail slack) (f (bounded (readers X)) d) payload a"
      "well_behaved B (f (bounded (readers X)) d)"
    and len: "length (packet_body i payload) \<le> MAX_PACKET_SIZE"
  shows "gives (srv_read X (server_handler X f g)) h a (linked X V U idle s None rest sent)"
proof -
  have "answers B (f (bounded (readers X)) d) payload (Ok a)"
    by (rule decodes_answers [OF bounded_readers(1) f(1)])
  then have "\<exists>h'. trait_read_packet v773 X (server_handler X f g) h = (Ok a, h') \<and> linked X V U idle s None rest sent h'"
    using f(2) by (intro link_reads_plain [OF h i d _ _ _ len]) (simp_all add: server_handler_def returns_def)
  then show ?thesis by (auto simp: gives_def srv_read_def io_map_err_def)
qed

text \<open>A handshake of less than 254 bytes is read as it is.\<close>

lemma srv_reads_hello:
  assumes h: "linked X V U idle (Serverbound, HandshakePhase) t (wire_frame (packet_body 0 payload) @ rest) sent h"
    and f: "\<And>tail slack. decodes (frame_view B tail slack) (f (bounded (readers X)) (Handshake handshake.Standard)) payload a"
      "well_behaved B (f (bounded (readers X)) (Handshake handshake.Standard))"
    and len: "length (packet_body 0 payload) < 254"
  shows "gives (srv_read_handshake X (server_handler X f g)) h a (linked X V U idle (Serverbound, HandshakePhase) t rest sent)"
proof -
  let ?n = "length payload + 1"
  have n: "?n < 254" using len by (simp add: packet_body_def enc_varint_zero)
  note small = short_handshake [OF n]
  have "answers B (f (bounded (readers X)) (Handshake handshake.Standard)) payload (Ok a)"
    by (rule decodes_answers [OF bounded_readers(1) f(1)])
  then have "\<exists>r'. read_handshake v773 (Serverbound, HandshakePhase) (readers X) (server_handler X f g) r = (Ok a, r') \<and> V r' rest"
    if "V r (wire_frame (packet_body 0 payload) @ rest)" for r
    using f(2) that n
    by (intro read_handshake_modern [OF stream _ _ _ _ refl small])
       (auto simp: server_handler_def returns_def wire_frame_def packet_body_def enc_varint_zero length_prefix_bytes)
  from link_reads_handshake [OF h this] show ?thesis
    by (auto simp: gives_def srv_read_handshake_def io_map_err_def)
qed

lemma typed_writes:
  assumes "serializes to_b size_of enc valid" "serializes to_q size_of enc valid" "serializes to_z size_of enc valid" and "valid x"
  shows "packet_writes U (P sent) (Z sent zs) (typed_packet (writers X) to_b to_q to_z size_of x) (enc x)"
  by (rule typed_packet_writes [OF deflating assms])

lemma srv_writes:
  assumes h: "linked X V U idle s None ins sent h" and i: "writer_packet_id v773 s name = Some i"
    and pkt: "\<And>sent zs. packet_writes U (P sent) (Z sent zs) pkt payload" and len: "length (packet_body i payload) \<le> MAX_PACKET_SIZE"
  shows "gives (srv_write X name pkt) h () (linked X V U idle s None ins (sent @ wire_frame (packet_body i payload)))"
  unfolding srv_write_def by (rule gives_map_err [OF link_writes_plain [OF h i pkt len]])

lemma changes_state:
  "linked X V U idle (Serverbound, HandshakePhase) t ins sent h \<Longrightarrow>
     gives (change_state into_status_state) h () (linked X V U idle (Serverbound, StatusPhase) t ins sent)"
  "linked X V U idle (Serverbound, HandshakePhase) t ins sent h \<Longrightarrow>
     gives (change_state into_login_state) h () (linked X V U idle (Serverbound, LoginPhase) t ins sent)"
  by (simp_all add: gives_def change_state_def into_status_state_def into_login_state_def linked_def)

end

end
