(* ===== verification/Example_Sessions.thy ===== *)
theory Example_Sessions
  imports Example_Server
begin

text \<open>
  The exchanges of the example server with a client, over any provider that keeps its contract: what the
  client sends is a list of packets, what the server has sent at the end is another.
\<close>

section \<open>The packets of protocol 773\<close>

lemma v773_writes:
  "writer_packet_id v773 (Serverbound, StatusPhase) ''StatusResponse'' = Some 0"
  "writer_packet_id v773 (Serverbound, StatusPhase) ''Pong'' = Some 1"
  "writer_packet_id v773 (Serverbound, LoginPhase) ''Disconnect'' = Some 0"
  "writer_packet_id v773 (Serverbound, LoginPhase) ''EncryptionRequest'' = Some 1"
  "writer_packet_id v773 (Serverbound, LoginPhase) ''LoginSuccess'' = Some 2"
  "writer_packet_id v773 (Serverbound, LoginPhase) ''SetCompression'' = Some 3"
  by (simp_all add: v773_def v773_login_def v773_status_def build_protocol_def id_of_designator_def)

lemma v773_reads:
  "designator_from_id v773 (Serverbound, StatusPhase) 0 = Some (Packet ''StatusRequest'')"
  "designator_from_id v773 (Serverbound, StatusPhase) 1 = Some (Packet ''Ping'')"
  "designator_from_id v773 (Serverbound, LoginPhase) 0 = Some (Packet ''LoginStart'')"
  "designator_from_id v773 (Serverbound, LoginPhase) 1 = Some (Packet ''EncryptionResponse'')"
  by (simp_all add: v773_def v773_login_def v773_status_def build_protocol_def designator_of_id_def)

section \<open>The frames of a session\<close>

definition client_packet :: "int \<Rightarrow> byte list \<Rightarrow> byte list" where
  "client_packet i payload = wire_frame (packet_body i payload)"

definition kick_json :: "string \<Rightarrow> byte list" where
  "kick_json reason = literal ''{\"text\":\"'' @ literal reason @ literal ''\"}''"

text \<open>Why an encryption response is refused, if it is.\<close>

definition refusal :: "'rsa example_env \<Rightarrow> 'rsa \<Rightarrow> byte list \<Rightarrow> byte list \<Rightarrow> string option" where
  "refusal E rsa_priv secret tok =
     (if rsa_decrypt E rsa_priv tok = None then Some ''We were unable to decrypt the token!''
      else if rsa_decrypt E rsa_priv tok \<noteq> Some (random_token E) then Some ''You sent a different token!''
      else case rsa_decrypt E rsa_priv secret of
          None \<Rightarrow> Some ''We were unable to decrypt the secret!''
        | Some raw \<Rightarrow> if length raw \<noteq> 16 then Some ''You didn't send a 128 bit key!'' else None)"

lemma refusal_length: "refusal E rsa_priv secret tok = Some reason \<Longrightarrow> length reason \<le> 100"
  by (auto simp: refusal_def split: if_splits option.splits)

lemma length_literal [simp]: "length (literal s) = length s"
  by (simp add: literal_def)

lemma length_body_le: "length (packet_body i payload) \<le> length payload + 5"
  using enc_varint_length [of "varint_from i"] by (simp add: packet_body_def)

lemma hello_length: "length address \<le> 230 \<Longrightarrow> length (packet_body 0 (enc_hello version address port intent)) < 254"
  using enc_varint_length [of "varint_from version"] enc_varint_length [of "varint_from intent"] length_enc_string_le [of address]
  by (simp add: packet_body_def enc_hello_def enc_varint_zero)

lemma gives_step:
  assumes "gives m s a Q"
  obtains s' where "Q s'" and "m s = (Ok a, s')"
  using assms by (auto simp: gives_def)

lemma check_response_refuses:
  "refusal E rsa_priv secret tok = Some reason \<Longrightarrow> check_response X E rsa_priv name u secret tok = kick X reason"
  by (auto simp: refusal_def check_response_def split: option.splits if_splits)

lemma check_response_accepts:
  "refusal E rsa_priv secret tok = None \<Longrightarrow> \<exists>raw. rsa_decrypt E rsa_priv secret = Some raw \<and> length raw = 16 \<and>
     rsa_decrypt E rsa_priv tok = Some (random_token E) \<and>
     check_response X E rsa_priv name u secret tok = accept_login X E name u raw"
  by (auto simp: refusal_def check_response_def split: option.splits if_splits)

text \<open>A handler that panics.\<close>

lemma read_packet_panics:
  assumes S: "lawful_stream S V B" and d: "designator_from_id p s i = Some d"
    and m: "answers B (handle_bounded H d) payload Panic"
    and i: "- (2 ^ 31) \<le> i" "i < 2 ^ 31" and len: "length (packet_body i payload) \<le> MAX_PACKET_SIZE"
    and r: "V r (wire_frame (packet_body i payload) @ rest)"
  shows "fst (read_packet p s None S H r) = Panic"
proof -
  let ?v = "varint_from i"
  have "V r (length_prefix (length (enc_varint ?v @ payload)) @ enc_varint ?v @ payload @ rest)"
    "length (enc_varint ?v @ payload) < 2 ^ 21"
    using r len by (simp_all add: wire_frame_def packet_body_def MAX_PACKET_SIZE_def)
  then obtain b where b: "B b (length (enc_varint ?v @ payload)) (enc_varint ?v @ payload @ rest)"
    and run: "read_packet p s None S H r = (case handle_helper p s (bounded S) (handle_bounded H) b of
       (res, b') \<Rightarrow> (res, end_bound S b'))"
    by (rule read_packet_bounded [OF S, where p = p and s = s and threshold = None and H = H]) (simp add: read_body_def)
  obtain b1 where b1: "read_varint (bounded S) b = (Ok ?v, b1)" "B b1 (length payload) (payload @ rest)"
    using bounded_varint [OF lawful_stream.bounded_lawful [OF S], of b _ ?v "payload @ rest", OF b] by (auto simp: gives_def)
  have "fst (handle_bounded H d b1) = Panic" using m b1(2) unfolding answers_def by blast
  then show ?thesis
    by (auto simp: run handle_helper_def io_bind_def b1(1) varint_into_from [OF i] d then_discard_def split: prod.split)
qed

section \<open>Sessions\<close>

context provider_link
begin

lemma hello_enters:
  assumes h: "linked X V U idle (Serverbound, HandshakePhase) t
      (client_packet 0 (enc_hello version address port intent) @ rest) sent (new_serverside pr)"
    and intent: "1 \<le> intent" "intent \<le> 3" and len: "length (packet_body 0 (enc_hello version address port intent)) < 254"
  obtains h' where "linked X V U idle (Serverbound, HandshakePhase) t rest sent h'"
    and "handle_connection_with_errors X E pr = (if intent = 1 then status_state X E else login_state X E) h'"
proof -
  have "length address < 2 ^ 31" using len by (simp add: packet_body_def enc_hello_def enc_string_def)
  then have "decodes (frame_view B tail slack) (handshake_handler (bounded (readers X)) (Handshake handshake.Standard))
      (enc_hello version address port intent) (Standard (intent = 1))" for tail slack
    unfolding handshake_handler_def by (simp add: handle_hello_decodes [OF frame_readers _ intent])
  from srv_reads_hello [OF h [unfolded client_packet_def], where f = handshake_handler and g = handshake_handler, OF this
      well_behaved_handlers(1) [OF bounded_readers(2)] len]
  obtain h' where "linked X V U idle (Serverbound, HandshakePhase) t rest sent h'"
    "srv_read_handshake X (server_handler X handshake_handler handshake_handler) (new_serverside pr) = (Ok (Standard (intent = 1)), h')"
    by (rule gives_step)
  then show ?thesis by (intro that) (simp_all add: handle_connection_with_errors_def io_bind_def)
qed

text \<open>A status request and a ping are answered.\<close>

lemma serves_status:
  assumes h: "linked X V U idle (Serverbound, HandshakePhase) None
      (client_packet 0 [] @ client_packet 1 (to_be_bytes 8 (timestamp :: 64 word)) @ rest) sent h"
    and json: "length (status_json E) \<le> I16_MAX"
  shows "gives (status_state X E) h () (linked X V U idle (Serverbound, StatusPhase) None rest
    (sent @ client_packet 0 (enc_string (status_json E)) @ client_packet 1 (to_be_bytes 8 timestamp)))"
proof -
  note wb = well_behaved_handlers(2) [OF bounded_readers(2)]
  note status_read = srv_reads [where f = status_handler and g = status_handler]
  have small: "length (packet_body 0 []) \<le> MAX_PACKET_SIZE" "length (packet_body 1 (to_be_bytes 8 timestamp)) \<le> MAX_PACKET_SIZE"
    using length_body_le [of 0 "[]"] length_body_le [of 1 "to_be_bytes 8 timestamp"] by (simp_all add: MAX_PACKET_SIZE_def)
  have json_small: "length (packet_body 0 (enc_string (status_json E))) \<le> MAX_PACKET_SIZE"
    using length_body_le [of 0 "enc_string (status_json E)"] length_enc_string_le [of "status_json E"] json
    by (simp add: MAX_PACKET_SIZE_def I16_MAX_def)
  obtain h1 where h1: "linked X V U idle (Serverbound, StatusPhase) None
      (wire_frame (packet_body 0 []) @ wire_frame (packet_body 1 (to_be_bytes 8 timestamp)) @ rest) sent h1"
      "change_state into_status_state h = (Ok () :: (unit, 'e server_error) outcome, h1)"
    by (rule gives_step [OF changes_state(1) [OF h [unfolded client_packet_def]]])
  obtain h2 where h2: "linked X V U idle (Serverbound, StatusPhase) None
      (wire_frame (packet_body 1 (to_be_bytes 8 timestamp)) @ rest) sent h2"
      "srv_read X (server_handler X status_handler status_handler) h1 = (Ok None, h2)"
    by (rule gives_step [OF status_read [OF h1(1) v773_reads(1) _ _ status_handler_decodes(1) [OF frame_readers] wb small(1)]])
       simp_all
  obtain h3 where h3: "linked X V U idle (Serverbound, StatusPhase) None
      (wire_frame (packet_body 1 (to_be_bytes 8 timestamp)) @ rest) (sent @ client_packet 0 (enc_string (status_json E))) h3"
      "srv_write X ''StatusResponse'' (typed_packet (writers X) write_string write_string write_string size_string (status_json E)) h2 = (Ok (), h3)"
    by (rule gives_step [OF srv_writes [OF h2(1) v773_writes(1) typed_writes [OF string_packet.serializes_axioms
          string_packet.serializes_axioms string_packet.serializes_axioms TrueI] json_small]]) (simp add: client_packet_def)
  obtain h4 where h4: "linked X V U idle (Serverbound, StatusPhase) None rest (sent @ client_packet 0 (enc_string (status_json E))) h4"
      "srv_read X (server_handler X status_handler status_handler) h3 = (Ok (Some timestamp), h4)"
    by (rule gives_step [OF status_read [OF h3(1) v773_reads(2) _ _ status_handler_decodes(2) [OF frame_readers] wb small(2)]])
       simp_all
  have "gives (srv_write X ''Pong'' (typed_packet (writers X) write_pong write_pong write_pong size_pong timestamp)) h4 ()
      (linked X V U idle (Serverbound, StatusPhase) None rest
        ((sent @ client_packet 0 (enc_string (status_json E))) @ wire_frame (packet_body 1 (to_be_bytes 8 timestamp))))"
    by (rule srv_writes [OF h4(1) v773_writes(2) typed_writes [OF pong_packet.serializes_axioms pong_packet.serializes_axioms
          pong_packet.serializes_axioms TrueI] small(2)])
  then show ?thesis
    using json
    by (simp add: gives_def status_state_def io_bind_def h1(2) h2(2) h3(2) h4(2) new_status_def expect_def client_packet_def io_ret_def)
qed

text \<open>A disconnection is sent with its reason.\<close>

lemma kicks:
  assumes h: "linked X V U idle (Serverbound, LoginPhase) None ins sent h" and reason: "length reason \<le> 100"
  shows "gives (kick X reason) h () (linked X V U idle (Serverbound, LoginPhase) None ins
    (sent @ client_packet 0 (enc_string (kick_json reason))))"
proof -
  have json: "length (kick_json reason) \<le> I16_MAX" using reason by (simp add: kick_json_def I16_MAX_def)
  then have len: "length (packet_body 0 (enc_string (kick_json reason))) \<le> MAX_PACKET_SIZE"
    using length_body_le [of 0 "enc_string (kick_json reason)"] length_enc_string_le [of "kick_json reason"]
    by (simp add: MAX_PACKET_SIZE_def I16_MAX_def)
  have new: "new_kick (literal reason) = Some (kick_json reason)"
    using json by (simp add: new_kick_def kick_json_def)
  from srv_writes [OF h v773_writes(3) typed_writes [OF string_packet.serializes_axioms string_packet.serializes_axioms
        string_packet.serializes_axioms TrueI] len]
  show ?thesis by (simp add: kick_def new expect_def client_packet_def)
qed

text \<open>The login up to the encryption request; then the response is read and checked.\<close>

lemma requests_encryption:
  assumes h: "linked X V U idle (Serverbound, HandshakePhase) None (client_packet 0 (enc_login_start name u) @ rest) sent h"
    and name: "length name \<le> 16" "utf8_valid name" and u: "length u = 16"
    and rsa: "new_private_key E = Some rsa_priv" "public_key_der E rsa_priv = Some der"
    and request: "length der + length (random_token E) \<le> I16_MAX"
  obtains h' where "linked X V U idle (Serverbound, LoginPhase) None rest
      (sent @ client_packet 1 (enc_encryption_request \<lparr>public_key = der, token = random_token E\<rparr>)) h'"
    and "login_state X E h = receive_response X E rsa_priv name u h'"
proof -
  let ?request = "\<lparr>public_key = der, token = random_token E\<rparr>"
  note start_read = srv_reads [where f = recv_start and g = recv_start]
  have start: "length (packet_body 0 (enc_login_start name u)) \<le> MAX_PACKET_SIZE"
    using length_body_le [of 0 "enc_login_start name u"] length_enc_string_le [of name] name u
    by (simp add: MAX_PACKET_SIZE_def enc_login_start_def)
  have request_small: "length (packet_body 1 (enc_encryption_request ?request)) \<le> MAX_PACKET_SIZE"
    using length_body_le [of 1 "enc_encryption_request ?request"] length_enc_string_le [of der]
      length_enc_string_le [of "random_token E"] request
    by (simp add: MAX_PACKET_SIZE_def I16_MAX_def enc_encryption_request_def)
  obtain h1 where h1: "linked X V U idle (Serverbound, LoginPhase) None
      (wire_frame (packet_body 0 (enc_login_start name u)) @ rest) sent h1"
      "change_state into_login_state h = (Ok () :: (unit, 'e server_error) outcome, h1)"
    by (rule gives_step [OF changes_state(2) [OF h [unfolded client_packet_def]]])
  obtain h2 where h2: "linked X V U idle (Serverbound, LoginPhase) None rest sent h2"
      "srv_read X (server_handler X recv_start recv_start) h1 = (Ok (Some (name, u)), h2)"
    by (rule gives_step [OF start_read [OF h1(1) v773_reads(3) _ _ recv_start_decodes [OF frame_readers name u]
          well_behaved_handlers(3) [OF bounded_readers(2)] start]]) simp_all
  obtain h3 where h3: "linked X V U idle (Serverbound, LoginPhase) None rest
      (sent @ client_packet 1 (enc_encryption_request ?request)) h3"
      "srv_write X ''EncryptionRequest'' (typed_packet (writers X)
        write_encryption_request write_encryption_request write_encryption_request size_encryption_request ?request) h2 = (Ok (), h3)"
    by (rule gives_step [OF srv_writes [OF h2(1) v773_writes(4) typed_writes [OF encryption_request_packet.serializes_axioms
          encryption_request_packet.serializes_axioms encryption_request_packet.serializes_axioms TrueI] request_small]])
       (simp add: client_packet_def)
  have new: "new_encryption_request der (random_token E) = Some ?request"
    using request by (simp add: new_encryption_request_def I16_MAX_def I32_MAX_def)
  have "login_state X E h = receive_response X E rsa_priv name u h3"
    by (simp add: login_state_def io_bind_def h1(2) h2(2) h3(2) rsa new expect_def io_ret_def)
  with h3(1) show ?thesis by (rule that)
qed

lemma receives_response:
  assumes h: "linked X V U idle (Serverbound, LoginPhase) None (client_packet 1 (enc_response secret tok) @ rest) sent h"
    and response: "length (packet_body 1 (enc_response secret tok)) \<le> MAX_PACKET_SIZE"
  obtains h' where "linked X V U idle (Serverbound, LoginPhase) None rest sent h'"
    and "receive_response X E rsa_priv name u h = check_response X E rsa_priv name u secret tok h'"
proof -
  note response_read = srv_reads [where f = encryption_response and g = encryption_response]
  have lengths: "length secret < 2 ^ 31" "length tok < 2 ^ 31"
    using response by (simp_all add: packet_body_def enc_response_def enc_string_def MAX_PACKET_SIZE_def)
  obtain h' where h': "linked X V U idle (Serverbound, LoginPhase) None rest sent h'"
      "srv_read X (server_handler X encryption_response encryption_response) h = (Ok (Some (secret, tok)), h')"
    by (rule gives_step [OF response_read [OF h [unfolded client_packet_def] v773_reads(4) _ _
          encryption_response_decodes [OF frame_readers lengths] well_behaved_handlers(4) [OF bounded_readers(2)] response]])
       simp_all
  then show ?thesis by (intro that) (simp_all add: receive_response_def io_bind_def)
qed

text \<open>A negative length in the response is the capacity of a vector: the server panics.\<close>

lemma negative_response:
  assumes h: "linked X V U idle (Serverbound, LoginPhase) None
      (client_packet 1 (enc_varint (varint_from n) @ behind) @ rest) sent h"
    and n: "- (2 ^ 31) \<le> n" "n < 0" and len: "length (packet_body 1 (enc_varint (varint_from n) @ behind)) \<le> MAX_PACKET_SIZE"
  shows "\<exists>h'. receive_response X E rsa_priv name u h = (Panic, h')"
proof -
  let ?H = "server_handler X encryption_response encryption_response"
  have into: "varint_into (varint_from n) = n" using n by (intro varint_into_from) simp_all
  have "fst (encryption_response (bounded (readers X)) (Packet ''EncryptionResponse'') b) = Panic"
    if "B b (length (enc_varint (varint_from n) @ behind)) ((enc_varint (varint_from n) @ behind) @ rest)" for b rest
  proof -
    have "gives (read_varint (bounded (readers X))) b (varint_from n) (\<lambda>_. True)"
      by (rule gives_mono [OF bounded_varint [OF bounded_readers(1),
            where lim = "length (enc_varint (varint_from n) @ behind)" and rest = "behind @ rest"]]) (use that in simp_all)
    then show ?thesis
      using n by (auto simp: gives_def encryption_response_def io_bind_def read_vec_def into io_panic_def)
  qed
  then have panics: "answers B (handle_bounded ?H (Packet ''EncryptionResponse'')) (enc_varint (varint_from n) @ behind) Panic"
    by (simp add: answers_def server_handler_def)
  have "V (borrow_reader X (provider h)) (wire_frame (packet_body 1 (enc_varint (varint_from n) @ behind)) @ rest)"
    using h by (simp add: linked_def client_packet_def)
  then have "fst (read_packet v773 (Serverbound, LoginPhase) None (readers X) ?H (borrow_reader X (provider h))) = Panic"
    using len by (intro read_packet_panics [OF stream v773_reads(4) panics]) simp_all
  then have "fst (srv_read X ?H h) = Panic"
    using h by (auto simp: srv_read_def trait_read_packet_def linked_def on_provider_def with_reader_def io_within_def io_map_err_def
        split: prod.split)
  then show ?thesis
    by (cases "srv_read X ?H h") (auto simp: receive_response_def io_bind_def)
qed

text \<open>
  Behind the switch to encryption: compression is announced and used from the next packet on; a client that
  closes the connection then is an error of the stream.
\<close>

lemma accepts_login:
  assumes h: "trait_with_encryption X k h = (Ok (), h1)" "linked X V U idle (Serverbound, LoginPhase) None [] [] h1"
    and name: "length name \<le> 16" and u: "length u = 16"
    and small: "\<And>zs. deflates (packet_body 2 (enc_login_success \<lparr>username = name, uuid = u\<rparr>)) zs \<Longrightarrow> length zs \<le> I16_MAX"
  shows "\<exists>e zs h'. accept_login X E name u k h = (Err (ReadFailed e), h') \<and> is_stream_error e \<and>
    deflates (packet_body 2 (enc_login_success \<lparr>username = name, uuid = u\<rparr>)) zs \<and>
    U (borrow_writer X (provider h')) (client_packet 3 [1] @ wire_frame
      (length_prefix (length (packet_body 2 (enc_login_success \<lparr>username = name, uuid = u\<rparr>))) @ zs)) \<and>
    idle (borrow_writer X (provider h'))"
proof -
  let ?success = "\<lparr>username = name, uuid = u\<rparr>"
  let ?body = "packet_body 2 (enc_login_success ?success)"
  have one: "length (packet_body 3 [1]) \<le> MAX_PACKET_SIZE"
    using length_body_le [of 3 "[1]"] by (simp add: MAX_PACKET_SIZE_def)
  obtain h2 where h2: "linked X V U idle (Serverbound, LoginPhase) None [] (client_packet 3 [1]) h2"
      "srv_write X ''SetCompression'' (typed_packet (writers X)
        write_set_compression write_set_compression write_set_compression size_set_compression ()) h1 = (Ok (), h2)"
    by (rule gives_step [OF srv_writes [OF h(2) v773_writes(6) typed_writes [OF set_compression_packet.serializes_axioms
          set_compression_packet.serializes_axioms set_compression_packet.serializes_axioms TrueI] one]])
       (simp add: client_packet_def)
  obtain h3 where h3: "linked X V U idle (Serverbound, LoginPhase) (Some 1) [] (client_packet 3 [1]) h3"
      "trait_set_threshold X (Some 1) h2 = (Ok () :: (unit, 'e server_error) outcome, h3)"
    by (rule gives_step [OF link_sets_threshold [OF h2(1)]])
  have body: "length ?body \<le> length name + 35" "\<not> length ?body < 1"
    using length_body_le [of 2 "enc_login_success ?success"] length_enc_string_le [of name] u
    by (simp_all add: enc_login_success_def packet_body_def)
  have pkt: "packet_writes U (P sent) (Z sent zs) (typed_packet (writers X)
      write_login_success write_login_success write_login_success size_login_success ?success) (enc_login_success ?success)" for sent zs
    by (rule typed_writes [OF login_success_packet.serializes_axioms login_success_packet.serializes_axioms
          login_success_packet.serializes_axioms]) (simp add: u)
  obtain frame where frame: "frame_of deflates (Some 1) ?body frame"
      "length frame \<le> MAX_PACKET_SIZE \<longrightarrow> gives (trait_write_packet v773 X ''LoginSuccess'' (typed_packet (writers X)
        write_login_success write_login_success write_login_success size_login_success ?success)) h3 ()
        (linked X V U idle (Serverbound, LoginPhase) (Some 1) [] (client_packet 3 [1] @ wire_frame frame))"
    using link_writes [OF h3(1) v773_writes(5) pkt] body(1) name by (auto simp: I32_MAX_def)
  from frame(1) body(2) obtain zs where zs: "deflates ?body zs" "frame = length_prefix (length ?body) @ zs"
    unfolding frame_of_def option.case if_not_P [OF body(2)] by blast
  have "length frame \<le> MAX_PACKET_SIZE"
    using small [OF zs(1)] length_prefix_short [of "length ?body"] body(1) name by (simp add: zs(2) MAX_PACKET_SIZE_def I16_MAX_def)
  with frame(2) have "gives (srv_write X ''LoginSuccess'' (typed_packet (writers X)
      write_login_success write_login_success write_login_success size_login_success ?success)) h3 ()
      (linked X V U idle (Serverbound, LoginPhase) (Some 1) [] (client_packet 3 [1] @ wire_frame frame))"
    by (simp add: srv_write_def gives_map_err)
  then obtain h4 where h4: "linked X V U idle (Serverbound, LoginPhase) (Some 1) [] (client_packet 3 [1] @ wire_frame frame) h4"
      "srv_write X ''LoginSuccess'' (typed_packet (writers X)
        write_login_success write_login_success write_login_success size_login_success ?success) h3 = (Ok (), h4)"
    by (rule gives_step)
  obtain e h5 where h5: "trait_read_packet v773 X (server_handler X login_acknowledge login_acknowledge) h4 = (Err e, h5)"
      "is_stream_error e" "borrow_writer X (provider h5) = borrow_writer X (provider h4)"
    using link_reads_end [OF h4(1)] by blast
  have "accept_login X E name u k h = (Err (ReadFailed e), h5)"
    using name
    by (simp add: accept_login_def io_bind_def io_map_err_def h(1) h2(2) h3(2) h4(2) new_login_success_def expect_def io_ret_def
        srv_read_def h5(1) del: One_nat_def)
  then show ?thesis using h4(1) h5(2,3) zs by (auto simp: linked_def)
qed

text \<open>The exchanges, from the first byte of the connection.\<close>

lemma status_exchange:
  assumes h: "linked X V U idle (Serverbound, HandshakePhase) None (client_packet 0 (enc_hello version address port 1) @
      client_packet 0 [] @ client_packet 1 (to_be_bytes 8 (timestamp :: 64 word)) @ rest) sent (new_serverside pr)"
    and len: "length (packet_body 0 (enc_hello version address port 1)) < 254" and json: "length (status_json E) \<le> I16_MAX"
  shows "\<exists>h'. handle_connection_with_errors X E pr = (Ok (), h') \<and> linked X V U idle (Serverbound, StatusPhase) None rest
    (sent @ client_packet 0 (enc_string (status_json E)) @ client_packet 1 (to_be_bytes 8 timestamp)) h'"
proof (rule hello_enters [where E = E, OF h _ _ len])
  fix h1
  assume h1: "linked X V U idle (Serverbound, HandshakePhase) None
      (client_packet 0 [] @ client_packet 1 (to_be_bytes 8 timestamp) @ rest) sent h1"
    and run: "handle_connection_with_errors X E pr = (if (1 :: int) = 1 then status_state X E else login_state X E) h1"
  show ?thesis using serves_status [OF h1 json] by (auto simp: gives_def run)
qed simp_all

lemma login_exchange:
  assumes h: "linked X V U idle (Serverbound, HandshakePhase) None (client_packet 0 (enc_hello version address port intent) @
      client_packet 0 (enc_login_start name u) @ rest) sent (new_serverside pr)"
    and hello: "2 \<le> intent" "intent \<le> 3" "length (packet_body 0 (enc_hello version address port intent)) < 254"
    and player: "length name \<le> 16" "utf8_valid name" "length u = 16"
    and rsa: "new_private_key E = Some rsa_priv" "public_key_der E rsa_priv = Some der"
    and request: "length der + length (random_token E) \<le> I16_MAX"
  obtains h' where "linked X V U idle (Serverbound, LoginPhase) None rest
      (sent @ client_packet 1 (enc_encryption_request \<lparr>public_key = der, token = random_token E\<rparr>)) h'"
    and "handle_connection_with_errors X E pr = receive_response X E rsa_priv name u h'"
proof (rule hello_enters [where E = E, OF h _ hello(2,3)])
  show "1 \<le> intent" using hello(1) by simp
  fix h1
  assume h1: "linked X V U idle (Serverbound, HandshakePhase) None (client_packet 0 (enc_login_start name u) @ rest) sent h1"
    and run: "handle_connection_with_errors X E pr = (if intent = 1 then status_state X E else login_state X E) h1"
  from run hello(1) have run: "handle_connection_with_errors X E pr = login_state X E h1" by simp
  show thesis
    by (rule requests_encryption [OF h1 player rsa request]) (rule that, simp_all add: run)
qed

text \<open>A refused response: the reason is sent, and nothing else.\<close>

lemma refuses:
  assumes h: "linked X V U idle (Serverbound, LoginPhase) None (client_packet 1 (enc_response secret tok) @ rest) sent h"
    and response: "length (packet_body 1 (enc_response secret tok)) \<le> MAX_PACKET_SIZE"
    and refused: "refusal E rsa_priv secret tok = Some reason"
  shows "gives (receive_response X E rsa_priv name u) h () (linked X V U idle (Serverbound, LoginPhase) None rest
    (sent @ client_packet 0 (enc_string (kick_json reason))))"
proof (rule receives_response [where E = E and rsa_priv = rsa_priv and name = name and u = u, OF h response])
  fix h1
  assume "linked X V U idle (Serverbound, LoginPhase) None rest sent h1"
  note kick = kicks [OF this refusal_length [OF refused]]
  assume "receive_response X E rsa_priv name u h = check_response X E rsa_priv name u secret tok h1"
  then show ?thesis using kick by (simp add: gives_def check_response_refuses [OF refused])
qed

end

end
