(* ===== verification/Provider_Instances.thy ===== *)
theory Provider_Instances
  imports Example_Sessions Sync_Session Async_Session
begin

text \<open>
  The traits of a provider as \<open>DefaultStreamProvider\<close> (\<open>src/defaults/sync.rs\<close>) and
  \<open>AsyncDefaultStreamProvider\<close> (\<open>src/defaults/asynchronous/tokio.rs\<close>) implement them, and the contract of
  \<open>provider_link\<close> for both.
\<close>

section \<open>DefaultStreamProvider\<close>

definition sync_traits ::
  "'z inflater \<Rightarrow> 'd cipher \<Rightarrow> ('r, 'x) std_read_scheme \<Rightarrow> 'q deflater \<Rightarrow> 'k cipher \<Rightarrow> ('w, 'y) std_write_scheme \<Rightarrow>
   (('r, 'z, 'k, 'w, 'q, 'd) stream_provider,
    ('z, ('d, 'r) default_reader buf_reader) state_wrapped,
    ('z, ('d, 'r) default_reader buf_reader taken) state_wrapped,
    ('z, ('d, 'r) default_reader buf_reader taken) decompression_reader,
    ('z, ('d, 'r) default_reader buf_reader taken) decompression_reader taken,
    ('q, 'k, 'w) default_writer, 'q pre_writer \<times> ('q, 'k, 'w) default_writer, ('q, 'k, 'w) default_writer,
    byte list, compression, io_error) provider_traits" where
  "sync_traits I dec R D enc W =
     \<lparr>readers = default_read_stream I (buf_read (default_read dec R)),
      writers = default_write_stream D enc W,
      borrow_reader = sp_read_stream,
      return_reader = (\<lambda>w pr. pr\<lparr>sp_decompression_state := decompression_state w, sp_reader := wrapped w\<rparr>),
      borrow_writer = sp_writer,
      return_writer = (\<lambda>w pr. pr\<lparr>sp_writer := w\<rparr>),
      threshold_of = compression_threshold,
      level_of = compression_level,
      set_threshold = set_compression_threshold,
      encrypt_streams = with_encryption dec enc\<rparr>"

text \<open>A handler over these traits is the handler over the provider.\<close>

lemma sync_reads_packet: "trait_read_packet p (sync_traits I dec R D enc W) H = handler_read_packet p I dec R H"
  by (simp add: fun_eq_iff trait_read_packet_def handler_read_packet_def sync_traits_def with_reader_def on_read_stream_def)

lemma sync_writes_packet:
  "trait_write_packet p (sync_traits I dec R D enc W) name pkt h =
     (case handler_write_packet p D enc W h name pkt of None \<Rightarrow> (Panic, h) | Some run \<Rightarrow> run)"
  by (simp add: trait_write_packet_def handler_write_packet_def write_packet_def sync_traits_def with_writer_def on_write_stream_def
      on_provider_def io_within_def split: option.split)

lemma sync_link:
  assumes R: "lawful_read (default_read dec R) VR patience" and W: "lawful_write (default_write enc W) U patience'"
    and U: "\<And>w q. U (w\<lparr>compression_state := q\<rparr>) = U w"
    and D: "deflate_takes D K pending" "deflate_finishes D K deflates pending'" "deflate_resets D K"
  shows "provider_link (sync_traits I dec R D enc W) (wrapped_view (buf_view VR)) (wrapped_bound (buf_view VR)) U
    (compressing_view K U) (compressed_view deflates U) (\<lambda>sent zs z bs. U z (sent @ zs)) (\<lambda>sent z. U z sent)
    (carried deflates) deflates (\<lambda>w. unsent (writer_state w) = [])"
proof (intro provider_link.intro provider_link_axioms.intro)
  show "lawful_stream (readers (sync_traits I dec R D enc W)) (wrapped_view (buf_view VR)) (wrapped_bound (buf_view VR))"
    using lawful_default_stream [OF lawful_buf_reader [OF R]] by (simp add: sync_traits_def)
  show "lawful_deflating (writers (sync_traits I dec R D enc W)) U (compressing_view K U) (compressed_view deflates U)
      (\<lambda>sent zs z bs. U z (sent @ zs)) (\<lambda>sent z. U z sent) (carried deflates) deflates"
    using lawful_deflating_view [OF W U D] by (simp add: sync_traits_def)
qed (auto simp: sync_traits_def sp_read_stream_def set_compression_threshold_def default_write_stream_def std_writer_def
    dest: default_flush_empties)

text \<open>A reader in front of the switch to encryption, and a writer in front of it or behind it.\<close>

definition clear_reader :: "('r \<Rightarrow> byte list \<Rightarrow> bool) \<Rightarrow> ('d, 'r) default_reader \<Rightarrow> byte list \<Rightarrow> bool" where
  "clear_reader V s bs \<longleftrightarrow> (\<exists>r. s = StandardReader r \<and> V r bs)"

lemma lawful_clear_reader:
  fixes c :: "'d cipher" and R :: "('r, 'x) std_read_scheme"
  assumes R: "lawful_read R V patience"
  shows "lawful_read (default_read c R) (clear_reader V) (reader_patience patience)"
proof (rule lawful_read.intro)
  fix s :: "('d, 'r) default_reader" and bs n
  assume "clear_reader V s bs"
  then obtain r where r: "s = StandardReader r" "V r bs" by (auto simp: clear_reader_def)
  from lawful_read.read_some [OF R r(2), of n]
  show "read_answers (clear_reader V) (reader_patience patience) n bs s (read_some (default_read c R) n s)"
    by (cases rule: read_answers_cases)
       (auto simp: read_answers_def default_read_def default_reader_read_def r(1) clear_reader_def)
qed

definition writer_with ::
  "bool \<Rightarrow> 'k cipher \<Rightarrow> ('w \<Rightarrow> byte list \<Rightarrow> bool) \<Rightarrow> 'k \<Rightarrow> byte list \<Rightarrow> ('q, 'k, 'w) default_writer \<Rightarrow> byte list \<Rightarrow> bool" where
  "writer_with encrypted c V k0 sent0 w bs \<longleftrightarrow>
     default_writer_view c V k0 sent0 w bs \<and> encrypting (writer_state w) = encrypted"

lemma encrypting_kept:
  "encrypting (snd (writer_state_write c W buf s)) = encrypting s" "encrypting (snd (writer_state_flush c W s)) = encrypting s"
  by (cases s; simp add: writer_state_write_def writer_state_flush_def split: prod.split)+

lemma lawful_writer_with:
  fixes W :: "('w, 'x) std_write_scheme" and c :: "'k cipher"
  assumes W: "lawful_write W V patience" and c: "stream_cipher c"
  shows "lawful_write (default_write c W) (writer_with encrypted c V k0 sent0 :: ('q, 'k, 'w) default_writer \<Rightarrow> _) (\<lambda>_. 0)"
proof -
  have "writer_state (snd (write_some (default_write c W) buf w)) = snd (writer_state_write c W buf (writer_state w))"
    "writer_state (snd (flush_std (default_write c W) w)) = snd (writer_state_flush c W (writer_state w))"
    for buf and w :: "('q, 'k, 'w) default_writer"
    by (simp_all add: default_write_def on_writer_state_def io_within_def split: prod.split)
  then show ?thesis
    unfolding writer_with_def [abs_def]
    by (intro lawful_write_invariant [OF lawful_default_write [OF W c]]) (simp_all add: encrypting_kept)
qed

text \<open>The link of the server: in the clear, and behind the switch.\<close>

abbreviation sync_idle :: "('q, 'k, 'w) default_writer \<Rightarrow> bool" where
  "sync_idle w \<equiv> unsent (writer_state w) = []"

lemma sync_link_with:
  fixes W :: "('w, 'y) std_write_scheme" and enc :: "'k cipher"
  assumes R: "lawful_read (default_read dec R) VR patience" and W: "lawful_write W VW patience'" "stream_cipher enc"
    and D: "deflate_takes D K pending" "deflate_finishes D K deflates pending'" "deflate_resets D K"
  shows "provider_link (sync_traits I dec R D enc W) (wrapped_view (buf_view VR)) (wrapped_bound (buf_view VR))
    (writer_with encrypted enc VW k0 sent0) (compressing_view K (writer_with encrypted enc VW k0 sent0))
    (compressed_view deflates (writer_with encrypted enc VW k0 sent0))
    (\<lambda>sent zs z bs. writer_with encrypted enc VW k0 sent0 z (sent @ zs)) (\<lambda>sent z. writer_with encrypted enc VW k0 sent0 z sent)
    (carried deflates) deflates sync_idle"
  by (rule sync_link [OF R lawful_writer_with [OF W] _ D]) (simp add: writer_with_def fun_eq_iff)

lemma sync_starts:
  assumes "new_provider new_compressor new_inflater r w level buffer_size = Ok pr" and "0 < buffer_size" and "VR r bs" and "VW w sent"
  shows "linked (sync_traits I dec R D enc W) (wrapped_view (buf_view (clear_reader VR))) (writer_with False enc VW k0 sent0) sync_idle
    (Serverbound, HandshakePhase) None bs sent (new_serverside pr)"
  using assms
  by (auto simp: new_provider_def linked_def sync_traits_def sp_read_stream_def wrapped_view_def buf_view_def clear_reader_def
      writer_with_def default_writer_view_def writer_view_def buffered_view_def new_serverside_def split: outcome.splits)

lemma sync_encrypts:
  assumes "linked (sync_traits I dec R D enc W) (wrapped_view (buf_view (clear_reader VR))) (writer_with False enc VW k0 sent0) sync_idle
      s t [] sent h"
    and "stream_cipher dec" and "stream_cipher enc"
  shows "\<exists>h1. trait_with_encryption (sync_traits I dec R D enc W) secret h = (Ok (), h1) \<and>
    linked (sync_traits I dec R D enc W) (wrapped_view (buf_view (default_view dec VR)))
      (writer_with True enc VW (init enc secret) sent) sync_idle s t [] [] h1"
proof -
  let ?pr = "provider h"
  obtain r where r: "source (sp_reader ?pr) = StandardReader r" "VR r []" "buffered (sp_reader ?pr) = []" "0 < buf_capacity (sp_reader ?pr)"
    using assms(1) by (auto simp: linked_def sync_traits_def sp_read_stream_def wrapped_view_def buf_view_def clear_reader_def)
  obtain b where b: "writer_state (sp_writer ?pr) = StandardWriter b" "buffered_view VW b sent" "bw_buffer b = []"
    using assms(1) by (cases "writer_state (sp_writer ?pr)")
      (auto simp: linked_def sync_traits_def writer_with_def default_writer_view_def writer_view_def)
  have nil: "fst (apply_blocks dec k []) = []" for k
    using apply_blocks_append(3) [OF assms(2), of k "[]"] by simp
  show ?thesis
    using assms(1) r b nil apply_blocks_append(4) [OF assms(3)]
    by (auto simp: linked_def sync_traits_def trait_with_encryption_def on_provider_def io_within_def with_encryption_def io_bind_def
        reader_with_encryption_def writer_with_encryption_def sp_read_stream_def wrapped_view_def buf_view_def default_view_def
        writer_with_def default_writer_view_def writer_view_def buffered_view_def encryption_view_def)
qed

section \<open>AsyncDefaultStreamProvider\<close>

text \<open>The streams \<open>S\<close> and \<open>W\<close> are built from the parts of the library, \<open>BL\<close> is its \<open>BufReader\<close>.\<close>

definition tokio_traits ::
  "(('d, 'r) default_reader, 'b) buf_reader_lib \<Rightarrow> 'd cipher \<Rightarrow> 'k cipher \<Rightarrow>
   (('z, 'b) async_reader, 't, 'i, 'c, io_error) read_stream \<Rightarrow>
   (('q, ('k, 'w) async_default_writer) async_writer, 'p, 'o, 'pay, compression, io_error) write_stream \<Rightarrow>
   (('b, 'z, 'k, 'w, 'q) async_provider, ('z, 'b) async_reader, 't, 'i, 'c,
    ('q, ('k, 'w) async_default_writer) async_writer, 'p, 'o, 'pay, compression, io_error) provider_traits" where
  "tokio_traits BL dec enc S W =
     \<lparr>readers = S,
      writers = W,
      borrow_reader = (\<lambda>pr. \<lparr>ar_state = apr_decompression_state pr, ar_reader = apr_reader pr\<rparr>),
      return_reader = (\<lambda>r pr. pr\<lparr>apr_decompression_state := ar_state r, apr_reader := ar_reader r\<rparr>),
      borrow_writer = (\<lambda>pr. \<lparr>aw_state = apr_compression_state pr, aw_writer = apr_writer pr\<rparr>),
      return_writer = (\<lambda>w pr. pr\<lparr>apr_compression_state := aw_state w, apr_writer := aw_writer w\<rparr>),
      threshold_of = apr_threshold,
      level_of = apr_level,
      set_threshold = tokio_set_compression_threshold,
      encrypt_streams = tokio_with_encryption BL dec enc\<rparr>"

lemma tokio_reads_packet: "trait_read_packet p (tokio_traits BL dec enc S W) H = async_read_packet p S H"
  by (simp add: fun_eq_iff trait_read_packet_def async_read_packet_def tokio_traits_def with_reader_def tokio_on_read_stream_def)

lemma tokio_writes_packet:
  "trait_write_packet p (tokio_traits BL dec enc S W) name pkt h =
     (case async_write_packet p W h name pkt of None \<Rightarrow> (Panic, h) | Some run \<Rightarrow> run)"
  by (simp add: trait_write_packet_def async_write_packet_def async_write_packet_internal_def tokio_traits_def with_writer_def
      tokio_on_write_stream_def on_provider_def io_within_def split: option.split)

abbreviation tokio_idle :: "('q, ('k, 'w) async_default_writer) async_writer \<Rightarrow> bool" where
  "tokio_idle a \<equiv> async_idle (aw_writer a)"

text \<open>A writer in front of the switch to encryption, or behind it.\<close>

fun async_encrypting :: "('k, 'w) async_default_writer \<Rightarrow> bool" where
  "async_encrypting (AsyncEncrypt b) = True"
| "async_encrypting s = False"

definition async_writer_with ::
  "bool \<Rightarrow> 'k cipher \<Rightarrow> ('w \<Rightarrow> byte list \<Rightarrow> bool) \<Rightarrow> 'k \<Rightarrow> byte list \<Rightarrow> ('k, 'w) async_default_writer \<Rightarrow> byte list \<Rightarrow> bool" where
  "async_writer_with encrypted c V k0 sent0 s bs \<longleftrightarrow> adw_view c V k0 sent0 s bs \<and> async_encrypting s = encrypted"

lemma async_encrypting_kept:
  "async_encrypting (snd (poll_write (tokio_default_writer c W) buf s)) = async_encrypting s"
  "async_encrypting (snd (poll_flush (tokio_default_writer c W) s)) = async_encrypting s"
  by (cases s; simp add: tokio_default_writer_def split: prod.split)+

lemma polls_kept:
  "polls m s Q P \<Longrightarrow> J (snd (m s)) \<Longrightarrow> polls m s (\<lambda>a s'. Q a s' \<and> J s') (\<lambda>s'. P s' \<and> J s')"
  by (auto simp: polls_def)

lemma lawful_async_writer_with:
  assumes W: "lawful_poll_write W V waits" and c: "stream_cipher c"
  shows "lawful_poll_write (tokio_default_writer c W) (async_writer_with encrypted c V k0 sent0) (adw_waits waits)"
proof -
  have lawful: "lawful_poll_write (tokio_default_writer c W) (adw_view c V k0 sent0) (adw_waits waits)"
    by (rule lawful_default_writer [OF W c])
  show ?thesis
  proof (rule lawful_poll_write.intro [OF lawful_poll_write.wf_waits [OF lawful]])
    fix w sent
    assume w: "async_writer_with encrypted c V k0 sent0 w sent"
    then have view: "adw_view c V k0 sent0 w sent" by (simp add: async_writer_with_def)
    show "polls (poll_write (tokio_default_writer c W) buf) w
        (\<lambda>k w'. async_writer_with encrypted c V k0 sent0 w' (sent @ take k buf) \<and> k \<le> length buf \<and> (buf \<noteq> [] \<longrightarrow> 0 < k))
        (\<lambda>w'. async_writer_with encrypted c V k0 sent0 w' sent \<and> (w', w) \<in> adw_waits waits)" for buf
      using polls_kept [OF lawful_poll_write.polls_write [OF lawful view, of buf], of "\<lambda>s. async_encrypting s = encrypted"] w
      by (auto simp: async_writer_with_def async_encrypting_kept elim!: polls_mono)
    show "polls (poll_flush (tokio_default_writer c W)) w (\<lambda>_ w'. async_writer_with encrypted c V k0 sent0 w' sent)
        (\<lambda>w'. async_writer_with encrypted c V k0 sent0 w' sent \<and> (w', w) \<in> adw_waits waits)"
      using polls_kept [OF lawful_poll_write.polls_flush [OF lawful view], of "\<lambda>s. async_encrypting s = encrypted"] w
      by (auto simp: async_writer_with_def async_encrypting_kept elim!: polls_mono)
  qed
qed

lemma tokio_link:
  assumes W: "lawful_poll_write W V waits" "stream_cipher enc" "write_libs (tokio_default_writer enc W) E0 E1 E2"
      "deflate_syncs D K J pending" "deflate_resets D J"
    and R: "tokio_read_libs I T B L Tt Bt M Tc R0 R1 R2" "appends T F" "lawful_poll_read F U waits'"
  shows "provider_link (tokio_traits BL dec enc (tokio_read_stream I L M R0 R1 R2) (tokio_write_stream D E0 E1 E2))
    (async_view U) (async_bound L U) (async_sent (async_writer_with encrypted enc V k0 sent0))
    (async_compressing J (async_writer_with encrypted enc V k0 sent0)) (async_compressing J (async_writer_with encrypted enc V k0 sent0))
    (\<lambda>sent zs a _. async_sent (async_writer_with encrypted enc V k0 sent0) a (sent @ zs))
    (\<lambda>sent a. async_sent (async_writer_with encrypted enc V k0 sent0) a sent)
    (carried (synced J)) (synced J) tokio_idle"
proof (intro provider_link.intro provider_link_axioms.intro)
  let ?X = "tokio_traits BL dec enc (tokio_read_stream I L M R0 R1 R2) (tokio_write_stream D E0 E1 E2)"
  let ?U = "async_writer_with encrypted enc V k0 sent0"
  have E: "write_ext_of (tokio_writer (tokio_default_writer enc W)) E0" "write_ext_of (tokio_default_writer enc W) E1"
      "write_ext_of (tokio_writer (tokio_sink (tokio_default_writer enc W))) E2"
    using W(3) by (simp_all add: write_libs_def)
  show "lawful_stream (readers ?X) (async_view U) (async_bound L U)"
    using tokio_libs_stream [OF R] by (simp add: tokio_traits_def)
  show "lawful_deflating (writers ?X) (async_sent ?U) (async_compressing J ?U) (async_compressing J ?U)
      (\<lambda>sent zs a _. async_sent ?U a (sent @ zs)) (\<lambda>sent a. async_sent ?U a sent) (carried (synced J)) (synced J)"
    using lawful_deflating_tokio [OF lawful_async_writer_with [OF W(1,2)] E W(4,5)] by (simp add: tokio_traits_def)
  show "tokio_idle w'" if "flush (base_writer (writers ?X)) w = (Ok (), w')" for w w'
    using that E(1)
    by (intro async_flush_idle) (auto simp: tokio_traits_def tokio_write_stream_def tokio_io_writer_def write_ext_of_def)
qed (auto simp: tokio_traits_def tokio_set_compression_threshold_def)

lemma tokio_buffered:
  assumes "lawful_poll_read F0 VR waits" and "appends T0 F0" and "stream_cipher dec" and "tokio_buffers BL (tokio_default_read dec T0) T B"
  obtains F waits' where "appends T F" and "lawful_poll_read F (br_view BL (default_view dec VR)) waits'"
proof -
  obtain F where F: "appends T F" "buffers BL (futures_default_read dec F0) F B"
    using assms(4) appends_default [OF assms(2)] unfolding tokio_buffers_def by blast
  obtain waits' where "lawful_poll_buf_read F (br_view BL (default_view dec VR)) waits' B"
    using F(2) lawful_futures_default [OF assms(1,3)] unfolding buffers_def by blast
  with F(1) show ?thesis by (rule that [OF _ lawful_poll_buf_read.axioms(1)])
qed

lemma tokio_starts:
  assumes "tokio_new_provider BL new_compressor new_inflater r w level buffer_size = Ok pr" and "0 < buffer_size"
    and "br_keeps BL" and "VR r bs" and "VW w sent"
  shows "linked (tokio_traits BL dec enc S W) (async_view (br_view BL (default_view dec VR)))
    (async_sent (async_writer_with False enc VW k0 sent0)) tokio_idle
    (Serverbound, HandshakePhase) None bs sent (new_serverside pr)"
  using assms
  by (auto simp: tokio_new_provider_def linked_def tokio_traits_def async_view_def br_view_def default_view_def br_keeps_def
      async_sent_def async_writer_with_def adw_view_def ab_view_def async_idle_def new_serverside_def split: outcome.splits)

section \<open>What is delivered\<close>

lemma sync_clear_delivered:
  assumes "writer_with False c V k0 sent0 w bs" and "sync_idle w"
  obtains b where "writer_state w = StandardWriter b" and "bw_buffer b = []" and "V (bw_writer b) bs"
  using assms by (cases "writer_state w") (auto simp: writer_with_def default_writer_view_def writer_view_def buffered_view_def)

lemma sync_encrypted_delivered:
  assumes "writer_with True c V k0 sent0 w bs" and "sync_idle w"
  obtains b where "writer_state w = EncryptWriter b" and "bw_buffer b = []" and "V (bw_writer b) (sent0 @ fst (apply_blocks c k0 bs))"
  using assms by (cases "writer_state w") (auto simp: writer_with_def default_writer_view_def writer_view_def encryption_view_def)

lemma tokio_clear_delivered:
  assumes "async_writer_with False c V k0 sent0 s bs" and "async_idle s"
  obtains b where "s = AsyncStandard b" and "ab_buffer b = []" and "V (ab_writer b) bs"
  using assms by (cases s) (auto simp: async_writer_with_def adw_view_def ab_view_def async_idle_def)

section \<open>Interpretations\<close>

interpretation socket_server: provider_link "sync_traits stored_inflater feedback_decryptor socket_read stored_deflater feedback_encryptor vec_write"
  "wrapped_view (buf_view (clear_reader socket_view))" "wrapped_bound (buf_view (clear_reader socket_view))"
  "writer_with False feedback_encryptor (=) k0 sent0" "compressing_view stored_state (writer_with False feedback_encryptor (=) k0 sent0)"
  "compressed_view stored_deflates (writer_with False feedback_encryptor (=) k0 sent0)"
  "\<lambda>sent zs z bs. writer_with False feedback_encryptor (=) k0 sent0 z (sent @ zs)"
  "\<lambda>sent z. writer_with False feedback_encryptor (=) k0 sent0 z sent" "carried stored_deflates" stored_deflates sync_idle for k0 sent0
  by (rule sync_link_with [OF lawful_clear_reader [OF lawful_socket] vec.lawful_write_axioms feedback_encryptor
        stored_takes stored_finishes stored_resets])

end
