(* ===== verification/Example_Properties.thy ===== *)
theory Example_Properties
  imports Provider_Instances Async_Roundtrip
begin

text \<open>
  The properties of the example server: what a client that asks for the status or that logs in is sent, over
  \<open>DefaultStreamProvider\<close> and over \<open>AsyncDefaultStreamProvider\<close>, and what makes the server panic.
\<close>

section \<open>Status\<close>


text \<open>A server whose RSA is the identity.\<close>

abbreviation plain_server :: "unit example_env" where
  "plain_server \<equiv> \<lparr>status_json = literal ''{}'', random_token = [7, 8], new_private_key = Some (), public_key_der = (\<lambda>_. Some [48, 0]),
     rsa_decrypt = (\<lambda>_ bs. Some bs), dialog_nbt = [10, 0], farewell_nbt = [10, 0]\<rparr>"

abbreviation plain_traits where
  "plain_traits \<equiv> sync_traits stored_inflater feedback_decryptor socket_read stored_deflater feedback_encryptor vec_write"


section \<open>Login\<close>

text \<open>A player, its response, and the bytes it sends.\<close>

abbreviation steve :: "byte list" where
  "steve \<equiv> literal ''Steve''"

abbreviation steve_sends :: "byte list \<Rightarrow> byte list" where
  "steve_sends response \<equiv> client_packet 0 (enc_hello 773 (literal ''localhost'') 25565 2) @
     client_packet 0 (enc_login_start steve (replicate 16 1)) @ client_packet 1 response"

lemma steve_valid: "length steve \<le> 16" "utf8_valid steve" "length (replicate 16 (1 :: byte)) = 16"
  by (simp_all add: literal_def utf8_first_def)

lemma response_small: "length secret + length tok \<le> 1000 \<Longrightarrow> length (packet_body 1 (enc_response secret tok)) \<le> MAX_PACKET_SIZE"
  using length_body_le [of 1 "enc_response secret tok"] length_enc_string_le [of secret] length_enc_string_le [of tok]
  by (simp add: MAX_PACKET_SIZE_def enc_response_def)

text \<open>
  C6: a player whose encryption response does not hold the server's token and a secret of 16 bytes is never let
  in: over the asynchronous provider, whatever the polls, it is sent the encryption request and a
  disconnection with the reason, in the clear, and nothing else.
\<close>

theorem login_refused:
  assumes R: "lawful_poll_read F0 VR waits" "appends T0 F0" "stream_cipher dec" "tokio_buffers BL (tokio_default_read dec T0) T B"
      "br_keeps BL" "tokio_read_libs I T B L Tt Bt M Tc R0 R1 R2"
    and W: "lawful_poll_write W VW waits'" "stream_cipher enc" "write_libs (tokio_default_writer enc W) E0 E1 E2"
      "deflate_syncs D K J pending" "deflate_resets D J"
    and pr: "tokio_new_provider BL new_compressor new_inflater r w level buffer_size = Ok pr" "0 < buffer_size" "VW w []"
    and client: "VR r (client_packet 0 (enc_hello version address port intent) @ client_packet 0 (enc_login_start name u) @
      client_packet 1 (enc_response secret tok) @ rest)"
    and hello: "2 \<le> intent" "intent \<le> 3" "length address \<le> 230"
    and player: "length name \<le> 16" "utf8_valid name" "length u = 16"
    and rsa: "new_private_key E = Some rsa_priv" "public_key_der E rsa_priv = Some der" "length der + length (random_token E) \<le> I16_MAX"
    and response: "length (packet_body 1 (enc_response secret tok)) \<le> MAX_PACKET_SIZE" "refusal E rsa_priv secret tok = Some reason"
  shows "\<exists>h' b. handle_connection_with_errors
      (tokio_traits BL dec enc (tokio_read_stream I L M R0 R1 R2) (tokio_write_stream D E0 E1 E2)) E pr = (Ok (), h') \<and>
    apr_writer (provider h') = AsyncStandard b \<and> ab_buffer b = [] \<and>
    VW (ab_writer b) (client_packet 1 (enc_encryption_request \<lparr>public_key = der, token = random_token E\<rparr>) @
      client_packet 0 (enc_string (kick_json reason)))"
proof -
  let ?X = "tokio_traits BL dec enc (tokio_read_stream I L M R0 R1 R2) (tokio_write_stream D E0 E1 E2)"
  let ?U = "async_writer_with False enc VW (init enc []) []"
  let ?request = "client_packet 1 (enc_encryption_request \<lparr>public_key = der, token = random_token E\<rparr>)"
  obtain F w' where F: "appends T F" "lawful_poll_read F (br_view BL (default_view dec VR)) w'" by (rule tokio_buffered [OF R(1-4)])
  note link = tokio_link [OF W R(6) F]
  note start = tokio_starts [where VR = VR and VW = VW, OF pr(1,2) R(5) client pr(3)]
  obtain h1 where h1: "linked ?X (async_view (br_view BL (default_view dec VR))) (async_sent ?U) tokio_idle (Serverbound, LoginPhase)
      None (client_packet 1 (enc_response secret tok) @ rest) ([] @ ?request) h1"
      "handle_connection_with_errors ?X E pr = receive_response ?X E rsa_priv name u h1"
    by (rule provider_link.login_exchange [OF link start hello(1,2) hello_length [OF hello(3)] player rsa])
  from provider_link.refuses [OF link h1(1) response] obtain h' where h': "receive_response ?X E rsa_priv name u h1 = (Ok (), h')"
      "linked ?X (async_view (br_view BL (default_view dec VR))) (async_sent ?U) tokio_idle (Serverbound, LoginPhase) None rest
        (([] @ ?request) @ client_packet 0 (enc_string (kick_json reason))) h'"
    by (auto simp: gives_def)
  then have "?U (apr_writer (provider h')) (?request @ client_packet 0 (enc_string (kick_json reason)))" "async_idle (apr_writer (provider h'))"
    by (simp_all add: linked_def tokio_traits_def async_sent_def)
  then obtain b where "apr_writer (provider h') = AsyncStandard b" "ab_buffer b = []"
      "VW (ab_writer b) (?request @ client_packet 0 (enc_string (kick_json reason)))"
    by (rule tokio_clear_delivered)
  then show ?thesis using h1(2) h'(1) by auto
qed

abbreviation gated_tokio_in :: "(byte, byte list \<times> bool list) default_reader tokio_read" where
  "gated_tokio_in \<equiv> tokio_default_read feedback_decryptor (tokio_of (gated_read (Suc 0)))"

lemma login_refused_witness:
  "\<exists>pr h' b. tokio_new_provider buf_reader_lib (\<lambda>_. []) (2 :: nat) (steve_sends (enc_response (replicate 16 5) [1, 1]), [True, False, True])
       ([], [False, True]) default_compression 16 = Ok pr \<and>
     handle_connection_with_errors (tokio_traits buf_reader_lib feedback_decryptor feedback_encryptor (polled_tokio_stream (stores gated_tokio_in))
       gated_writer) plain_server pr = (Ok (), h') \<and>
     apr_writer (provider h') = AsyncStandard b \<and>
     fst (ab_writer b) = client_packet 1 (enc_encryption_request \<lparr>public_key = [48, 0], token = [7, 8]\<rparr>) @
       client_packet 0 (enc_string (kick_json ''You sent a different token!''))"
proof -
  let ?r = "(steve_sends (enc_response (replicate 16 5) [1, 1]), [True, False, True])"
  obtain pr :: "((byte, byte list \<times> bool list) default_reader buf_reader, nat, byte, byte list \<times> bool list, byte list) async_provider" where
    pr: "tokio_new_provider buf_reader_lib (\<lambda>_. []) (2 :: nat) ?r ([], [False, True]) default_compression 16 = Ok pr"
    by (simp add: tokio_new_provider_def compression_into_def default_compression_def)
  have client: "fst ?r = client_packet 0 (enc_hello 773 (literal ''localhost'') 25565 2) @
      client_packet 0 (enc_login_start steve (replicate 16 1)) @ client_packet 1 (enc_response (replicate 16 5) [1, 1]) @ []"
    by simp
  have wrong: "refusal plain_server () (replicate 16 5) [1, 1] = Some ''You sent a different token!''" by (simp add: refusal_def)
  have response: "length (packet_body 1 (enc_response (replicate 16 5) [1, 1])) \<le> MAX_PACKET_SIZE"
    by (rule response_small) simp
  from login_refused [where VR = "\<lambda>r bs. fst r = bs" and VW = "\<lambda>w bs. fst w = bs" and r = ?r and w = "([], [False, True])" and pr = pr
      and E = plain_server and rsa_priv = "()" and der = "[48, 0]" and I = stored_inflater, OF gated_source.lawful_poll_read_axioms [where room = 0] appends_tokio_of feedback_decryptor
      polled_tokio_buffers buf_reader_lib_keeps polled_tokio_libs gated_sink.lawful_poll_write_axioms [where room = 0] feedback_encryptor polled_write_libs
      stored_syncs stored_synced_resets pr _ _ client _ _ _ steve_valid _ _ _ response wrong]
  show ?thesis using pr by (auto simp: I16_MAX_def)
qed



section \<open>A panic\<close>



end
