(* ===== verification/Spec2Isabelle.thy ===== *)
theory Spec2Isabelle
  imports Wire_Properties Protocol_Properties Sync_Properties Handshake
    Async_Roundtrip Example_Properties
begin

text \<open>
  protocraft-framework reads and writes the packets of the Minecraft protocol.  A \<open>ProtocolHandler\<close> is
  typed with a state (a side and a phase) and owns a \<open>StreamProvider\<close>; it reads packets from the reader
  of the provider and writes them to its writer, through readers and writers that are bounded,
  compressed and encrypted.  This development models the crate from the byte up:

  \<^item> \<open>Prelude\<close>: outcomes of Rust calls (\<open>Ok\<close>, \<open>Err\<close>, a panic, no return), methods as state
    transformers, the judgements \<open>gives\<close> and \<open>fails\<close>.  \<open>Errors\<close>: \<open>src/error.rs\<close>.
  \<^item> \<open>Traits\<close>: \<open>src/traits.rs\<close>; a trait is a record of its methods, the contract in its documentation a
    locale (\<open>lawful_reader\<close>, \<open>lawful_bounded\<close>, \<open>lawful_trying\<close>, \<open>lawful_sink\<close>, \<open>lawful_writer\<close>,
    \<open>serializes\<close>, \<open>deserializes\<close>, \<open>codec\<close>).  A contract relates a state to the bytes it stands for
    (\<open>V r bs\<close>), so it is a simulation of the stream by a list of bytes.
  \<^item> \<open>Primitives\<close>, \<open>Varint\<close>, \<open>Containers\<close>, \<open>Handshake_Version\<close>: \<open>src/primatives\<close>.  Every type is
    interpreted as a \<open>codec\<close>; \<open>VarInt\<close> and the handshake length are compared with base-128 arithmetic
    (\<open>leb_decode\<close>) that uses neither shifts nor masks.
  \<^item> \<open>Std_IO\<close>: \<open>src/with_std.rs\<close> and the loops of \<open>std::io\<close> it calls (\<open>read_exact\<close>, \<open>copy\<close>,
    \<open>write_all\<close>, \<open>Take\<close>), as loops that may not return; a stream that keeps the contract of \<open>Read\<close>
    (short reads and interruptions included) makes a lawful reader.  A slice, a \<open>Vec\<close> and a socket with
    an arrival sequence interpret the contracts.
  \<^item> \<open>Protocol_State\<close>, \<open>Packet_Tables\<close>, \<open>Versions\<close> and \<open>Versions_\<dots>\<close>: \<open>src/protocol/versions\<close>.  What the
    macros generate is data: four or five pairs of packet tables for each of the 38 versions; the
    transitions of the handler are a step relation.
  \<^item> \<open>Packet_Read\<close>, \<open>Packet_Write\<close>, \<open>Handshake\<close>, \<open>Packet_Types\<close>: \<open>src/protocol/mod.rs\<close>, over any streams
    (the records \<open>read_stream\<close> and \<open>write_stream\<close>, the locales \<open>lawful_stream\<close>, \<open>lawful_inflating\<close>,
    \<open>contained_stream\<close>, \<open>lawful_deflating\<close>).  The frame of a packet is specified as \<open>frame_of\<close>.
  \<^item> \<open>Sync_Read\<close>, \<open>Sync_Inflate\<close>, \<open>Sync_Write\<close>, \<open>Sync_Compress\<close>, \<open>Sync_Provider\<close>: \<open>src/defaults/sync.rs\<close> and
    \<open>src/defaults/mod.rs\<close>; \<open>Sync_Session\<close> puts two providers together, \<open>Sync_Instances\<close> interprets the
    contracts with a concrete cipher and a concrete compressed format.
  \<^item> \<open>Async_IO\<close>: \<open>src/asynchronous.rs\<close>, what a poll answers (\<open>Pending\<close>, \<open>Ready\<close>, an error), a task that is
    polled until it is ready (\<open>await\<close>), and the contracts of a stream that is polled (\<open>lawful_poll_write\<close>,
    \<open>lawful_poll_read\<close>, \<open>lawful_poll_buf_read\<close>), with a well-founded relation on the states that are pending.
  \<^item> \<open>Tokio_Read\<close>, \<open>Tokio_Write\<close>, \<open>Tokio_Compress\<close>, \<open>Tokio_Provider\<close>: \<open>src/defaults/asynchronous/tokio.rs\<close>;
    \<open>Futures_Read\<close>, \<open>Futures_Write\<close>, \<open>Futures_Compress\<close>, \<open>Futures_Provider\<close>: \<open>futures.rs\<close>, proved equal
    (a tokio reader appends to a \<open>ReadBuf\<close> what the futures reader stores in a slice: \<open>appends\<close>).  The polls
    are loops that may not return; \<open>buffer_loop\<close> and \<open>polled_buffer\<close> hold the proofs the four loops share.
    \<open>Async_Read\<close>, \<open>Async_Inflate\<close>: the readers keep their contracts; \<open>Async_Session\<close>: handlers over the
    providers; \<open>Async_Instances\<close>: a stream that is not ready at some of its polls, and the parts of the two
    libraries as concrete functions that keep what is assumed of them.
  \<^item> \<open>Provider\<close>: the traits of a provider (\<open>src/traits.rs\<close>) as a record of their methods, a handler over any type
    that has them, and their contract \<open>provider_link\<close>; \<open>Provider_Instances\<close>: the two providers of the crate
    have them and keep it.  \<open>Example_Packets\<close>, \<open>Example_Server\<close>: \<open>src/example_helpers/src/lib.rs\<close>, the server
    of the examples over any provider; \<open>Example_Sessions\<close>: its exchanges with a client, packet by packet.
  \<^item> \<open>Wire_Properties\<close>, \<open>Protocol_Properties\<close>, \<open>Sync_Properties\<close>, \<open>Async_Properties\<close>,
    \<open>Async_Roundtrip\<close>, \<open>Example_Properties\<close> and
    this theory: the properties.

  What the lemmas show.  A type writes what it reads back and states its size; the loops over segments
  compute the reference on every input.  What one state writes under an identifier the peer's state
  reads, in all releases.  A packet is written as its frame or refused with nothing sent; a frame is
  read as the packet it came from, and reading never leaves the frame, on any input.  The default
  writers deliver what they accepted in order, the default readers give what was delivered, with any
  chunking and with encryption.  On top of that the example server is followed from the first byte of a
  connection to the last: status, login, refusal.  Where the code does not do that, the property says what it does
  instead: the handshake length with an even second digit, the bytes lost when encryption is switched
  on, the decompressor that consumes without output, the compressor that leaves one byte, the
  asynchronous payload that is cut off, the polls that never return.

  Bounds.  Machine integers are words (\<open>u32\<close> for a \<open>VarInt\<close>) wherever their width matters; \<open>usize\<close> is
  \<open>nat\<close>, so an overflow of \<open>usize\<close> is not modelled, except for the subtraction in
  \<open>CachedPreCompressionWriter::write\<close>, which is a panic.  Overflows are panics, as in a build with overflow
  checks.  No fuel is used: loops over a fixed range are recursion on the list of its indices, and
  the others are \<open>partial_function (option)\<close>, for which returning is proved.

  Not modelled, because their source is not in the repository: AES/CFB-8 and zlib are parameters (\<open>cipher\<close>,
  \<open>inflater\<close>, \<open>deflater\<close>); what is asked of them is named by \<open>stream_cipher\<close>, \<open>deciphers\<close>,
  \<open>inflate_bounded\<close>, \<open>inflates_whole\<close>, \<open>deflate_takes\<close>, \<open>deflate_finishes\<close>, \<open>deflate_syncs\<close> and \<open>deflate_resets\<close>.  Also left out:
  the sleep in front of \<open>try_read_byte\<close>, memory that is not initialised (\<open>src/primatives/array.rs\<close>), the
  programs that start the example server, and of the server RSA, the random token, the NBT data and the text
  of its status (\<open>example_env\<close>).  Tokio and futures are parameters too: \<open>BufReader\<close> (\<open>buffers\<close>, \<open>shows_all\<close>), \<open>Take\<close> (\<open>takes\<close>,
  \<open>takes_buf\<close>) and the futures of the extension traits (\<open>reads_exactly\<close>, \<open>write_ext_of\<close>, \<open>polls_a_byte\<close>); the
  wakers and the scheduling of tasks are not modelled, a task that is pending is polled again.  A future
  that is dropped between two polls is covered for the writers (\<open>poll_run\<close>), not for a whole handler.
\<close>

section \<open>Packets between two peers\<close>

text \<open>
  C1: a packet a state writes is read by the peer in the same phase.  Under the same compression threshold
  the peer's handler gets the designator of that packet and its payload and nothing else, whatever follows
  on the stream stays there; a packet that would be longer than \<open>MAX_PACKET_SIZE\<close> is refused, with
  nothing sent.
\<close>

theorem packet_roundtrip:
  assumes "lawful_deflating SW VW P F Z N carries deflates"
    and "lawful_inflating SR VR B C inflates" and "drains SR VR C"
    and "\<And>bs zs. bs \<noteq> [] \<Longrightarrow> deflates bs zs \<Longrightarrow> inflates zs bs"
    and "protocol_ok p" and "phase \<noteq> HandshakePhase"
    and "writer_packet_id p (side, phase) name = Some i" and "i < 2 ^ 31"
    and "\<And>sent zs. packet_writes VW (P sent) (Z sent zs) pkt payload" and "length payload \<le> I32_MAX - 5"
    and "handles SR VR B C H (Packet name) payload res" and "VW w sent"
  shows "\<exists>m frame. write_packet p (side, phase) threshold level SW name pkt = Some m \<and>
    (if length frame \<le> MAX_PACKET_SIZE
     then gives m w () (\<lambda>w'. VW w' (sent @ wire_frame frame)) \<and>
       (\<forall>r rest. VR r (wire_frame frame @ rest) \<longrightarrow>
         (\<exists>r'. read_packet p (reciprocal side, phase) threshold SR H r = (res, r') \<and> VR r' rest))
     else fails m w (\<lambda>e. \<exists>label. e = WOverSized label MAX_PACKET_SIZE (length frame)) (\<lambda>w'. VW w' sent))"
proof -
  obtain frame where
    "wire_written VW sent (oversized_name threshold (packet_body i payload)) frame (write_packet_internal threshold level SW i pkt) w"
    "length frame \<le> MAX_PACKET_SIZE \<longrightarrow> (\<forall>r rest. VR r (wire_frame frame @ rest) \<longrightarrow>
      (\<exists>r'. read_packet p (reciprocal side, phase) threshold SR H r = (res, r') \<and> VR r' rest))"
    using written_packet_read [OF assms] by blast
  then show ?thesis
    using assms(7)
    by (intro exI [of _ "write_packet_internal threshold level SW i pkt"] exI [of _ frame])
       (auto simp: write_packet_def wire_written_def elim!: fails_mono)
qed

abbreviation vec_writer :: "((byte list, byte, byte list) default_writer, byte list pre_writer \<times> (byte list, byte, byte list) default_writer,
    (byte list, byte, byte list) default_writer, byte list, unit, io_error) write_stream" where
  "vec_writer \<equiv> default_write_stream stored_deflater feedback_encryptor vec_write"

abbreviation socket_stream :: "((nat, socket buf_reader) state_wrapped, (nat, socket buf_reader taken) state_wrapped,
    (nat, socket buf_reader taken) decompression_reader, (nat, socket buf_reader taken) decompression_reader taken, io_error) read_stream" where
  "socket_stream \<equiv> default_read_stream stored_inflater (buf_read socket_read)"

lemma packet_roundtrip_witness:
  "\<exists>m frame. write_packet v774 (Serverbound, LoginPhase) (Some 1) () vec_writer ''LoginSuccess'' (varint_packet vec_writer (VarInt 7)) = Some m \<and>
    (length frame \<le> MAX_PACKET_SIZE \<longrightarrow> (\<forall>r rest. wrapped_view (whole_view socket_read) r (wire_frame frame @ rest) \<longrightarrow>
      (\<exists>r'. read_packet v774 (Clientbound, LoginPhase) (Some 1) socket_stream (varint_handler socket_stream) r =
        (Ok (Packet ''LoginSuccess'', VarInt 7), r') \<and> wrapped_view (whole_view socket_read) r' rest)))"
proof -
  let ?w = "\<lparr>compression_state = [], writer_state = StandardWriter \<lparr>bw_writer = [], bw_buffer = [], bw_capacity = 8\<rparr>\<rparr>"
  have w: "default_writer_view feedback_encryptor (=) 0 [] ?w []"
    by (simp add: default_writer_view_def writer_view_def buffered_view_def)
  have len: "length (enc_varint (VarInt 7)) \<le> I32_MAX - 5" by (simp add: I32_MAX_def)
  show ?thesis
  proof (rule ex_forward [OF packet_roundtrip [where threshold = "Some 1" and level = "()",
        OF vec_deflating.lawful_deflating_axioms socket_inflating.lawful_inflating_axioms stored_drains_stream
        _ v774_ok _ v774_login_success _ varint_packet_writes [where S = vec_writer, OF vec_deflating.lawful_deflating_axioms] len
        varint_handles [OF socket_inflating.lawful_inflating_axioms] w]])
  qed (simp add: stored_inflates, simp, simp, erule ex_forward, auto split: if_splits)
qed


abbreviation vec_peer :: "(socket, nat, byte, byte list, byte list, byte) stream_provider protocol_handler" where
  "vec_peer \<equiv> \<lparr>provider =
    \<lparr>sp_reader = \<lparr>source = StandardReader \<lparr>arrivals = [], nonblocking = False\<rparr>, buffered = [], buf_capacity = 8\<rparr>,
     sp_writer = \<lparr>compression_state = [], writer_state = StandardWriter \<lparr>bw_writer = [], bw_buffer = [], bw_capacity = 8\<rparr>\<rparr>,
     compression_threshold = Some 1, compression_level = default_compression, sp_decompression_state = 2\<rparr>,
    handler_state = (Serverbound, LoginPhase)\<rparr>"

abbreviation level_writer :: "((byte list, byte, byte list) default_writer, byte list pre_writer \<times> (byte list, byte, byte list) default_writer,
    (byte list, byte, byte list) default_writer, byte list, compression, io_error) write_stream" where
  "level_writer \<equiv> default_write_stream stored_deflater feedback_encryptor vec_write"

abbreviation peer_stream :: "((nat, (byte, socket) default_reader buf_reader) state_wrapped, (nat, (byte, socket) default_reader buf_reader taken) state_wrapped,
    (nat, (byte, socket) default_reader buf_reader taken) decompression_reader,
    (nat, (byte, socket) default_reader buf_reader taken) decompression_reader taken, io_error) read_stream" where
  "peer_stream \<equiv> default_read_stream stored_inflater (buf_read (default_read feedback_decryptor socket_read))"


section \<open>Frames\<close>

text \<open>
  C3: the frame of a packet: its body under no threshold, its body behind a zero byte below the threshold,
  and its length with a compressed form of it from the threshold on.  A frame longer than
  \<open>MAX_PACKET_SIZE\<close> is refused with its length and the name of its branch, and nothing is sent.
\<close>

theorem packet_frame:
  assumes "lawful_deflating S V P F Z N carries deflates"
    and "\<And>sent zs. packet_writes V (P sent) (Z sent zs) pkt payload"
    and "length (packet_body i payload) \<le> I32_MAX" and "V w sent"
  shows "\<exists>frame.
    (case threshold of
       None \<Rightarrow> frame = packet_body i payload
     | Some t \<Rightarrow>
         if length (packet_body i payload) < t then frame = 0 # packet_body i payload
         else \<exists>zs. deflates (packet_body i payload) zs \<and> frame = length_prefix (length (packet_body i payload)) @ zs) \<and>
    (if length frame \<le> MAX_PACKET_SIZE
     then gives (write_packet_internal threshold level S i pkt) w () (\<lambda>w'. V w' (sent @ length_prefix (length frame) @ frame))
     else fails (write_packet_internal threshold level S i pkt) w
       (\<lambda>e. e = WOverSized (oversized_name threshold (packet_body i payload)) MAX_PACKET_SIZE (length frame)) (\<lambda>w'. V w' sent))"
  using write_packet_internal_frame [OF assms, of threshold level]
  unfolding frame_of_def wire_written_def wire_frame_def .

lemma packet_frame_witness:
  "gives (write_packet_internal (Some 9) () vec_writer 2 (varint_packet vec_writer (VarInt 7)))
     \<lparr>compression_state = [], writer_state = StandardWriter \<lparr>bw_writer = [], bw_buffer = [], bw_capacity = 8\<rparr>\<rparr> ()
     (\<lambda>w'. default_writer_view feedback_encryptor (=) 0 [] w' [3, 0, 2, 7])"
proof -
  let ?w = "\<lparr>compression_state = [], writer_state = StandardWriter \<lparr>bw_writer = [], bw_buffer = [], bw_capacity = 8\<rparr>\<rparr>"
  have w: "default_writer_view feedback_encryptor (=) 0 [] ?w []"
    by (simp add: default_writer_view_def writer_view_def buffered_view_def)
  have body: "packet_body 2 (enc_varint (VarInt 7)) = [2, 7]" "length_prefix (Suc (Suc (Suc 0))) = [3]"
    by (simp_all add: packet_body_def varint_from_def length_prefix_def)
  then have "length (packet_body 2 (enc_varint (VarInt 7))) \<le> I32_MAX" by (simp add: I32_MAX_def)
  from packet_frame [where threshold = "Some 9" and level = "()", OF vec_deflating.lawful_deflating_axioms
      varint_packet_writes [where S = vec_writer, OF vec_deflating.lawful_deflating_axioms] this w,
      unfolded body(1)]
  show ?thesis by (simp add: body(2) MAX_PACKET_SIZE_def)
qed

text \<open>
  C4: whatever stands on the stream and whatever the handler does with its reader, \<open>read_packet\<close> over the
  default streams takes no byte behind the packet its length prefix announces, and not more than three
  bytes where there is no such prefix.
\<close>

theorem packet_stays_in_frame:
  fixes R :: "('r, 'x) std_buf_read_scheme" and I :: "'z inflater"
  assumes "lawful_buf_read R V patience" and "inflate_bounded I"
    and "\<And>d. well_behaved (wrapped_bound V) (handle_bounded H d)"
    and "\<And>lim zs d. well_behaved (kept_view (packet_kept V lim zs)) (handle_inner H d)"
    and "wrapped_view V r bs"
  shows "case leb_decode 3 bs of
      Value n rest \<Rightarrow> \<exists>k. k \<le> n \<and> k \<le> length rest \<and>
        wrapped_view V (snd (read_packet p s threshold (default_read_stream I R) H r)) (drop k rest)
    | _ \<Rightarrow> \<exists>k. k \<le> 3 \<and> k \<le> length bs \<and>
        wrapped_view V (snd (read_packet p s threshold (default_read_stream I R) H r)) (drop k bs)"
  by (rule read_packet_contained [OF contained_default_stream [OF assms(1,2)] assms(3-5)])

lemma packet_stays_in_frame_witness:
  "\<exists>k \<le> 2. wrapped_view (buf_view socket_view) (snd (read_packet v774 (Serverbound, LoginPhase) (Some 1) socket_stream (varint_handler socket_stream)
     \<lparr>decompression_state = 2, wrapped = \<lparr>source = \<lparr>arrivals = [Data [2, 9], Signal, Data [8, 7, 6]], nonblocking = False\<rparr>,
        buffered = [], buf_capacity = 8\<rparr>\<rparr>)) (drop k [9, 8, 7, 6])"
proof -
  let ?r = "\<lparr>decompression_state = 2, wrapped = \<lparr>source = \<lparr>arrivals = [Data [2, 9], Signal, Data [8, 7, 6]], nonblocking = False\<rparr>,
        buffered = [], buf_capacity = 8\<rparr>\<rparr>"
  have r: "wrapped_view (buf_view socket_view) ?r [2, 9, 8, 7, 6]"
    by (auto simp: wrapped_view_def buf_view_def socket_view_def)
  have prefix: "leb_decode 3 [2, 9, 8, 7, 6] = Value 2 [9, 8, 7, 6]" by (simp add: numeral_3_eq_3)
  from packet_stays_in_frame [where p = v774 and s = "(Serverbound, LoginPhase)" and threshold = "Some 1" and H = "varint_handler socket_stream",
      OF socket_buf.lawful_buf_read_axioms stored_bounded
        varint_handler_bounded(1) [OF socket_stream.lawful_stream_axioms]
        varint_handler_inner [OF socket_contained.inner_contained] r]
  show ?thesis by (auto simp: prefix)
qed



text \<open>C29: a stream that ends inside the length prefix, or a prefix of more than three bytes, gives a stream error.\<close>

theorem bad_length_prefix:
  assumes "lawful_stream S V B" and "V r bs" and "leb_decode 3 bs = Truncated \<or> leb_decode 3 bs = TooLong"
  shows "fails (read_packet p s threshold S H) r is_stream_error (\<lambda>_. True)"
proof -
  have "leb_decode 5 (take 3 bs) = Truncated"
    using assms(3) by (intro leb_decode_take_truncated) auto
  with assms(1,2) show ?thesis by (rule read_packet_bad_prefix)
qed

lemma bad_length_prefix_witness:
  "fails (read_packet v774 (Serverbound, LoginPhase) None socket_stream (varint_handler socket_stream))
     \<lparr>decompression_state = 2, wrapped = \<lparr>source = \<lparr>arrivals = [Data [0x80, 0x80, 0x80, 1]], nonblocking = False\<rparr>, buffered = [], buf_capacity = 8\<rparr>\<rparr>
     is_stream_error (\<lambda>_. True)"
proof -
  let ?r = "\<lparr>decompression_state = 2, wrapped = \<lparr>source = \<lparr>arrivals = [Data [0x80, 0x80, 0x80, 1]], nonblocking = False\<rparr>, buffered = [], buf_capacity = 8\<rparr>\<rparr>"
  have r: "wrapped_view (buf_view socket_view) ?r [0x80, 0x80, 0x80, 1]"
    by (auto simp: wrapped_view_def buf_view_def socket_view_def)
  have "leb_decode 3 [0x80, 0x80, 0x80, 1] = TooLong" by (simp add: numeral_3_eq_3)
  then show ?thesis
    using bad_length_prefix [OF socket_stream.lawful_stream_axioms r] by simp
qed

text \<open>
  C27: a compressed packet is handed to the handler decompressed, and the stream then stands where the
  decompressor stopped: what it has not taken of the compressed bytes of the packet is not discarded.
\<close>

theorem compressed_packet:
  assumes "lawful_inflating S V B C inflates" and "designator_from_id p s (varint_into v) = Some d"
    and "inflates zs (enc_varint v @ payload)"
    and "well_behaved (C (length zs) (zs @ rest)) (handle_inner H d)"
    and "answers (C (length zs) (zs @ rest)) (handle_inner H d) payload res" and "returns res"
    and "n = length (enc_varint v @ payload)" and "n < 2 ^ 31" and "length (length_prefix n) + length zs < 2 ^ 21"
    and "V r (length_prefix (length (length_prefix n) + length zs) @ length_prefix n @ zs @ rest)"
  shows "\<exists>r' c k. read_packet p s (Some threshold) S H r = (res, r') \<and> C (length zs) (zs @ rest) c 0 [] \<and>
    r' = end_bound S (end_decompression S (inner_end_bound S c)) \<and> k \<le> length zs \<and> V r' (drop k zs @ rest)"
  using read_packet_compressed [OF assms(1-9), of r threshold] assms(10) by (simp add: wire_compressed_def)

lemma compressed_packet_witness:
  "\<exists>r' c k. read_packet v774 (Clientbound, LoginPhase) (Some 1) socket_stream (varint_handler socket_stream)
      \<lparr>decompression_state = 2, wrapped = \<lparr>source = \<lparr>arrivals = [], nonblocking = False\<rparr>, buffered = [5, 2, 0x78, 0x9C, 2, 7, 1], buf_capacity = 8\<rparr>\<rparr> =
      (Ok (Packet ''LoginSuccess'', VarInt 7), r') \<and>
    inflating_bound socket_read stored 4 [0x78, 0x9C, 2, 7, 1] c 0 [] \<and>
    r' = end_bound socket_stream (end_decompression socket_stream (inner_end_bound socket_stream c)) \<and>
    k \<le> 4 \<and> wrapped_view (whole_view socket_read) r' (drop k [0x78, 0x9C, 2, 7] @ [1])"
proof -
  let ?r = "\<lparr>decompression_state = 2, wrapped = \<lparr>source = \<lparr>arrivals = [], nonblocking = False\<rparr>, buffered = [5, 2, 0x78, 0x9C, 2, 7, 1], buf_capacity = 8\<rparr>\<rparr>"
  have prefix: "length_prefix 2 = [2]" "length_prefix (Suc (Suc (Suc (Suc (Suc 0))))) = [5]" by (simp_all add: length_prefix_def varint_from_def)
  have known: "designator_from_id v774 (Clientbound, LoginPhase) (varint_into (VarInt 2)) = Some (Packet ''LoginSuccess'')"
    by (simp add: v774_def v774_login_def build_protocol_def designator_of_id_def)
  have r: "wrapped_view (whole_view socket_read) ?r (length_prefix (length (length_prefix 2) + length [0x78, 0x9C, 2, 7 :: byte]) @
      length_prefix 2 @ [0x78, 0x9C, 2, 7] @ [1])"
    by (simp add: prefix wrapped_view_def whole_view_def socket_read_def)
  have body: "enc_varint (VarInt 2) @ enc_varint (VarInt 7) = [2, 7]" by simp
  have inflates: "\<forall>z. stored (reset stored_inflater z) [0x78, 0x9C, 2, 7] (enc_varint (VarInt 2) @ enc_varint (VarInt 7))"
    unfolding body by (intro allI stored_inflates) (simp_all add: stored_deflates_def stored_header_def)
  have H: "well_behaved (inflating_bound socket_read stored (length [0x78, 0x9C, 2, 7]) ([0x78, 0x9C, 2, 7] @ [1]))
        (handle_inner (varint_handler socket_stream) (Packet ''LoginSuccess''))"
      "answers (inflating_bound socket_read stored (length [0x78, 0x9C, 2, 7]) ([0x78, 0x9C, 2, 7] @ [1]))
        (handle_inner (varint_handler socket_stream) (Packet ''LoginSuccess'')) (enc_varint (VarInt 7)) (Ok (Packet ''LoginSuccess'', VarInt 7))"
      "returns (Ok (Packet ''LoginSuccess'', VarInt 7) :: (designator \<times> varint, io_error read_error) outcome)"
    using varint_handles [OF socket_inflating.lawful_inflating_axioms, of "Packet ''LoginSuccess''" "VarInt 7"]
    unfolding handles_def by blast+
  have n: "2 = length (enc_varint (VarInt 2) @ enc_varint (VarInt 7))" "(2 :: nat) < 2 ^ 31"
      "length (length_prefix 2) + length [0x78, 0x9C, 2, 7 :: byte] < 2 ^ 21"
    by (simp_all add: prefix)
  have "\<exists>r' c k. read_packet v774 (Clientbound, LoginPhase) (Some 1) socket_stream (varint_handler socket_stream) ?r =
        (Ok (Packet ''LoginSuccess'', VarInt 7), r') \<and>
      inflating_bound socket_read stored (length [0x78, 0x9C, 2, 7 :: byte]) ([0x78, 0x9C, 2, 7] @ [1]) c 0 [] \<and>
      r' = end_bound socket_stream (end_decompression socket_stream (inner_end_bound socket_stream c)) \<and>
      k \<le> length [0x78, 0x9C, 2, 7 :: byte] \<and> wrapped_view (whole_view socket_read) r' (drop k [0x78, 0x9C, 2, 7] @ [1])"
  proof (rule compressed_packet [where v = "VarInt 2" and n = 2 and payload = "enc_varint (VarInt 7)" and
        S = socket_stream and V = "wrapped_view (whole_view socket_read)" and B = "wrapped_bound (whole_view socket_read)"
        and C = "inflating_bound socket_read stored" and inflates = "\<lambda>zs out. \<forall>z. stored (reset stored_inflater z) zs out" and
        zs = "[0x78, 0x9C, 2, 7]" and rest = "[1]" and H = "varint_handler socket_stream" and d = "Packet ''LoginSuccess''"])
  qed (fact socket_inflating.lawful_inflating_axioms known inflates H n r)+
  then show ?thesis by (simp add: eval_nat_numeral)
qed

text \<open>
  C18: a standard handshake of \<open>n\<close> bytes (identifier and payload) is handed to the handler as it was sent if \<open>n\<close>
  takes one byte or its second base-128 digit is odd; otherwise 128 of the bytes behind it are taken for
  a part of it, and are gone with it.
\<close>

theorem handshake_packet:
  assumes "lawful_stream S V B" and "designator_from_id p s 0 = Some d"
    and "well_behaved B (handle_bounded H d)" and "answers B (handle_bounded H d) (payload @ extra) res" and "returns res"
    and n: "n = length payload + 1" "n < 2 ^ 28" "n < 128 \<or> n mod 128 \<noteq> 126"
    and extra: "length extra = (if n < 128 \<or> odd (n div 128) then 0 else 128)"
    and "V r (varint_bytes n @ 0 # payload @ extra @ rest)"
  shows "\<exists>r'. read_handshake p s S H r = (res, r') \<and> V r' rest"
proof (cases "n < 128 \<or> odd (n div 128)")
  case True
  then show ?thesis
    using read_handshake_modern [OF assms(1-3) _ assms(5) n(1-3) True] assms(4) extra assms(10) by simp
next
  case False
  then show ?thesis
    using read_handshake_overread [OF assms(1-5) n(1,2) _ _ _ _ assms(10)] n(3) extra by simp
qed

lemma handshake_packet_witness:
  "\<exists>r'. read_handshake v774 (Serverbound, HandshakePhase) socket_stream (varint_handler socket_stream)
      \<lparr>decompression_state = 2, wrapped = \<lparr>source = \<lparr>arrivals = [Data [2], Signal, Data [0, 7, 5]], nonblocking = False\<rparr>, buffered = [], buf_capacity = 8\<rparr>\<rparr> =
      (Ok (Handshake handshake.Standard, VarInt 7), r') \<and> wrapped_view (buf_view socket_view) r' [5]"
proof -
  let ?r = "\<lparr>decompression_state = 2, wrapped = \<lparr>source = \<lparr>arrivals = [Data [2], Signal, Data [0, 7, 5]], nonblocking = False\<rparr>, buffered = [], buf_capacity = 8\<rparr>\<rparr>"
  have r: "wrapped_view (buf_view socket_view) ?r (varint_bytes 2 @ 0 # [7] @ [] @ [5])"
    by (auto simp: wrapped_view_def buf_view_def socket_view_def)
  have d: "designator_from_id v774 (Serverbound, HandshakePhase) 0 = Some (Handshake handshake.Standard)" by simp
  have answers: "answers (wrapped_bound (buf_view socket_view)) (handle_bounded (varint_handler socket_stream) (Handshake handshake.Standard))
      ([7] @ []) (Ok (Handshake handshake.Standard, VarInt 7))"
    using varint_handler_bounded(2) [OF socket_stream.lawful_stream_axioms, of _ "Handshake handshake.Standard" "VarInt 7"] by simp
  show ?thesis
    using handshake_packet [OF socket_stream.lawful_stream_axioms d varint_handler_bounded(1) [OF socket_stream.lawful_stream_axioms] answers _ _ _ _ _ r]
    by (simp add: returns_def)
qed

end
